(* ===== verification/Prelude.thy ===== *)
theory Prelude
  imports Main "HOL-Library.Word"
begin

unbundle bit_operations_syntax

text \<open>
  Shared material of the development: the fact collections that the component proofs use, the
  names of the machine types of the C++ sources, and generic lemmas on lists, options and
  words that more than one component needs.
\<close>

section \<open>Collections\<close>

named_theorems cxx_simps
  "evaluation rules for the modelled part of the C++ standard library"

named_theorems step_simps
  "one-step unfoldings of the operations of the state machines"

section \<open>Machine types\<close>

text \<open>
  The sources are compiled for LP64 Linux: \<open>unsigned\<close> and \<open>uint32_t\<close> have 32 bits,
  \<open>size_t\<close>, \<open>unsigned long\<close> and \<open>uint64_t\<close> have 64. Signed values are the same words read
  with \<open>sint\<close>. A \<open>char\<close> is a HOL character; its value as \<open>unsigned char\<close> is
  \<open>of_char c\<close>. A \<open>std::string\<close> and a \<open>std::vector<char>\<close> are lists of characters.
\<close>

type_synonym u32 = "32 word"
type_synonym u64 = "64 word"
type_synonym i64 = "64 word"

abbreviation uchar :: "char \<Rightarrow> nat" where
  "uchar c \<equiv> of_char c"

lemma uchar_less [simp]: "uchar c < 256"
  by (fact nat_of_char_less_256)

lemma uchar_inj: "uchar c = uchar d \<longleftrightarrow> c = d"
  by (fact of_char_eq_iff)

lemma char_of_uchar [simp]: "char_of (uchar c) = c"
  by (fact char_of_char)

lemma uchar_char_of: "n < 256 \<Longrightarrow> uchar (char_of n) = n"
  by (simp add: of_char_of)

section \<open>Lists\<close>

lemma takeWhile_append_stop:
  "(\<forall>x \<in> set xs. P x) \<Longrightarrow> (ys = [] \<or> \<not> P (hd ys)) \<Longrightarrow> takeWhile P (xs @ ys) = xs"
  by (cases ys) (auto simp: takeWhile_append)

lemma dropWhile_append_stop:
  "(\<forall>x \<in> set xs. P x) \<Longrightarrow> (ys = [] \<or> \<not> P (hd ys)) \<Longrightarrow> dropWhile P (xs @ ys) = ys"
  by (cases ys) (auto simp: dropWhile_append)

lemma dropWhile_hd_stop: "xs \<noteq> [] \<Longrightarrow> \<not> P (hd xs) \<Longrightarrow> dropWhile P xs = xs"
  by (cases xs) auto

lemma takeWhile_all: "(\<forall>x \<in> set xs. P x) \<Longrightarrow> takeWhile P xs = xs"
  by (induction xs) auto

lemma map_of_filter_neq:
  "map_of (filter (\<lambda>p. fst p \<noteq> k) xs) = (map_of xs)(k := None)"
  by (induction xs) (auto simp: fun_eq_iff)

section \<open>Words\<close>

lemma word_add_eq_or_push:
  fixes v d :: "'a::len word"
  assumes "\<And>n. bit d n \<Longrightarrow> n < k"
  shows "push_bit k v + d = push_bit k v OR d"
proof (rule disjunctive_add)
  fix n
  show "\<not> bit (push_bit k v) n \<or> \<not> bit d n"
    using assms by (auto simp: bit_push_bit_iff not_le)
qed

lemma word_bit_less_exp:
  fixes d :: "'a::len word"
  assumes "unat d < 2 ^ k" and "bit d n"
  shows "n < k"
proof -
  have "unat (take_bit k d) = unat d"
    using assms(1) by (simp add: unsigned_take_bit_eq take_bit_nat_eq_self)
  then have "take_bit k d = d" by (rule word_unat_eq_iff [THEN iffD2])
  with assms(2) have "bit (take_bit k d) n" by simp
  then show ?thesis by (simp add: bit_take_bit_iff)
qed

end
