(* ===== verification/Cxx_Std.thy ===== *)
theory Cxx_Std
  imports Prelude
begin

text \<open>
  The part of the C++ standard library that the sources compute with: searching and cutting
  \<open>std::string\<close>, \<open>std::to_string\<close>, \<open>std::stoi\<close>, \<open>std::stoul\<close>, \<open>std::stoull\<close>,
  \<open>std::from_chars\<close> and C strings. A position is a \<open>nat\<close>, \<open>npos\<close> is \<open>None\<close>, and an exception is
  a value of \<open>cxx_exn\<close>.
\<close>

section \<open>Strings\<close>

text \<open>\<open>s.rfind(p, 0) == 0\<close>, the idiom of the sources for "starts with".\<close>

definition starts_with :: "string \<Rightarrow> string \<Rightarrow> bool" where
  "starts_with p s \<longleftrightarrow> take (length p) s = p"

text \<open>\<open>s.find(p)\<close>, then \<open>s.find(p, pos)\<close>.\<close>

fun str_find :: "string \<Rightarrow> string \<Rightarrow> nat option" where
  "str_find p [] = (if p = [] then Some 0 else None)"
| "str_find p (c # s) =
     (if starts_with p (c # s) then Some 0 else map_option Suc (str_find p s))"

definition str_find_from :: "string \<Rightarrow> string \<Rightarrow> nat \<Rightarrow> nat option" where
  "str_find_from p s pos =
     (if length s < pos then None else map_option ((+) pos) (str_find p (drop pos s)))"

text \<open>\<open>s.rfind(c)\<close> and \<open>s.find_last_of(c)\<close> for one character.\<close>

fun str_rfind :: "char \<Rightarrow> string \<Rightarrow> nat option" where
  "str_rfind c [] = None"
| "str_rfind c (d # s) =
     (case str_rfind c s of Some n \<Rightarrow> Some (Suc n) | None \<Rightarrow> if d = c then Some 0 else None)"

text \<open>\<open>s.substr(pos, n)\<close> for \<open>pos <= s.size()\<close>, the only calls the sources make.\<close>

definition str_substr :: "string \<Rightarrow> nat \<Rightarrow> nat \<Rightarrow> string" where
  "str_substr s pos n = take n (drop pos s)"

text \<open>
  \<open>std::string(p)\<close> and \<open>s.c_str()\<close> read as a C string: the bytes before the first NUL.
\<close>

definition c_str :: "string \<Rightarrow> string" where
  "c_str s = takeWhile (\<lambda>c. c \<noteq> CHR 0x00) s"

lemma c_str_id: "CHR 0x00 \<notin> set s \<Longrightarrow> c_str s = s"
  unfolding c_str_def by (rule takeWhile_all) auto

lemma c_str_no_nul: "CHR 0x00 \<notin> set (c_str s)"
  by (auto simp: c_str_def dest: set_takeWhileD)

lemma c_str_idem [simp]: "c_str (c_str s) = c_str s"
  by (rule c_str_id [OF c_str_no_nul])

lemma starts_with_append [simp]: "starts_with p (p @ s)"
  by (simp add: starts_with_def)

lemma starts_with_iff: "starts_with p s \<longleftrightarrow> (\<exists>t. s = p @ t)"
  by (metis append_take_drop_id append_eq_conv_conj starts_with_def)

lemma str_find_append_here: "str_find p (p @ s) = Some 0"
proof (cases "p @ s")
  case Nil
  then show ?thesis by simp
next
  case (Cons c t)
  then have "starts_with p (c # t)" by (metis starts_with_append)
  with Cons show ?thesis by simp
qed

lemma str_find_char:
  "str_find [c] s = (if c \<in> set s then Some (length (takeWhile (\<lambda>x. x \<noteq> c) s)) else None)"
  by (induction s) (auto simp: starts_with_def)

lemma str_find_char_append:
  "c \<notin> set s \<Longrightarrow> str_find [c] (s @ c # t) = Some (length s)"
  by (induction s) (auto simp: starts_with_def)

lemma str_find_char_none: "str_find [c] s = None \<longleftrightarrow> c \<notin> set s"
  by (simp add: str_find_char)

text \<open>Nothing is found before the first place where the pattern's first character occurs.\<close>

lemma str_find_skip:
  "c \<notin> set pre \<Longrightarrow>
   str_find (c # p) (pre @ s) = map_option (\<lambda>n. length pre + n) (str_find (c # p) s)"
  by (cases "str_find (c # p) s"; induction pre) (auto simp: starts_with_def)

lemma str_find_bound: "str_find p s = Some n \<Longrightarrow> n + length p \<le> length s"
proof (induction s arbitrary: n)
  case Nil
  then show ?case by (auto split: if_splits)
next
  case (Cons c s)
  show ?case
  proof (cases "starts_with p (c # s)")
    case True
    then obtain t where "c # s = p @ t" unfolding starts_with_iff ..
    then have "length (c # s) = length p + length t" by simp
    with True Cons.prems show ?thesis by auto
  next
    case False
    with Cons.prems obtain m where "str_find p s = Some m" and "n = Suc m" by auto
    with Cons.IH show ?thesis by fastforce
  qed
qed

lemma str_find_at: "str_find p s = Some n \<Longrightarrow> take (length p) (drop n s) = p"
proof (induction s arbitrary: n)
  case Nil
  then show ?case by (auto split: if_splits)
next
  case (Cons c s)
  then show ?case by (auto simp: starts_with_def split: if_splits)
qed

lemma str_rfind_None: "str_rfind c s = None \<longleftrightarrow> c \<notin> set s"
  by (induction s) (auto split: option.splits)

lemma str_rfind_Some:
  "str_rfind c s = Some n \<Longrightarrow> n < length s \<and> s ! n = c \<and> c \<notin> set (drop (Suc n) s)"
  by (induction s arbitrary: n) (auto split: option.splits if_splits simp: str_rfind_None)

section \<open>Decimal numbers\<close>

datatype cxx_exn = Invalid_argument | Out_of_range

definition is_digit :: "char \<Rightarrow> bool" where
  "is_digit c \<longleftrightarrow> 48 \<le> uchar c \<and> uchar c \<le> 57"

definition is_space :: "char \<Rightarrow> bool" where
  "is_space c \<longleftrightarrow> uchar c = 32 \<or> (9 \<le> uchar c \<and> uchar c \<le> 13)"

definition digit_char :: "nat \<Rightarrow> char" where
  "digit_char d = char_of (48 + d)"

text \<open>\<open>std::to_string\<close> on unsigned and on signed integers.\<close>

fun dec_nat :: "nat \<Rightarrow> string" where
  "dec_nat n = (if n < 10 then [digit_char n] else dec_nat (n div 10) @ [digit_char (n mod 10)])"

declare dec_nat.simps [simp del]

definition dec_int :: "int \<Rightarrow> string" where
  "dec_int z = (if z < 0 then CHR ''-'' # dec_nat (nat (- z)) else dec_nat (nat z))"

text \<open>The value of a run of digits.\<close>

definition digits_val :: "string \<Rightarrow> nat" where
  "digits_val s = foldl (\<lambda>v c. 10 * v + (uchar c - 48)) 0 s"

text \<open>
  What \<open>strtol\<close>, \<open>strtoul\<close> and \<open>strtoull\<close> accept in base 10: white space, an optional sign, a
  non-empty run of digits. The result is the mathematical value and the number of characters
  consumed; \<open>None\<close> is "no conversion".
\<close>

definition strto :: "string \<Rightarrow> (int \<times> nat) option" where
  "strto s =
     (let sp = takeWhile is_space s;
          r = dropWhile is_space s;
          neg = (r \<noteq> [] \<and> hd r = CHR ''-'');
          sgn = (r \<noteq> [] \<and> (hd r = CHR ''-'' \<or> hd r = CHR ''+''));
          d = takeWhile is_digit (if sgn then tl r else r)
      in if d = [] then None
         else Some (if neg then - int (digits_val d) else int (digits_val d),
                    length sp + (if sgn then 1 else 0) + length d))"

text \<open>\<open>std::stoi(s, &pos)\<close>: the value must fit a 32-bit \<open>int\<close>.\<close>

definition stoi :: "string \<Rightarrow> cxx_exn + (int \<times> nat)" where
  "stoi s = (case strto s of None \<Rightarrow> Inl Invalid_argument
     | Some (v, pos) \<Rightarrow> if v < - (2 ^ 31) \<or> 2 ^ 31 \<le> v then Inl Out_of_range else Inr (v, pos))"

text \<open>
  \<open>std::stoul(s, &pos)\<close> and \<open>std::stoull(s, &pos)\<close> (both 64 bits here): the magnitude must fit,
  and a minus sign negates the unsigned result, which wraps.
\<close>

definition stoul :: "string \<Rightarrow> cxx_exn + (u64 \<times> nat)" where
  "stoul s = (case strto s of None \<Rightarrow> Inl Invalid_argument
     | Some (v, pos) \<Rightarrow> if 2 ^ 64 \<le> \<bar>v\<bar> then Inl Out_of_range else Inr (word_of_int v, pos))"

abbreviation stoull :: "string \<Rightarrow> cxx_exn + (u64 \<times> nat)" where
  "stoull \<equiv> stoul"

text \<open>
  \<open>std::from_chars(first, last, int64_t)\<close> that must consume everything: an optional minus sign
  (no plus, no white space), at least one digit, a value that fits.
\<close>

definition from_chars_i64 :: "string \<Rightarrow> int option" where
  "from_chars_i64 s =
     (let neg = (s \<noteq> [] \<and> hd s = CHR ''-'');
          d = (if neg then tl s else s);
          v = (if neg then - int (digits_val d) else int (digits_val d))
      in if d = [] \<or> \<not> list_all is_digit d then None
         else if v < - (2 ^ 63) \<or> 2 ^ 63 \<le> v then None else Some v)"

lemma digit_char_digit: "d < 10 \<Longrightarrow> is_digit (digit_char d) \<and> uchar (digit_char d) = 48 + d"
  by (simp add: is_digit_def digit_char_def)

lemma dec_nat_digits: "c \<in> set (dec_nat n) \<Longrightarrow> is_digit c"
proof (induction n rule: dec_nat.induct)
  case (1 n)
  then show ?case
    by (subst (asm) (2) dec_nat.simps) (auto simp: digit_char_digit split: if_splits)
qed

lemma dec_nat_nonempty: "dec_nat n \<noteq> []"
  by (subst dec_nat.simps) simp

lemma digits_val_snoc: "digits_val (s @ [c]) = 10 * digits_val s + (uchar c - 48)"
  by (simp add: digits_val_def)

lemma digits_val_dec_nat: "digits_val (dec_nat n) = n"
proof (induction n rule: dec_nat.induct)
  case (1 n)
  show ?case
  proof (cases "n < 10")
    case True
    then show ?thesis by (subst dec_nat.simps) (simp add: digits_val_def digit_char_digit)
  next
    case False
    with 1 show ?thesis
      by (subst dec_nat.simps) (simp add: digits_val_snoc digit_char_digit)
  qed
qed

lemma digit_not_space: "is_digit c \<Longrightarrow> \<not> is_space c"
  by (auto simp: is_digit_def is_space_def)

lemma digit_not_sign: "is_digit c \<Longrightarrow> c \<noteq> CHR ''-'' \<and> c \<noteq> CHR ''+''"
  by (auto simp: is_digit_def)

lemma strto_dec_nat:
  assumes "rest = [] \<or> \<not> is_digit (hd rest)"
  shows "strto (dec_nat n @ rest) = Some (int n, length (dec_nat n))"
proof -
  let ?s = "dec_nat n @ rest"
  have hd: "is_digit (hd ?s)" and ne: "?s \<noteq> []"
    using dec_nat_nonempty [of n] dec_nat_digits [of _ n] by auto
  have sp: "takeWhile is_space ?s = []" "dropWhile is_space ?s = ?s"
    using digit_not_space [OF hd] ne by (cases ?s; simp)+
  have "takeWhile is_digit ?s = dec_nat n"
    by (rule takeWhile_append_stop) (use assms dec_nat_digits in auto)
  with sp digit_not_sign [OF hd] dec_nat_nonempty [of n] show ?thesis
    by (simp add: strto_def Let_def digits_val_dec_nat)
qed

lemma strto_dec_int:
  assumes "rest = [] \<or> \<not> is_digit (hd rest)"
  shows "strto (dec_int z @ rest) = Some (z, length (dec_int z))"
proof (cases "z < 0")
  case False
  then show ?thesis using strto_dec_nat [OF assms, of "nat z"] by (simp add: dec_int_def)
next
  case True
  let ?d = "dec_nat (nat (- z))"
  have "takeWhile is_digit (?d @ rest) = ?d"
    by (rule takeWhile_append_stop) (use assms dec_nat_digits in auto)
  with True dec_nat_nonempty [of "nat (- z)"] show ?thesis
    by (simp add: strto_def dec_int_def Let_def digits_val_dec_nat is_space_def)
qed

lemma stoi_dec_int:
  "- (2 ^ 31) \<le> z \<Longrightarrow> z < 2 ^ 31 \<Longrightarrow> rest = [] \<or> \<not> is_digit (hd rest) \<Longrightarrow>
   stoi (dec_int z @ rest) = Inr (z, length (dec_int z))"
  by (simp add: stoi_def strto_dec_int)

lemma stoul_dec_nat:
  "n < 2 ^ 64 \<Longrightarrow> rest = [] \<or> \<not> is_digit (hd rest) \<Longrightarrow>
   stoul (dec_nat n @ rest) = Inr (word_of_nat n, length (dec_nat n))"
  by (simp add: stoul_def strto_dec_nat)

lemma from_chars_dec_int:
  assumes "- (2 ^ 63) \<le> z" and "z < 2 ^ 63"
  shows "from_chars_i64 (dec_int z) = Some z"
proof (cases "z < 0")
  case True
  with assms show ?thesis
    by (auto simp: from_chars_i64_def dec_int_def Let_def digits_val_dec_nat dec_nat_nonempty
        list_all_iff dest: dec_nat_digits)
next
  case False
  have "is_digit (hd (dec_nat (nat z)))"
    by (rule dec_nat_digits [OF hd_in_set [OF dec_nat_nonempty]])
  with digit_not_sign False assms show ?thesis
    by (auto simp: from_chars_i64_def dec_int_def Let_def digits_val_dec_nat dec_nat_nonempty
        list_all_iff dest: dec_nat_digits)
qed

lemma from_chars_range: "from_chars_i64 s = Some v \<Longrightarrow> - (2 ^ 63) \<le> v \<and> v < 2 ^ 63"
  by (auto simp: from_chars_i64_def Let_def split: if_splits)

lemma dec_nat_no: "\<not> is_digit c \<Longrightarrow> c \<notin> set (dec_nat n)"
  using dec_nat_digits by blast

lemma dec_int_no: "\<not> is_digit c \<Longrightarrow> c \<noteq> CHR ''-'' \<Longrightarrow> c \<notin> set (dec_int z)"
  by (auto simp: dec_int_def dec_nat_no)

section \<open>Lists of names\<close>

text \<open>The loops of \<open>porter.cpp\<close> and \<open>pmix_server_main.cpp\<close> that put commas between strings.\<close>

fun join_csv :: "string list \<Rightarrow> string" where
  "join_csv [] = []"
| "join_csv [x] = x"
| "join_csv (x # y # xs) = x @ '','' @ join_csv (y # xs)"

text \<open>The parts of a string between commas.\<close>

fun comma_parts :: "string \<Rightarrow> string \<Rightarrow> string list" where
  "comma_parts cur [] = [cur]"
| "comma_parts cur (c # s) = (if c = CHR '','' then cur # comma_parts [] s else comma_parts (cur @ [c]) s)"

lemma comma_parts_append:
  "CHR '','' \<notin> set x \<Longrightarrow> comma_parts cur (x @ s) = comma_parts (cur @ x) s"
  by (induction x arbitrary: cur) auto

lemma comma_parts_join:
  "xs \<noteq> [] \<Longrightarrow> \<forall>x \<in> set xs. CHR '','' \<notin> set x \<Longrightarrow> comma_parts [] (join_csv xs) = xs"
proof (induction xs rule: join_csv.induct)
  case (2 x)
  then show ?case using comma_parts_append [of x "[]" "[]"] by simp
next
  case (3 x y xs)
  then show ?case by (simp add: comma_parts_append)
qed simp

end
