(* ===== verification/Base64.thy ===== *)
theory Base64
  imports Cxx_Std
begin

text \<open>
  The base64 codec of \<open>c_src/pmix/pmix_server_main.cpp\<close>, which carries the fence blobs between
  the PMIx helper and the Erlang side. The encoder works on 32-bit \<open>unsigned\<close> triples. The
  decoder accumulates into a signed 32-bit \<open>int\<close> that is shifted left by 6 for every character
  and never masked: it is kept here as a 32-bit word, with the wrap-around of a two's
  complement shift, and read back with an arithmetic right shift.
\<close>

section \<open>Code\<close>

definition kB64 :: string where
  "kB64 = ''ABCDEFGHIJKLMNOPQRSTUVWXYZabcdefghijklmnopqrstuvwxyz0123456789+/''"

definition b64_ix :: "u32 \<Rightarrow> nat \<Rightarrow> char" where
  "b64_ix n k = kB64 ! unat (drop_bit k n AND 63)"

fun b64_encode :: "string \<Rightarrow> string" where
  "b64_encode (a # b # c # rest) =
     (let n = push_bit 16 (of_char a :: u32) OR push_bit 8 (of_char b) OR of_char c
      in b64_ix n 18 # b64_ix n 12 # b64_ix n 6 # b64_ix n 0 # b64_encode rest)"
| "b64_encode [a, b] =
     (let n = push_bit 16 (of_char a :: u32) OR push_bit 8 (of_char b)
      in [b64_ix n 18, b64_ix n 12, b64_ix n 6, CHR ''=''])"
| "b64_encode [a] =
     (let n = push_bit 16 (of_char a :: u32)
      in [b64_ix n 18, b64_ix n 12, CHR ''='', CHR ''=''])"
| "b64_encode [] = []"

definition b64_val :: "char \<Rightarrow> int" where
  "b64_val c =
     (if 65 \<le> uchar c \<and> uchar c \<le> 90 then int (uchar c) - 65
      else if 97 \<le> uchar c \<and> uchar c \<le> 122 then int (uchar c) - 97 + 26
      else if 48 \<le> uchar c \<and> uchar c \<le> 57 then int (uchar c) - 48 + 52
      else if c = CHR ''+'' then 62
      else if c = CHR ''/'' then 63
      else - 1)"

text \<open>
  The loop of \<open>b64_decode\<close>: \<open>val\<close>, \<open>valb\<close> and the output are its variables; \<open>None\<close> is
  \<open>return false\<close>.
\<close>

fun b64_loop :: "string \<Rightarrow> u32 \<Rightarrow> int \<Rightarrow> string \<Rightarrow> string option" where
  "b64_loop [] val valb out = Some out"
| "b64_loop (c # s) val valb out =
     (if c = CHR ''='' \<or> c = CHR 0x0A \<or> c = CHR 0x0D then Some out
      else let d = b64_val c in
        if d < 0 then None
        else let val = push_bit 6 val + word_of_int d; valb = valb + 6 in
          if 0 \<le> valb
          then b64_loop s val (valb - 8)
                 (out @ [char_of (unat (signed_drop_bit (nat valb) val AND 0xFF))])
          else b64_loop s val valb out)"

definition b64_decode :: "string \<Rightarrow> string option" where
  "b64_decode s = b64_loop s 0 (- 8) []"

section \<open>The alphabet\<close>

lemma kB64_length: "length kB64 = 64"
  by (simp add: kB64_def)

lemma kB64_vals: "map b64_val kB64 = map int [0..<64]"
  by (simp add: kB64_def b64_val_def upt_conv_Cons)

lemma b64_val_kB64: "i < 64 \<Longrightarrow> b64_val (kB64 ! i) = int i"
  using arg_cong [OF kB64_vals, of "\<lambda>xs. xs ! i"] by (simp add: kB64_length)

definition b64_char :: "char \<Rightarrow> bool" where
  "b64_char c \<longleftrightarrow> 0 \<le> b64_val c"

definition b64_stop :: "char \<Rightarrow> bool" where
  "b64_stop c \<longleftrightarrow> c = CHR ''='' \<or> c = CHR 0x0A \<or> c = CHR 0x0D"

lemma b64_char_plain: "b64_char c \<Longrightarrow> \<not> b64_stop c \<and> c \<noteq> CHR '' ''"
  by (auto simp: b64_char_def b64_val_def b64_stop_def)

lemma and_63_less: "unat ((w::u32) AND 63) < 64"
  using word_and_le1 [of w 63] by (simp add: word_le_nat_alt)

lemma b64_val_ix: "b64_val (b64_ix n k) = int (unat (drop_bit k n AND 63))"
  by (simp add: b64_ix_def b64_val_kB64 and_63_less)

lemma b64_ix_char: "b64_char (b64_ix n k)"
  by (simp add: b64_char_def b64_val_ix)

section \<open>One character of the decoder\<close>

lemma b64_step:
  assumes "b64_char c" and "b64_val c = uint (e :: u32)"
  shows "b64_loop (c # s) val valb out =
    (let val = push_bit 6 val + e; valb = valb + 6 in
     if 0 \<le> valb then b64_loop s val (valb - 8)
        (out @ [char_of (unat (signed_drop_bit (nat valb) val AND 0xFF))])
     else b64_loop s val valb out)"
  using b64_char_plain [OF assms(1)] assms(2) by (simp add: Let_def b64_stop_def)

declare b64_loop.simps(2) [simp del]

text \<open>Shifting one sextet into the accumulator.\<close>

definition b64_acc :: "u32 \<Rightarrow> u32 \<Rightarrow> u32" where
  "b64_acc v e = push_bit 6 v OR (e AND 63)"

lemma b64_step_ix:
  "b64_loop (b64_ix n k # s) val valb out =
    (if 0 \<le> valb + 6
     then b64_loop s (b64_acc val (drop_bit k n)) (valb + 6 - 8)
        (out @ [char_of (unat (signed_drop_bit (nat (valb + 6)) (b64_acc val (drop_bit k n)) AND 0xFF))])
     else b64_loop s (b64_acc val (drop_bit k n)) (valb + 6) out)"
proof -
  have "push_bit 6 val + (drop_bit k n AND 63) = b64_acc val (drop_bit k n)"
    unfolding b64_acc_def
    by (rule word_add_eq_or_push, rule word_bit_less_exp)
       (use and_63_less [of "drop_bit k n"] in simp_all)
  then show ?thesis
    by (subst b64_step [OF b64_ix_char, where e = "drop_bit k n AND 63"])
       (simp_all add: b64_val_ix Let_def)
qed

section \<open>Round trip\<close>

lemma and_255_take: "(w::u32) AND 255 = take_bit 8 w"
  by (simp add: take_bit_eq_mask mask_eq_exp_minus_1)

lemma and_63_take: "(w::u32) AND 63 = take_bit 6 w"
  by (simp add: take_bit_eq_mask mask_eq_exp_minus_1)

lemma bit_two_sextets:
  fixes n v :: u32
  assumes "j < 12"
  shows "bit (push_bit 6 (push_bit 6 v OR take_bit 6 (drop_bit (q + 6) n)) OR take_bit 6 (drop_bit q n)) j
    = bit n (q + j)"
proof (cases "j < 6")
  case True
  then show ?thesis
    by (simp only: bit_take_bit_iff bit_or_iff bit_push_bit_iff bit_drop_bit_eq o_def) simp
next
  case False
  with assms have "q + 6 + (j - 6) = q + j" "j - 6 < 6" "6 \<le> j" "j < 32" by auto
  with False show ?thesis
    by (simp only: bit_take_bit_iff bit_or_iff bit_push_bit_iff bit_drop_bit_eq o_def) simp
qed

text \<open>
  Whatever was accumulated before, the byte that the decoder cuts out of its accumulator
  after two sextets is the byte of the encoded word at that place.
\<close>

lemma sextets_byte:
  fixes n v :: u32
  assumes "p \<le> 4"
  shows "signed_drop_bit p (b64_acc (b64_acc v (drop_bit (q + 6) n)) (drop_bit q n)) AND 255
    = take_bit 8 (drop_bit (p + q) n)"
    (is "signed_drop_bit p ?w AND 255 = _")
  unfolding and_255_take
proof (rule bit_word_eqI)
  fix k
  have "bit (signed_drop_bit p ?w) k = bit n (q + (p + k))" if "k < 8"
  proof -
    have out: "(LENGTH(32) - p \<le> k \<and> k < LENGTH(32)) = False" and lt: "p + k < 12"
      using that assms by auto
    show ?thesis
      unfolding b64_acc_def and_63_take
      by (simp only: bit_signed_drop_bit_iff out if_False bit_two_sextets [OF lt])
  qed
  then show "bit (take_bit 8 (signed_drop_bit p ?w)) k = bit (take_bit 8 (drop_bit (p + q) n)) k"
    by (auto simp: bit_take_bit_iff bit_drop_bit_eq ac_simps)
qed

lemma unat_of_char: "unat (of_char c :: u32) = uchar c"
proof -
  have "of_char c = (word_of_nat (uchar c) :: u32)" by (rule of_nat_of_char [symmetric])
  moreover have "uchar c < 2 ^ 32"
    by (rule less_trans [OF uchar_less]) simp
  ultimately show ?thesis by (simp add: unat_of_nat take_bit_nat_eq_self)
qed

text \<open>
  The three bytes of an encoded word, and the three ways a decoder run can meet them.
\<close>

abbreviation word_byte :: "u32 \<Rightarrow> nat \<Rightarrow> char" where
  "word_byte n k \<equiv> char_of (unat (take_bit 8 (drop_bit k n)))"

lemma bit_of_char: "bit (of_char c :: u32) k \<Longrightarrow> k < 8"
  by (rule word_bit_less_exp [of "of_char c"]) (use uchar_less [of c] in \<open>simp_all add: unat_of_char\<close>)

lemma word_bytes:
  "word_byte (push_bit 16 (of_char a) OR push_bit 8 (of_char b) OR of_char c) 16 = a"
  "word_byte (push_bit 16 (of_char a) OR push_bit 8 (of_char b) OR of_char c) 8 = b"
  "word_byte (push_bit 16 (of_char a) OR push_bit 8 (of_char b) OR of_char c) 0 = c"
proof -
  let ?n = "push_bit 16 (of_char a) OR push_bit 8 (of_char b) OR of_char c :: u32"
  have "take_bit 8 (drop_bit 16 ?n) = of_char a" "take_bit 8 (drop_bit 8 ?n) = of_char b"
    "take_bit 8 (drop_bit 0 ?n) = of_char c"
    by (rule bit_word_eqI;
        simp only: bit_take_bit_iff bit_or_iff bit_push_bit_iff bit_drop_bit_eq o_def;
        auto dest: bit_of_char)+
  then show "word_byte ?n 16 = a" "word_byte ?n 8 = b" "word_byte ?n 0 = c"
    by (simp_all only: unat_of_char char_of_uchar)
qed

lemma b64_loop_quad:
  "\<exists>val'. b64_loop (b64_ix n 18 # b64_ix n 12 # b64_ix n 6 # b64_ix n 0 # s) val (- 8) out
     = b64_loop s val' (- 8) (out @ [word_byte n 16, word_byte n 8, word_byte n 0])"
  using sextets_byte [of 4 val 12 n] sextets_byte [of 2 _ 6 n] sextets_byte [of 0 _ 0 n]
  by (auto simp add: b64_step_ix)

lemma b64_loop_pad: "b64_loop (CHR ''='' # s) val valb out = Some out"
  by (simp add: b64_loop.simps)

lemma b64_loop_encode:
  "b64_loop (b64_encode s) val (- 8) out = Some (out @ s)"
proof (induction s arbitrary: val out rule: b64_encode.induct)
  case (1 a b c rest)
  let ?n = "push_bit 16 (of_char a :: u32) OR push_bit 8 (of_char b) OR of_char c"
  obtain val' where "b64_loop (b64_encode (a # b # c # rest)) val (- 8) out
      = b64_loop (b64_encode rest) val' (- 8) (out @ [a, b, c])"
    using b64_loop_quad [of ?n "b64_encode rest" val out] unfolding word_bytes b64_encode.simps Let_def
    by blast
  with "1.IH" show ?case by simp
next
  case (2 a b)
  let ?n = "push_bit 16 (of_char a :: u32) OR push_bit 8 (of_char b)"
  show ?case
    using sextets_byte [of 4 val 12 ?n] sextets_byte [of 2 _ 6 ?n] word_bytes [of a b "CHR 0x00"]
    by (simp add: b64_step_ix b64_loop_pad Let_def)
next
  case (3 a)
  let ?n = "push_bit 16 (of_char a :: u32)"
  show ?case
    using sextets_byte [of 4 val 12 ?n] word_bytes [of a "CHR 0x00" "CHR 0x00"]
    by (simp add: b64_step_ix b64_loop_pad Let_def)
qed simp

text \<open>
  C15. Decoding what the encoder produced gives back every byte, whatever the length of the blob
  and although the decoder's 32-bit accumulator overflows on the way.
\<close>

theorem b64_roundtrip: "b64_decode (b64_encode s) = Some s"
  by (simp add: b64_decode_def b64_loop_encode)

lemma b64_encode_chars: "c \<in> set (b64_encode s) \<Longrightarrow> b64_char c \<or> c = CHR ''=''"
  by (induction s rule: b64_encode.induct) (auto simp: Let_def b64_ix_char)

lemma b64_encode_length: "length (b64_encode s) = 4 * ((length s + 2) div 3)"
proof (induction s rule: b64_encode.induct)
  case (1 a b c rest)
  have "(length (a # b # c # rest) + 2) div 3 = Suc ((length rest + 2) div 3)"
    using div_add_self2 [of 3 "length rest + 2"] by simp
  with 1 show ?case by (simp add: Let_def)
qed (simp_all add: Let_def)

section \<open>What the decoder accepts\<close>

lemma b64_loop_accepts:
  "(b64_loop s val valb out = None) \<longleftrightarrow> (\<exists>c \<in> set (takeWhile (\<lambda>c. \<not> b64_stop c) s). \<not> b64_char c)"
proof (induction s arbitrary: val valb out)
  case (Cons c s)
  show ?case
  proof (cases "b64_stop c")
    case True
    then show ?thesis by (auto simp: b64_loop.simps b64_stop_def)
  next
    case False
    then show ?thesis
      by (auto simp: b64_loop.simps b64_stop_def [of c] b64_char_def [of c] Let_def Cons.IH)
  qed
qed simp

text \<open>The number of bytes that come out of \<open>k\<close> accepted characters, from a given \<open>valb\<close>.\<close>

lemma b64_loop_length:
  "b64_loop s val valb out = Some r \<Longrightarrow> - 8 \<le> valb \<Longrightarrow> valb < 0 \<Longrightarrow>
   8 * int (length r) - 8 * int (length out) \<le> 6 * int (length (takeWhile (\<lambda>c. \<not> b64_stop c) s)) + valb + 8 \<and>
   6 * int (length (takeWhile (\<lambda>c. \<not> b64_stop c) s)) + valb + 8 < 8 * int (length r) - 8 * int (length out) + 8"
proof (induction s arbitrary: val valb out)
  case (Cons c s)
  show ?case
  proof (cases "b64_stop c")
    case True
    with Cons.prems show ?thesis by (auto simp: b64_loop.simps b64_stop_def)
  next
    case False
    then have ns: "(c = CHR ''='' \<or> c = CHR 0x0A \<or> c = CHR 0x0D) = False"
      by (simp add: b64_stop_def)
    define v where "v = push_bit 6 val + word_of_int (b64_val c)"
    define o' where "o' = out @ [char_of (unat (signed_drop_bit (nat (valb + 6)) v AND 0xFF))]"
    have len: "length o' = length out + 1" by (simp add: o'_def)
    show ?thesis
    proof (cases "0 \<le> valb + 6")
      case True
      with Cons.prems(1) ns have "b64_loop s v (valb + 6 - 8) o' = Some r"
        by (simp add: b64_loop.simps(2) Let_def v_def o'_def split: if_splits)
      from Cons.IH [OF this] True Cons.prems(2,3) False len show ?thesis by simp
    next
      case F: False
      with Cons.prems(1) ns have "b64_loop s v (valb + 6) out = Some r"
        by (simp add: b64_loop.simps(2) Let_def v_def split: if_splits)
      from Cons.IH [OF this] F Cons.prems(2,3) False show ?thesis by simp
    qed
  qed
qed auto

text \<open>
  C32. The decoder stops at the first padding or line-end character; it fails exactly when a
  character before that is outside the alphabet, and otherwise yields the bytes that the
  accepted sextets fill completely.
\<close>

theorem b64_decode_domain:
  "case b64_decode s of
     None \<Rightarrow> \<exists>c \<in> set (takeWhile (\<lambda>c. \<not> b64_stop c) s). b64_val c < 0
   | Some r \<Rightarrow> (\<forall>c \<in> set (takeWhile (\<lambda>c. \<not> b64_stop c) s). 0 \<le> b64_val c) \<and>
       length r = 6 * length (takeWhile (\<lambda>c. \<not> b64_stop c) s) div 8"
proof (cases "b64_decode s")
  case None
  then show ?thesis
    using b64_loop_accepts [of s 0 "- 8" "[]"] by (auto simp: b64_decode_def b64_char_def not_le)
next
  case (Some r)
  then have l: "b64_loop s 0 (- 8) [] = Some r" by (simp add: b64_decode_def)
  have "length r = 6 * length (takeWhile (\<lambda>c. \<not> b64_stop c) s) div 8"
    using b64_loop_length [OF l] by auto
  then show ?thesis
    using Some l b64_loop_accepts [of s 0 "- 8" "[]"] by (auto simp: b64_char_def)
qed

theorem b64_decode_domain_witness:
  "case b64_decode ''QUI='' of None \<Rightarrow> False | Some r \<Rightarrow> length r = 2"
  using b64_decode_domain [of "''QUI=''"]
  by (simp add: b64_stop_def b64_val_def split: option.splits)

end
