(* ===== verification/Porter_Ctrl.thy ===== *)
theory Porter_Ctrl
  imports Cxx_Std
begin

text \<open>
  The textual control protocol between \<open>swm-task\<close> and the Porter parent
  (\<open>c_src/porter/wm_porter_ctrl.cpp\<close>, \<open>c_src/task/task.cpp\<close>): the \<open>SPAWN\<close> line with its
  backslash escaping, its parser, the splitting of the byte stream into lines, and the client's
  reading of the replies.
\<close>

section \<open>Parsing a SPAWN line\<close>

text \<open>\<open>unescape_token\<close>: a backslash that is not the last character is dropped.\<close>

fun unescape_token :: "string \<Rightarrow> string" where
  "unescape_token [] = []"
| "unescape_token [c] = [c]"
| "unescape_token (c # d # s) =
     (if c = CHR 0x5C then d # unescape_token s else c # unescape_token (d # s))"

text \<open>The \<open>flush\<close> closure of the parser, on \<open>(*pmix_out, *argv_out)\<close>.\<close>

definition spawn_flush :: "string \<Rightarrow> bool \<times> string list \<Rightarrow> bool \<times> string list" where
  "spawn_flush cur st =
     (if cur \<noteq> [] then
        (let tok = unescape_token cur in
         if tok = ''--pmix'' then (True, snd st) else (fst st, snd st @ [tok]))
      else st)"

text \<open>The scanning loop, with the current token and the outputs as its variables.\<close>

fun spawn_scan :: "string \<Rightarrow> string \<Rightarrow> bool \<times> string list \<Rightarrow> bool \<times> string list" where
  "spawn_scan [] cur st = spawn_flush cur st"
| "spawn_scan [c] cur st =
     (if c = CHR '' '' then spawn_scan [] [] (spawn_flush cur st)
      else spawn_scan [] (cur @ [c]) st)"
| "spawn_scan (c # d # s) cur st =
     (if c = CHR 0x5C then spawn_scan s (cur @ [c, d]) st
      else if c = CHR '' '' then spawn_scan (d # s) [] (spawn_flush cur st)
      else spawn_scan (d # s) (cur @ [c]) st)"

text \<open>\<open>porter_ctrl_parse_spawn\<close>: the return value, \<open>*pmix_out\<close> and \<open>*argv_out\<close>.\<close>

definition porter_ctrl_parse_spawn :: "string \<Rightarrow> bool \<times> bool \<times> string list" where
  "porter_ctrl_parse_spawn line =
     (if \<not> starts_with ''SPAWN'' line then (False, False, [])
      else let st = spawn_scan (dropWhile (\<lambda>c. c = CHR '' '') (drop 5 line)) [] (False, [])
           in (snd st \<noteq> [], st))"

section \<open>Lines of the control stream\<close>

text \<open>
  The parent's \<open>ctrl_buf\<close> loop: append what was read, cut at every newline, keep the rest.
  The result is the new buffer and the lines that \<open>handle_ctrl_line\<close> receives, in order.
\<close>

fun split_lines :: "string \<Rightarrow> string \<Rightarrow> string \<times> string list" where
  "split_lines cur [] = (cur, [])"
| "split_lines cur (c # s) =
     (if c = CHR 0x0A then (let (b, ls) = split_lines [] s in (b, cur # ls))
      else split_lines (cur @ [c]) s)"

definition ctrl_feed :: "string \<Rightarrow> string \<Rightarrow> string \<times> string list" where
  "ctrl_feed ctrl_buf tmp = split_lines [] (ctrl_buf @ tmp)"

section \<open>The client side: building the request\<close>

text \<open>The escaping loop of \<open>run_via_porter\<close>.\<close>

fun escape_arg :: "string \<Rightarrow> string" where
  "escape_arg [] = []"
| "escape_arg (c # s) =
     (if c = CHR '' '' \<or> c = CHR 0x5C then CHR 0x5C # c # escape_arg s else c # escape_arg s)"

definition spawn_request :: "bool \<Rightarrow> string list \<Rightarrow> string" where
  "spawn_request pmix argv =
     ''SPAWN'' @ (if pmix then '' --pmix'' else [])
       @ concat (map (\<lambda>a. CHR '' '' # escape_arg a) argv) @ [CHR 0x0A]"

section \<open>Escaping\<close>

lemma escape_arg_empty [simp]: "escape_arg a = [] \<longleftrightarrow> a = []"
  by (cases a) auto

lemma unescape_plain: "c \<noteq> CHR 0x5C \<Longrightarrow> unescape_token (c # s) = c # unescape_token s"
  by (cases s) auto

lemma unescape_escape: "unescape_token (escape_arg a) = a"
  by (induction a) (auto simp: unescape_plain)

lemma escape_no_newline: "CHR 0x0A \<notin> set a \<Longrightarrow> CHR 0x0A \<notin> set (escape_arg a)"
  by (induction a) auto

section \<open>Scanning an escaped request\<close>

lemma spawn_scan_plain:
  "c \<noteq> CHR 0x5C \<Longrightarrow> c \<noteq> CHR '' '' \<Longrightarrow> spawn_scan (c # s) cur st = spawn_scan s (cur @ [c]) st"
  by (cases s) auto

lemma spawn_scan_space: "spawn_scan (CHR '' '' # s) cur st = spawn_scan s [] (spawn_flush cur st)"
  by (cases s) auto

lemma spawn_scan_escape: "spawn_scan (escape_arg a @ s) cur st = spawn_scan s (cur @ escape_arg a) st"
  by (induction a arbitrary: cur) (auto simp: spawn_scan_plain)

lemma spawn_flush_Nil [simp]: "spawn_flush [] st = st"
  by (simp add: spawn_flush_def)

lemma spawn_scan_args:
  "spawn_scan (concat (map (\<lambda>a. CHR '' '' # escape_arg a) argv)) cur st
     = foldl (\<lambda>st a. spawn_flush (escape_arg a) st) (spawn_flush cur st) argv"
  by (induction argv arbitrary: cur st) (simp_all add: spawn_scan_space spawn_scan_escape)

lemma spawn_scan_skip: "spawn_scan (dropWhile (\<lambda>c. c = CHR '' '') s) [] st = spawn_scan s [] st"
  by (induction s) (auto simp: spawn_scan_space)

lemma spawn_flush_escape:
  "spawn_flush (escape_arg a) st =
     (if a = [] then st else if a = ''--pmix'' then (True, snd st) else (fst st, snd st @ [a]))"
  by (simp add: spawn_flush_def unescape_escape Let_def)

lemma spawn_flush_fold:
  "foldl (\<lambda>st a. spawn_flush (escape_arg a) st) (p, acc) argv =
     (p \<or> ''--pmix'' \<in> set argv, acc @ filter (\<lambda>a. a \<noteq> [] \<and> a \<noteq> ''--pmix'') argv)"
  by (induction argv arbitrary: p acc) (auto simp: spawn_flush_escape)

text \<open>
  The parser on the line that the client builds, without any assumption on the arguments: what
  arrives is the argument list less its empty strings and less every argument that is literally
  \<open>--pmix\<close>, and such an argument switches PMIx on.
\<close>

lemma parse_spawn_line:
  "porter_ctrl_parse_spawn (butlast (spawn_request pmix argv)) =
     (let kept = filter (\<lambda>a. a \<noteq> [] \<and> a \<noteq> ''--pmix'') argv
      in (kept \<noteq> [], pmix \<or> ''--pmix'' \<in> set argv, kept))"
proof -
  define as where "as = (if pmix then [''--pmix''] else []) @ argv"
  define X where "X = concat (map (\<lambda>a. CHR '' '' # escape_arg a) as)"
  have line: "butlast (spawn_request pmix argv) = ''SPAWN'' @ X"
    by (simp add: spawn_request_def butlast_append X_def as_def)
  have "spawn_scan X [] (False, [])
      = (pmix \<or> ''--pmix'' \<in> set argv, filter (\<lambda>a. a \<noteq> [] \<and> a \<noteq> ''--pmix'') argv)"
    unfolding X_def spawn_scan_args spawn_flush_Nil spawn_flush_fold as_def
    by (cases pmix) simp_all
  then show ?thesis
    unfolding line porter_ctrl_parse_spawn_def
    by (simp add: spawn_scan_skip starts_with_def Let_def)
qed

section \<open>Reassembly of lines\<close>

lemma split_lines_append:
  "split_lines cur (s @ t) =
     (let (b, ls) = split_lines cur s; (b', ls') = split_lines b t in (b', ls @ ls'))"
  by (induction s arbitrary: cur) (auto split: prod.splits)

lemma split_lines_no_newline:
  "CHR 0x0A \<notin> set s \<Longrightarrow> split_lines cur s = (cur @ s, [])"
  by (induction s arbitrary: cur) auto

lemma split_lines_rest: "CHR 0x0A \<notin> set cur \<Longrightarrow> CHR 0x0A \<notin> set (fst (split_lines cur s))"
proof (induction s arbitrary: cur)
  case (Cons c s)
  show ?case
  proof (cases "c = CHR 0x0A")
    case True
    have "CHR 0x0A \<notin> set (fst (split_lines [] s))" by (rule Cons.IH) simp
    with True show ?thesis by (simp add: case_prod_beta)
  next
    case False
    have "CHR 0x0A \<notin> set (fst (split_lines (cur @ [c]) s))"
      by (rule Cons.IH) (use Cons.prems False in simp)
    with False show ?thesis by simp
  qed
qed simp

text \<open>The reader over a sequence of reads, from the empty buffer of a fresh connection.\<close>

fun ctrl_run :: "string \<Rightarrow> string list \<Rightarrow> string \<times> string list" where
  "ctrl_run buf [] = (buf, [])"
| "ctrl_run buf (r # rs) =
     (let (b, ls) = ctrl_feed buf r; (b', ls') = ctrl_run b rs in (b', ls @ ls'))"

lemma ctrl_run_concat:
  "CHR 0x0A \<notin> set buf \<Longrightarrow> ctrl_run buf rs = split_lines buf (concat rs)"
proof (induction rs arbitrary: buf)
  case (Cons r rs)
  obtain b ls where f: "ctrl_feed buf r = (b, ls)" by fastforce
  have s: "split_lines buf r = (b, ls)"
    using f Cons.prems by (simp add: ctrl_feed_def split_lines_append split_lines_no_newline)
  then have "CHR 0x0A \<notin> set b" using split_lines_rest [OF Cons.prems, of r] by simp
  from Cons.IH [OF this] f s show ?case by (simp add: split_lines_append)
qed simp

lemma split_lines_message:
  "CHR 0x0A \<notin> set m \<Longrightarrow> split_lines [] (m @ CHR 0x0A # s) =
     (let (b, ls) = split_lines [] s in (b, m # ls))"
  by (simp add: split_lines_append split_lines_no_newline split: prod.splits)

lemma split_lines_messages:
  "\<forall>m \<in> set ms. CHR 0x0A \<notin> set m \<Longrightarrow>
   split_lines [] (concat (map (\<lambda>m. m @ [CHR 0x0A]) ms)) = ([], ms)"
  by (induction ms) (simp_all add: split_lines_message)

lemma spawn_request_line:
  "spawn_request pmix argv = butlast (spawn_request pmix argv) @ [CHR 0x0A]"
  by (simp add: spawn_request_def butlast_append)

lemma spawn_request_no_newline:
  "\<forall>a \<in> set argv. CHR 0x0A \<notin> set a \<Longrightarrow> CHR 0x0A \<notin> set (butlast (spawn_request pmix argv))"
  by (auto simp: spawn_request_def butlast_append escape_no_newline split: if_splits)

text \<open>
  C14. End-to-end delivery of \<open>SPAWN\<close> requests: however the bytes of a sequence of requests are
  cut into reads, the parent's line loop hands the parser exactly one line per request, in
  order, leaves nothing in the buffer, and each parses to its \<open>pmix\<close> flag and its argument
  vector.
\<close>

theorem spawn_delivery:
  assumes "concat reads = concat (map (\<lambda>(pmix, argv). spawn_request pmix argv) reqs)"
    and "\<forall>(pmix, argv) \<in> set reqs. argv \<noteq> [] \<and> (\<forall>a \<in> set argv. a \<noteq> [] \<and> a \<noteq> ''--pmix'' \<and> CHR 0x0A \<notin> set a)"
  shows "case ctrl_run [] reads of (buf, ls) \<Rightarrow>
           buf = [] \<and> map porter_ctrl_parse_spawn ls = map (\<lambda>(pmix, argv). (True, pmix, argv)) reqs"
proof -
  define ms where "ms = map (\<lambda>(pmix, argv). butlast (spawn_request pmix argv)) reqs"
  have c: "concat reads = concat (map (\<lambda>m. m @ [CHR 0x0A]) ms)"
    unfolding assms(1) ms_def by (auto simp: comp_def case_prod_beta intro!: arg_cong [where f = concat]
        spawn_request_line)
  have "\<forall>m \<in> set ms. CHR 0x0A \<notin> set m"
    using assms(2) spawn_request_no_newline unfolding ms_def by fastforce
  then have r: "ctrl_run [] reads = ([], ms)"
    by (simp add: ctrl_run_concat c split_lines_messages)
  have "porter_ctrl_parse_spawn (butlast (spawn_request p as)) = (True, p, as)"
    if "(p, as) \<in> set reqs" for p as
  proof -
    have "filter (\<lambda>a. a \<noteq> [] \<and> a \<noteq> ''--pmix'') as = as" "as \<noteq> []" "''--pmix'' \<notin> set as"
      using assms(2) that by (fastforce simp: filter_id_conv)+
    then show ?thesis by (simp add: parse_spawn_line Let_def)
  qed
  then show ?thesis by (auto simp: r ms_def)
qed

theorem spawn_delivery_witness:
  "case ctrl_run [] [''SPAWN --pm'', ''ix a'' @ [CHR 0x5C] @ '' b'' @ [CHR 0x0A] @ ''SPA'', ''WN ls'' @ [CHR 0x0A]] of
     (buf, ls) \<Rightarrow> buf = [] \<and> map porter_ctrl_parse_spawn ls =
       map (\<lambda>(pmix, argv). (True, pmix, argv)) [(True, [''a b'']), (False, [''ls''])]"
  by (rule spawn_delivery) (simp_all add: spawn_request_def)

text \<open>
  C33. What the parser makes of any request line of the client: arguments that are empty or
  literally \<open>--pmix\<close> do not reach the spawned command, and the latter turn PMIx on.
\<close>

theorem spawn_line_parse:
  "porter_ctrl_parse_spawn (butlast (spawn_request pmix argv)) =
     (let kept = filter (\<lambda>a. a \<noteq> [] \<and> a \<noteq> ''--pmix'') argv
      in (kept \<noteq> [], pmix \<or> ''--pmix'' \<in> set argv, kept))"
  by (rule parse_spawn_line)

end
