(* ===== verification/Posix_Io.thy ===== *)
theory Posix_Io
  imports Cxx_Std
begin

text \<open>
  The loops around \<open>write\<close> and \<open>read\<close>, and the length-prefixed input of \<open>c_src/lib/wm_io.cpp\<close>.
  What the system calls return is not determined by the program: a loop takes the list of the
  results that its successive calls will return, and is \<open>None\<close> when the list ends before the
  loop does (the next call has not returned yet). The file \<open>c_src/lib/wm_io.cpp\<close> reads from a
  \<open>std::istream\<close>, modelled by the characters it still holds.
\<close>

section \<open>The write loops\<close>

datatype write_result = Wrote nat | Write_eintr | Write_error

text \<open>
  The loop shared by \<open>porter_ctrl_write_line\<close>, \<open>write_all\<close> of \<open>swm-task\<close> and
  \<open>safe_write_exclusive\<close>: the flag is success, the string what reached the descriptor.
\<close>

fun write_loop :: "write_result list \<Rightarrow> string \<Rightarrow> string \<Rightarrow> (bool \<times> string) option" where
  "write_loop ws [] done = Some (True, done)"
| "write_loop [] (c # m) done = None"
| "write_loop (Write_eintr # ws) (c # m) done = write_loop ws (c # m) done"
| "write_loop (Write_error # ws) (c # m) done = Some (False, done)"
| "write_loop (Wrote n # ws) (c # m) done =
     write_loop ws (drop n (c # m)) (done @ take n (c # m))"

text \<open>The newline that \<open>porter_ctrl_write_line\<close> adds when the line does not end in one.\<close>

definition ctrl_line_msg :: "string \<Rightarrow> string" where
  "ctrl_line_msg line = (if line = [] \<or> last line \<noteq> CHR 0x0A then line @ [CHR 0x0A] else line)"

definition porter_ctrl_write_line :: "write_result list \<Rightarrow> string \<Rightarrow> (bool \<times> string) option" where
  "porter_ctrl_write_line ws line =
     write_loop ws (ctrl_line_msg line) []"

definition write_all :: "write_result list \<Rightarrow> string \<Rightarrow> (bool \<times> string) option" where
  "write_all ws msg = write_loop ws msg []"

lemma write_loop_sound:
  "write_loop ws m done = Some (ok, r) \<Longrightarrow> \<exists>u t. r = done @ u \<and> m = u @ t \<and> (ok \<longleftrightarrow> t = [])"
proof (induction ws m "done" arbitrary: r rule: write_loop.induct)
  case (5 n ws c m "done")
  let ?m = "c # m"
  from "5.prems" have w: "write_loop ws (drop n ?m) (done @ take n ?m) = Some (ok, r)" by simp
  from "5.IH" [OF w] obtain u t where "r = (done @ take n ?m) @ u" "drop n ?m = u @ t" "ok \<longleftrightarrow> t = []"
    by blast
  moreover from this have "?m = (take n ?m @ u) @ t" by (metis append_assoc append_take_drop_id)
  ultimately show ?case by (metis append_assoc)
qed auto

text \<open>With enough progress the loop returns; an interrupted call is retried.\<close>

definition wrote :: "write_result \<Rightarrow> nat" where
  "wrote w = (case w of Wrote n \<Rightarrow> n | _ \<Rightarrow> 0)"

lemma write_loop_completes:
  "Write_error \<notin> set ws \<Longrightarrow> length m \<le> sum_list (map wrote ws) \<Longrightarrow>
   write_loop ws m done = Some (True, done @ m)"
proof (induction ws m "done" rule: write_loop.induct)
  case (5 n ws c m "done")
  then have "write_loop ws (drop n (c # m)) (done @ take n (c # m)) =
      Some (True, (done @ take n (c # m)) @ drop n (c # m))"
    by (intro "5.IH") (auto simp: wrote_def)
  then show ?case by simp
qed (auto simp: wrote_def)

section \<open>Reading lines one character at a time\<close>

datatype read_result = Read_char char | Read_eof | Read_eintr | Read_error

text \<open>
  \<open>read_line\<close> of \<open>swm-task\<close>: the flag it returns, the line in \<open>out\<close>, and the results that later
  calls will return.
\<close>

fun read_line :: "read_result list \<Rightarrow> string \<Rightarrow> ((bool \<times> string) \<times> read_result list) option" where
  "read_line [] out = None"
| "read_line (Read_eintr # rs) out = read_line rs out"
| "read_line (Read_error # rs) out = Some ((False, out), rs)"
| "read_line (Read_eof # rs) out = Some ((out \<noteq> [], out), rs)"
| "read_line (Read_char c # rs) out =
     (if c = CHR 0x0A then Some ((True, out), rs) else read_line rs (out @ [c]))"

lemma read_line_shorter: "read_line rs out = Some (r, rs') \<Longrightarrow> length rs' < length rs"
  by (induction rs out rule: read_line.induct) (auto split: if_splits)

lemma read_line_chars:
  "CHR 0x0A \<notin> set m \<Longrightarrow>
   read_line (map Read_char (m @ CHR 0x0A # s) @ rs) out = Some ((True, out @ m), map Read_char s @ rs)"
  by (induction m arbitrary: out) auto

section \<open>Length-prefixed input\<close>

text \<open>
  \<open>swm_read_exact\<close>: the characters read when the stream stays good, and the stream after.
  A short read consumes what is there and leaves the stream bad.
\<close>

definition swm_read_exact :: "nat \<Rightarrow> string \<Rightarrow> string option \<times> string" where
  "swm_read_exact n s = (if n \<le> length s then (Some (take n s), drop n s) else (None, []))"

text \<open>
  \<open>swm_read_length\<close>: four bytes, most significant first; each is widened to a 32-bit \<open>int\<close>,
  shifted and combined with a bitwise or.
\<close>

definition be32 :: "string \<Rightarrow> u32" where
  "be32 b = push_bit 24 (of_char (b ! 0)) OR push_bit 16 (of_char (b ! 1))
     OR push_bit 8 (of_char (b ! 2)) OR of_char (b ! 3)"

definition swm_read_length :: "string \<Rightarrow> u32 option \<times> string" where
  "swm_read_length s =
     (case swm_read_exact 4 s of (None, s') \<Rightarrow> (None, s') | (Some b, s') \<Rightarrow> (Some (be32 b), s'))"

text \<open>The sender's big-endian prefix, as \<open>wm_container\<close> packs it: \<open><<Size:32/big>>\<close>.\<close>

definition enc32 :: "u32 \<Rightarrow> string" where
  "enc32 w = map (\<lambda>k. char_of (unat (take_bit 8 (drop_bit k w)))) [24, 16, 8, 0]"

lemma of_char_word: "(of_char (char_of (unat (w :: u32))) :: u32) = take_bit 8 w"
proof -
  have "(of_char (char_of (unat w)) :: u32) = of_nat (of_char (char_of (unat w)))"
    by (rule of_nat_of_char [symmetric])
  also have "\<dots> = of_nat (take_bit 8 (unat w))" by (simp add: take_bit_eq_mod)
  also have "\<dots> = take_bit 8 w" by (simp add: take_bit_of_nat [symmetric] unsigned_take_bit_eq)
  finally show ?thesis .
qed

lemma be32_enc32: "be32 (enc32 w) = w"
proof (rule bit_word_eqI)
  fix k assume "k < LENGTH(32)"
  then have k: "k < 32" by simp
  show "bit (be32 (enc32 w)) k = bit w k"
  proof (cases "k < 8 \<or> (8 \<le> k \<and> k < 16)")
    case True
    with k show ?thesis unfolding be32_def enc32_def
      by (auto simp: of_char_word bit_or_iff bit_push_bit_iff bit_take_bit_iff bit_drop_bit_eq)
  next
    case False
    with k have "(16 \<le> k \<and> k < 24) \<or> (24 \<le> k \<and> k < 32)" by auto
    with k show ?thesis unfolding be32_def enc32_def
      by (auto simp: of_char_word bit_or_iff bit_push_bit_iff bit_take_bit_iff bit_drop_bit_eq)
  qed
qed

lemma enc32_length [simp]: "length (enc32 w) = 4"
  by (simp add: enc32_def)

lemma swm_read_length_enc: "swm_read_length (enc32 w @ s) = (Some w, s)"
  by (simp add: swm_read_length_def swm_read_exact_def be32_enc32)

section \<open>Writing to a stream\<close>

text \<open>
  An output stream: whether it is good, how many characters what is behind it still takes (\<open>None\<close>: all),
  and what it has taken. A stream that is not good takes nothing. The null pointer, for which the
  source throws, is given by none of the callers.
\<close>

record ostream =
  os_good :: bool
  os_room :: "nat option"
  os_taken :: string

definition swm_write_exact :: "string \<Rightarrow> ostream \<Rightarrow> bool \<times> ostream" where
  "swm_write_exact buf s =
     (if \<not> os_good s then (False, s)
      else case os_room s of
        None \<Rightarrow> (True, s\<lparr>os_taken := os_taken s @ buf\<rparr>)
      | Some n \<Rightarrow> (length buf \<le> n, s\<lparr>os_good := length buf \<le> n, os_room := Some (n - length buf),
          os_taken := os_taken s @ take n buf\<rparr>))"

text \<open>Frames one after the other, as the porter writes them: the results are not looked at.\<close>

fun write_frames :: "string list \<Rightarrow> ostream \<Rightarrow> ostream" where
  "write_frames [] s = s"
| "write_frames (b # bs) s = write_frames bs (snd (swm_write_exact b s))"

lemma write_frames_bad: "\<not> os_good s \<Longrightarrow> write_frames bs s = s"
  by (induction bs) (simp_all add: swm_write_exact_def)

text \<open>
  What arrives is always a prefix of the frames, all of them as long as the stream stays good; after
  the first write that fails nothing arrives any more, and no frame is sent twice or out of order.
\<close>

lemma write_frames_prefix:
  "\<exists>k. os_taken (write_frames bs s) = os_taken s @ take k (concat bs) \<and>
     (os_good (write_frames bs s) \<longrightarrow> length (concat bs) \<le> k)"
proof (induction bs arbitrary: s)
  case (Cons b bs)
  obtain ok s1 where w: "swm_write_exact b s = (ok, s1)" by (metis surj_pair)
  show ?case
  proof (cases "os_good s1")
    case True
    then have "os_taken s1 = os_taken s @ b"
      using w by (auto simp: swm_write_exact_def split: if_splits option.splits)
    moreover obtain k where "os_taken (write_frames bs s1) = os_taken s1 @ take k (concat bs)"
      "os_good (write_frames bs s1) \<longrightarrow> length (concat bs) \<le> k" using Cons.IH by blast
    ultimately show ?thesis by (intro exI [of _ "length b + k"]) (simp add: w)
  next
    case False
    have cut: "\<exists>n \<le> length b. take m b = take n b" for m
      by (cases "m \<le> length b") (auto intro: exI [of _ "length b"])
    from False have "\<exists>n \<le> length b. os_taken s1 = os_taken s @ take n b"
      using w cut by (auto simp: swm_write_exact_def split: if_splits option.splits intro: exI [of _ 0])
    then obtain n where "n \<le> length b" "os_taken s1 = os_taken s @ take n b" by blast
    with False show ?thesis by (intro exI [of _ n]) (simp add: w write_frames_bad)
  qed
qed simp

end
