(* ===== verification/Task.thy ===== *)
theory Task
  imports Porter_Ctrl Posix_Io
begin

text \<open>
  The client \<open>swm-task\<close> (\<open>c_src/task/task.cpp\<close>): its command line, the request it writes and
  the loop over the reply lines that gives its exit code. The parameters of a run are what the
  operating system answers: the value of \<open>SWM_PORTER_CTRL\<close>, whether the connection succeeds
  and the results of the \<open>write\<close> and \<open>read\<close> calls.
\<close>

section \<open>Command line\<close>

text \<open>\<open>main\<close>: \<open>Inl\<close> is an exit code, \<open>Inr\<close> the arguments of \<open>run_via_porter\<close>.\<close>

fun task_parse :: "string list \<Rightarrow> bool \<Rightarrow> int + (bool \<times> string list)" where
  "task_parse [] pmix = Inr (pmix, [])"
| "task_parse (a # as) pmix =
     (if a = ''-h'' \<or> a = ''--help'' then Inl 0
      else if a = ''--pmix'' then task_parse as True
      else if starts_with ''-'' a then Inl 2
      else Inr (pmix, a # as))"

definition task_args :: "string list \<Rightarrow> int + (bool \<times> string list)" where
  "task_args args =
     (case task_parse args False of Inl e \<Rightarrow> Inl e
      | Inr (pmix, cmd) \<Rightarrow> if cmd = [] then Inl 2 else Inr (pmix, cmd))"

section \<open>Replies\<close>

text \<open>\<open>std::stoi(line.substr(5))\<close> with every exception mapped to 1.\<close>

definition done_code :: "string \<Rightarrow> int" where
  "done_code line = (case stoi (drop 5 line) of Inl _ \<Rightarrow> 1 | Inr (v, _) \<Rightarrow> v)"

text \<open>What one reply line makes the loop do: return a code, or go on.\<close>

definition reply_line :: "string \<Rightarrow> int option" where
  "reply_line line =
     (if starts_with ''OK '' line then None
      else if starts_with ''DONE '' line then Some (done_code line)
      else if starts_with ''ERR '' line then Some 1
      else None)"

text \<open>The loop \<open>while (read_line(fd, line))\<close>; a failed or closed connection returns 1.\<close>

function reply_loop :: "read_result list \<Rightarrow> int option" where
  "reply_loop rs =
     (case read_line rs [] of
        None \<Rightarrow> None
      | Some ((False, _), _) \<Rightarrow> Some 1
      | Some ((True, line), rs') \<Rightarrow>
          (case reply_line line of Some code \<Rightarrow> Some code | None \<Rightarrow> reply_loop rs'))"
  by pat_completeness auto
termination
  by (relation "measure length") (auto dest: read_line_shorter)

declare reply_loop.simps [simp del]

text \<open>\<open>connect_porter_ctrl\<close>: a path that does not fit \<open>sun_path\<close> (108 bytes) is refused first.\<close>

definition connect_porter_ctrl :: "bool \<Rightarrow> (string \<Rightarrow> bool) \<Rightarrow> string \<Rightarrow> bool" where
  "connect_porter_ctrl socket_ok connect path \<longleftrightarrow>
     socket_ok \<and> length path < 108 \<and> connect path"

text \<open>
  \<open>run_via_porter\<close>: the exit code and the bytes that reached the socket; \<open>None\<close> while a call has
  not returned.
\<close>

definition run_via_porter ::
  "string option \<Rightarrow> bool \<Rightarrow> (string \<Rightarrow> bool) \<Rightarrow> write_result list \<Rightarrow> read_result list \<Rightarrow>
   bool \<Rightarrow> string list \<Rightarrow> (int \<times> string) option" where
  "run_via_porter ctrl socket_ok connect ws rs pmix argv =
     (case ctrl of None \<Rightarrow> Some (2, [])
      | Some path \<Rightarrow>
          if path = [] then Some (2, [])
          else if \<not> connect_porter_ctrl socket_ok connect path then Some (2, [])
          else (case write_all ws (spawn_request pmix argv) of
                  None \<Rightarrow> None
                | Some (False, sent) \<Rightarrow> Some (2, sent)
                | Some (True, sent) \<Rightarrow> map_option (\<lambda>code. (code, sent)) (reply_loop rs)))"

definition task_main ::
  "string list \<Rightarrow> string option \<Rightarrow> bool \<Rightarrow> (string \<Rightarrow> bool) \<Rightarrow> write_result list \<Rightarrow> read_result list \<Rightarrow>
   (int \<times> string) option" where
  "task_main args ctrl socket_ok connect ws rs =
     (case task_args args of Inl e \<Rightarrow> Some (e, [])
      | Inr (pmix, cmd) \<Rightarrow> run_via_porter ctrl socket_ok connect ws rs pmix cmd)"

section \<open>Lemmas\<close>

lemma task_parse_cmd: "task_parse args p = Inr (pmix, cmd) \<Longrightarrow>
    (\<exists>flags. args = flags @ cmd \<and> set flags \<subseteq> {''--pmix''} \<and> (pmix \<longleftrightarrow> p \<or> flags \<noteq> []))
    \<and> (cmd = [] \<or> \<not> starts_with ''-'' (hd cmd))"
proof (induction args p rule: task_parse.induct)
  case (2 a as p)
  show ?case
  proof (cases "a = ''--pmix''")
    case True
    with "2.prems" have t: "task_parse as True = Inr (pmix, cmd)" by simp
    have "(\<exists>flags. as = flags @ cmd \<and> set flags \<subseteq> {''--pmix''} \<and> (pmix \<longleftrightarrow> True \<or> flags \<noteq> []))
        \<and> (cmd = [] \<or> \<not> starts_with ''-'' (hd cmd))"
      by (rule "2.IH" [OF _ True t]) (simp add: True)
    then obtain flags where f: "as = flags @ cmd" "set flags \<subseteq> {''--pmix''}" "pmix"
      and c: "cmd = [] \<or> \<not> starts_with ''-'' (hd cmd)" by auto
    have "a # as = (a # flags) @ cmd \<and> set (a # flags) \<subseteq> {''--pmix''} \<and> (pmix \<longleftrightarrow> p \<or> a # flags \<noteq> [])"
      using f True by simp
    with c show ?thesis by blast
  next
    case False
    with "2.prems" have "cmd = a # as \<and> pmix = p \<and> \<not> starts_with ''-'' a"
      by (auto split: if_splits)
    then show ?thesis by (intro conjI exI [of _ "[]"]) simp_all
  qed
qed simp

lemma reply_loop_line:
  assumes "CHR 0x0A \<notin> set m"
  shows "reply_loop (map Read_char (m @ CHR 0x0A # s) @ rs) =
    (case reply_line m of Some code \<Rightarrow> Some code | None \<Rightarrow> reply_loop (map Read_char s @ rs))"
  using read_line_chars [OF assms, of s rs "[]"]
  by (subst reply_loop.simps) (simp del: map_append list.map)

lemma reply_loop_skip:
  "\<forall>m \<in> set ms. CHR 0x0A \<notin> set m \<and> reply_line m = None \<Longrightarrow>
   reply_loop (map Read_char (concat (map (\<lambda>m. m @ [CHR 0x0A]) ms) @ s) @ rs) =
   reply_loop (map Read_char s @ rs)"
proof (induction ms)
  case (Cons m ms)
  then show ?case using reply_loop_line [of m "concat (map (\<lambda>m. m @ [CHR 0x0A]) ms) @ s" rs] by simp
qed simp

lemma ctrl_line_msg_plain: "CHR 0x0A \<notin> set m \<Longrightarrow> ctrl_line_msg m = m @ [CHR 0x0A]"
  by (metis ctrl_line_msg_def last_in_set)

lemma done_code_dec:
  "- (2 ^ 31) \<le> z \<Longrightarrow> z < 2 ^ 31 \<Longrightarrow> done_code (''DONE '' @ dec_int z) = z"
  using stoi_dec_int [of z "[]"] by (simp add: done_code_def)

lemma run_done_code:
  assumes "path \<noteq> []" and "connect_porter_ctrl socket_ok connect path"
    and "Write_error \<notin> set ws" and "length (spawn_request pmix argv) \<le> sum_list (map wrote ws)"
    and "\<forall>r \<in> set acks. CHR 0x0A \<notin> set r"
    and "- (2 ^ 31) \<le> z" and "z < 2 ^ 31"
  shows "run_via_porter (Some path) socket_ok connect ws
      (map Read_char (concat (map (\<lambda>r. ctrl_line_msg (''OK '' @ r)) acks)
         @ ctrl_line_msg (''DONE '' @ dec_int z)) @ rest) pmix argv
    = Some (z, spawn_request pmix argv)"
proof -
  have w: "write_all ws (spawn_request pmix argv) = Some (True, spawn_request pmix argv)"
    using write_loop_completes [OF assms(3,4), of "[]"] by (simp add: write_all_def)
  have acks: "concat (map (\<lambda>r. ctrl_line_msg (''OK '' @ r)) acks) =
      concat (map (\<lambda>m. m @ [CHR 0x0A]) (map (\<lambda>r. ''OK '' @ r) acks))"
    using assms(5) by (induction acks) (simp_all add: ctrl_line_msg_plain)
  have nl: "CHR 0x0A \<notin> set (''DONE '' @ dec_int z)"
    by (simp add: dec_int_no is_digit_def)
  have "reply_line (''DONE '' @ dec_int z) = Some z"
    using done_code_dec [OF assms(6,7)] by (simp add: reply_line_def starts_with_def)
  moreover have "\<forall>m \<in> set (map (\<lambda>r. ''OK '' @ r) acks). CHR 0x0A \<notin> set m \<and> reply_line m = None"
    using assms(5) by (auto simp: reply_line_def starts_with_def)
  ultimately have "reply_loop (map Read_char (concat (map (\<lambda>r. ctrl_line_msg (''OK '' @ r)) acks)
      @ ctrl_line_msg (''DONE '' @ dec_int z)) @ rest) = Some z"
    unfolding acks ctrl_line_msg_plain [OF nl]
    using reply_loop_line [OF nl, of "[]" rest]
    by (subst reply_loop_skip) (simp_all del: map_append list.map)
  with assms(1,2) w show ?thesis by (simp add: run_via_porter_def)
qed

text \<open>
  C26. The reply protocol from Porter to the client: whatever acknowledgements precede it, the
  line \<open>DONE <code>\<close> that Porter writes for an exit code of 32 bits makes \<open>swm-task\<close> return that
  code, and its request has reached the socket unchanged for every pattern of partial and
  interrupted writes.
\<close>

theorem task_returns_done_code:
  assumes "path \<noteq> []" and "connect_porter_ctrl socket_ok connect path"
    and "Write_error \<notin> set ws" and "length (spawn_request pmix argv) \<le> sum_list (map wrote ws)"
    and "\<forall>r \<in> set acks. CHR 0x0A \<notin> set r"
    and "- (2 ^ 31) \<le> z" and "z < 2 ^ 31"
  shows "run_via_porter (Some path) socket_ok connect ws
      (map Read_char (concat (map (\<lambda>r. ctrl_line_msg (''OK '' @ r)) acks)
         @ ctrl_line_msg (''DONE '' @ dec_int z)) @ rest) pmix argv
    = Some (z, spawn_request pmix argv)"
  by (rule run_done_code [OF assms])

theorem task_returns_done_code_witness:
  "run_via_porter (Some ''/c'') True (\<lambda>p. p = ''/c'') [Wrote 4, Write_eintr, Wrote 60]
     (map Read_char (concat (map (\<lambda>r. ctrl_line_msg (''OK '' @ r)) [''1-2-3''])
        @ ctrl_line_msg (''DONE '' @ dec_int (- 7))) @ []) True [''a b'']
   = Some (- 7, spawn_request True [''a b''])"
  by (rule task_returns_done_code) (simp_all add: spawn_request_def wrote_def connect_porter_ctrl_def)

end
