(* ===== verification/Ordered_Map.thy ===== *)
theory Ordered_Map
  imports Prelude "HOL-Library.Multiset" "HOL-Library.List_Lexorder" "HOL-Library.Char_ord"
begin

text \<open>
  \<open>std::map\<close> as the association list that iteration over it yields: strictly increasing keys.
  The sources use \<open>operator[]\<close> with an assignment, \<open>emplace\<close>, \<open>find\<close>, \<open>erase\<close> and iteration.
  Strings are compared character by character as unsigned values, as \<open>std::string\<close> does.
  The interface that the clients rely on is the locale \<open>kv_store\<close>.
\<close>

section \<open>The operations\<close>

type_synonym ('k, 'v) omap = "('k \<times> 'v) list"

text \<open>\<open>m[k] = v\<close>\<close>

fun om_assign :: "'k::linorder \<Rightarrow> 'v \<Rightarrow> ('k, 'v) omap \<Rightarrow> ('k, 'v) omap" where
  "om_assign k v [] = [(k, v)]"
| "om_assign k v ((k', v') # m) =
     (if k < k' then (k, v) # (k', v') # m
      else if k = k' then (k, v) # m
      else (k', v') # om_assign k v m)"

definition om_find :: "'k \<Rightarrow> ('k, 'v) omap \<Rightarrow> 'v option" where
  "om_find k m = map_of m k"

text \<open>\<open>m.emplace(k, v)\<close> does nothing when the key is there.\<close>

definition om_emplace :: "'k::linorder \<Rightarrow> 'v \<Rightarrow> ('k, 'v) omap \<Rightarrow> ('k, 'v) omap" where
  "om_emplace k v m = (if om_find k m = None then om_assign k v m else m)"

definition om_erase :: "'k \<Rightarrow> ('k, 'v) omap \<Rightarrow> ('k, 'v) omap" where
  "om_erase k m = filter (\<lambda>p. fst p \<noteq> k) m"

definition om_ok :: "('k::linorder, 'v) omap \<Rightarrow> bool" where
  "om_ok m \<longleftrightarrow> sorted_wrt (<) (map fst m)"

section \<open>The interface of a key-value store\<close>

text \<open>
  What a client of a store relies on: the lookup after each operation, the entries as a
  multiset, and the invariant that every operation keeps.
\<close>

locale kv_store =
  fixes empty :: "'m"
    and assign :: "'k \<Rightarrow> 'v \<Rightarrow> 'm \<Rightarrow> 'm"
    and erase :: "'k \<Rightarrow> 'm \<Rightarrow> 'm"
    and find :: "'k \<Rightarrow> 'm \<Rightarrow> 'v option"
    and entries :: "'m \<Rightarrow> ('k \<times> 'v) multiset"
    and ok :: "'m \<Rightarrow> bool"
  assumes ok_empty: "ok empty"
    and ok_assign: "ok m \<Longrightarrow> ok (assign k v m)"
    and ok_erase: "ok m \<Longrightarrow> ok (erase k m)"
    and find_empty: "find k empty = None"
    and find_assign: "ok m \<Longrightarrow> find k' (assign k v m) = (if k' = k then Some v else find k' m)"
    and find_erase: "ok m \<Longrightarrow> find k' (erase k m) = (if k' = k then None else find k' m)"
    and entries_empty: "entries empty = {#}"
    and entries_fresh: "ok m \<Longrightarrow> find k m = None \<Longrightarrow> entries (assign k v m) = add_mset (k, v) (entries m)"
    and entries_find: "ok m \<Longrightarrow> find k m = Some v \<Longrightarrow> entries m = add_mset (k, v) (entries (erase k m))"
begin

lemma erase_absent: "ok m \<Longrightarrow> find k m = None \<Longrightarrow> find k' (erase k m) = find k' m"
  by (auto simp: find_erase)

lemma assign_erase_entries:
  "ok m \<Longrightarrow> find k m = None \<Longrightarrow> entries (erase k (assign k v m)) = entries m"
  using entries_find [of "assign k v m" k v] entries_fresh [of m k v] ok_assign [of m k v]
    find_assign [of m k k v] by simp

text \<open>What any weight of the entries gains and loses.\<close>

lemma weight_assign:
  "ok m \<Longrightarrow> find k m = None \<Longrightarrow>
   (\<Sum>p\<in>#entries (assign k v m). w p) = w (k, v) + (\<Sum>p\<in>#entries m. w p :: 'b multiset)"
  by (simp add: entries_fresh)

lemma weight_erase:
  "ok m \<Longrightarrow> find k m = Some v \<Longrightarrow>
   (\<Sum>p\<in>#entries m. w p) = w (k, v) + (\<Sum>p\<in>#entries (erase k m). w p :: 'b multiset)"
  by (simp add: entries_find)

end

section \<open>The ordered association list is a store\<close>

lemma om_keys_assign: "fst ` set (om_assign k v m) = insert k (fst ` set m)"
  by (induction m rule: om_assign.induct) auto

lemma om_ok_assign: "om_ok m \<Longrightarrow> om_ok (om_assign k v m)"
  unfolding om_ok_def
proof (induction k v m rule: om_assign.induct)
  case (2 k v k' v' m)
  have "\<forall>x \<in> set (map fst (om_assign k v m)). k' < x" if "k' < k"
    using that "2.prems" om_keys_assign [of k v m] by auto
  with 2 show ?case by auto
qed simp

lemma om_ok_erase: "om_ok m \<Longrightarrow> om_ok (om_erase k m)"
  by (auto simp: om_ok_def om_erase_def sorted_wrt_map intro: sorted_wrt_filter)

lemma om_find_assign: "om_ok m \<Longrightarrow> om_find k' (om_assign k v m) = (if k' = k then Some v else om_find k' m)"
  unfolding om_ok_def om_find_def by (induction k v m rule: om_assign.induct) auto

lemma om_find_erase: "om_find k' (om_erase k m) = (if k' = k then None else om_find k' m)"
  by (simp add: om_find_def om_erase_def map_of_filter_neq)

lemma om_mset_fresh: "om_find k m = None \<Longrightarrow> mset (om_assign k v m) = add_mset (k, v) (mset m)"
  unfolding om_find_def by (induction k v m rule: om_assign.induct) (auto split: if_splits)

lemma om_mset_find:
  "om_ok m \<Longrightarrow> om_find k m = Some v \<Longrightarrow> mset m = add_mset (k, v) (mset (om_erase k m))"
proof (induction m)
  case (Cons p m)
  have ok: "om_ok m" and lt: "\<forall>q \<in> set m. fst p < fst q"
    using Cons.prems(1) by (auto simp: om_ok_def)
  show ?case
  proof (cases "fst p = k")
    case True
    with lt have "filter (\<lambda>q. fst q \<noteq> k) m = m" by (auto simp: filter_id_conv)
    with True Cons.prems(2) show ?thesis by (cases p) (simp add: om_erase_def om_find_def)
  next
    case False
    with Cons.prems(2) have "om_find k m = Some v" by (cases p) (simp add: om_find_def)
    from Cons.IH [OF ok this] False show ?thesis by (simp add: om_erase_def)
  qed
qed (simp add: om_find_def)

interpretation om: kv_store "[]" om_assign om_erase om_find mset om_ok
  by unfold_locales
     (auto simp: om_ok_assign om_ok_erase om_find_assign om_find_erase om_mset_fresh om_mset_find,
      simp_all add: om_ok_def om_find_def)

lemma om_find_emplace:
  "om_ok m \<Longrightarrow> om_find k' (om_emplace k v m) =
     (if k' = k \<and> om_find k m = None then Some v else om_find k' m)"
  by (auto simp: om_emplace_def om_find_assign)

lemma om_ok_emplace: "om_ok m \<Longrightarrow> om_ok (om_emplace k v m)"
  by (simp add: om_emplace_def om_ok_assign)

end
