(* ===== verification/Pmix_Fence.thy ===== *)
theory Pmix_Fence
  imports Base64 Ordered_Map
begin

text \<open>
  Cross-node fences of the PMIx helper (\<open>c_src/pmix/pmix_server_main.cpp\<close>): a fence that the
  library requests is given a number, stored with its completion callback and announced on
  stdout; the Erlang side gathers the contributions of all nodes and answers \<open>FENCE_OUT\<close>, which
  completes it; at shutdown what is still pending is failed.

  The library's callbacks are opaque: \<open>'c\<close> is the type of a callback and its \<open>cbdata\<close>. Calling
  one is an entry of the trace \<open>modex_calls\<close>. The status codes of \<open>pmix_common.h\<close> are the fields
  of a parameter, of which \<open>pmix_codes_ok\<close> states the values that the PMIx standard fixes.
\<close>

section \<open>Status codes\<close>

record pmix_codes =
  PMIX_SUCCESS :: int
  PMIX_OPERATION_SUCCEEDED :: int
  PMIX_ERROR :: int
  PMIX_ERR_TIMEOUT :: int
  PMIX_ERR_NOT_FOUND :: int

definition pmix_codes_ok :: "pmix_codes \<Rightarrow> bool" where
  "pmix_codes_ok K \<longleftrightarrow> PMIX_SUCCESS K = 0 \<and> PMIX_ERROR K = - 1 \<and>
     distinct [PMIX_SUCCESS K, PMIX_OPERATION_SUCCEEDED K, PMIX_ERROR K, PMIX_ERR_TIMEOUT K,
       PMIX_ERR_NOT_FOUND K]"

text \<open>The values of the reference implementation, for examples.\<close>

definition openpmix_codes :: pmix_codes where
  "openpmix_codes = \<lparr>PMIX_SUCCESS = 0, PMIX_OPERATION_SUCCEEDED = - 157, PMIX_ERROR = - 1,
     PMIX_ERR_TIMEOUT = - 24, PMIX_ERR_NOT_FOUND = - 46\<rparr>"

lemma openpmix_codes_ok: "pmix_codes_ok openpmix_codes"
  by (simp add: pmix_codes_ok_def openpmix_codes_def)

section \<open>State\<close>

record 'c PendingFence =
  cbfunc :: "'c option"       \<comment> \<open>\<open>nullptr\<close> is \<open>None\<close>; the \<open>cbdata\<close> is part of \<open>'c\<close>\<close>
  local_data :: string

text \<open>A call of a completion callback; the data is \<open>None\<close> for \<open>nullptr, 0\<close>.\<close>

record 'c modex_call =
  mc_cb :: 'c
  mc_status :: int
  mc_data :: "string option"

record 'c fence_state =
  g_contrib_id :: int
  g_fence_seq :: u64
  g_pending_fences :: "(u64, 'c PendingFence) omap"
  lines_out :: "string list"            \<comment> \<open>what \<open>emit_line\<close> wrote, in order\<close>
  modex_calls :: "'c modex_call list"   \<comment> \<open>callbacks called, in order\<close>

definition fence_init :: "'c fence_state" where
  "fence_init = \<lparr>g_contrib_id = 0, g_fence_seq = 1, g_pending_fences = [], lines_out = [],
     modex_calls = []\<rparr>"

definition emit_line :: "string \<Rightarrow> ('c, 'x) fence_state_scheme \<Rightarrow> ('c, 'x) fence_state_scheme" where
  "emit_line line s = s\<lparr>lines_out := lines_out s @ [line]\<rparr>"

section \<open>A fence request\<close>

text \<open>
  \<open>fencenb\<close>, with the data pointer as an option: the number is taken, the entry stored, and
  then announced. The three parts are atomic in the code (an atomic counter and two mutexes)
  and are separate here for the step relation below.
\<close>

definition fence_blob :: "string option \<Rightarrow> nat \<Rightarrow> string" where
  "fence_blob data ndata = (case data of Some d \<Rightarrow> if 0 < ndata then take ndata d else [] | None \<Rightarrow> [])"

definition fencenb_take :: "('c, 'x) fence_state_scheme \<Rightarrow> u64 \<times> ('c, 'x) fence_state_scheme" where
  "fencenb_take s = (g_fence_seq s, s\<lparr>g_fence_seq := g_fence_seq s + 1\<rparr>)"

definition fencenb_store ::
  "u64 \<Rightarrow> 'c option \<Rightarrow> string \<Rightarrow> ('c, 'x) fence_state_scheme \<Rightarrow> ('c, 'x) fence_state_scheme" where
  "fencenb_store fid cb blob s =
     s\<lparr>g_pending_fences := om_assign fid \<lparr>cbfunc = cb, local_data = blob\<rparr> (g_pending_fences s)\<rparr>"

definition fence_in_line :: "u64 \<Rightarrow> int \<Rightarrow> nat \<Rightarrow> string \<Rightarrow> string" where
  "fence_in_line fid contrib ndata blob =
     ''FENCE_IN id='' @ dec_nat (unat fid) @ '' contrib='' @ dec_int contrib @
     '' nbytes='' @ dec_nat ndata @ '' b64='' @ b64_encode blob"

definition fencenb_emit ::
  "u64 \<Rightarrow> nat \<Rightarrow> string \<Rightarrow> ('c, 'x) fence_state_scheme \<Rightarrow> ('c, 'x) fence_state_scheme" where
  "fencenb_emit fid ndata blob s = emit_line (fence_in_line fid (g_contrib_id s) ndata blob) s"

definition fencenb ::
  "string option \<Rightarrow> nat \<Rightarrow> 'c option \<Rightarrow> ('c, 'x) fence_state_scheme \<Rightarrow> ('c, 'x) fence_state_scheme" where
  "fencenb data ndata cb s =
     (let (fid, s) = fencenb_take s; blob = fence_blob data ndata
      in fencenb_emit fid ndata blob (fencenb_store fid cb blob s))"

section \<open>Completion\<close>

definition call_modex ::
  "'c \<Rightarrow> int \<Rightarrow> string option \<Rightarrow> ('c, 'x) fence_state_scheme \<Rightarrow> ('c, 'x) fence_state_scheme" where
  "call_modex cb status data s =
     s\<lparr>modex_calls := modex_calls s @ [\<lparr>mc_cb = cb, mc_status = status, mc_data = data\<rparr>]\<rparr>"

definition complete_fence ::
  "pmix_codes \<Rightarrow> u64 \<Rightarrow> int \<Rightarrow> string \<Rightarrow> ('c, 'x) fence_state_scheme \<Rightarrow> ('c, 'x) fence_state_scheme" where
  "complete_fence K fid status blob s =
     (case om_find fid (g_pending_fences s) of
        None \<Rightarrow> s
      | Some pending \<Rightarrow>
          let s = s\<lparr>g_pending_fences := om_erase fid (g_pending_fences s)\<rparr> in
          (case cbfunc pending of
             None \<Rightarrow> s
           | Some cb \<Rightarrow>
               if status \<noteq> PMIX_SUCCESS K \<or> blob = [] then call_modex cb status None s
               else call_modex cb status (Some blob) s))"

text \<open>\<open>parse_kv_token\<close>: the text after the first \<open>key=\<close>, up to a space or the end.\<close>

definition parse_kv_token :: "string \<Rightarrow> string \<Rightarrow> string option" where
  "parse_kv_token line key =
     (case str_find (key @ ''='') line of
        None \<Rightarrow> None
      | Some pos \<Rightarrow>
          let start = pos + length key + 1;
              end = (case str_find_from '' '' line start of None \<Rightarrow> length line | Some e \<Rightarrow> e)
          in Some (str_substr line start (end - start)))"

definition handle_fence_out ::
  "pmix_codes \<Rightarrow> string \<Rightarrow> ('c, 'x) fence_state_scheme \<Rightarrow> ('c, 'x) fence_state_scheme" where
  "handle_fence_out K line s =
     (case (parse_kv_token line ''id'', parse_kv_token line ''status'') of
        (Some id_s, Some status_s) \<Rightarrow>
          let b64 = (case str_find ''b64='' line of None \<Rightarrow> [] | Some p \<Rightarrow> drop (p + 4) line) in
          (case (stoull id_s, stoi status_s) of
             (Inr (fid, _), Inr (status, _)) \<Rightarrow>
               (if b64 = [] then complete_fence K fid status [] s
                else (case b64_decode b64 of
                        None \<Rightarrow> complete_fence K fid (PMIX_ERROR K) [] s
                      | Some blob \<Rightarrow> complete_fence K fid status blob s))
           | _ \<Rightarrow> s)
      | _ \<Rightarrow> s)"

text \<open>The end of \<open>main\<close>: fail what is pending, in key order, and clear the map.\<close>

definition drain_fences :: "pmix_codes \<Rightarrow> ('c, 'x) fence_state_scheme \<Rightarrow> ('c, 'x) fence_state_scheme" where
  "drain_fences K s =
     (fold (\<lambda>(_, p) s. case cbfunc p of None \<Rightarrow> s | Some cb \<Rightarrow> call_modex cb (PMIX_ERROR K) None s)
        (g_pending_fences s) s)\<lparr>g_pending_fences := []\<rparr>"

section \<open>The wire format\<close>

text \<open>
  A field whose key starts with a character that does not occur before it, and whose value
  holds no space, is what \<open>parse_kv_token\<close> returns.
\<close>

lemma parse_kv_token_field:
  assumes "k \<notin> set pre" and "CHR '' '' \<notin> set v" and "rest = [] \<or> hd rest = CHR '' ''"
  shows "parse_kv_token (pre @ (k # ks) @ ''='' @ v @ rest) (k # ks) = Some v"
proof -
  let ?line = "pre @ (k # ks) @ ''='' @ v @ rest"
  let ?start = "length pre + length (k # ks) + 1"
  have f: "str_find ((k # ks) @ ''='') ?line = Some (length pre)"
    using str_find_skip [OF assms(1), of "ks @ ''=''" "(k # ks) @ ''='' @ v @ rest"]
      str_find_append_here [of "(k # ks) @ ''=''" "v @ rest"] by simp
  have d: "drop ?start ?line = v @ rest" by simp
  have "str_find '' '' (v @ rest) = (if rest = [] then None else Some (length v))"
  proof (cases rest)
    case Nil
    then show ?thesis using assms(2) by (simp add: str_find_char)
  next
    case (Cons c r)
    with assms(3) have "rest = CHR '' '' # r" by simp
    then show ?thesis using str_find_char_append [OF assms(2)] by simp
  qed
  then have e: "(case str_find_from '' '' ?line ?start of None \<Rightarrow> length ?line | Some e \<Rightarrow> e)
      = ?start + length v"
    unfolding str_find_from_def d by (simp split: if_splits)
  have "parse_kv_token ?line (k # ks) = Some (str_substr ?line ?start (?start + length v - ?start))"
    unfolding parse_kv_token_def f option.case Let_def e ..
  then show ?thesis unfolding str_substr_def d by simp
qed

text \<open>The answer that \<open>wm_pmix:apply_fence_result/4\<close> formats (with \<open>base64:encode_to_string/1\<close>).\<close>

definition fence_out_line :: "u64 \<Rightarrow> int \<Rightarrow> string \<Rightarrow> string" where
  "fence_out_line fid status blob =
     ''FENCE_OUT id='' @ dec_nat (unat fid) @ '' status='' @ dec_int status @
     '' nbytes='' @ dec_nat (length blob) @ '' b64='' @ b64_encode blob"

lemma b64_encode_eq_Nil: "b64_encode blob = [] \<longleftrightarrow> blob = []"
  by (induction blob rule: b64_encode.induct) (auto simp: Let_def)

lemma not_digit_space: "\<not> is_digit CHR '' ''"
  by (simp add: is_digit_def)

lemma fence_out_fields:
  "parse_kv_token (fence_out_line fid status blob) ''id'' = Some (dec_nat (unat fid))"
  "parse_kv_token (fence_out_line fid status blob) ''status'' = Some (dec_int status)"
  "str_find ''b64='' (fence_out_line fid status blob) =
     Some (length (''FENCE_OUT id='' @ dec_nat (unat fid) @ '' status='' @ dec_int status @
       '' nbytes='' @ dec_nat (length blob) @ '' ''))"
proof -
  note no = dec_nat_no dec_int_no is_digit_def
  show "parse_kv_token (fence_out_line fid status blob) ''id'' = Some (dec_nat (unat fid))"
    using parse_kv_token_field [of "CHR ''i''" "''FENCE_OUT ''" "dec_nat (unat fid)"
        "'' status='' @ dec_int status @ '' nbytes='' @ dec_nat (length blob) @ '' b64='' @ b64_encode blob"
        "''d''"]
    by (simp add: fence_out_line_def no)
  show "parse_kv_token (fence_out_line fid status blob) ''status'' = Some (dec_int status)"
    using parse_kv_token_field [of "CHR ''s''" "''FENCE_OUT id='' @ dec_nat (unat fid) @ '' ''" "dec_int status"
        "'' nbytes='' @ dec_nat (length blob) @ '' b64='' @ b64_encode blob" "''tatus''"]
    by (simp add: fence_out_line_def no)
  let ?pre = "''FENCE_OUT id='' @ dec_nat (unat fid) @ '' status='' @ dec_int status @ '' n''"
  let ?mid = "''ytes='' @ dec_nat (length blob) @ '' ''"
  have "str_find ''b64='' (?pre @ ''b'' @ ?mid @ ''b64='' @ b64_encode blob) =
      Some (length ?pre + (1 + length ?mid))"
    using str_find_skip [of "CHR ''b''" ?mid "''64=''" "''b64='' @ b64_encode blob"]
      str_find_append_here [of "''b64=''" "b64_encode blob"]
    by (subst str_find_skip) (simp_all add: no starts_with_def)
  then show "str_find ''b64='' (fence_out_line fid status blob) =
     Some (length (''FENCE_OUT id='' @ dec_nat (unat fid) @ '' status='' @ dec_int status @
       '' nbytes='' @ dec_nat (length blob) @ '' ''))"
    by (simp add: fence_out_line_def)
qed

lemma fence_out_b64:
  "(case str_find ''b64='' (fence_out_line fid status blob) of None \<Rightarrow> []
    | Some p \<Rightarrow> drop (p + 4) (fence_out_line fid status blob)) = b64_encode blob"
proof -
  define A where "A = ''FENCE_OUT id='' @ dec_nat (unat fid) @ '' status='' @ dec_int status @
    '' nbytes='' @ dec_nat (length blob) @ '' ''"
  have "fence_out_line fid status blob = (A @ ''b64='') @ b64_encode blob"
    by (simp add: fence_out_line_def A_def)
  moreover have "length A + 4 = length (A @ ''b64='')" by simp
  ultimately have "drop (length A + 4) (fence_out_line fid status blob) = b64_encode blob"
    using append_eq_conv_conj [of "A @ ''b64=''" "b64_encode blob"] by metis
  then show ?thesis unfolding fence_out_fields(3) A_def [symmetric] by simp
qed

text \<open>
  C25. A \<open>FENCE_OUT\<close> line as the Erlang side formats it completes exactly the fence it names, with
  the status it carries and the gathered bytes unchanged.
\<close>

theorem fence_out_completes:
  assumes "- (2 ^ 31) \<le> status" and "status < 2 ^ 31"
  shows "handle_fence_out K (fence_out_line fid status blob) s = complete_fence K fid status blob s"
proof -
  have i: "stoull (dec_nat (unat fid)) = Inr (fid, length (dec_nat (unat fid)))"
    using stoul_dec_nat [of "unat fid" "[]"] unsigned_less [of fid] by simp
  have st: "stoi (dec_int status) = Inr (status, length (dec_int status))"
    using stoi_dec_int [OF assms, of "[]"] by simp
  show ?thesis
    unfolding handle_fence_out_def fence_out_fields(1,2) fence_out_b64 Let_def option.case prod.case i st sum.case
    by (simp add: b64_encode_eq_Nil b64_decode_def b64_loop_encode)
qed

theorem fence_out_completes_witness:
  "handle_fence_out openpmix_codes (fence_out_line 7 (- 46) ''abc'') fence_init =
   complete_fence openpmix_codes 7 (- 46) ''abc'' (fence_init :: nat fence_state)"
  by (rule fence_out_completes) simp_all

section \<open>Interleaved executions\<close>

text \<open>
  Fence requests run on the library's threads while \<open>main\<close> reads lines. A request that is
  between its atomic parts is a \<open>flight\<close>. The component \<open>issued\<close> records, for the statements
  only, the callback of every request that took a number.
\<close>

datatype 'c flight =
    Taken u64 "'c option" string nat
  | Stored u64 string nat

record 'c fence_sys = "'c fence_state" +
  flights :: "'c flight multiset"
  issued :: "'c option list"

definition fence_sys_init :: "'c fence_sys" where
  "fence_sys_init = \<lparr>g_contrib_id = 0, g_fence_seq = 1, g_pending_fences = [], lines_out = [],
     modex_calls = [], flights = {#}, issued = []\<rparr>"

inductive fence_step :: "pmix_codes \<Rightarrow> 'c fence_sys \<Rightarrow> 'c fence_sys \<Rightarrow> bool" for K where
  begin_fence: "fencenb_take s = (i, s') \<Longrightarrow>
     fence_step K s (s'\<lparr>flights := add_mset (Taken i cb (fence_blob data n) n) (flights s),
       issued := issued s @ [cb]\<rparr>)"
| store_fence: "Taken i cb blob n \<in># flights s \<Longrightarrow>
     fence_step K s ((fencenb_store i cb blob s)
       \<lparr>flights := add_mset (Stored i blob n) (flights s - {#Taken i cb blob n#})\<rparr>)"
| emit_fence: "Stored i blob n \<in># flights s \<Longrightarrow>
     fence_step K s ((fencenb_emit i n blob s)\<lparr>flights := flights s - {#Stored i blob n#}\<rparr>)"
| fence_line: "fence_step K s (handle_fence_out K line s)"
| set_contrib: "fence_step K s (s\<lparr>g_contrib_id := z\<rparr>)"
| other_line: "fence_step K s (emit_line line s)"
| drain_all: "fence_step K s (drain_fences K s)"

inductive fence_reachable :: "pmix_codes \<Rightarrow> 'c fence_sys \<Rightarrow> bool" for K where
  init: "fence_reachable K fence_sys_init"
| step: "fence_reachable K s \<Longrightarrow> fence_step K s t \<Longrightarrow> fence_reachable K t"

subsection \<open>What is owed to whom\<close>

definition owed :: "'c option \<Rightarrow> 'c multiset" where
  "owed cb = (case cb of None \<Rightarrow> {#} | Some c \<Rightarrow> {#c#})"

definition owed_flight :: "'c flight \<Rightarrow> 'c multiset" where
  "owed_flight f = (case f of Taken _ cb _ _ \<Rightarrow> owed cb | Stored _ _ _ \<Rightarrow> {#})"

definition owed_pending :: "('c, 'x) fence_state_scheme \<Rightarrow> 'c multiset" where
  "owed_pending s = (\<Sum>p\<in>#mset (g_pending_fences s). owed (cbfunc (snd p)))"

definition called :: "('c, 'x) fence_state_scheme \<Rightarrow> 'c multiset" where
  "called s = mset (map mc_cb (modex_calls s))"

definition taken_id :: "'c flight \<Rightarrow> u64 multiset" where
  "taken_id f = (case f of Taken i _ _ _ \<Rightarrow> {#i#} | Stored _ _ _ \<Rightarrow> {#})"

definition taken_ids :: "'c flight multiset \<Rightarrow> u64 multiset" where
  "taken_ids F = (\<Sum>f\<in>#F. taken_id f)"

lemma taken_ids_simps [simp]:
  "taken_ids {#} = {#}" "taken_ids (add_mset f F) = taken_id f + taken_ids F"
  by (simp_all add: taken_ids_def)

lemma owed_simps [simp]: "owed None = {#}" "owed (Some c) = {#c#}"
  by (simp_all add: owed_def)

lemma owed_flight_simps [simp]:
  "owed_flight (Taken i cb b n) = owed cb" "owed_flight (Stored i b n) = {#}"
  "taken_id (Taken i cb b n) = {#i#}" "taken_id (Stored i b n) = {#}"
  by (simp_all add: owed_flight_def taken_id_def)

lemma call_modex_simps [simp]:
  "g_pending_fences (call_modex c st d s) = g_pending_fences s"
  "g_fence_seq (call_modex c st d s) = g_fence_seq s"
  "flights (call_modex c st d t) = flights t" "issued (call_modex c st d t) = issued t"
  "called (call_modex c st d s) = add_mset c (called s)"
  by (simp_all add: call_modex_def called_def)

text \<open>Completing or draining moves callbacks from the map to the trace and touches nothing else.\<close>

lemma complete_fence_balance:
  assumes "om_ok (g_pending_fences s)"
  shows "owed_pending (complete_fence K i st b s) + called (complete_fence K i st b s)
    = owed_pending s + called s"
proof (cases "om_find i (g_pending_fences s)")
  case (Some p)
  from om.weight_erase [OF assms Some, of "\<lambda>p. owed (cbfunc (snd p))"] show ?thesis
    using Some by (simp add: complete_fence_def owed_pending_def called_def call_modex_def Let_def
        split: option.splits)
qed (simp add: complete_fence_def)

lemma complete_fence_frame:
  "g_fence_seq (complete_fence K i st b s) = g_fence_seq s"
  "flights (complete_fence K i st b t) = flights t" "issued (complete_fence K i st b t) = issued t"
  "om_ok (g_pending_fences s) \<Longrightarrow> om_ok (g_pending_fences (complete_fence K i st b s))"
  "om_find j (g_pending_fences s) = None \<Longrightarrow> om_find j (g_pending_fences (complete_fence K i st b s)) = None"
  by (auto simp: complete_fence_def Let_def om_ok_erase om_find_erase split: option.splits)

text \<open>Handling any line is completing at most one fence.\<close>

lemma handle_fence_out_cases:
  "handle_fence_out K line s = s \<or> (\<exists>i st b. handle_fence_out K line s = complete_fence K i st b s)"
  unfolding handle_fence_out_def Let_def by (auto split: option.splits sum.splits if_splits)

lemma drain_calls:
  "fold (\<lambda>(_, p) s. case cbfunc p of None \<Rightarrow> s | Some cb \<Rightarrow> call_modex cb e None s) m s =
   s\<lparr>modex_calls := modex_calls s @
     concat (map (\<lambda>(_, p). case cbfunc p of None \<Rightarrow> []
       | Some cb \<Rightarrow> [\<lparr>mc_cb = cb, mc_status = e, mc_data = None\<rparr>]) m)\<rparr>"
  by (induction m arbitrary: s) (auto simp: call_modex_def split: option.splits)

lemma drain_fences_eq:
  "drain_fences K s = s\<lparr>g_pending_fences := [], modex_calls := modex_calls s @
     concat (map (\<lambda>(_, p). case cbfunc p of None \<Rightarrow> []
       | Some cb \<Rightarrow> [\<lparr>mc_cb = cb, mc_status = PMIX_ERROR K, mc_data = None\<rparr>]) (g_pending_fences s))\<rparr>"
  by (simp add: drain_fences_def drain_calls)

lemma drain_fences_balance: "called (drain_fences K s) = owed_pending s + called s"
proof -
  have "mset (map mc_cb (concat (map (\<lambda>(_, p). case cbfunc p of None \<Rightarrow> []
       | Some cb \<Rightarrow> [\<lparr>mc_cb = cb, mc_status = e, mc_data = None\<rparr>]) m))) =
      (\<Sum>p\<in>#mset m. owed (cbfunc (snd p)))" for m :: "(u64, 'a PendingFence) omap" and e
    by (induction m) (auto split: option.splits)
  then show ?thesis by (simp add: drain_fences_eq called_def owed_pending_def)
qed

subsection \<open>The invariant\<close>

text \<open>
  While fewer than \<open>2 ^ 64\<close> requests were made: a number belongs to one flight or to one entry
  of the map, all numbers are below the counter, and every callback that was handed in is held
  by a flight, held by the map, or called.
\<close>

definition ids_ok :: "u64 multiset \<Rightarrow> (u64, 'v) omap \<Rightarrow> nat \<Rightarrow> bool" where
  "ids_ok T m n \<longleftrightarrow>
     (\<forall>i. count T i \<le> 1) \<and>
     (\<forall>i. i \<in># T \<longrightarrow> om_find i m = None \<and> 0 < unat i \<and> unat i \<le> n) \<and>
     (\<forall>i. om_find i m \<noteq> None \<longrightarrow> 0 < unat i \<and> unat i \<le> n)"

definition fence_ids_ok :: "'c fence_sys \<Rightarrow> bool" where
  "fence_ids_ok s \<longleftrightarrow> g_fence_seq s = word_of_nat (1 + length (issued s)) \<and>
     ids_ok (taken_ids (flights s)) (g_pending_fences s) (length (issued s))"

definition fence_balanced :: "'c fence_sys \<Rightarrow> bool" where
  "fence_balanced s \<longleftrightarrow> (\<Sum>cb\<in>#mset (issued s). owed cb) =
     (\<Sum>f\<in>#flights s. owed_flight f) + owed_pending s + called s"

definition fence_inv :: "'c fence_sys \<Rightarrow> bool" where
  "fence_inv s \<longleftrightarrow> om_ok (g_pending_fences s) \<and>
     (length (issued s) < 2 ^ 64 \<longrightarrow> fence_ids_ok s \<and> fence_balanced s)"

lemma fence_inv_init: "fence_inv fence_sys_init"
  by (simp add: fence_inv_def fence_sys_init_def fence_ids_ok_def ids_ok_def fence_balanced_def
      owed_pending_def called_def om_ok_def om_find_def)

lemma unat_word_of_nat: "n < 2 ^ 64 \<Longrightarrow> unat (word_of_nat n :: u64) = n"
  by (simp add: unat_of_nat take_bit_nat_eq_self)

lemma ids_ok_new:
  assumes "ids_ok T m n" and "unat i = 1 + n"
  shows "ids_ok (add_mset i T) m (Suc n)"
proof -
  have "\<not> unat i \<le> n" using assms(2) by simp
  with assms(1) have "i \<notin># T" "om_find i m = None" unfolding ids_ok_def by blast+
  with assms show ?thesis by (auto simp: ids_ok_def not_in_iff le_Suc_eq)
qed

lemma ids_ok_store:
  "ids_ok (add_mset i T) m n \<Longrightarrow> om_ok m \<Longrightarrow> ids_ok T (om_assign i v m) n"
proof -
  assume T: "ids_ok (add_mset i T) m n" and m: "om_ok m"
  have c: "count T j \<le> count (add_mset i T) j" for j by simp
  have "count (add_mset i T) j \<le> 1" for j using T unfolding ids_ok_def by blast
  with c have "count T j \<le> 1" for j using le_trans by blast
  moreover have "i \<notin># T" using \<open>\<And>j. count (add_mset i T) j \<le> 1\<close> [of i] by (simp add: not_in_iff)
  ultimately show ?thesis using T m by (auto simp: ids_ok_def om_find_assign split: if_splits)
qed

lemma ids_ok_taken: "ids_ok (add_mset i T) m n \<Longrightarrow> om_find i m = None"
  by (simp add: ids_ok_def)

lemma ids_ok_shrink:
  "ids_ok T m n \<Longrightarrow> (\<And>i. om_find i m = None \<Longrightarrow> om_find i m' = None) \<Longrightarrow> ids_ok T m' n"
  unfolding ids_ok_def by (metis (no_types))

lemma fence_inv_begin:
  assumes "fence_inv s"
  shows "fence_inv (s\<lparr>g_fence_seq := g_fence_seq s + 1,
     flights := add_mset (Taken (g_fence_seq s) cb b n) (flights s), issued := issued s @ [cb]\<rparr>)"
    (is "fence_inv ?t")
proof (cases "1 + length (issued s) < 2 ^ 64")
  case True
  with assms have ids: "fence_ids_ok s" and bal: "fence_balanced s" by (simp_all add: fence_inv_def)
  then have "unat (g_fence_seq s) = 1 + length (issued s)"
    unfolding fence_ids_ok_def using unat_word_of_nat [OF True] by metis
  with ids have "fence_ids_ok ?t" by (simp add: fence_ids_ok_def ids_ok_new)
  moreover have "fence_balanced ?t"
    using bal by (simp add: fence_balanced_def owed_pending_def called_def ac_simps)
  ultimately show ?thesis using assms by (simp add: fence_inv_def)
qed (use assms in \<open>simp add: fence_inv_def\<close>)

lemma fence_inv_store:
  assumes "fence_inv s" and "Taken i cb b n \<in># flights s"
  shows "fence_inv ((fencenb_store i cb b s)
     \<lparr>flights := add_mset (Stored i b n) (flights s - {#Taken i cb b n#})\<rparr>)" (is "fence_inv ?t")
proof -
  obtain F where F: "flights s = add_mset (Taken i cb b n) F"
    using multi_member_split [OF assms(2)] by blast
  have ok: "om_ok (g_pending_fences s)" using assms(1) by (simp add: fence_inv_def)
  have "fence_ids_ok ?t \<and> fence_balanced ?t" if l: "length (issued s) < 2 ^ 64"
  proof -
    have ids: "fence_ids_ok s" and bal: "fence_balanced s"
      using assms(1) l by (simp_all add: fence_inv_def)
    from ids have "ids_ok (add_mset i (taken_ids F)) (g_pending_fences s) (length (issued s))"
      by (simp add: fence_ids_ok_def F)
    note none = ids_ok_taken [OF this] and stored = ids_ok_store [OF this ok]
    have "fence_ids_ok ?t"
      using ids stored by (simp add: fence_ids_ok_def F fencenb_store_def)
    moreover have "fence_balanced ?t"
      using bal om.weight_assign [OF ok none, of "\<lambda>p. owed (cbfunc (snd p))"]
      by (simp add: fence_balanced_def owed_pending_def called_def F fencenb_store_def ac_simps)
    ultimately show ?thesis ..
  qed
  then show ?thesis using ok by (auto simp: fence_inv_def fencenb_store_def om_ok_assign)
qed

lemma fence_inv_emit:
  assumes "fence_inv s" and "Stored i b n \<in># flights s"
  shows "fence_inv ((fencenb_emit i n b s)\<lparr>flights := flights s - {#Stored i b n#}\<rparr>)"
proof -
  obtain F where "flights s = add_mset (Stored i b n) F"
    using multi_member_split [OF assms(2)] by blast
  with assms(1) show ?thesis
    by (simp add: fence_inv_def fence_ids_ok_def fence_balanced_def owed_pending_def
        called_def fencenb_emit_def emit_line_def)
qed

lemma fence_inv_complete: "fence_inv s \<Longrightarrow> fence_inv (complete_fence K i st b s)"
proof -
  assume inv: "fence_inv s"
  then have ok: "om_ok (g_pending_fences s)" by (simp add: fence_inv_def)
  have "fence_ids_ok (complete_fence K i st b s)" if "fence_ids_ok s"
    using that ids_ok_shrink [OF _ complete_fence_frame(5)]
    by (auto simp: fence_ids_ok_def complete_fence_frame)
  moreover have "fence_balanced (complete_fence K i st b s)" if "fence_balanced s"
    using that complete_fence_balance [OF ok, of K i st b]
    by (simp add: fence_balanced_def complete_fence_frame ac_simps)
  ultimately show ?thesis using inv by (simp add: fence_inv_def complete_fence_frame)
qed

lemma fence_inv_drain: "fence_inv s \<Longrightarrow> fence_inv (drain_fences K s)"
proof -
  assume inv: "fence_inv s"
  have "fence_ids_ok (drain_fences K s)" if "fence_ids_ok s"
    using that ids_ok_shrink [of "taken_ids (flights s)" "g_pending_fences s" "length (issued s)" "[]"]
    by (simp add: fence_ids_ok_def drain_fences_eq om_find_def)
  moreover have "fence_balanced (drain_fences K s)" if "fence_balanced s"
    using that drain_fences_balance [of K s]
    by (simp add: fence_balanced_def drain_fences_eq owed_pending_def ac_simps)
  ultimately show ?thesis using inv by (simp add: fence_inv_def drain_fences_eq om_ok_def)
qed

lemma fence_step_inv: "fence_step K s t \<Longrightarrow> fence_inv s \<Longrightarrow> fence_inv t"
proof (induction rule: fence_step.induct)
  case (begin_fence s i s' cb data n)
  then show ?case using fence_inv_begin [of s cb "fence_blob data n" n] by (auto simp: fencenb_take_def)
next
  case (fence_line s line)
  then show ?case using handle_fence_out_cases [of K line s] fence_inv_complete by metis
next
  case (set_contrib s z)
  then show ?case
    by (simp add: fence_inv_def fence_ids_ok_def fence_balanced_def owed_pending_def called_def)
next
  case (other_line s line)
  then show ?case
    by (simp add: fence_inv_def fence_ids_ok_def fence_balanced_def owed_pending_def called_def emit_line_def)
qed (simp_all add: fence_inv_store fence_inv_emit fence_inv_drain)

lemma fence_reachable_inv: "fence_reachable K s \<Longrightarrow> fence_inv s"
  by (induction rule: fence_reachable.induct) (auto intro: fence_inv_init fence_step_inv)

text \<open>A request that runs without interruption is three steps.\<close>

lemma fencenb_reachable:
  assumes "fence_reachable K s"
  shows "fence_reachable K ((fencenb data n cb s)\<lparr>issued := issued s @ [cb]\<rparr>)"
proof -
  let ?b = "fence_blob data n" and ?i = "g_fence_seq s"
  let ?s1 = "s\<lparr>g_fence_seq := ?i + 1, flights := add_mset (Taken ?i cb ?b n) (flights s),
    issued := issued s @ [cb]\<rparr>"
  have "fence_step K s ?s1"
    using begin_fence [of s ?i _ K cb data n] by (simp add: fencenb_take_def)
  with assms have r1: "fence_reachable K ?s1" by (rule fence_reachable.step)
  let ?s2 = "(fencenb_store ?i cb ?b ?s1)\<lparr>flights := add_mset (Stored ?i ?b n) (flights s)\<rparr>"
  have "fence_step K ?s1 ?s2" using store_fence [of ?i cb ?b n ?s1 K] by simp
  with r1 have r2: "fence_reachable K ?s2" by (rule fence_reachable.step)
  let ?s3 = "(fencenb_emit ?i n ?b ?s2)\<lparr>flights := flights s\<rparr>"
  have "fence_step K ?s2 ?s3" using emit_fence [of ?i ?b n ?s2 K] by simp
  with r2 have "fence_reachable K ?s3" by (rule fence_reachable.step)
  moreover have "?s3 = (fencenb data n cb s)\<lparr>issued := issued s @ [cb]\<rparr>"
    by (simp add: fencenb_def fencenb_take_def fencenb_store_def fencenb_emit_def emit_line_def
        Let_def)
  ultimately show ?thesis by simp
qed

text \<open>
  C10. In every interleaving of fence requests on the library's threads with the lines that
  \<open>main\<close> reads (well-formed or not, for known or unknown fences), no completion callback is
  lost and none is called twice: each is held by a request in progress, held by the map of
  pending fences, or has been called, as often as it was handed in.
\<close>

theorem fence_callbacks_conserved:
  assumes "fence_reachable K s" and "length (issued s) < 2 ^ 64"
  shows "(\<Sum>cb\<in>#mset (issued s). owed cb) =
     (\<Sum>f\<in>#flights s. owed_flight f) + owed_pending s + mset (map mc_cb (modex_calls s))"
  using fence_reachable_inv [OF assms(1)] assms(2)
  by (simp add: fence_inv_def fence_balanced_def called_def)

theorem fence_callbacks_conserved_witness:
  "let s = (fencenb (Some ''ab'') 2 (Some (5::nat)) fence_sys_init)\<lparr>issued := [Some 5]\<rparr> in
   (\<Sum>cb\<in>#mset (issued s). owed cb) =
     (\<Sum>f\<in>#flights s. owed_flight f) + owed_pending s + mset (map mc_cb (modex_calls s))"
proof -
  have r: "fence_reachable openpmix_codes
      ((fencenb (Some ''ab'') 2 (Some (5::nat)) fence_sys_init)\<lparr>issued := [Some 5]\<rparr>)"
    using fencenb_reachable [OF fence_reachable.init, where K = openpmix_codes and data = "Some ''ab''" and n = 2 and cb = "Some (5::nat)"]
    by (simp add: fence_sys_init_def)
  show ?thesis unfolding Let_def by (rule fence_callbacks_conserved [OF r]) simp
qed

text \<open>
  At shutdown, when no request is in progress, draining leaves nothing pending and every
  callback that was ever handed in has been called exactly once.
\<close>

theorem fence_shutdown_exactly_once:
  assumes "fence_reachable K s" and "length (issued s) < 2 ^ 64" and "flights s = {#}"
  shows "g_pending_fences (drain_fences K s) = [] \<and>
     mset (map mc_cb (modex_calls (drain_fences K s))) = (\<Sum>cb\<in>#mset (issued s). owed cb)"
  using fence_reachable_inv [OF assms(1)] assms(2,3) drain_fences_balance [of K s]
  by (simp add: fence_inv_def fence_balanced_def called_def drain_fences_def)

theorem fence_shutdown_exactly_once_witness:
  "let s = (fencenb None 0 (Some (5::nat)) fence_sys_init)\<lparr>issued := [Some 5]\<rparr> in
   g_pending_fences (drain_fences openpmix_codes s) = [] \<and>
     mset (map mc_cb (modex_calls (drain_fences openpmix_codes s))) = (\<Sum>cb\<in>#mset (issued s). owed cb)"
proof -
  have r: "fence_reachable openpmix_codes
      ((fencenb None 0 (Some (5::nat)) fence_sys_init)\<lparr>issued := [Some 5]\<rparr>)"
    using fencenb_reachable [OF fence_reachable.init, where K = openpmix_codes and data = None and n = 0 and cb = "Some (5::nat)"]
    by (simp add: fence_sys_init_def)
  show ?thesis unfolding Let_def
    by (rule fence_shutdown_exactly_once [OF r])
       (simp_all add: fencenb_def fencenb_take_def fencenb_store_def fencenb_emit_def emit_line_def
          fence_sys_init_def Let_def)
qed

end
