(* ===== verification/Doubles.thy ===== *)
theory Doubles
  imports Complex_Main Cxx_Std
begin

text \<open>
  The C++ \<open>double\<close>: IEEE 754 binary64 with rounding to nearest, ties to even. A finite value is
  the rational number it stands for (the two zeros are one value: no operation of the sources
  tells them apart), and every arithmetic result is the exact rational result rounded.
\<close>

section \<open>Values\<close>

datatype double = Fin rat | PInf | MInf | NaN

text \<open>Length in bits, powers of two and \<open>floor(log2 r)\<close> for a positive \<open>r\<close>.\<close>

function bitlen :: "int \<Rightarrow> int" where
  "bitlen n = (if n \<le> 0 then 0 else 1 + bitlen (n div 2))"
  by pat_completeness auto
termination
  by (relation "measure nat") auto

declare bitlen.simps [simp del]

function ipow2 :: "int \<Rightarrow> int" where
  "ipow2 e = (if e \<le> 0 then 1 else 2 * ipow2 (e - 1))"
  by pat_completeness auto
termination
  by (relation "measure nat") auto

declare ipow2.simps [simp del]

definition flog2 :: "rat \<Rightarrow> int" where
  "flog2 r = (if 1 \<le> r then bitlen \<lfloor>r\<rfloor> - 1 else - bitlen (\<lceil>1 / r\<rceil> - 1))"

definition pow2 :: "int \<Rightarrow> rat" where
  "pow2 e = (if 0 \<le> e then of_int (ipow2 e) else 1 / of_int (ipow2 (- e)))"

definition round_half_even :: "rat \<Rightarrow> int" where
  "round_half_even x =
     (let f = \<lfloor>x\<rfloor>; d = x - of_int f
      in if d < 1 / 2 then f else if 1 / 2 < d then f + 1 else if even f then f else f + 1)"

text \<open>The spacing of the format around \<open>r\<close>, and rounding to the format.\<close>

definition quantum :: "rat \<Rightarrow> rat" where
  "quantum r = pow2 (max (- 1074) (flog2 \<bar>r\<bar> - 52))"

definition rnd :: "rat \<Rightarrow> double" where
  "rnd r = (if r = 0 then Fin 0
     else let v = of_int (round_half_even (r / quantum r)) * quantum r
       in if v = 0 \<or> flog2 \<bar>v\<bar> < 1024 then Fin v else if 0 < v then PInf else MInf)"

section \<open>Operations\<close>

fun dadd :: "double \<Rightarrow> double \<Rightarrow> double" where
  "dadd (Fin a) (Fin b) = rnd (a + b)"
| "dadd NaN _ = NaN"
| "dadd _ NaN = NaN"
| "dadd PInf MInf = NaN"
| "dadd MInf PInf = NaN"
| "dadd PInf _ = PInf"
| "dadd _ PInf = PInf"
| "dadd MInf _ = MInf"
| "dadd _ MInf = MInf"

fun dmul :: "double \<Rightarrow> double \<Rightarrow> double" where
  "dmul (Fin a) (Fin b) = rnd (a * b)"
| "dmul NaN _ = NaN"
| "dmul _ NaN = NaN"
| "dmul (Fin a) y = (if a = 0 then NaN else if (0 < a) = (y = PInf) then PInf else MInf)"
| "dmul x (Fin b) = (if b = 0 then NaN else if (0 < b) = (x = PInf) then PInf else MInf)"
| "dmul x y = (if x = y then PInf else MInf)"

text \<open>
  Division; the sources divide by a positive finite number only, so the sign of a zero divisor
  does not arise and is taken as positive.
\<close>

fun ddiv :: "double \<Rightarrow> double \<Rightarrow> double" where
  "ddiv (Fin a) (Fin b) =
     (if b = 0 then (if a = 0 then NaN else if 0 < a then PInf else MInf) else rnd (a / b))"
| "ddiv NaN _ = NaN"
| "ddiv _ NaN = NaN"
| "ddiv (Fin _) _ = Fin 0"
| "ddiv x (Fin b) = (if (0 \<le> b) = (x = PInf) then PInf else MInf)"
| "ddiv _ _ = NaN"

fun dless :: "double \<Rightarrow> double \<Rightarrow> bool" where
  "dless (Fin a) (Fin b) \<longleftrightarrow> a < b"
| "dless NaN _ \<longleftrightarrow> False"
| "dless _ NaN \<longleftrightarrow> False"
| "dless x y \<longleftrightarrow> x \<noteq> y \<and> (x = MInf \<or> y = PInf)"

text \<open>\<open>static_cast<double>\<close> of an integer.\<close>

definition of_integer :: "int \<Rightarrow> double" where
  "of_integer z = rnd (of_int z)"

text \<open>
  \<open>std::llround\<close>: nearest integer, halfway cases away from zero; the result is only specified
  when it fits.
\<close>

definition llround :: "double \<Rightarrow> int option" where
  "llround x = (case x of
     Fin r \<Rightarrow> (let z = (if 0 \<le> r then \<lfloor>r + 1 / 2\<rfloor> else \<lceil>r - 1 / 2\<rceil>)
               in if - (2 ^ 63) \<le> z \<and> z < 2 ^ 63 then Some z else None)
   | _ \<Rightarrow> None)"

text \<open>\<open>std::to_string(double)\<close>, that is \<open>printf("%f")\<close>: six decimals of the exact value.\<close>

definition pad6 :: "string \<Rightarrow> string" where
  "pad6 s = replicate (6 - length s) CHR ''0'' @ s"

definition dec_double :: "double \<Rightarrow> string" where
  "dec_double x = (case x of
     Fin r \<Rightarrow> (let n = nat (round_half_even (\<bar>r\<bar> * 1000000))
               in (if r < 0 then ''-'' else []) @ dec_nat (n div 1000000) @ ''.'' @
                  pad6 (dec_nat (n mod 1000000)))
   | PInf \<Rightarrow> ''inf'' | MInf \<Rightarrow> ''-inf'' | NaN \<Rightarrow> ''nan'')"

section \<open>Rounding\<close>

lemma ipow2_pos [simp]: "0 < ipow2 e"
  by (induction e rule: ipow2.induct) (subst ipow2.simps, auto)

lemma pow2_pos [simp]: "0 < pow2 e"
  by (simp add: pow2_def)

lemma quantum_pos [simp]: "0 < quantum r"
  by (simp add: quantum_def)

lemma round_half_even_nonneg: "0 \<le> x \<Longrightarrow> 0 \<le> round_half_even x"
  by (auto simp: round_half_even_def Let_def)

lemma round_half_even_int: "round_half_even (of_int z) = z"
  by (simp add: round_half_even_def Let_def)

text \<open>Rounding keeps the sign: a non-negative number never becomes negative or \<open>NaN\<close>.\<close>

definition dnonneg :: "double \<Rightarrow> bool" where
  "dnonneg x \<longleftrightarrow> (case x of Fin r \<Rightarrow> 0 \<le> r | PInf \<Rightarrow> True | _ \<Rightarrow> False)"

lemma rnd_nonneg: "0 \<le> r \<Longrightarrow> dnonneg (rnd r)"
proof -
  assume r: "0 \<le> r"
  let ?v = "of_int (round_half_even (r / quantum r)) * quantum r"
  have "0 \<le> round_half_even (r / quantum r)"
    by (rule round_half_even_nonneg) (use r in \<open>simp add: less_imp_le\<close>)
  then have "0 \<le> ?v" by (simp add: less_imp_le)
  then show ?thesis by (auto simp: rnd_def dnonneg_def Let_def)
qed

lemma dadd_nonneg: "dnonneg a \<Longrightarrow> dnonneg b \<Longrightarrow> dnonneg (dadd a b)"
  by (cases a; cases b) (auto simp: dnonneg_def rnd_nonneg [unfolded dnonneg_def])

lemma dmul_nonneg: "dnonneg (Fin a) \<Longrightarrow> dnonneg (Fin b) \<Longrightarrow> dnonneg (dmul (Fin a) (Fin b))"
  by (simp add: dnonneg_def rnd_nonneg [unfolded dnonneg_def])

lemma ddiv_nonneg: "dnonneg a \<Longrightarrow> 0 < b \<Longrightarrow> dnonneg (ddiv a (Fin b))"
  by (cases a) (auto simp: dnonneg_def rnd_nonneg [unfolded dnonneg_def])

end
