(* ===== verification/Ei_Lib.thy ===== *)
theory Ei_Lib
  imports Doubles
begin

text \<open>
  The interface to Erlang's \<open>erl_interface\<close> library (\<open>ei.h\<close>), which the sources use to read
  and write terms of the external term format. The library is not part of the repository: its
  decoding functions are the fields of a parameter of type \<open>ei\<close>, and what the sources rely on
  is stated once, in the locale \<open>ei_laws\<close>, relative to a predicate \<open>enc\<close> that says which bytes
  of a buffer hold a term. A buffer is the list of its bytes, an index an \<open>int\<close>.
\<close>

section \<open>Terms\<close>

datatype eterm =
    EInt int
  | EFloat double
  | EAtom string
  | EStr string          \<comment> \<open>\<open>STRING_EXT\<close>: a list of 1 to 65535 bytes\<close>
  | EBin string
  | ENil
  | EList "eterm list"   \<comment> \<open>a proper list that is not empty\<close>
  | ETuple "eterm list"
  | EMap "(eterm \<times> eterm) list"

definition ERL_SMALL_INTEGER_EXT :: int where "ERL_SMALL_INTEGER_EXT = 97"
definition ERL_INTEGER_EXT :: int where "ERL_INTEGER_EXT = 98"
definition ERL_FLOAT_EXT :: int where "ERL_FLOAT_EXT = 99"
definition ERL_ATOM_EXT :: int where "ERL_ATOM_EXT = 100"
definition ERL_SMALL_ATOM_EXT :: int where "ERL_SMALL_ATOM_EXT = 115"
definition ERL_ATOM_UTF8_EXT :: int where "ERL_ATOM_UTF8_EXT = 118"
definition ERL_SMALL_ATOM_UTF8_EXT :: int where "ERL_SMALL_ATOM_UTF8_EXT = 119"
definition ERL_SMALL_TUPLE_EXT :: int where "ERL_SMALL_TUPLE_EXT = 104"
definition ERL_LARGE_TUPLE_EXT :: int where "ERL_LARGE_TUPLE_EXT = 105"
definition ERL_NIL_EXT :: int where "ERL_NIL_EXT = 106"
definition ERL_STRING_EXT :: int where "ERL_STRING_EXT = 107"
definition ERL_LIST_EXT :: int where "ERL_LIST_EXT = 108"
definition ERL_BINARY_EXT :: int where "ERL_BINARY_EXT = 109"
definition ERL_SMALL_BIG_EXT :: int where "ERL_SMALL_BIG_EXT = 110"
definition ERL_LARGE_BIG_EXT :: int where "ERL_LARGE_BIG_EXT = 111"
definition ERL_MAP_EXT :: int where "ERL_MAP_EXT = 116"

lemmas erl_tags =
  ERL_SMALL_INTEGER_EXT_def ERL_INTEGER_EXT_def ERL_FLOAT_EXT_def ERL_ATOM_EXT_def
  ERL_SMALL_ATOM_EXT_def ERL_ATOM_UTF8_EXT_def ERL_SMALL_ATOM_UTF8_EXT_def
  ERL_SMALL_TUPLE_EXT_def ERL_LARGE_TUPLE_EXT_def ERL_NIL_EXT_def ERL_STRING_EXT_def
  ERL_LIST_EXT_def ERL_BINARY_EXT_def ERL_SMALL_BIG_EXT_def ERL_LARGE_BIG_EXT_def ERL_MAP_EXT_def

text \<open>
  The tag and the size that \<open>ei_get_type\<close> reports: the four atom tags are reported as
  \<open>ERL_ATOM_EXT\<close>, both float tags as \<open>ERL_FLOAT_EXT\<close>.
\<close>

fun etype :: "eterm \<Rightarrow> int" where
  "etype (EInt n) = (if 0 \<le> n \<and> n < 256 then ERL_SMALL_INTEGER_EXT
     else if - (2 ^ 31) \<le> n \<and> n < 2 ^ 31 then ERL_INTEGER_EXT else ERL_SMALL_BIG_EXT)"
| "etype (EFloat _) = ERL_FLOAT_EXT"
| "etype (EAtom _) = ERL_ATOM_EXT"
| "etype (EStr _) = ERL_STRING_EXT"
| "etype (EBin _) = ERL_BINARY_EXT"
| "etype ENil = ERL_NIL_EXT"
| "etype (EList _) = ERL_LIST_EXT"
| "etype (ETuple ts) = (if length ts < 256 then ERL_SMALL_TUPLE_EXT else ERL_LARGE_TUPLE_EXT)"
| "etype (EMap _) = ERL_MAP_EXT"

text \<open>The size is used for strings, binaries and atoms only.\<close>

fun esize :: "eterm \<Rightarrow> int option" where
  "esize (EAtom s) = Some (int (length s))"
| "esize (EStr s) = Some (int (length s))"
| "esize (EBin s) = Some (int (length s))"
| "esize _ = None"

text \<open>A term as \<open>term_to_binary\<close> and \<open>ei_x_encode_version\<close> write it: a version byte, then its bytes.\<close>

definition external :: "(eterm \<Rightarrow> string) \<Rightarrow> eterm \<Rightarrow> string" where
  "external bytes t = char_of (131 :: nat) # bytes t"

section \<open>The library's functions\<close>

text \<open>
  A decoding function gives the new index and the value, or \<open>None\<close> for a non-zero return (the
  index is then as before). \<open>ei_skip_term\<close> gives its return value and the index, which it may
  have moved even when it fails. A dynamic buffer (\<open>ei_x_buff\<close>) is its contents;
  \<open>ei_x_append_buf x p n\<close> appends \<open>n\<close> bytes from the pointer \<open>p\<close>, given as the bytes from there on.
  \<open>ei_print_term\<close> prints a term and moves the index past it, like a function that decodes; it gives
  the index here, what it prints is not of interest.
\<close>

record ei =
  ei_get_type :: "string \<Rightarrow> int \<Rightarrow> (int \<times> int) option"
  ei_skip_term :: "string \<Rightarrow> int \<Rightarrow> int \<times> int"
  ei_decode_version :: "string \<Rightarrow> int \<Rightarrow> (int \<times> int) option"
  ei_decode_tuple_header :: "string \<Rightarrow> int \<Rightarrow> (int \<times> int) option"
  ei_decode_list_header :: "string \<Rightarrow> int \<Rightarrow> (int \<times> int) option"
  ei_decode_map_header :: "string \<Rightarrow> int \<Rightarrow> (int \<times> int) option"
  ei_decode_atom :: "string \<Rightarrow> int \<Rightarrow> (int \<times> string) option"
  ei_decode_string :: "string \<Rightarrow> int \<Rightarrow> (int \<times> string) option"
  ei_decode_iodata :: "string \<Rightarrow> int \<Rightarrow> (int \<times> string) option"
  ei_decode_binary :: "string \<Rightarrow> int \<Rightarrow> (int \<times> string) option"
  ei_decode_long :: "string \<Rightarrow> int \<Rightarrow> (int \<times> int) option"
  ei_decode_ulong :: "string \<Rightarrow> int \<Rightarrow> (int \<times> u64) option"
  ei_decode_double :: "string \<Rightarrow> int \<Rightarrow> (int \<times> double) option"
  ei_x_new :: "string option"
  ei_x_append_buf :: "string \<Rightarrow> string \<Rightarrow> int \<Rightarrow> string option"
  ei_print_term :: "string \<Rightarrow> int \<Rightarrow> int"

text \<open>Consecutive terms.\<close>

fun encs :: "(string \<Rightarrow> int \<Rightarrow> eterm \<Rightarrow> int \<Rightarrow> bool) \<Rightarrow> string \<Rightarrow> int \<Rightarrow> eterm list \<Rightarrow> int \<Rightarrow> bool" where
  "encs enc b i [] j \<longleftrightarrow> i = j"
| "encs enc b i (t # ts) j \<longleftrightarrow> (\<exists>k. enc b i t k \<and> encs enc b k ts j)"

lemma encs_append:
  "encs enc b i (ts @ us) j \<longleftrightarrow> (\<exists>k. encs enc b i ts k \<and> encs enc b k us j)"
  by (induction ts arbitrary: i) (simp, fastforce)

fun flatten_pairs :: "('a \<times> 'a) list \<Rightarrow> 'a list" where
  "flatten_pairs [] = []"
| "flatten_pairs ((x, y) # ps) = x # y # flatten_pairs ps"

text \<open>
  What the sources rely on, as the documentation of \<open>ei\<close> and of the external term format
  states it. \<open>enc b i t j\<close>: the bytes of \<open>b\<close> from \<open>i\<close> to \<open>j\<close> are the encoding of \<open>t\<close>; these bytes
  are \<open>bytes t\<close>.
\<close>

locale ei_laws =
  fixes E :: ei
    and enc :: "string \<Rightarrow> int \<Rightarrow> eterm \<Rightarrow> int \<Rightarrow> bool"
    and bytes :: "eterm \<Rightarrow> string"
  assumes get_type: "enc b i t j \<Longrightarrow> \<exists>sz. ei_get_type E b i = Some (etype t, sz) \<and>
        (\<forall>n. esize t = Some n \<longrightarrow> sz = n)"
    and skip: "enc b i t j \<Longrightarrow> ei_skip_term E b i = (0, j)"
    and tuple: "enc b i (ETuple ts) j \<Longrightarrow>
        \<exists>k. ei_decode_tuple_header E b i = Some (k, int (length ts)) \<and> encs enc b k ts j"
    and list: "enc b i (EList ts) j \<Longrightarrow> ts \<noteq> [] \<and>
        (\<exists>k m. ei_decode_list_header E b i = Some (k, int (length ts)) \<and> encs enc b k ts m \<and> enc b m ENil j)"
    and nil: "enc b i ENil j \<Longrightarrow> ei_decode_list_header E b i = Some (j, 0)"
    and map: "enc b i (EMap ps) j \<Longrightarrow>
        \<exists>k. ei_decode_map_header E b i = Some (k, int (length ps)) \<and> encs enc b k (flatten_pairs ps) j"
    and atom: "enc b i (EAtom s) j \<Longrightarrow> ei_decode_atom E b i = Some (j, s)"
    and string: "enc b i (EStr s) j \<Longrightarrow> ei_decode_string E b i = Some (j, s)"
    and iodata: "enc b i (EBin s) j \<Longrightarrow> ei_decode_iodata E b i = Some (j, s)"
    and binary: "enc b i (EBin s) j \<Longrightarrow> ei_decode_binary E b i = Some (j, s)"
    and long: "enc b i (EInt n) j \<Longrightarrow> - (2 ^ 63) \<le> n \<Longrightarrow> n < 2 ^ 63 \<Longrightarrow> ei_decode_long E b i = Some (j, n)"
    and ulong: "enc b i (EInt n) j \<Longrightarrow> 0 \<le> n \<Longrightarrow> n < 2 ^ 64 \<Longrightarrow>
        ei_decode_ulong E b i = Some (j, word_of_int n)"
    and real: "enc b i (EFloat d) j \<Longrightarrow> ei_decode_double E b i = Some (j, d)"
    and slice: "enc b i t j \<Longrightarrow> 0 \<le> i \<and> i \<le> j \<and> j \<le> int (length b) \<and>
        take (nat (j - i)) (drop (nat i) b) = bytes t"
    and version: "0 \<le> i \<Longrightarrow> i < int (length b) \<Longrightarrow> b ! nat i = char_of (131::nat) \<Longrightarrow>
        ei_decode_version E b i = Some (i + 1, 131)"
    and x_new: "ei_x_new E = Some []"
    and x_append: "0 \<le> n \<Longrightarrow> n \<le> int (length p) \<Longrightarrow>
        ei_x_append_buf E x p n = Some (x @ take (nat n) p)"
    and print_index: "enc b i t j \<Longrightarrow> ei_print_term E b i = j"
begin

lemma type_of: "enc b i t j \<Longrightarrow> \<exists>sz. ei_get_type E b i = Some (etype t, sz)"
  using get_type by blast

end

end
