(* ===== verification/Entity_Utils.thy ===== *)
theory Entity_Utils
  imports Ei_Lib Ordered_Map
begin

text \<open>
  \<open>lib/wm_entity_utils.cpp\<close>: the readers that turn one term of a buffer into a C++ value. A
  reader gets the buffer, the index and the value its reference parameter has before the call;
  it gives whether it returned 0, the index and the value afterwards. A reader that fails has
  still moved the index past what it consumed, and may have assigned a part of its result.
  Arities that the library reports are not negative, and allocations succeed.

  The second half shows what each reader makes of a well-formed term, under the laws of
  \<open>ei_laws\<close>, as facts \<open>reads enc rd d t v\<close>: starting from \<open>d\<close>, the reader consumes exactly the
  term \<open>t\<close> and yields \<open>v\<close>.
\<close>

section \<open>Type and size of a term\<close>

type_synonym 'a reader = "string \<Rightarrow> int \<Rightarrow> 'a \<Rightarrow> bool \<times> int \<times> 'a"

definition get_term_type :: "ei \<Rightarrow> string \<Rightarrow> int \<Rightarrow> int" where
  "get_term_type E b i = (case ei_get_type E b i of None \<Rightarrow> - 1 | Some (ty, sz) \<Rightarrow> ty)"

definition get_term_buf_size :: "ei \<Rightarrow> string \<Rightarrow> int \<Rightarrow> int" where
  "get_term_buf_size E b i = (case ei_skip_term E b i of (r, j) \<Rightarrow> if r \<noteq> 0 then - 1 else j - i)"

definition get_term_size :: "ei \<Rightarrow> string \<Rightarrow> int \<Rightarrow> int" where
  "get_term_size E b i = (case ei_get_type E b i of None \<Rightarrow> - 1 | Some (ty, sz) \<Rightarrow> sz)"

section \<open>Readers of single values\<close>

definition ei_buffer_to_atom :: "ei \<Rightarrow> string reader" where
  "ei_buffer_to_atom E b i a =
     (if get_term_type E b i \<noteq> ERL_ATOM_EXT then (False, i, a)
      else case ei_decode_atom E b i of
        None \<Rightarrow> (False, i, a)
      | Some (j, tmp) \<Rightarrow> (True, j, c_str tmp))"

definition ei_buffer_to_str :: "ei \<Rightarrow> string reader" where
  "ei_buffer_to_str E b i s = (case ei_get_type E b i of
      None \<Rightarrow> (False, i, s)
    | Some (ty, sz) \<Rightarrow>
       if ty \<noteq> ERL_BINARY_EXT \<and> ty \<noteq> ERL_STRING_EXT then (True, snd (ei_skip_term E b i), s)
       else if ty = ERL_BINARY_EXT then
         (case ei_decode_iodata E b i of
            None \<Rightarrow> (False, i, s) | Some (j, tmp) \<Rightarrow> (True, j, c_str tmp))
       else (case ei_decode_string E b i of
            None \<Rightarrow> (False, i, s) | Some (j, tmp) \<Rightarrow> (True, j, c_str tmp)))"

definition is_int_type :: "int \<Rightarrow> bool" where
  "is_int_type ty \<longleftrightarrow>
     \<not> (ty \<noteq> ERL_INTEGER_EXT \<and> ty \<noteq> ERL_SMALL_INTEGER_EXT \<and> ty \<noteq> ERL_SMALL_BIG_EXT)"

definition ei_buffer_to_uint64_t :: "ei \<Rightarrow> u64 reader" where
  "ei_buffer_to_uint64_t E b i n =
     (if \<not> is_int_type (get_term_type E b i) then (False, i, n)
      else case ei_decode_ulong E b i of None \<Rightarrow> (False, i, n) | Some (j, v) \<Rightarrow> (True, j, v))"

definition ei_buffer_to_int64_t :: "ei \<Rightarrow> int reader" where
  "ei_buffer_to_int64_t E b i n =
     (if \<not> is_int_type (get_term_type E b i) then (False, i, n)
      else case ei_decode_long E b i of None \<Rightarrow> (False, i, n) | Some (j, v) \<Rightarrow> (True, j, v))"

definition ei_buffer_to_double :: "ei \<Rightarrow> double reader" where
  "ei_buffer_to_double E b i n =
     (if get_term_type E b i \<noteq> ERL_FLOAT_EXT then (False, i, n)
      else case ei_decode_double E b i of None \<Rightarrow> (False, i, n) | Some (j, v) \<Rightarrow> (True, j, v))"

section \<open>Readers of pairs\<close>

definition is_tuple_type :: "int \<Rightarrow> bool" where
  "is_tuple_type ty \<longleftrightarrow> \<not> (ty \<noteq> ERL_SMALL_TUPLE_EXT \<and> ty \<noteq> ERL_LARGE_TUPLE_EXT)"

text \<open>Two readers one after the other on the halves of a pair.\<close>

definition read_pair :: "'a reader \<Rightarrow> 'b reader \<Rightarrow> ('a \<times> 'b) reader" where
  "read_pair r1 r2 b i p = (case r1 b i (fst p) of (ok1, j, x) \<Rightarrow>
     if \<not> ok1 then (False, j, x, snd p)
     else case r2 b j (snd p) of (ok2, k, y) \<Rightarrow> (ok2, k, x, y))"

text \<open>
  The arity is only checked by \<open>ei_buffer_to_tuple_atom_str\<close>. A tuple whose header cannot be decoded
  is printed, which moves the index.
\<close>

definition ei_buffer_to_tuple_str_str :: "ei \<Rightarrow> (string \<times> string) reader" where
  "ei_buffer_to_tuple_str_str E b i p =
     (if \<not> is_tuple_type (get_term_type E b i) then (False, i, p)
      else case ei_decode_tuple_header E b i of
        None \<Rightarrow> (False, ei_print_term E b i, p)
      | Some (j, tuple_size) \<Rightarrow> read_pair (ei_buffer_to_str E) (ei_buffer_to_str E) b j p)"

definition ei_buffer_to_tuple_atom_str :: "ei \<Rightarrow> (string \<times> string) reader" where
  "ei_buffer_to_tuple_atom_str E b i p =
     (if \<not> is_tuple_type (get_term_type E b i) then (False, i, p)
      else case ei_decode_tuple_header E b i of
        None \<Rightarrow> (False, ei_print_term E b i, p)
      | Some (j, tuple_size) \<Rightarrow>
          if tuple_size \<noteq> 2 then (False, j, p)
          else read_pair (ei_buffer_to_atom E) (ei_buffer_to_str E) b j p)"

text \<open>The bytes of one term, copied into a buffer of their own.\<close>

definition read_term_bytes :: "ei \<Rightarrow> string reader" where
  "read_term_bytes E b j x = (case ei_x_new E of
     None \<Rightarrow> (False, j, x)
   | Some x0 \<Rightarrow> (case ei_x_append_buf E x0 (drop (nat j) b) (get_term_buf_size E b j) of
        None \<Rightarrow> (False, j, x0)
      | Some x1 \<Rightarrow> (True, snd (ei_skip_term E b j), x1)))"

definition ei_buffer_to_tuple_atom_buff :: "ei \<Rightarrow> (string \<times> string) reader" where
  "ei_buffer_to_tuple_atom_buff E b i p =
     (if \<not> is_tuple_type (get_term_type E b i) then (False, i, p)
      else case ei_decode_tuple_header E b i of
        None \<Rightarrow> (False, ei_print_term E b i, p)
      | Some (j, tuple_size) \<Rightarrow> read_pair (ei_buffer_to_atom E) (read_term_bytes E) b j p)"

definition ei_buffer_to_tuple_atom_uint64 :: "ei \<Rightarrow> (string \<times> u64) reader" where
  "ei_buffer_to_tuple_atom_uint64 E b i p =
     (if \<not> is_tuple_type (get_term_type E b i) then (False, i, p)
      else case ei_decode_tuple_header E b i of
        None \<Rightarrow> (False, ei_print_term E b i, p)
      | Some (j, tuple_size) \<Rightarrow> read_pair (ei_buffer_to_atom E) (ei_buffer_to_uint64_t E) b j p)"

section \<open>Readers of vectors\<close>

text \<open>\<open>array.resize(n)\<close> keeps the elements there are and adds value-initialised ones.\<close>

definition resize :: "'a \<Rightarrow> nat \<Rightarrow> 'a list \<Rightarrow> 'a list" where
  "resize d n xs = take n xs @ replicate (n - length xs) d"

fun read_elems :: "'a reader \<Rightarrow> string \<Rightarrow> int \<Rightarrow> 'a list \<Rightarrow> bool \<times> int \<times> 'a list" where
  "read_elems r b i [] = (True, i, [])"
| "read_elems r b i (x # xs) = (case r b i x of (ok, j, y) \<Rightarrow>
     if \<not> ok then (False, j, y # xs)
     else case read_elems r b j xs of (ok', k, ys) \<Rightarrow> (ok', k, y # ys))"

definition is_list_type :: "int \<Rightarrow> bool" where
  "is_list_type ty \<longleftrightarrow> \<not> (ty \<noteq> ERL_LIST_EXT \<and> ty \<noteq> ERL_NIL_EXT)"

text \<open>
  The shape all vector readers share: check the type, read the header, stop on an empty list,
  resize, read every element in place, skip the tail.
\<close>

definition read_vec_body :: "ei \<Rightarrow> 'a \<Rightarrow> 'a reader \<Rightarrow> 'a list reader" where
  "read_vec_body E d r b i xs = (case ei_decode_list_header E b i of
      None \<Rightarrow> (False, i, xs)
    | Some (j, n) \<Rightarrow>
        if n = 0 then (True, j, xs)
        else case read_elems r b j (resize d (nat n) xs) of (ok, k, ys) \<Rightarrow>
          if \<not> ok then (False, k, ys) else (True, snd (ei_skip_term E b k), ys))"

definition read_vec :: "ei \<Rightarrow> 'a \<Rightarrow> 'a reader \<Rightarrow> 'a list reader" where
  "read_vec E d r b i xs =
     (if \<not> is_list_type (get_term_type E b i) then (False, i, xs) else read_vec_body E d r b i xs)"

definition ei_buffer_to_tuple_str_str_vec :: "ei \<Rightarrow> (string \<times> string) list reader" where
  "ei_buffer_to_tuple_str_str_vec E = read_vec E ([], []) (ei_buffer_to_tuple_str_str E)"

definition ei_buffer_to_tuple_atom_str_vec :: "ei \<Rightarrow> (string \<times> string) list reader" where
  "ei_buffer_to_tuple_atom_str_vec E = read_vec E ([], []) (ei_buffer_to_tuple_atom_str E)"

definition ei_buffer_to_tuple_atom_buff_vec :: "ei \<Rightarrow> (string \<times> string) list reader" where
  "ei_buffer_to_tuple_atom_buff_vec E = read_vec E ([], []) (ei_buffer_to_tuple_atom_buff E)"

definition ei_buffer_to_atom_vec :: "ei \<Rightarrow> string list reader" where
  "ei_buffer_to_atom_vec E = read_vec E [] (ei_buffer_to_atom E)"

definition ei_buffer_to_str_vec :: "ei \<Rightarrow> string list reader" where
  "ei_buffer_to_str_vec E = read_vec E [] (ei_buffer_to_str E)"

definition ei_buffer_to_int64_t_vec :: "ei \<Rightarrow> int list reader" where
  "ei_buffer_to_int64_t_vec E = read_vec E 0 (ei_buffer_to_int64_t E)"

definition ei_buffer_to_double_vec :: "ei \<Rightarrow> double list reader" where
  "ei_buffer_to_double_vec E = read_vec E (Fin 0) (ei_buffer_to_double E)"

text \<open>
  A list of small integers arrives as \<open>STRING_EXT\<close>. The bytes are read into a \<open>char\<close> array and
  converted from \<open>char\<close>, which is signed, to \<open>uint64_t\<close>. The array has been resized when the
  decoding fails.
\<close>

definition char_to_u64 :: "char \<Rightarrow> u64" where
  "char_to_u64 c = (if uchar c < 128 then of_nat (uchar c) else of_int (int (uchar c) - 256))"

definition ei_buffer_to_uint64_t_vec :: "ei \<Rightarrow> u64 list reader" where
  "ei_buffer_to_uint64_t_vec E b i xs = (case ei_get_type E b i of
      None \<Rightarrow> (False, i, xs)
    | Some (ty, sz) \<Rightarrow>
        if ty = ERL_STRING_EXT then
          (case ei_decode_string E b i of
             None \<Rightarrow> (False, i, resize 0 (nat sz) xs)
           | Some (j, tmp) \<Rightarrow> (True, j, map char_to_u64 (take (nat sz) tmp)))
        else if \<not> is_list_type ty then (False, i, xs)
        else read_vec_body E 0 (ei_buffer_to_uint64_t E) b i xs)"

section \<open>The reader of maps\<close>

text \<open>
  One value of a map: its text, by the type of the term. A value of an unsupported type is not
  skipped.
\<close>

definition read_map_value :: "ei \<Rightarrow> string reader" where
  "read_map_value E b i x2 = (let ty = get_term_type E b i in
     if ty = ERL_ATOM_EXT then ei_buffer_to_atom E b i x2
     else if ty = ERL_FLOAT_EXT then
       (case ei_buffer_to_double E b i (Fin 0) of (ok, j, v) \<Rightarrow>
          if \<not> ok then (False, j, x2) else (True, j, dec_double v))
     else if ty = ERL_SMALL_INTEGER_EXT \<or> ty = ERL_INTEGER_EXT \<or> ty = ERL_SMALL_BIG_EXT \<or>
             ty = ERL_LARGE_BIG_EXT then
       (case ei_buffer_to_int64_t E b i 0 of (ok, j, v) \<Rightarrow>
          if \<not> ok then (False, j, x2) else (True, j, dec_int v))
     else if ty = ERL_LIST_EXT \<or> ty = ERL_STRING_EXT then ei_buffer_to_str E b i x2
     else if ty = ERL_NIL_EXT then (True, snd (ei_skip_term E b i), x2)
     else (True, i, x2))"

fun read_map_entries ::
  "ei \<Rightarrow> string \<Rightarrow> nat \<Rightarrow> int \<Rightarrow> (string, string) omap \<Rightarrow> bool \<times> int \<times> (string, string) omap" where
  "read_map_entries E b 0 i data = (True, i, data)"
| "read_map_entries E b (Suc n) i data = (case ei_buffer_to_str E b i [] of (ok1, j, x1) \<Rightarrow>
     if \<not> ok1 then (False, j, data)
     else case read_map_value E b j [] of (ok2, k, x2) \<Rightarrow>
       if \<not> ok2 then (False, k, data)
       else read_map_entries E b n k (om_emplace x1 x2 data))"

definition ei_buffer_to_map :: "ei \<Rightarrow> (string, string) omap reader" where
  "ei_buffer_to_map E b i data = (case ei_decode_map_header E b i of
      None \<Rightarrow> (False, i, data)
    | Some (j, n) \<Rightarrow> read_map_entries E b (nat n) j data)"

definition ei_buffer_to_map_vec :: "ei \<Rightarrow> (string, string) omap list reader" where
  "ei_buffer_to_map_vec E = read_vec E [] (ei_buffer_to_map E)"

section \<open>What the terms mean\<close>

text \<open>
  The value a term stands for, per kind of field. A string field takes binaries and
  \<open>STRING_EXT\<close> up to the first NUL, and any other term for the empty string.
\<close>

definition val_str :: "string \<Rightarrow> eterm \<Rightarrow> bool" where
  "val_str s t \<longleftrightarrow> s = (case t of EBin x \<Rightarrow> c_str x | EStr x \<Rightarrow> c_str x | _ \<Rightarrow> [])"

definition val_atom :: "string \<Rightarrow> eterm \<Rightarrow> bool" where
  "val_atom s t \<longleftrightarrow> (\<exists>x. t = EAtom x \<and> s = c_str x)"

definition val_u64 :: "u64 \<Rightarrow> eterm \<Rightarrow> bool" where
  "val_u64 w t \<longleftrightarrow> t = EInt (uint w)"

definition val_i64 :: "int \<Rightarrow> eterm \<Rightarrow> bool" where
  "val_i64 n t \<longleftrightarrow> t = EInt n \<and> - (2 ^ 63) \<le> n \<and> n < 2 ^ 63"

definition val_double :: "double \<Rightarrow> eterm \<Rightarrow> bool" where
  "val_double x t \<longleftrightarrow> t = EFloat x"

definition val_pair :: "('a \<Rightarrow> eterm \<Rightarrow> bool) \<Rightarrow> ('b \<Rightarrow> eterm \<Rightarrow> bool) \<Rightarrow> 'a \<times> 'b \<Rightarrow> eterm \<Rightarrow> bool" where
  "val_pair R1 R2 p t \<longleftrightarrow> (\<exists>t1 t2. t = ETuple [t1, t2] \<and> R1 (fst p) t1 \<and> R2 (snd p) t2)"

definition val_list :: "('a \<Rightarrow> eterm \<Rightarrow> bool) \<Rightarrow> 'a list \<Rightarrow> eterm \<Rightarrow> bool" where
  "val_list R vs t \<longleftrightarrow> t = ENil \<and> vs = [] \<or> (\<exists>ts. t = EList ts \<and> list_all2 R vs ts)"

definition val_bytes :: "(eterm \<Rightarrow> string) \<Rightarrow> string \<Rightarrow> eterm \<Rightarrow> bool" where
  "val_bytes bytes x t \<longleftrightarrow> x = bytes t"

text \<open>A list of bytes below 128 reads as these numbers; the larger ones do not.\<close>

definition val_u64_list :: "u64 list \<Rightarrow> eterm \<Rightarrow> bool" where
  "val_u64_list vs t \<longleftrightarrow> val_list val_u64 vs t \<or>
     (\<exists>s. t = EStr s \<and> (\<forall>c \<in> set s. uchar c < 128) \<and> vs = map (\<lambda>c. of_nat (uchar c)) s)"

fun val_map_value :: "string \<Rightarrow> eterm \<Rightarrow> bool" where
  "val_map_value s (EAtom x) \<longleftrightarrow> s = c_str x"
| "val_map_value s (EFloat x) \<longleftrightarrow> s = dec_double x"
| "val_map_value s (EInt n) \<longleftrightarrow> s = dec_int n \<and> - (2 ^ 63) \<le> n \<and> n < 2 ^ 63"
| "val_map_value s (EStr x) \<longleftrightarrow> s = c_str x"
| "val_map_value s (EList ts) \<longleftrightarrow> s = []"
| "val_map_value s ENil \<longleftrightarrow> s = []"
| "val_map_value s _ \<longleftrightarrow> False"

definition val_map :: "(string, string) omap \<Rightarrow> eterm \<Rightarrow> bool" where
  "val_map m t \<longleftrightarrow> (\<exists>ps kvs. t = EMap ps \<and>
     list_all2 (\<lambda>kv p. val_str (fst kv) (fst p) \<and> val_map_value (snd kv) (snd p)) kvs ps \<and>
     m = fold (\<lambda>kv. om_emplace (fst kv) (snd kv)) kvs [])"

definition reads ::
  "(string \<Rightarrow> int \<Rightarrow> eterm \<Rightarrow> int \<Rightarrow> bool) \<Rightarrow> 'a reader \<Rightarrow> 'a \<Rightarrow> eterm \<Rightarrow> 'a \<Rightarrow> bool" where
  "reads enc rd d t v \<longleftrightarrow> (\<forall>b i j. enc b i t j \<longrightarrow> rd b i d = (True, j, v))"

lemma readsI: "(\<And>b i j. enc b i t j \<Longrightarrow> rd b i d = (True, j, v)) \<Longrightarrow> reads enc rd d t v"
  by (simp add: reads_def)

lemma readsD: "reads enc rd d t v \<Longrightarrow> enc b i t j \<Longrightarrow> rd b i d = (True, j, v)"
  by (simp add: reads_def)

lemma char_to_u64_ascii: "uchar c < 128 \<Longrightarrow> char_to_u64 c = of_nat (uchar c)"
  by (simp add: char_to_u64_def)

lemma resize_Nil [simp]: "resize d n [] = replicate n d"
  by (simp add: resize_def)

named_theorems reads_intros "what each reader makes of a term of its kind"

context ei_laws begin

lemma term_type: "enc b i t j \<Longrightarrow> get_term_type E b i = etype t"
  using type_of [of b i t j] by (auto simp: get_term_type_def)

lemma tuple_type: "enc b i (ETuple ts) j \<Longrightarrow> is_tuple_type (get_term_type E b i)"
  by (simp add: term_type is_tuple_type_def)

lemma int_type: "enc b i (EInt n) j \<Longrightarrow> is_int_type (get_term_type E b i)"
  by (simp add: term_type is_int_type_def)

lemma reads_atom [reads_intros]: "val_atom v t \<Longrightarrow> reads enc (ei_buffer_to_atom E) d t v"
  by (auto simp: val_atom_def reads_def ei_buffer_to_atom_def term_type dest: atom)

lemma reads_str [reads_intros]: "val_str v t \<Longrightarrow> reads enc (ei_buffer_to_str E) [] t v"
proof (rule readsI)
  fix b i j
  assume v: "val_str v t" and e: "enc b i t j"
  obtain sz where ty: "ei_get_type E b i = Some (etype t, sz)" using type_of [OF e] by blast
  show "ei_buffer_to_str E b i [] = (True, j, v)"
    using v e ty
    by (cases t) (simp_all add: ei_buffer_to_str_def val_str_def erl_tags skip iodata string)
qed

lemma reads_u64 [reads_intros]: "val_u64 v t \<Longrightarrow> reads enc (ei_buffer_to_uint64_t E) d t v"
proof (rule readsI)
  fix b i j
  assume v: "val_u64 v t" and e: "enc b i t j"
  have "uint v < 2 ^ 64" using uint_lt2p [of v] by simp
  then have "ei_decode_ulong E b i = Some (j, v)"
    using ulong [of b i "uint v" j] e v by (simp add: val_u64_def)
  moreover have "is_int_type (get_term_type E b i)"
    using int_type [of b i "uint v" j] e v by (simp add: val_u64_def)
  ultimately show "ei_buffer_to_uint64_t E b i d = (True, j, v)"
    by (simp add: ei_buffer_to_uint64_t_def)
qed

lemma reads_i64 [reads_intros]: "val_i64 v t \<Longrightarrow> reads enc (ei_buffer_to_int64_t E) d t v"
  by (auto simp: val_i64_def reads_def ei_buffer_to_int64_t_def int_type dest: long)

lemma reads_double [reads_intros]: "val_double v t \<Longrightarrow> reads enc (ei_buffer_to_double E) d t v"
  by (auto simp: val_double_def reads_def ei_buffer_to_double_def term_type dest: real)

lemma reads_bytes [reads_intros]: "val_bytes bytes v t \<Longrightarrow> reads enc (read_term_bytes E) d t v"
proof (rule readsI)
  fix b i j
  assume v: "val_bytes bytes v t" and e: "enc b i t j"
  note s = slice [OF e]
  have "ei_x_append_buf E [] (drop (nat i) b) (j - i) = Some ([] @ bytes t)"
    using x_append [of "j - i" "drop (nat i) b" "[]"] s by auto
  then show "read_term_bytes E b i d = (True, j, v)"
    using v by (simp add: read_term_bytes_def x_new get_term_buf_size_def skip [OF e] val_bytes_def)
qed

lemma read_pair_ok:
  assumes "enc b i (ETuple [t1, t2]) j" "reads enc r1 d1 t1 v1" "reads enc r2 d2 t2 v2"
  shows "is_tuple_type (get_term_type E b i) \<and> (\<exists>k. ei_decode_tuple_header E b i = Some (k, 2) \<and>
    read_pair r1 r2 b k (d1, d2) = (True, j, v1, v2))"
proof -
  obtain k m where "ei_decode_tuple_header E b i = Some (k, 2)" "enc b k t1 m" "enc b m t2 j"
    using tuple [OF assms(1)] by auto
  moreover from this have "read_pair r1 r2 b k (d1, d2) = (True, j, v1, v2)"
    using readsD [OF assms(2)] readsD [OF assms(3)] by (simp add: read_pair_def)
  ultimately show ?thesis using tuple_type [OF assms(1)] by blast
qed

lemma reads_pair_str_str [reads_intros]:
  "val_pair val_str val_str p t \<Longrightarrow> reads enc (ei_buffer_to_tuple_str_str E) ([], []) t p"
  by (rule readsI)
    (auto simp: val_pair_def ei_buffer_to_tuple_str_str_def
      dest!: read_pair_ok [OF _ reads_str reads_str])

lemma reads_pair_atom_str [reads_intros]:
  "val_pair val_atom val_str p t \<Longrightarrow> reads enc (ei_buffer_to_tuple_atom_str E) ([], []) t p"
  by (rule readsI)
    (auto simp: val_pair_def ei_buffer_to_tuple_atom_str_def
      dest!: read_pair_ok [OF _ reads_atom [of _ _ "[]"] reads_str])

lemma reads_pair_atom_buff [reads_intros]:
  "val_pair val_atom (val_bytes bytes) p t \<Longrightarrow>
    reads enc (ei_buffer_to_tuple_atom_buff E) ([], []) t p"
  by (rule readsI)
    (auto simp: val_pair_def ei_buffer_to_tuple_atom_buff_def
      dest!: read_pair_ok [OF _ reads_atom [of _ _ "[]"] reads_bytes [of _ _ "[]"]])

lemma reads_pair_atom_uint64 [reads_intros]:
  "val_pair val_atom val_u64 p t \<Longrightarrow> reads enc (ei_buffer_to_tuple_atom_uint64 E) ([], d) t p"
  by (rule readsI)
    (auto simp: val_pair_def ei_buffer_to_tuple_atom_uint64_def
      dest!: read_pair_ok [OF _ reads_atom [of _ _ "[]"] reads_u64 [of _ _ d]])

lemma read_elems_ok:
  assumes "encs enc b i ts j" "list_all2 (\<lambda>v t. reads enc rd d t v) vs ts"
  shows "read_elems rd b i (replicate (length ts) d) = (True, j, vs)"
  using assms(2,1)
proof (induction vs ts arbitrary: i rule: list_all2_induct)
  case Nil
  then show ?case by simp
next
  case (Cons v vs t ts)
  then obtain k where "enc b i t k" "encs enc b k ts j" by auto
  then show ?case using Cons.IH [of k] readsD [OF Cons.hyps(1)] by simp
qed

lemma read_vec_body_ok:
  assumes e: "enc b i t j" and v: "val_list R v t"
    and rd: "\<And>v t. R v t \<Longrightarrow> reads enc rd d t v"
  shows "read_vec_body E d rd b i [] = (True, j, v) \<and> is_list_type (etype t)"
proof (cases "t = ENil")
  case True
  then show ?thesis using e v nil
    by (auto simp: val_list_def read_vec_body_def is_list_type_def)
next
  case False
  then obtain ts where t: "t = EList ts" and vs: "list_all2 R v ts"
    using v by (auto simp: val_list_def)
  obtain k m where k: "ei_decode_list_header E b i = Some (k, int (length ts))"
    "encs enc b k ts m" "enc b m ENil j" "ts \<noteq> []"
    using list e t by blast
  have "list_all2 (\<lambda>v t. reads enc rd d t v) v ts"
    using vs by (rule list_all2_mono) (rule rd)
  then have "read_elems rd b k (replicate (length ts) d) = (True, m, v)"
    by (rule read_elems_ok [OF k(2)])
  then show ?thesis
    using k by (simp add: t read_vec_body_def is_list_type_def skip)
qed

lemma read_vec_ok:
  assumes "val_list R v t" "\<And>v t. R v t \<Longrightarrow> reads enc rd d t v"
  shows "reads enc (read_vec E d rd) [] t v"
proof (rule readsI)
  fix b i j
  assume e: "enc b i t j"
  show "read_vec E d rd b i [] = (True, j, v)"
    using read_vec_body_ok [OF e assms] by (simp add: read_vec_def term_type [OF e])
qed

lemma reads_str_vec [reads_intros]:
  "val_list val_str v t \<Longrightarrow> reads enc (ei_buffer_to_str_vec E) [] t v"
  unfolding ei_buffer_to_str_vec_def by (rule read_vec_ok, assumption) (rule reads_str)

lemma reads_atom_vec [reads_intros]:
  "val_list val_atom v t \<Longrightarrow> reads enc (ei_buffer_to_atom_vec E) [] t v"
  unfolding ei_buffer_to_atom_vec_def by (rule read_vec_ok, assumption) (rule reads_atom)

lemma reads_int64_vec [reads_intros]:
  "val_list val_i64 v t \<Longrightarrow> reads enc (ei_buffer_to_int64_t_vec E) [] t v"
  unfolding ei_buffer_to_int64_t_vec_def by (rule read_vec_ok, assumption) (rule reads_i64)

lemma reads_double_vec [reads_intros]:
  "val_list val_double v t \<Longrightarrow> reads enc (ei_buffer_to_double_vec E) [] t v"
  unfolding ei_buffer_to_double_vec_def by (rule read_vec_ok, assumption) (rule reads_double)

lemma reads_str_str_vec [reads_intros]:
  "val_list (val_pair val_str val_str) v t \<Longrightarrow> reads enc (ei_buffer_to_tuple_str_str_vec E) [] t v"
  unfolding ei_buffer_to_tuple_str_str_vec_def by (rule read_vec_ok, assumption) (rule reads_pair_str_str)

lemma reads_atom_str_vec [reads_intros]:
  "val_list (val_pair val_atom val_str) v t \<Longrightarrow> reads enc (ei_buffer_to_tuple_atom_str_vec E) [] t v"
  unfolding ei_buffer_to_tuple_atom_str_vec_def by (rule read_vec_ok, assumption) (rule reads_pair_atom_str)

lemma reads_atom_buff_vec [reads_intros]:
  "val_list (val_pair val_atom (val_bytes bytes)) v t \<Longrightarrow>
    reads enc (ei_buffer_to_tuple_atom_buff_vec E) [] t v"
  unfolding ei_buffer_to_tuple_atom_buff_vec_def by (rule read_vec_ok, assumption) (rule reads_pair_atom_buff)

lemma reads_u64_vec [reads_intros]:
  assumes "val_u64_list v t" shows "reads enc (ei_buffer_to_uint64_t_vec E) [] t v"
proof (rule readsI)
  fix b i j
  assume e: "enc b i t j"
  show "ei_buffer_to_uint64_t_vec E b i [] = (True, j, v)"
  proof (cases "\<exists>s. t = EStr s")
    case True
    then obtain s where t: "t = EStr s" by blast
    with assms have s: "\<forall>c \<in> set s. uchar c < 128" "v = map (\<lambda>c. of_nat (uchar c)) s"
      by (auto simp: val_u64_list_def val_list_def)
    obtain sz where "ei_get_type E b i = Some (ERL_STRING_EXT, sz)" "sz = int (length s)"
      using get_type [OF e] t by auto
    then show ?thesis using e s t
      by (simp add: ei_buffer_to_uint64_t_vec_def string char_to_u64_ascii)
  next
    case False
    with assms have v: "val_list val_u64 v t" by (auto simp: val_u64_list_def)
    obtain sz where ty: "ei_get_type E b i = Some (etype t, sz)" using type_of [OF e] by blast
    have "etype t \<noteq> ERL_STRING_EXT" using False by (cases t) (auto simp: erl_tags)
    then show ?thesis
      using read_vec_body_ok [OF e v reads_u64] ty by (simp add: ei_buffer_to_uint64_t_vec_def)
  qed
qed

lemma read_map_value_ok:
  assumes e: "enc b i t j" and v: "val_map_value v t"
  shows "read_map_value E b i [] = (True, j, v)"
proof (cases t)
  case (EInt n)
  then have "ei_buffer_to_int64_t E b i 0 = (True, j, n)"
    using v by (intro readsD [OF reads_i64 e]) (simp add: val_i64_def)
  then show ?thesis using EInt v e
    by (auto simp: read_map_value_def Let_def term_type erl_tags)
next
  case (EFloat x)
  then have "ei_buffer_to_double E b i (Fin 0) = (True, j, x)"
    by (intro readsD [OF reads_double e]) (simp add: val_double_def)
  then show ?thesis using EFloat v e
    by (auto simp: read_map_value_def Let_def term_type erl_tags)
next
  case (EAtom x)
  then have "ei_buffer_to_atom E b i [] = (True, j, c_str x)"
    by (intro readsD [OF reads_atom e]) (simp add: val_atom_def)
  then show ?thesis using EAtom v e
    by (auto simp: read_map_value_def Let_def term_type erl_tags)
next
  case (EStr x)
  then have "ei_buffer_to_str E b i [] = (True, j, c_str x)"
    by (intro readsD [OF reads_str e]) (simp add: val_str_def)
  then show ?thesis using EStr v e
    by (auto simp: read_map_value_def Let_def term_type erl_tags)
next
  case (EList ts)
  then have "ei_buffer_to_str E b i [] = (True, j, [])"
    by (intro readsD [OF reads_str e]) (simp add: val_str_def)
  then show ?thesis using EList v e
    by (auto simp: read_map_value_def Let_def term_type erl_tags)
next
  case ENil
  then show ?thesis using v e
    by (auto simp: read_map_value_def Let_def term_type erl_tags skip)
qed (use v in simp_all)

lemma read_map_entries_ok:
  assumes "list_all2 (\<lambda>kv p. val_str (fst kv) (fst p) \<and> val_map_value (snd kv) (snd p)) kvs ps"
    and "encs enc b i (flatten_pairs ps) j"
  shows "read_map_entries E b (length ps) i m =
    (True, j, fold (\<lambda>kv. om_emplace (fst kv) (snd kv)) kvs m)"
  using assms
proof (induction kvs ps arbitrary: i m rule: list_all2_induct)
  case Nil
  then show ?case by simp
next
  case (Cons kv kvs p ps)
  obtain k n where e: "enc b i (fst p) k" "enc b k (snd p) n" "encs enc b n (flatten_pairs ps) j"
    using Cons.prems by (cases p) auto
  have "ei_buffer_to_str E b i [] = (True, k, fst kv)"
    using Cons.hyps by (intro readsD [OF reads_str e(1)]) simp
  moreover have "read_map_value E b k [] = (True, n, snd kv)"
    using Cons.hyps by (intro read_map_value_ok [OF e(2)]) simp
  ultimately show ?case using Cons.IH [OF e(3)] by simp
qed

lemma reads_map [reads_intros]: "val_map v t \<Longrightarrow> reads enc (ei_buffer_to_map E) [] t v"
  by (rule readsI)
    (auto simp: val_map_def ei_buffer_to_map_def dest!: map read_map_entries_ok)

lemma reads_map_vec [reads_intros]:
  "val_list val_map v t \<Longrightarrow> reads enc (ei_buffer_to_map_vec E) [] t v"
  unfolding ei_buffer_to_map_vec_def by (rule read_vec_ok, assumption) (rule reads_map)

end

end
