(* ===== verification/Entity.thy ===== *)
theory Entity
  imports Entity_Utils
begin

text \<open>
  What the entity classes of \<open>lib/\<close> share. Every class is a record of the fields of its members;
  a member of scalar type that no constructor initialises is an \<open>option\<close>, \<open>None\<close> as long as it
  is indeterminate. The constructor from a buffer reads the tuple header, skips the name of the
  record and then reads its members one by one; it returns early, and leaves the rest of the
  object as it is, when a reader fails. A constructor has no result, so the failure is not
  reported. The field lists of the classes are in the theories that follow.

  The objects nest (a resource holds resources), so that a constructor has a bound on the
  nesting as its first argument where it needs one, and gives \<open>None\<close> when the bound is too small.
\<close>

section \<open>Fields\<close>

text \<open>A step of a constructor reads one member of the object of type \<open>'s\<close>.\<close>

type_synonym 's field = "string \<Rightarrow> int \<Rightarrow> 's \<Rightarrow> (bool \<times> int \<times> 's) option"

text \<open>
  The step for a member with a default constructor, for one of scalar type, and for one whose
  reader needs the bound.
\<close>

definition fld :: "'a reader \<Rightarrow> ('s \<Rightarrow> 'a) \<Rightarrow> (('a \<Rightarrow> 'a) \<Rightarrow> 's \<Rightarrow> 's) \<Rightarrow> 's field" where
  "fld rd get put b i s = (case rd b i (get s) of (ok, j, v) \<Rightarrow> Some (ok, j, put (\<lambda>_. v) s))"

definition scl :: "('a::zero) reader \<Rightarrow> (('a option \<Rightarrow> 'a option) \<Rightarrow> 's \<Rightarrow> 's) \<Rightarrow> 's field" where
  "scl rd put b i s = (case rd b i 0 of (ok, j, v) \<Rightarrow>
     Some (ok, j, if ok then put (\<lambda>_. Some v) s else s))"

type_synonym 'a breader = "string \<Rightarrow> int \<Rightarrow> 'a \<Rightarrow> (bool \<times> int \<times> 'a) option"

definition nst :: "'a breader \<Rightarrow> ('s \<Rightarrow> 'a) \<Rightarrow> (('a \<Rightarrow> 'a) \<Rightarrow> 's \<Rightarrow> 's) \<Rightarrow> 's field" where
  "nst rd get put b i s = (case rd b i (get s) of
     None \<Rightarrow> None
   | Some (ok, j, v) \<Rightarrow> Some (ok, j, put (\<lambda>_. v) s))"

instantiation double :: zero
begin
definition zero_double :: double where "0 = Fin 0"
instance ..
end

section \<open>Constructors\<close>

text \<open>
  The members in order; the first reader that fails ends the constructor, after \<open>ei_print_term\<close> on what
  it could not read, which moves the index past it. So it is for the header and the name.
\<close>

fun run_fields :: "ei \<Rightarrow> 's field list \<Rightarrow> 's field" where
  "run_fields E [] b i s = Some (True, i, s)"
| "run_fields E (f # fs) b i s = (case f b i s of
     None \<Rightarrow> None
   | Some (ok, j, s') \<Rightarrow> if ok then run_fields E fs b j s' else Some (False, ei_print_term E b j, s'))"

definition entity_ctor :: "ei \<Rightarrow> 's field list \<Rightarrow> 's \<Rightarrow> string \<Rightarrow> int \<Rightarrow> (int \<times> 's) option" where
  "entity_ctor E fs init b i = (case ei_decode_tuple_header E b i of
      None \<Rightarrow> Some (ei_print_term E b i, init)
    | Some (j, term_size) \<Rightarrow> (case ei_skip_term E b j of (r, k) \<Rightarrow>
        if r < 0 then Some (ei_print_term E b k, init)
        else (case run_fields E fs b k init of
            None \<Rightarrow> None
          | Some (ok, m, s) \<Rightarrow> Some (m, s))))"

section \<open>Arrays and objects\<close>

text \<open>
  The loop of \<open>ei_buffer_to_<entity>(buf, index, std::vector<...> &)\<close>: an element that is not a
  tuple is reported and not skipped.
\<close>

fun entity_elems :: "ei \<Rightarrow> (string \<Rightarrow> int \<Rightarrow> (int \<times> 'a) option) \<Rightarrow> string \<Rightarrow> nat \<Rightarrow> int \<Rightarrow> 'a list \<Rightarrow>
    (bool \<times> int \<times> 'a list) option" where
  "entity_elems E ctor b 0 i xs = Some (True, i, xs)"
| "entity_elems E ctor b (Suc n) i xs = (case ei_get_type E b i of
      None \<Rightarrow> Some (False, i, xs)
    | Some (ty, sz) \<Rightarrow>
        if ty = ERL_SMALL_TUPLE_EXT \<or> ty = ERL_LARGE_TUPLE_EXT then
          (case ctor b i of
             None \<Rightarrow> None
           | Some (j, x) \<Rightarrow> entity_elems E ctor b n j (xs @ [x]))
        else entity_elems E ctor b n i xs)"

definition entity_array :: "ei \<Rightarrow> (string \<Rightarrow> int \<Rightarrow> (int \<times> 'a) option) \<Rightarrow> 'a list breader" where
  "entity_array E ctor b i xs = (case ei_get_type E b i of
      None \<Rightarrow> Some (False, i, xs)
    | Some (ty, sz) \<Rightarrow>
        if ty \<noteq> ERL_LIST_EXT \<and> ty \<noteq> ERL_NIL_EXT then Some (False, i, xs)
        else (case ei_decode_list_header E b i of
            None \<Rightarrow> Some (False, i, xs)
          | Some (j, n) \<Rightarrow>
              if n = 0 then Some (True, j, xs)
              else (case entity_elems E ctor b (nat n) j xs of
                  None \<Rightarrow> None
                | Some (ok, k, ys) \<Rightarrow>
                    if ok then Some (True, snd (ei_skip_term E b k), ys) else Some (False, k, ys))))"

text \<open>\<open>ei_buffer_to_<entity>(buf, index, obj)\<close> assigns the constructed object and returns 0.\<close>

definition entity_object :: "(string \<Rightarrow> int \<Rightarrow> (int \<times> 'a) option) \<Rightarrow> 'a breader" where
  "entity_object ctor b i x = (case ctor b i of
     None \<Rightarrow> None | Some (j, y) \<Rightarrow> Some (True, j, y))"

section \<open>Reading well-formed records\<close>

definition breads ::
  "(string \<Rightarrow> int \<Rightarrow> eterm \<Rightarrow> int \<Rightarrow> bool) \<Rightarrow> 'a breader \<Rightarrow> 'a \<Rightarrow> eterm \<Rightarrow> 'a \<Rightarrow> bool" where
  "breads enc rd d t v \<longleftrightarrow> (\<forall>b i j. enc b i t j \<longrightarrow> rd b i d = Some (True, j, v))"

definition constructs ::
  "(string \<Rightarrow> int \<Rightarrow> eterm \<Rightarrow> int \<Rightarrow> bool) \<Rightarrow> (string \<Rightarrow> int \<Rightarrow> (int \<times> 'a) option) \<Rightarrow> eterm \<Rightarrow> 'a \<Rightarrow> bool"
  where "constructs enc ctor t v \<longleftrightarrow> (\<forall>b i j. enc b i t j \<longrightarrow> ctor b i = Some (j, v))"

text \<open>A scalar member that has been read.\<close>

definition val_scl :: "('a \<Rightarrow> eterm \<Rightarrow> bool) \<Rightarrow> 'a option \<Rightarrow> eterm \<Rightarrow> bool" where
  "val_scl R v t \<longleftrightarrow> (\<exists>x. v = Some x \<and> R x t)"

text \<open>
  A record as the Erlang side sends it: a tuple of the record's name, which the constructors do
  not look at, and its fields, of which \<open>Rs\<close> says what they stand for.
\<close>

definition val_record :: "(eterm \<Rightarrow> bool) list \<Rightarrow> eterm \<Rightarrow> bool" where
  "val_record Rs t \<longleftrightarrow> (\<exists>tag ts. t = ETuple (EAtom tag # ts) \<and> list_all2 (\<lambda>R t. R t) Rs ts)"

lemma val_list_member:
  "val_list R vs t \<Longrightarrow> val_list (\<lambda>v t. v \<in> set vs \<and> R v t) vs t"
  by (auto simp: val_list_def list_all2_conv_all_nth)

lemma val_record_tuple: "val_record Rs t \<Longrightarrow> \<exists>us. t = ETuple us"
  by (auto simp: val_record_def)

text \<open>\<open>fields_read E enc fs ts s s'\<close>: the steps \<open>fs\<close> on the terms \<open>ts\<close> turn \<open>s\<close> into \<open>s'\<close>.\<close>

definition fields_read ::
  "ei \<Rightarrow> (string \<Rightarrow> int \<Rightarrow> eterm \<Rightarrow> int \<Rightarrow> bool) \<Rightarrow> 's field list \<Rightarrow> eterm list \<Rightarrow> 's \<Rightarrow> 's \<Rightarrow> bool" where
  "fields_read E enc fs ts s s' \<longleftrightarrow>
     (\<forall>b i j. encs enc b i ts j \<longrightarrow> run_fields E fs b i s = Some (True, j, s'))"

lemma fields_read_Nil: "s = s' \<Longrightarrow> fields_read E enc [] [] s s'"
  by (simp add: fields_read_def)

lemma fields_read_fld:
  assumes "reads enc rd d t v" "get s = d" "fields_read E enc fs ts (put (\<lambda>_. v) s) s'"
  shows "fields_read E enc (fld rd get put # fs) (t # ts) s s'"
  using assms by (auto simp: fields_read_def fld_def reads_def)

lemma fields_read_scl:
  assumes "reads enc rd 0 t v" "fields_read E enc fs ts (put (\<lambda>_. Some v) s) s'"
  shows "fields_read E enc (scl rd put # fs) (t # ts) s s'"
  using assms by (auto simp: fields_read_def scl_def reads_def)

lemma fields_read_nst:
  assumes "breads enc rd d t v" "get s = d" "fields_read E enc fs ts (put (\<lambda>_. v) s) s'"
  shows "fields_read E enc (nst rd get put # fs) (t # ts) s s'"
  using assms by (auto simp: fields_read_def nst_def breads_def)

text \<open>The same for terms that are only known to stand for the members, field by field.\<close>

definition fields_ok ::
  "ei \<Rightarrow> (string \<Rightarrow> int \<Rightarrow> eterm \<Rightarrow> int \<Rightarrow> bool) \<Rightarrow> (eterm \<Rightarrow> bool) list \<Rightarrow> 's field list \<Rightarrow> 's \<Rightarrow> 's \<Rightarrow> bool" where
  "fields_ok E enc Rs fs s s' \<longleftrightarrow> (\<forall>ts. list_all2 (\<lambda>R t. R t) Rs ts \<longrightarrow> fields_read E enc fs ts s s')"

lemma fields_ok_Nil: "s = s' \<Longrightarrow> fields_ok E enc [] [] s s'"
  by (simp add: fields_ok_def fields_read_Nil)

lemma fields_ok_fld:
  assumes "\<And>t. R t \<Longrightarrow> reads enc rd d t v" "get s = d" "fields_ok E enc Rs fs (put (\<lambda>_. v) s) s'"
  shows "fields_ok E enc (R # Rs) (fld rd get put # fs) s s'"
  using assms
  by (auto simp: fields_ok_def list_all2_Cons1 intro!: fields_read_fld)

lemma fields_ok_scl:
  assumes "\<And>t x. R x t \<Longrightarrow> reads enc rd 0 t x" "fields_ok E enc Rs fs (put (\<lambda>_. v) s) s'"
  shows "fields_ok E enc (val_scl R v # Rs) (scl rd put # fs) s s'"
  using assms(2)
  by (auto simp: fields_ok_def list_all2_Cons1 val_scl_def intro!: fields_read_scl [OF assms(1)])

lemma fields_ok_nst:
  assumes "\<And>t. R t \<Longrightarrow> breads enc rd d t v" "get s = d" "fields_ok E enc Rs fs (put (\<lambda>_. v) s) s'"
  shows "fields_ok E enc (R # Rs) (nst rd get put # fs) s s'"
  using assms
  by (auto simp: fields_ok_def list_all2_Cons1 intro!: fields_read_nst)

lemmas fields_intros = fields_ok_fld fields_ok_scl fields_ok_nst fields_ok_Nil

context ei_laws begin

lemma entity_ctor_reads:
  assumes "fields_read E enc fs ts init s"
  shows "constructs enc (entity_ctor E fs init) (ETuple (EAtom tag # ts)) s"
  unfolding constructs_def
proof (intro allI impI)
  fix b i j
  assume "enc b i (ETuple (EAtom tag # ts)) j"
  then obtain k m n where "ei_decode_tuple_header E b i = Some (k, n)"
    "enc b k (EAtom tag) m" "encs enc b m ts j"
    using tuple by force
  then show "entity_ctor E fs init b i = Some (j, s)"
    using assms by (simp add: entity_ctor_def fields_read_def skip)
qed

lemma entity_record_reads:
  assumes "fields_ok E enc Rs fs init s" "val_record Rs t"
  shows "constructs enc (entity_ctor E fs init) t s"
  using assms by (auto simp: fields_ok_def val_record_def intro!: entity_ctor_reads)

lemma entity_elems_ok:
  assumes "encs enc b i ts j"
    and "list_all2 (\<lambda>v t. constructs enc ctor t v \<and> (\<exists>us. t = ETuple us)) vs ts"
  shows "entity_elems E ctor b (length ts) i xs = Some (True, j, xs @ vs)"
  using assms(2,1)
proof (induction vs ts arbitrary: i xs rule: list_all2_induct)
  case Nil
  then show ?case by simp
next
  case (Cons v vs t ts)
  then obtain k where k: "enc b i t k" "encs enc b k ts j" by auto
  obtain us where "t = ETuple us" using Cons.hyps by blast
  then obtain sz where "ei_get_type E b i = Some (etype t, sz)"
    "etype t = ERL_SMALL_TUPLE_EXT \<or> etype t = ERL_LARGE_TUPLE_EXT"
    using type_of [OF k(1)] by auto
  then show ?case using Cons.IH [OF k(2)] Cons.hyps(1) k(1) by (auto simp: constructs_def)
qed

lemma entity_array_reads:
  assumes v: "val_list R vs t"
    and c: "\<And>v t. R v t \<Longrightarrow> constructs enc ctor t v \<and> (\<exists>us. t = ETuple us)"
  shows "breads enc (entity_array E ctor) [] t vs"
  unfolding breads_def
proof (intro allI impI)
  fix b i j
  assume e: "enc b i t j"
  obtain sz where ty: "ei_get_type E b i = Some (etype t, sz)" using type_of [OF e] by blast
  show "entity_array E ctor b i [] = Some (True, j, vs)"
  proof (cases "t = ENil")
    case True
    then show ?thesis using e ty v nil by (auto simp: entity_array_def val_list_def)
  next
    case False
    then obtain ts where t: "t = EList ts" and vs: "list_all2 R vs ts"
      using v by (auto simp: val_list_def)
    obtain k m where k: "ei_decode_list_header E b i = Some (k, int (length ts))"
      "encs enc b k ts m" "enc b m ENil j" "ts \<noteq> []"
      using list e t by blast
    have "list_all2 (\<lambda>v t. constructs enc ctor t v \<and> (\<exists>us. t = ETuple us)) vs ts"
      using vs by (rule list_all2_mono) (rule c)
    then have "entity_elems E ctor b (length ts) k [] = Some (True, m, vs)"
      using entity_elems_ok [OF k(2), where xs = "[]"] by simp
    then show ?thesis using k ty by (simp add: t entity_array_def skip)
  qed
qed

lemma entity_object_reads:
  "constructs enc ctor t v \<Longrightarrow> breads enc (entity_object ctor) d t v"
  by (simp add: breads_def constructs_def entity_object_def)

end

end
