(* ===== verification/Resource.thy ===== *)
theory Resource
  imports Entity
begin

text \<open>
  \<open>lib/wm_resource.cpp\<close>: the class \<open>SwmResource\<close>, whose objects hold a vector of resources of
  their own. The constructor and the array reader call each other; the bound on their nesting
  is the first argument of the constructor, and \<open>resource_ctor_reads\<close> shows that the depth of
  the resource that is sent is enough.
\<close>

section \<open>Class\<close>

datatype SwmResource = SwmResource
  (resource_name: string)
  (resource_count: "u64 option")
  (resource_hooks: "string list")
  (resource_properties: "(string \<times> string) list")
  (resource_prices: "(string, string) omap")
  (resource_usage_time: "u64 option")
  (resource_resources: "SwmResource list")

primrec resource_name_update :: "(string \<Rightarrow> string) \<Rightarrow> SwmResource \<Rightarrow> SwmResource" where
  "resource_name_update f (SwmResource n c h p pr u rs) = SwmResource (f n) c h p pr u rs"

primrec resource_count_update :: "(u64 option \<Rightarrow> u64 option) \<Rightarrow> SwmResource \<Rightarrow> SwmResource" where
  "resource_count_update f (SwmResource n c h p pr u rs) = SwmResource n (f c) h p pr u rs"

primrec resource_hooks_update :: "(string list \<Rightarrow> string list) \<Rightarrow> SwmResource \<Rightarrow> SwmResource" where
  "resource_hooks_update f (SwmResource n c h p pr u rs) = SwmResource n c (f h) p pr u rs"

primrec resource_properties_update ::
  "((string \<times> string) list \<Rightarrow> (string \<times> string) list) \<Rightarrow> SwmResource \<Rightarrow> SwmResource" where
  "resource_properties_update f (SwmResource n c h p pr u rs) = SwmResource n c h (f p) pr u rs"

primrec resource_prices_update ::
  "((string, string) omap \<Rightarrow> (string, string) omap) \<Rightarrow> SwmResource \<Rightarrow> SwmResource" where
  "resource_prices_update f (SwmResource n c h p pr u rs) = SwmResource n c h p (f pr) u rs"

primrec resource_usage_time_update :: "(u64 option \<Rightarrow> u64 option) \<Rightarrow> SwmResource \<Rightarrow> SwmResource" where
  "resource_usage_time_update f (SwmResource n c h p pr u rs) = SwmResource n c h p pr (f u) rs"

primrec resource_resources_update ::
  "(SwmResource list \<Rightarrow> SwmResource list) \<Rightarrow> SwmResource \<Rightarrow> SwmResource" where
  "resource_resources_update f (SwmResource n c h p pr u rs) = SwmResource n c h p pr u (f rs)"

definition SwmResource_init :: SwmResource where
  "SwmResource_init = SwmResource [] None [] [] [] None []"

section \<open>Reading\<close>

definition SwmResource_fields :: "ei \<Rightarrow> SwmResource list breader \<Rightarrow> SwmResource field list" where
  "SwmResource_fields E read_resources = [
     fld (ei_buffer_to_str E) resource_name resource_name_update,
     scl (ei_buffer_to_uint64_t E) resource_count_update,
     fld (ei_buffer_to_str_vec E) resource_hooks resource_hooks_update,
     fld (ei_buffer_to_tuple_atom_buff_vec E) resource_properties resource_properties_update,
     fld (ei_buffer_to_map E) resource_prices resource_prices_update,
     scl (ei_buffer_to_uint64_t E) resource_usage_time_update,
     nst read_resources resource_resources resource_resources_update]"

primrec SwmResource_ctor :: "ei \<Rightarrow> nat \<Rightarrow> string \<Rightarrow> int \<Rightarrow> (int \<times> SwmResource) option" where
  "SwmResource_ctor E 0 = (\<lambda>b i. None)"
| "SwmResource_ctor E (Suc d) =
     entity_ctor E (SwmResource_fields E (entity_array E (SwmResource_ctor E d))) SwmResource_init"

definition ei_buffer_to_resource_vec :: "ei \<Rightarrow> nat \<Rightarrow> SwmResource list breader" where
  "ei_buffer_to_resource_vec E d = entity_array E (SwmResource_ctor E d)"

definition ei_buffer_to_resource :: "ei \<Rightarrow> nat \<Rightarrow> SwmResource breader" where
  "ei_buffer_to_resource E d = entity_object (SwmResource_ctor E d)"

section \<open>Well-formed terms\<close>

primrec resource_depth :: "SwmResource \<Rightarrow> nat" where
  "resource_depth (SwmResource n c h p pr u rs) = Suc (foldr max (map resource_depth rs) 0)"

text \<open>A term that stands for a resource.\<close>

inductive val_resource :: "(eterm \<Rightarrow> string) \<Rightarrow> SwmResource \<Rightarrow> eterm \<Rightarrow> bool" for bytes where
  val_resource_nested:
    "val_str n t1 \<Longrightarrow> val_scl val_u64 c t2 \<Longrightarrow> val_list val_str h t3 \<Longrightarrow>
     val_list (val_pair val_atom (val_bytes bytes)) p t4 \<Longrightarrow> val_map pr t5 \<Longrightarrow>
     val_scl val_u64 u t6 \<Longrightarrow> list_all2 (val_resource bytes) rs us \<Longrightarrow>
     t7 = (if us = [] then ENil else EList us) \<Longrightarrow>
     val_resource bytes (SwmResource n c h p pr u rs)
       (ETuple [EAtom tag, t1, t2, t3, t4, t5, t6, t7])"

inductive_cases val_resource_cases: "val_resource bytes r t"

definition resource_list_depth :: "SwmResource list \<Rightarrow> nat" where
  "resource_list_depth rs = foldr max (map resource_depth rs) 0"

lemma resource_depth_member: "r \<in> set rs \<Longrightarrow> resource_depth r \<le> resource_list_depth rs"
  by (induction rs) (auto simp: resource_list_depth_def)

context ei_laws begin

lemma resource_ctor_reads:
  "val_resource bytes r t \<Longrightarrow> resource_depth r \<le> d \<Longrightarrow> constructs enc (SwmResource_ctor E d) t r"
proof (induction d arbitrary: r t)
  case 0
  then show ?case by (cases r) simp
next
  case (Suc d)
  from Suc.prems(1) obtain n t1 c t2 h t3 p t4 pr t5 u t6 rs us tag where
    r: "r = SwmResource n c h p pr u rs"
    and t: "t = ETuple [EAtom tag, t1, t2, t3, t4, t5, t6, if us = [] then ENil else EList us]"
    and v: "val_str n t1" "val_scl val_u64 c t2" "val_list val_str h t3"
      "val_list (val_pair val_atom (val_bytes bytes)) p t4" "val_map pr t5" "val_scl val_u64 u t6"
    and rs: "list_all2 (val_resource bytes) rs us"
    by (cases rule: val_resource_cases) blast
  have d: "resource_list_depth rs \<le> d"
    using Suc.prems(2) by (simp add: r resource_list_depth_def)
  let ?R = "\<lambda>r t. r \<in> set rs \<and> val_resource bytes r t"
  have "list_all2 ?R rs us"
    using rs by (auto simp: list_all2_conv_all_nth)
  then have "val_list ?R rs (if us = [] then ENil else EList us)"
    by (auto simp: val_list_def)
  moreover have "constructs enc (SwmResource_ctor E d) t' r' \<and> (\<exists>us. t' = ETuple us)"
    if "?R r' t'" for r' t'
    using that Suc.IH [of r' t'] resource_depth_member [of r' rs] d
    by (auto elim: val_resource_cases)
  ultimately have "breads enc (entity_array E (SwmResource_ctor E d)) []
      (if us = [] then ENil else EList us) rs"
    by (rule entity_array_reads)
  then have rd: "(if us = [] then ENil else EList us) = t' \<Longrightarrow>
      breads enc (entity_array E (SwmResource_ctor E d)) [] t' rs" for t'
    by simp
  have "val_record [val_str n, val_scl val_u64 c, val_list val_str h,
      val_list (val_pair val_atom (val_bytes bytes)) p, val_map pr, val_scl val_u64 u,
      (=) (if us = [] then ENil else EList us)] t"
    using v by (simp add: t val_record_def)
  then show ?case
    unfolding r SwmResource_ctor.simps SwmResource_fields_def SwmResource_init_def
    by (rule entity_record_reads [rotated])
      (rule fields_intros | erule reads_intros rd | (simp; fail))+
qed

lemma resource_array_reads:
  assumes "val_list (val_resource bytes) rs t" "resource_list_depth rs \<le> d"
  shows "breads enc (ei_buffer_to_resource_vec E d) [] t rs"
  unfolding ei_buffer_to_resource_vec_def
proof (rule entity_array_reads)
  show "val_list (\<lambda>r t. r \<in> set rs \<and> val_resource bytes r t) rs t"
    using assms(1) by (auto simp: val_list_def list_all2_conv_all_nth)
next
  fix r t'
  assume "r \<in> set rs \<and> val_resource bytes r t'"
  then show "constructs enc (SwmResource_ctor E d) t' r \<and> (\<exists>us. t' = ETuple us)"
    using resource_ctor_reads [of r t' d] resource_depth_member [of r rs] assms(2)
    by (auto elim: val_resource_cases)
qed

end

end
