(* ===== verification/Job.thy ===== *)
theory Job
  imports Resource
begin

text \<open>
  \<open>lib/wm_job.cpp\<close>: the class \<open>SwmJob\<close>, which the porter gets with the request that starts it.
\<close>

section \<open>Classes and constructors\<close>

subsection \<open>\<open>SwmJob\<close>\<close>

record SwmJob =
  job_id :: string
  job_name :: string
  job_cluster_id :: string
  job_nodes :: "string list"
  job_state :: string
  job_state_details :: string
  job_start_time :: string
  job_submit_time :: string
  job_end_time :: string
  job_duration :: "u64 option"
  job_stdin :: string
  job_stdout :: string
  job_stderr :: string
  job_input_files :: "string list"
  job_output_files :: "string list"
  job_workdir :: string
  job_user_id :: string
  job_hooks :: "string list"
  job_env :: "(string \<times> string) list"
  job_deps :: "(string \<times> string) list"
  job_account_id :: string
  job_gang_id :: string
  job_execution_path :: string
  job_script_content :: string
  job_request :: "SwmResource list"
  job_resources :: "SwmResource list"
  job_container :: string
  job_relocatable :: string
  job_keep_resources :: string
  job_checkpoint :: string
  job_checkpoint_dir :: string
  job_checkpoint_interval :: "u64 option"
  job_last_checkpoint_time :: string
  job_exitcode :: "u64 option"
  job_signal :: "u64 option"
  job_priority :: "u64 option"
  job_comment :: string
  job_revision :: "u64 option"

definition SwmJob_init :: SwmJob where
  "SwmJob_init = \<lparr>
     job_id = [], job_name = [], job_cluster_id = [], job_nodes = [], job_state = [],
     job_state_details = [], job_start_time = [], job_submit_time = [], job_end_time = [],
     job_duration = None, job_stdin = [], job_stdout = [], job_stderr = [],
     job_input_files = [], job_output_files = [], job_workdir = [], job_user_id = [],
     job_hooks = [], job_env = [], job_deps = [], job_account_id = [], job_gang_id = [],
     job_execution_path = [], job_script_content = [], job_request = [], job_resources = [],
     job_container = [], job_relocatable = [], job_keep_resources = [], job_checkpoint = [],
     job_checkpoint_dir = [], job_checkpoint_interval = None, job_last_checkpoint_time = [],
     job_exitcode = None, job_signal = None, job_priority = None, job_comment = [],
     job_revision = None\<rparr>"

definition SwmJob_fields_1 :: "ei \<Rightarrow> nat \<Rightarrow> SwmJob field list" where
  "SwmJob_fields_1 E d = [
     fld (ei_buffer_to_str E) job_id job_id_update,
     fld (ei_buffer_to_str E) job_name job_name_update,
     fld (ei_buffer_to_str E) job_cluster_id job_cluster_id_update,
     fld (ei_buffer_to_str_vec E) job_nodes job_nodes_update,
     fld (ei_buffer_to_str E) job_state job_state_update,
     fld (ei_buffer_to_str E) job_state_details job_state_details_update,
     fld (ei_buffer_to_str E) job_start_time job_start_time_update,
     fld (ei_buffer_to_str E) job_submit_time job_submit_time_update,
     fld (ei_buffer_to_str E) job_end_time job_end_time_update,
     scl (ei_buffer_to_uint64_t E) job_duration_update,
     fld (ei_buffer_to_str E) job_stdin job_stdin_update,
     fld (ei_buffer_to_str E) job_stdout job_stdout_update,
     fld (ei_buffer_to_str E) job_stderr job_stderr_update,
     fld (ei_buffer_to_str_vec E) job_input_files job_input_files_update,
     fld (ei_buffer_to_str_vec E) job_output_files job_output_files_update,
     fld (ei_buffer_to_str E) job_workdir job_workdir_update,
     fld (ei_buffer_to_str E) job_user_id job_user_id_update,
     fld (ei_buffer_to_str_vec E) job_hooks job_hooks_update,
     fld (ei_buffer_to_tuple_str_str_vec E) job_env job_env_update,
     fld (ei_buffer_to_tuple_atom_str_vec E) job_deps job_deps_update]"

definition SwmJob_fields_2 :: "ei \<Rightarrow> nat \<Rightarrow> SwmJob field list" where
  "SwmJob_fields_2 E d = [
     fld (ei_buffer_to_str E) job_account_id job_account_id_update,
     fld (ei_buffer_to_str E) job_gang_id job_gang_id_update,
     fld (ei_buffer_to_str E) job_execution_path job_execution_path_update,
     fld (ei_buffer_to_str E) job_script_content job_script_content_update,
     nst (ei_buffer_to_resource_vec E d) job_request job_request_update,
     nst (ei_buffer_to_resource_vec E d) job_resources job_resources_update,
     fld (ei_buffer_to_str E) job_container job_container_update,
     fld (ei_buffer_to_atom E) job_relocatable job_relocatable_update,
     fld (ei_buffer_to_atom E) job_keep_resources job_keep_resources_update,
     fld (ei_buffer_to_str E) job_checkpoint job_checkpoint_update,
     fld (ei_buffer_to_str E) job_checkpoint_dir job_checkpoint_dir_update,
     scl (ei_buffer_to_uint64_t E) job_checkpoint_interval_update,
     fld (ei_buffer_to_str E) job_last_checkpoint_time job_last_checkpoint_time_update,
     scl (ei_buffer_to_uint64_t E) job_exitcode_update,
     scl (ei_buffer_to_uint64_t E) job_signal_update,
     scl (ei_buffer_to_uint64_t E) job_priority_update,
     fld (ei_buffer_to_str E) job_comment job_comment_update,
     scl (ei_buffer_to_uint64_t E) job_revision_update]"

definition SwmJob_ctor :: "ei \<Rightarrow> nat \<Rightarrow> string \<Rightarrow> int \<Rightarrow> (int \<times> SwmJob) option" where
  "SwmJob_ctor E d = entity_ctor E (SwmJob_fields_1 E d @ SwmJob_fields_2 E d) SwmJob_init"

definition ei_buffer_to_job_vec :: "ei \<Rightarrow> nat \<Rightarrow> SwmJob list breader" where
  "ei_buffer_to_job_vec E d = entity_array E (SwmJob_ctor E d)"

definition ei_buffer_to_job :: "ei \<Rightarrow> nat \<Rightarrow> SwmJob breader" where
  "ei_buffer_to_job E d = entity_object (SwmJob_ctor E d)"

definition val_job :: "(eterm \<Rightarrow> string) \<Rightarrow> SwmJob \<Rightarrow> eterm \<Rightarrow> bool" where
  "val_job by s = val_record [
     val_str (job_id s), val_str (job_name s), val_str (job_cluster_id s),
     val_list val_str (job_nodes s), val_str (job_state s), val_str (job_state_details s),
     val_str (job_start_time s), val_str (job_submit_time s), val_str (job_end_time s),
     val_scl val_u64 (job_duration s), val_str (job_stdin s), val_str (job_stdout s),
     val_str (job_stderr s), val_list val_str (job_input_files s),
     val_list val_str (job_output_files s), val_str (job_workdir s), val_str (job_user_id s),
     val_list val_str (job_hooks s), val_list (val_pair val_str val_str) (job_env s),
     val_list (val_pair val_atom val_str) (job_deps s), val_str (job_account_id s),
     val_str (job_gang_id s), val_str (job_execution_path s), val_str (job_script_content s),
     val_list (val_resource by) (job_request s), val_list (val_resource by) (job_resources s),
     val_str (job_container s), val_atom (job_relocatable s), val_atom (job_keep_resources s),
     val_str (job_checkpoint s), val_str (job_checkpoint_dir s),
     val_scl val_u64 (job_checkpoint_interval s), val_str (job_last_checkpoint_time s),
     val_scl val_u64 (job_exitcode s), val_scl val_u64 (job_signal s),
     val_scl val_u64 (job_priority s), val_str (job_comment s), val_scl val_u64 (job_revision s)]"

section \<open>Reading well-formed records\<close>

context ei_laws begin

lemma job_ctor_reads:
  assumes "val_job bytes s t"
    "resource_list_depth (job_request s) \<le> d" "resource_list_depth (job_resources s) \<le> d"
  shows "constructs enc (SwmJob_ctor E d) t s"
  using assms(1)
  unfolding val_job_def SwmJob_ctor_def SwmJob_fields_1_def SwmJob_fields_2_def
    SwmJob_init_def append.simps
  by (rule entity_record_reads [rotated])
    (rule fields_intros | erule reads_intros resource_array_reads | (simp add: assms; fail))+

end

end
