(* ===== verification/Entities_Cluster.thy ===== *)
theory Entities_Cluster
  imports Resource
begin

text \<open>
  The classes that describe the machines: \<open>lib/wm_node.cpp\<close>, \<open>wm_partition.cpp\<close>,
  \<open>wm_cluster.cpp\<close>, \<open>wm_grid.cpp\<close>, \<open>wm_boot_info.cpp\<close> and \<open>wm_relocation.cpp\<close>.
\<close>

section \<open>Classes and constructors\<close>

subsection \<open>\<open>SwmNode\<close>\<close>

record SwmNode =
  node_id :: string
  node_name :: string
  node_host :: string
  node_api_port :: "u64 option"
  node_parent :: string
  node_state_power :: string
  node_state_alloc :: string
  node_roles :: "u64 list"
  node_resources :: "SwmResource list"
  node_properties :: "(string \<times> string) list"
  node_subdivision :: string
  node_subdivision_id :: string
  node_comment :: string
  node_remote_id :: string
  node_is_template :: string
  node_gateway :: string
  node_prices :: "(string, string) omap"
  node_revision :: "u64 option"

definition SwmNode_init :: SwmNode where
  "SwmNode_init = \<lparr>
     node_id = [], node_name = [], node_host = [], node_api_port = None, node_parent = [],
     node_state_power = [], node_state_alloc = [], node_roles = [], node_resources = [],
     node_properties = [], node_subdivision = [], node_subdivision_id = [], node_comment = [],
     node_remote_id = [], node_is_template = [], node_gateway = [], node_prices = [],
     node_revision = None\<rparr>"

definition SwmNode_fields :: "ei \<Rightarrow> nat \<Rightarrow> SwmNode field list" where
  "SwmNode_fields E d = [
     fld (ei_buffer_to_str E) node_id node_id_update,
     fld (ei_buffer_to_str E) node_name node_name_update,
     fld (ei_buffer_to_str E) node_host node_host_update,
     scl (ei_buffer_to_uint64_t E) node_api_port_update,
     fld (ei_buffer_to_str E) node_parent node_parent_update,
     fld (ei_buffer_to_atom E) node_state_power node_state_power_update,
     fld (ei_buffer_to_atom E) node_state_alloc node_state_alloc_update,
     fld (ei_buffer_to_uint64_t_vec E) node_roles node_roles_update,
     nst (ei_buffer_to_resource_vec E d) node_resources node_resources_update,
     fld (ei_buffer_to_tuple_atom_buff_vec E) node_properties node_properties_update,
     fld (ei_buffer_to_atom E) node_subdivision node_subdivision_update,
     fld (ei_buffer_to_str E) node_subdivision_id node_subdivision_id_update,
     fld (ei_buffer_to_str E) node_comment node_comment_update,
     fld (ei_buffer_to_str E) node_remote_id node_remote_id_update,
     fld (ei_buffer_to_atom E) node_is_template node_is_template_update,
     fld (ei_buffer_to_str E) node_gateway node_gateway_update,
     fld (ei_buffer_to_map E) node_prices node_prices_update,
     scl (ei_buffer_to_uint64_t E) node_revision_update]"

definition SwmNode_ctor :: "ei \<Rightarrow> nat \<Rightarrow> string \<Rightarrow> int \<Rightarrow> (int \<times> SwmNode) option" where
  "SwmNode_ctor E d = entity_ctor E (SwmNode_fields E d) SwmNode_init"

definition ei_buffer_to_node_vec :: "ei \<Rightarrow> nat \<Rightarrow> SwmNode list breader" where
  "ei_buffer_to_node_vec E d = entity_array E (SwmNode_ctor E d)"

definition ei_buffer_to_node :: "ei \<Rightarrow> nat \<Rightarrow> SwmNode breader" where
  "ei_buffer_to_node E d = entity_object (SwmNode_ctor E d)"

definition val_node :: "(eterm \<Rightarrow> string) \<Rightarrow> SwmNode \<Rightarrow> eterm \<Rightarrow> bool" where
  "val_node by s = val_record [
     val_str (node_id s), val_str (node_name s), val_str (node_host s),
     val_scl val_u64 (node_api_port s), val_str (node_parent s), val_atom (node_state_power s),
     val_atom (node_state_alloc s), val_u64_list (node_roles s),
     val_list (val_resource by) (node_resources s),
     val_list (val_pair val_atom (val_bytes by)) (node_properties s),
     val_atom (node_subdivision s), val_str (node_subdivision_id s), val_str (node_comment s),
     val_str (node_remote_id s), val_atom (node_is_template s), val_str (node_gateway s),
     val_map (node_prices s), val_scl val_u64 (node_revision s)]"

subsection \<open>\<open>SwmPartition\<close>\<close>

record SwmPartition =
  partition_id :: string
  partition_name :: string
  partition_state :: string
  partition_manager :: string
  partition_nodes :: "string list"
  partition_partitions :: "string list"
  partition_hooks :: "string list"
  partition_scheduler :: "u64 option"
  partition_jobs_per_node :: "u64 option"
  partition_resources :: "SwmResource list"
  partition_properties :: "(string \<times> string) list"
  partition_subdivision :: string
  partition_subdivision_id :: string
  partition_created :: string
  partition_updated :: string
  partition_external_id :: string
  partition_addresses :: "(string, string) omap"
  partition_comment :: string
  partition_revision :: "u64 option"

definition SwmPartition_init :: SwmPartition where
  "SwmPartition_init = \<lparr>
     partition_id = [], partition_name = [], partition_state = [], partition_manager = [],
     partition_nodes = [], partition_partitions = [], partition_hooks = [],
     partition_scheduler = None, partition_jobs_per_node = None, partition_resources = [],
     partition_properties = [], partition_subdivision = [], partition_subdivision_id = [],
     partition_created = [], partition_updated = [], partition_external_id = [],
     partition_addresses = [], partition_comment = [], partition_revision = None\<rparr>"

definition SwmPartition_fields :: "ei \<Rightarrow> nat \<Rightarrow> SwmPartition field list" where
  "SwmPartition_fields E d = [
     fld (ei_buffer_to_str E) partition_id partition_id_update,
     fld (ei_buffer_to_str E) partition_name partition_name_update,
     fld (ei_buffer_to_atom E) partition_state partition_state_update,
     fld (ei_buffer_to_str E) partition_manager partition_manager_update,
     fld (ei_buffer_to_str_vec E) partition_nodes partition_nodes_update,
     fld (ei_buffer_to_str_vec E) partition_partitions partition_partitions_update,
     fld (ei_buffer_to_str_vec E) partition_hooks partition_hooks_update,
     scl (ei_buffer_to_uint64_t E) partition_scheduler_update,
     scl (ei_buffer_to_uint64_t E) partition_jobs_per_node_update,
     nst (ei_buffer_to_resource_vec E d) partition_resources partition_resources_update,
     fld (ei_buffer_to_tuple_atom_buff_vec E) partition_properties partition_properties_update,
     fld (ei_buffer_to_atom E) partition_subdivision partition_subdivision_update,
     fld (ei_buffer_to_str E) partition_subdivision_id partition_subdivision_id_update,
     fld (ei_buffer_to_str E) partition_created partition_created_update,
     fld (ei_buffer_to_str E) partition_updated partition_updated_update,
     fld (ei_buffer_to_str E) partition_external_id partition_external_id_update,
     fld (ei_buffer_to_map E) partition_addresses partition_addresses_update,
     fld (ei_buffer_to_str E) partition_comment partition_comment_update,
     scl (ei_buffer_to_uint64_t E) partition_revision_update]"

definition SwmPartition_ctor :: "ei \<Rightarrow> nat \<Rightarrow> string \<Rightarrow> int \<Rightarrow> (int \<times> SwmPartition) option" where
  "SwmPartition_ctor E d = entity_ctor E (SwmPartition_fields E d) SwmPartition_init"

definition ei_buffer_to_partition_vec :: "ei \<Rightarrow> nat \<Rightarrow> SwmPartition list breader" where
  "ei_buffer_to_partition_vec E d = entity_array E (SwmPartition_ctor E d)"

definition ei_buffer_to_partition :: "ei \<Rightarrow> nat \<Rightarrow> SwmPartition breader" where
  "ei_buffer_to_partition E d = entity_object (SwmPartition_ctor E d)"

definition val_partition :: "(eterm \<Rightarrow> string) \<Rightarrow> SwmPartition \<Rightarrow> eterm \<Rightarrow> bool" where
  "val_partition by s = val_record [
     val_str (partition_id s), val_str (partition_name s), val_atom (partition_state s),
     val_str (partition_manager s), val_list val_str (partition_nodes s),
     val_list val_str (partition_partitions s), val_list val_str (partition_hooks s),
     val_scl val_u64 (partition_scheduler s), val_scl val_u64 (partition_jobs_per_node s),
     val_list (val_resource by) (partition_resources s),
     val_list (val_pair val_atom (val_bytes by)) (partition_properties s),
     val_atom (partition_subdivision s), val_str (partition_subdivision_id s),
     val_str (partition_created s), val_str (partition_updated s),
     val_str (partition_external_id s), val_map (partition_addresses s),
     val_str (partition_comment s), val_scl val_u64 (partition_revision s)]"

subsection \<open>\<open>SwmCluster\<close>\<close>

record SwmCluster =
  cluster_id :: string
  cluster_name :: string
  cluster_state :: string
  cluster_manager :: string
  cluster_partitions :: "string list"
  cluster_hooks :: "string list"
  cluster_scheduler :: "u64 option"
  cluster_resources :: "SwmResource list"
  cluster_properties :: "(string \<times> string) list"
  cluster_comment :: string
  cluster_revision :: "u64 option"

definition SwmCluster_init :: SwmCluster where
  "SwmCluster_init = \<lparr>
     cluster_id = [], cluster_name = [], cluster_state = [], cluster_manager = [],
     cluster_partitions = [], cluster_hooks = [], cluster_scheduler = None,
     cluster_resources = [], cluster_properties = [], cluster_comment = [],
     cluster_revision = None\<rparr>"

definition SwmCluster_fields :: "ei \<Rightarrow> nat \<Rightarrow> SwmCluster field list" where
  "SwmCluster_fields E d = [
     fld (ei_buffer_to_str E) cluster_id cluster_id_update,
     fld (ei_buffer_to_str E) cluster_name cluster_name_update,
     fld (ei_buffer_to_atom E) cluster_state cluster_state_update,
     fld (ei_buffer_to_str E) cluster_manager cluster_manager_update,
     fld (ei_buffer_to_str_vec E) cluster_partitions cluster_partitions_update,
     fld (ei_buffer_to_str_vec E) cluster_hooks cluster_hooks_update,
     scl (ei_buffer_to_uint64_t E) cluster_scheduler_update,
     nst (ei_buffer_to_resource_vec E d) cluster_resources cluster_resources_update,
     fld (ei_buffer_to_tuple_atom_buff_vec E) cluster_properties cluster_properties_update,
     fld (ei_buffer_to_str E) cluster_comment cluster_comment_update,
     scl (ei_buffer_to_uint64_t E) cluster_revision_update]"

definition SwmCluster_ctor :: "ei \<Rightarrow> nat \<Rightarrow> string \<Rightarrow> int \<Rightarrow> (int \<times> SwmCluster) option" where
  "SwmCluster_ctor E d = entity_ctor E (SwmCluster_fields E d) SwmCluster_init"

definition ei_buffer_to_cluster_vec :: "ei \<Rightarrow> nat \<Rightarrow> SwmCluster list breader" where
  "ei_buffer_to_cluster_vec E d = entity_array E (SwmCluster_ctor E d)"

definition ei_buffer_to_cluster :: "ei \<Rightarrow> nat \<Rightarrow> SwmCluster breader" where
  "ei_buffer_to_cluster E d = entity_object (SwmCluster_ctor E d)"

definition val_cluster :: "(eterm \<Rightarrow> string) \<Rightarrow> SwmCluster \<Rightarrow> eterm \<Rightarrow> bool" where
  "val_cluster by s = val_record [
     val_str (cluster_id s), val_str (cluster_name s), val_atom (cluster_state s),
     val_str (cluster_manager s), val_list val_str (cluster_partitions s),
     val_list val_str (cluster_hooks s), val_scl val_u64 (cluster_scheduler s),
     val_list (val_resource by) (cluster_resources s),
     val_list (val_pair val_atom (val_bytes by)) (cluster_properties s),
     val_str (cluster_comment s), val_scl val_u64 (cluster_revision s)]"

subsection \<open>\<open>SwmGrid\<close>\<close>

record SwmGrid =
  grid_id :: string
  grid_name :: string
  grid_state :: string
  grid_manager :: string
  grid_clusters :: "string list"
  grid_hooks :: "string list"
  grid_scheduler :: "u64 option"
  grid_resources :: "SwmResource list"
  grid_properties :: "(string \<times> string) list"
  grid_comment :: string
  grid_revision :: "u64 option"

definition SwmGrid_init :: SwmGrid where
  "SwmGrid_init = \<lparr>
     grid_id = [], grid_name = [], grid_state = [], grid_manager = [], grid_clusters = [],
     grid_hooks = [], grid_scheduler = None, grid_resources = [], grid_properties = [],
     grid_comment = [], grid_revision = None\<rparr>"

definition SwmGrid_fields :: "ei \<Rightarrow> nat \<Rightarrow> SwmGrid field list" where
  "SwmGrid_fields E d = [
     fld (ei_buffer_to_str E) grid_id grid_id_update,
     fld (ei_buffer_to_str E) grid_name grid_name_update,
     fld (ei_buffer_to_atom E) grid_state grid_state_update,
     fld (ei_buffer_to_str E) grid_manager grid_manager_update,
     fld (ei_buffer_to_str_vec E) grid_clusters grid_clusters_update,
     fld (ei_buffer_to_str_vec E) grid_hooks grid_hooks_update,
     scl (ei_buffer_to_uint64_t E) grid_scheduler_update,
     nst (ei_buffer_to_resource_vec E d) grid_resources grid_resources_update,
     fld (ei_buffer_to_tuple_atom_buff_vec E) grid_properties grid_properties_update,
     fld (ei_buffer_to_str E) grid_comment grid_comment_update,
     scl (ei_buffer_to_uint64_t E) grid_revision_update]"

definition SwmGrid_ctor :: "ei \<Rightarrow> nat \<Rightarrow> string \<Rightarrow> int \<Rightarrow> (int \<times> SwmGrid) option" where
  "SwmGrid_ctor E d = entity_ctor E (SwmGrid_fields E d) SwmGrid_init"

definition ei_buffer_to_grid_vec :: "ei \<Rightarrow> nat \<Rightarrow> SwmGrid list breader" where
  "ei_buffer_to_grid_vec E d = entity_array E (SwmGrid_ctor E d)"

definition ei_buffer_to_grid :: "ei \<Rightarrow> nat \<Rightarrow> SwmGrid breader" where
  "ei_buffer_to_grid E d = entity_object (SwmGrid_ctor E d)"

definition val_grid :: "(eterm \<Rightarrow> string) \<Rightarrow> SwmGrid \<Rightarrow> eterm \<Rightarrow> bool" where
  "val_grid by s = val_record [
     val_str (grid_id s), val_str (grid_name s), val_atom (grid_state s),
     val_str (grid_manager s), val_list val_str (grid_clusters s),
     val_list val_str (grid_hooks s), val_scl val_u64 (grid_scheduler s),
     val_list (val_resource by) (grid_resources s),
     val_list (val_pair val_atom (val_bytes by)) (grid_properties s), val_str (grid_comment s),
     val_scl val_u64 (grid_revision s)]"

subsection \<open>\<open>SwmBootInfo\<close>\<close>

record SwmBootInfo =
  boot_info_node_host :: string
  boot_info_node_port :: "u64 option"
  boot_info_parent_host :: string
  boot_info_parent_port :: "u64 option"

definition SwmBootInfo_init :: SwmBootInfo where
  "SwmBootInfo_init = \<lparr>
     boot_info_node_host = [], boot_info_node_port = None, boot_info_parent_host = [],
     boot_info_parent_port = None\<rparr>"

definition SwmBootInfo_fields :: "ei \<Rightarrow> SwmBootInfo field list" where
  "SwmBootInfo_fields E = [
     fld (ei_buffer_to_str E) boot_info_node_host boot_info_node_host_update,
     scl (ei_buffer_to_uint64_t E) boot_info_node_port_update,
     fld (ei_buffer_to_str E) boot_info_parent_host boot_info_parent_host_update,
     scl (ei_buffer_to_uint64_t E) boot_info_parent_port_update]"

definition SwmBootInfo_ctor :: "ei \<Rightarrow> string \<Rightarrow> int \<Rightarrow> (int \<times> SwmBootInfo) option" where
  "SwmBootInfo_ctor E = entity_ctor E (SwmBootInfo_fields E) SwmBootInfo_init"

definition ei_buffer_to_boot_info_vec :: "ei \<Rightarrow> SwmBootInfo list breader" where
  "ei_buffer_to_boot_info_vec E = entity_array E (SwmBootInfo_ctor E)"

definition ei_buffer_to_boot_info :: "ei \<Rightarrow> SwmBootInfo breader" where
  "ei_buffer_to_boot_info E = entity_object (SwmBootInfo_ctor E)"

definition val_boot_info :: "SwmBootInfo \<Rightarrow> eterm \<Rightarrow> bool" where
  "val_boot_info s = val_record [
     val_str (boot_info_node_host s), val_scl val_u64 (boot_info_node_port s),
     val_str (boot_info_parent_host s), val_scl val_u64 (boot_info_parent_port s)]"

subsection \<open>\<open>SwmRelocation\<close>\<close>

record SwmRelocation =
  relocation_id :: "u64 option"
  relocation_job_id :: string
  relocation_template_node_id :: string
  relocation_canceled :: string

definition SwmRelocation_init :: SwmRelocation where
  "SwmRelocation_init = \<lparr>
     relocation_id = None, relocation_job_id = [], relocation_template_node_id = [],
     relocation_canceled = []\<rparr>"

definition SwmRelocation_fields :: "ei \<Rightarrow> SwmRelocation field list" where
  "SwmRelocation_fields E = [
     scl (ei_buffer_to_uint64_t E) relocation_id_update,
     fld (ei_buffer_to_str E) relocation_job_id relocation_job_id_update,
     fld (ei_buffer_to_str E) relocation_template_node_id relocation_template_node_id_update,
     fld (ei_buffer_to_atom E) relocation_canceled relocation_canceled_update]"

definition SwmRelocation_ctor :: "ei \<Rightarrow> string \<Rightarrow> int \<Rightarrow> (int \<times> SwmRelocation) option" where
  "SwmRelocation_ctor E = entity_ctor E (SwmRelocation_fields E) SwmRelocation_init"

definition ei_buffer_to_relocation_vec :: "ei \<Rightarrow> SwmRelocation list breader" where
  "ei_buffer_to_relocation_vec E = entity_array E (SwmRelocation_ctor E)"

definition ei_buffer_to_relocation :: "ei \<Rightarrow> SwmRelocation breader" where
  "ei_buffer_to_relocation E = entity_object (SwmRelocation_ctor E)"

definition val_relocation :: "SwmRelocation \<Rightarrow> eterm \<Rightarrow> bool" where
  "val_relocation s = val_record [
     val_scl val_u64 (relocation_id s), val_str (relocation_job_id s),
     val_str (relocation_template_node_id s), val_atom (relocation_canceled s)]"

section \<open>Reading well-formed records\<close>

context ei_laws begin

lemma node_ctor_reads:
  assumes "val_node bytes s t"
    "resource_list_depth (node_resources s) \<le> d"
  shows "constructs enc (SwmNode_ctor E d) t s"
  using assms(1)
  unfolding val_node_def SwmNode_ctor_def SwmNode_fields_def
    SwmNode_init_def append.simps
  by (rule entity_record_reads [rotated])
    (rule fields_intros | erule reads_intros resource_array_reads | (simp add: assms; fail))+

lemma partition_ctor_reads:
  assumes "val_partition bytes s t"
    "resource_list_depth (partition_resources s) \<le> d"
  shows "constructs enc (SwmPartition_ctor E d) t s"
  using assms(1)
  unfolding val_partition_def SwmPartition_ctor_def SwmPartition_fields_def
    SwmPartition_init_def append.simps
  by (rule entity_record_reads [rotated])
    (rule fields_intros | erule reads_intros resource_array_reads | (simp add: assms; fail))+

lemma cluster_ctor_reads:
  assumes "val_cluster bytes s t"
    "resource_list_depth (cluster_resources s) \<le> d"
  shows "constructs enc (SwmCluster_ctor E d) t s"
  using assms(1)
  unfolding val_cluster_def SwmCluster_ctor_def SwmCluster_fields_def
    SwmCluster_init_def append.simps
  by (rule entity_record_reads [rotated])
    (rule fields_intros | erule reads_intros resource_array_reads | (simp add: assms; fail))+

lemma grid_ctor_reads:
  assumes "val_grid bytes s t"
    "resource_list_depth (grid_resources s) \<le> d"
  shows "constructs enc (SwmGrid_ctor E d) t s"
  using assms(1)
  unfolding val_grid_def SwmGrid_ctor_def SwmGrid_fields_def
    SwmGrid_init_def append.simps
  by (rule entity_record_reads [rotated])
    (rule fields_intros | erule reads_intros resource_array_reads | (simp add: assms; fail))+

lemma boot_info_ctor_reads:
  assumes "val_boot_info s t"
  shows "constructs enc (SwmBootInfo_ctor E) t s"
  using assms(1)
  unfolding val_boot_info_def SwmBootInfo_ctor_def SwmBootInfo_fields_def
    SwmBootInfo_init_def append.simps
  by (rule entity_record_reads [rotated])
    (rule fields_intros | erule reads_intros | (simp; fail))+

lemma boot_info_array_reads:
  "val_list (val_boot_info) vs t \<Longrightarrow> breads enc (ei_buffer_to_boot_info_vec E) [] t vs"
  unfolding ei_buffer_to_boot_info_vec_def
  by (rule entity_array_reads, assumption)
    (auto intro: boot_info_ctor_reads val_record_tuple simp: val_boot_info_def)

lemma boot_info_object_reads:
  "val_boot_info v t \<Longrightarrow> breads enc (ei_buffer_to_boot_info E) x t v"
  unfolding ei_buffer_to_boot_info_def by (rule entity_object_reads) (rule boot_info_ctor_reads)

lemma relocation_ctor_reads:
  assumes "val_relocation s t"
  shows "constructs enc (SwmRelocation_ctor E) t s"
  using assms(1)
  unfolding val_relocation_def SwmRelocation_ctor_def SwmRelocation_fields_def
    SwmRelocation_init_def append.simps
  by (rule entity_record_reads [rotated])
    (rule fields_intros | erule reads_intros | (simp; fail))+

lemma relocation_array_reads:
  "val_list (val_relocation) vs t \<Longrightarrow> breads enc (ei_buffer_to_relocation_vec E) [] t vs"
  unfolding ei_buffer_to_relocation_vec_def
  by (rule entity_array_reads, assumption)
    (auto intro: relocation_ctor_reads val_record_tuple simp: val_relocation_def)

lemma relocation_object_reads:
  "val_relocation v t \<Longrightarrow> breads enc (ei_buffer_to_relocation E) x t v"
  unfolding ei_buffer_to_relocation_def by (rule entity_object_reads) (rule relocation_ctor_reads)

end

end
