(* ===== verification/Entities_Site.thy ===== *)
theory Entities_Site
  imports Resource
begin

text \<open>
  The classes that describe users and services of a site: \<open>lib/wm_user.cpp\<close>, \<open>wm_role.cpp\<close>,
  \<open>wm_account.cpp\<close>, \<open>wm_executable.cpp\<close>, \<open>wm_hook.cpp\<close>, \<open>wm_global.cpp\<close>, \<open>wm_image.cpp\<close>,
  \<open>wm_remote.cpp\<close> and \<open>wm_queue.cpp\<close>. For every class: its members, the fields its constructor
  reads, in the order it reads them, the readers of arrays and of one object, and the relation
  of an object to the term that is sent for it.
\<close>

section \<open>Classes and constructors\<close>

subsection \<open>\<open>SwmUser\<close>\<close>

record SwmUser =
  user_id :: string
  user_name :: string
  user_acl :: string
  user_priority :: "int option"
  user_comment :: string
  user_revision :: "u64 option"

definition SwmUser_init :: SwmUser where
  "SwmUser_init = \<lparr>
     user_id = [], user_name = [], user_acl = [], user_priority = None, user_comment = [],
     user_revision = None\<rparr>"

definition SwmUser_fields :: "ei \<Rightarrow> SwmUser field list" where
  "SwmUser_fields E = [
     fld (ei_buffer_to_str E) user_id user_id_update,
     fld (ei_buffer_to_str E) user_name user_name_update,
     fld (ei_buffer_to_str E) user_acl user_acl_update,
     scl (ei_buffer_to_int64_t E) user_priority_update,
     fld (ei_buffer_to_str E) user_comment user_comment_update,
     scl (ei_buffer_to_uint64_t E) user_revision_update]"

definition SwmUser_ctor :: "ei \<Rightarrow> string \<Rightarrow> int \<Rightarrow> (int \<times> SwmUser) option" where
  "SwmUser_ctor E = entity_ctor E (SwmUser_fields E) SwmUser_init"

definition ei_buffer_to_user_vec :: "ei \<Rightarrow> SwmUser list breader" where
  "ei_buffer_to_user_vec E = entity_array E (SwmUser_ctor E)"

definition ei_buffer_to_user :: "ei \<Rightarrow> SwmUser breader" where
  "ei_buffer_to_user E = entity_object (SwmUser_ctor E)"

definition val_user :: "SwmUser \<Rightarrow> eterm \<Rightarrow> bool" where
  "val_user s = val_record [
     val_str (user_id s), val_str (user_name s), val_str (user_acl s),
     val_scl val_i64 (user_priority s), val_str (user_comment s),
     val_scl val_u64 (user_revision s)]"

subsection \<open>\<open>SwmRole\<close>\<close>

record SwmRole =
  role_id :: "u64 option"
  role_name :: string
  role_services :: "u64 list"
  role_comment :: string
  role_revision :: "u64 option"

definition SwmRole_init :: SwmRole where
  "SwmRole_init = \<lparr>
     role_id = None, role_name = [], role_services = [], role_comment = [], role_revision = None\<rparr>"

definition SwmRole_fields :: "ei \<Rightarrow> SwmRole field list" where
  "SwmRole_fields E = [
     scl (ei_buffer_to_uint64_t E) role_id_update,
     fld (ei_buffer_to_str E) role_name role_name_update,
     fld (ei_buffer_to_uint64_t_vec E) role_services role_services_update,
     fld (ei_buffer_to_str E) role_comment role_comment_update,
     scl (ei_buffer_to_uint64_t E) role_revision_update]"

definition SwmRole_ctor :: "ei \<Rightarrow> string \<Rightarrow> int \<Rightarrow> (int \<times> SwmRole) option" where
  "SwmRole_ctor E = entity_ctor E (SwmRole_fields E) SwmRole_init"

definition ei_buffer_to_role_vec :: "ei \<Rightarrow> SwmRole list breader" where
  "ei_buffer_to_role_vec E = entity_array E (SwmRole_ctor E)"

definition ei_buffer_to_role :: "ei \<Rightarrow> SwmRole breader" where
  "ei_buffer_to_role E = entity_object (SwmRole_ctor E)"

definition val_role :: "SwmRole \<Rightarrow> eterm \<Rightarrow> bool" where
  "val_role s = val_record [
     val_scl val_u64 (role_id s), val_str (role_name s), val_u64_list (role_services s),
     val_str (role_comment s), val_scl val_u64 (role_revision s)]"

subsection \<open>\<open>SwmAccount\<close>\<close>

record SwmAccount =
  account_id :: string
  account_name :: string
  account_price_list :: string
  account_users :: "string list"
  account_admins :: "string list"
  account_comment :: string
  account_revision :: "u64 option"

definition SwmAccount_init :: SwmAccount where
  "SwmAccount_init = \<lparr>
     account_id = [], account_name = [], account_price_list = [], account_users = [],
     account_admins = [], account_comment = [], account_revision = None\<rparr>"

definition SwmAccount_fields :: "ei \<Rightarrow> SwmAccount field list" where
  "SwmAccount_fields E = [
     fld (ei_buffer_to_str E) account_id account_id_update,
     fld (ei_buffer_to_atom E) account_name account_name_update,
     fld (ei_buffer_to_str E) account_price_list account_price_list_update,
     fld (ei_buffer_to_str_vec E) account_users account_users_update,
     fld (ei_buffer_to_str_vec E) account_admins account_admins_update,
     fld (ei_buffer_to_str E) account_comment account_comment_update,
     scl (ei_buffer_to_uint64_t E) account_revision_update]"

definition SwmAccount_ctor :: "ei \<Rightarrow> string \<Rightarrow> int \<Rightarrow> (int \<times> SwmAccount) option" where
  "SwmAccount_ctor E = entity_ctor E (SwmAccount_fields E) SwmAccount_init"

definition ei_buffer_to_account_vec :: "ei \<Rightarrow> SwmAccount list breader" where
  "ei_buffer_to_account_vec E = entity_array E (SwmAccount_ctor E)"

definition ei_buffer_to_account :: "ei \<Rightarrow> SwmAccount breader" where
  "ei_buffer_to_account E = entity_object (SwmAccount_ctor E)"

definition val_account :: "SwmAccount \<Rightarrow> eterm \<Rightarrow> bool" where
  "val_account s = val_record [
     val_str (account_id s), val_atom (account_name s), val_str (account_price_list s),
     val_list val_str (account_users s), val_list val_str (account_admins s),
     val_str (account_comment s), val_scl val_u64 (account_revision s)]"

subsection \<open>\<open>SwmExecutable\<close>\<close>

record SwmExecutable =
  executable_name :: string
  executable_path :: string
  executable_user :: string
  executable_comment :: string
  executable_revision :: "u64 option"

definition SwmExecutable_init :: SwmExecutable where
  "SwmExecutable_init = \<lparr>
     executable_name = [], executable_path = [], executable_user = [], executable_comment = [],
     executable_revision = None\<rparr>"

definition SwmExecutable_fields :: "ei \<Rightarrow> SwmExecutable field list" where
  "SwmExecutable_fields E = [
     fld (ei_buffer_to_str E) executable_name executable_name_update,
     fld (ei_buffer_to_str E) executable_path executable_path_update,
     fld (ei_buffer_to_str E) executable_user executable_user_update,
     fld (ei_buffer_to_str E) executable_comment executable_comment_update,
     scl (ei_buffer_to_uint64_t E) executable_revision_update]"

definition SwmExecutable_ctor :: "ei \<Rightarrow> string \<Rightarrow> int \<Rightarrow> (int \<times> SwmExecutable) option" where
  "SwmExecutable_ctor E = entity_ctor E (SwmExecutable_fields E) SwmExecutable_init"

definition ei_buffer_to_executable_vec :: "ei \<Rightarrow> SwmExecutable list breader" where
  "ei_buffer_to_executable_vec E = entity_array E (SwmExecutable_ctor E)"

definition ei_buffer_to_executable :: "ei \<Rightarrow> SwmExecutable breader" where
  "ei_buffer_to_executable E = entity_object (SwmExecutable_ctor E)"

definition val_executable :: "SwmExecutable \<Rightarrow> eterm \<Rightarrow> bool" where
  "val_executable s = val_record [
     val_str (executable_name s), val_str (executable_path s), val_str (executable_user s),
     val_str (executable_comment s), val_scl val_u64 (executable_revision s)]"

subsection \<open>\<open>SwmHook\<close>\<close>

record SwmHook =
  hook_id :: string
  hook_name :: string
  hook_event :: string
  hook_state :: string
  hook_executable :: SwmExecutable
  hook_comment :: string
  hook_revision :: "u64 option"

definition SwmHook_init :: SwmHook where
  "SwmHook_init = \<lparr>
     hook_id = [], hook_name = [], hook_event = [], hook_state = [],
     hook_executable = SwmExecutable_init, hook_comment = [], hook_revision = None\<rparr>"

definition SwmHook_fields :: "ei \<Rightarrow> SwmHook field list" where
  "SwmHook_fields E = [
     fld (ei_buffer_to_str E) hook_id hook_id_update,
     fld (ei_buffer_to_str E) hook_name hook_name_update,
     fld (ei_buffer_to_atom E) hook_event hook_event_update,
     fld (ei_buffer_to_atom E) hook_state hook_state_update,
     nst (ei_buffer_to_executable E) hook_executable hook_executable_update,
     fld (ei_buffer_to_str E) hook_comment hook_comment_update,
     scl (ei_buffer_to_uint64_t E) hook_revision_update]"

definition SwmHook_ctor :: "ei \<Rightarrow> string \<Rightarrow> int \<Rightarrow> (int \<times> SwmHook) option" where
  "SwmHook_ctor E = entity_ctor E (SwmHook_fields E) SwmHook_init"

definition ei_buffer_to_hook_vec :: "ei \<Rightarrow> SwmHook list breader" where
  "ei_buffer_to_hook_vec E = entity_array E (SwmHook_ctor E)"

definition ei_buffer_to_hook :: "ei \<Rightarrow> SwmHook breader" where
  "ei_buffer_to_hook E = entity_object (SwmHook_ctor E)"

definition val_hook :: "SwmHook \<Rightarrow> eterm \<Rightarrow> bool" where
  "val_hook s = val_record [
     val_str (hook_id s), val_str (hook_name s), val_atom (hook_event s),
     val_atom (hook_state s), val_executable (hook_executable s), val_str (hook_comment s),
     val_scl val_u64 (hook_revision s)]"

subsection \<open>\<open>SwmGlobal\<close>\<close>

record SwmGlobal =
  global_name :: string
  global_value :: string
  global_comment :: string
  global_revision :: "u64 option"

definition SwmGlobal_init :: SwmGlobal where
  "SwmGlobal_init = \<lparr>
     global_name = [], global_value = [], global_comment = [], global_revision = None\<rparr>"

definition SwmGlobal_fields :: "ei \<Rightarrow> SwmGlobal field list" where
  "SwmGlobal_fields E = [
     fld (ei_buffer_to_atom E) global_name global_name_update,
     fld (ei_buffer_to_str E) global_value global_value_update,
     fld (ei_buffer_to_str E) global_comment global_comment_update,
     scl (ei_buffer_to_uint64_t E) global_revision_update]"

definition SwmGlobal_ctor :: "ei \<Rightarrow> string \<Rightarrow> int \<Rightarrow> (int \<times> SwmGlobal) option" where
  "SwmGlobal_ctor E = entity_ctor E (SwmGlobal_fields E) SwmGlobal_init"

definition ei_buffer_to_global_vec :: "ei \<Rightarrow> SwmGlobal list breader" where
  "ei_buffer_to_global_vec E = entity_array E (SwmGlobal_ctor E)"

definition ei_buffer_to_global :: "ei \<Rightarrow> SwmGlobal breader" where
  "ei_buffer_to_global E = entity_object (SwmGlobal_ctor E)"

definition val_global :: "SwmGlobal \<Rightarrow> eterm \<Rightarrow> bool" where
  "val_global s = val_record [
     val_atom (global_name s), val_str (global_value s), val_str (global_comment s),
     val_scl val_u64 (global_revision s)]"

subsection \<open>\<open>SwmImage\<close>\<close>

record SwmImage =
  image_name :: string
  image_id :: string
  image_tags :: "string list"
  image_size :: "u64 option"
  image_kind :: string
  image_status :: string
  image_remote_id :: string
  image_created :: string
  image_updated :: string
  image_comment :: string
  image_revision :: "u64 option"

definition SwmImage_init :: SwmImage where
  "SwmImage_init = \<lparr>
     image_name = [], image_id = [], image_tags = [], image_size = None, image_kind = [],
     image_status = [], image_remote_id = [], image_created = [], image_updated = [],
     image_comment = [], image_revision = None\<rparr>"

definition SwmImage_fields :: "ei \<Rightarrow> SwmImage field list" where
  "SwmImage_fields E = [
     fld (ei_buffer_to_str E) image_name image_name_update,
     fld (ei_buffer_to_str E) image_id image_id_update,
     fld (ei_buffer_to_str_vec E) image_tags image_tags_update,
     scl (ei_buffer_to_uint64_t E) image_size_update,
     fld (ei_buffer_to_atom E) image_kind image_kind_update,
     fld (ei_buffer_to_str E) image_status image_status_update,
     fld (ei_buffer_to_str E) image_remote_id image_remote_id_update,
     fld (ei_buffer_to_str E) image_created image_created_update,
     fld (ei_buffer_to_str E) image_updated image_updated_update,
     fld (ei_buffer_to_str E) image_comment image_comment_update,
     scl (ei_buffer_to_uint64_t E) image_revision_update]"

definition SwmImage_ctor :: "ei \<Rightarrow> string \<Rightarrow> int \<Rightarrow> (int \<times> SwmImage) option" where
  "SwmImage_ctor E = entity_ctor E (SwmImage_fields E) SwmImage_init"

definition ei_buffer_to_image_vec :: "ei \<Rightarrow> SwmImage list breader" where
  "ei_buffer_to_image_vec E = entity_array E (SwmImage_ctor E)"

definition ei_buffer_to_image :: "ei \<Rightarrow> SwmImage breader" where
  "ei_buffer_to_image E = entity_object (SwmImage_ctor E)"

definition val_image :: "SwmImage \<Rightarrow> eterm \<Rightarrow> bool" where
  "val_image s = val_record [
     val_str (image_name s), val_str (image_id s), val_list val_str (image_tags s),
     val_scl val_u64 (image_size s), val_atom (image_kind s), val_str (image_status s),
     val_str (image_remote_id s), val_str (image_created s), val_str (image_updated s),
     val_str (image_comment s), val_scl val_u64 (image_revision s)]"

subsection \<open>\<open>SwmRemote\<close>\<close>

record SwmRemote =
  remote_id :: string
  remote_account_id :: string
  remote_default_image_id :: string
  remote_default_flavor_id :: string
  remote_name :: string
  remote_kind :: string
  remote_location :: string
  remote_server :: string
  remote_port :: "u64 option"
  remote_runtime :: "(string, string) omap"
  remote_revision :: "u64 option"

definition SwmRemote_init :: SwmRemote where
  "SwmRemote_init = \<lparr>
     remote_id = [], remote_account_id = [], remote_default_image_id = [],
     remote_default_flavor_id = [], remote_name = [], remote_kind = [], remote_location = [],
     remote_server = [], remote_port = None, remote_runtime = [], remote_revision = None\<rparr>"

definition SwmRemote_fields :: "ei \<Rightarrow> SwmRemote field list" where
  "SwmRemote_fields E = [
     fld (ei_buffer_to_str E) remote_id remote_id_update,
     fld (ei_buffer_to_str E) remote_account_id remote_account_id_update,
     fld (ei_buffer_to_str E) remote_default_image_id remote_default_image_id_update,
     fld (ei_buffer_to_str E) remote_default_flavor_id remote_default_flavor_id_update,
     fld (ei_buffer_to_atom E) remote_name remote_name_update,
     fld (ei_buffer_to_atom E) remote_kind remote_kind_update,
     fld (ei_buffer_to_str E) remote_location remote_location_update,
     fld (ei_buffer_to_str E) remote_server remote_server_update,
     scl (ei_buffer_to_uint64_t E) remote_port_update,
     fld (ei_buffer_to_map E) remote_runtime remote_runtime_update,
     scl (ei_buffer_to_uint64_t E) remote_revision_update]"

definition SwmRemote_ctor :: "ei \<Rightarrow> string \<Rightarrow> int \<Rightarrow> (int \<times> SwmRemote) option" where
  "SwmRemote_ctor E = entity_ctor E (SwmRemote_fields E) SwmRemote_init"

definition ei_buffer_to_remote_vec :: "ei \<Rightarrow> SwmRemote list breader" where
  "ei_buffer_to_remote_vec E = entity_array E (SwmRemote_ctor E)"

definition ei_buffer_to_remote :: "ei \<Rightarrow> SwmRemote breader" where
  "ei_buffer_to_remote E = entity_object (SwmRemote_ctor E)"

definition val_remote :: "SwmRemote \<Rightarrow> eterm \<Rightarrow> bool" where
  "val_remote s = val_record [
     val_str (remote_id s), val_str (remote_account_id s), val_str (remote_default_image_id s),
     val_str (remote_default_flavor_id s), val_atom (remote_name s), val_atom (remote_kind s),
     val_str (remote_location s), val_str (remote_server s), val_scl val_u64 (remote_port s),
     val_map (remote_runtime s), val_scl val_u64 (remote_revision s)]"

subsection \<open>\<open>SwmQueue\<close>\<close>

record SwmQueue =
  queue_id :: "u64 option"
  queue_name :: string
  queue_state :: string
  queue_jobs :: "string list"
  queue_nodes :: "string list"
  queue_users :: "string list"
  queue_admins :: "string list"
  queue_hooks :: "string list"
  queue_priority :: "int option"
  queue_comment :: string
  queue_revision :: "u64 option"

definition SwmQueue_init :: SwmQueue where
  "SwmQueue_init = \<lparr>
     queue_id = None, queue_name = [], queue_state = [], queue_jobs = [], queue_nodes = [],
     queue_users = [], queue_admins = [], queue_hooks = [], queue_priority = None,
     queue_comment = [], queue_revision = None\<rparr>"

definition SwmQueue_fields :: "ei \<Rightarrow> SwmQueue field list" where
  "SwmQueue_fields E = [
     scl (ei_buffer_to_uint64_t E) queue_id_update,
     fld (ei_buffer_to_str E) queue_name queue_name_update,
     fld (ei_buffer_to_atom E) queue_state queue_state_update,
     fld (ei_buffer_to_str_vec E) queue_jobs queue_jobs_update,
     fld (ei_buffer_to_str_vec E) queue_nodes queue_nodes_update,
     fld (ei_buffer_to_str_vec E) queue_users queue_users_update,
     fld (ei_buffer_to_str_vec E) queue_admins queue_admins_update,
     fld (ei_buffer_to_str_vec E) queue_hooks queue_hooks_update,
     scl (ei_buffer_to_int64_t E) queue_priority_update,
     fld (ei_buffer_to_str E) queue_comment queue_comment_update,
     scl (ei_buffer_to_uint64_t E) queue_revision_update]"

definition SwmQueue_ctor :: "ei \<Rightarrow> string \<Rightarrow> int \<Rightarrow> (int \<times> SwmQueue) option" where
  "SwmQueue_ctor E = entity_ctor E (SwmQueue_fields E) SwmQueue_init"

definition ei_buffer_to_queue_vec :: "ei \<Rightarrow> SwmQueue list breader" where
  "ei_buffer_to_queue_vec E = entity_array E (SwmQueue_ctor E)"

definition ei_buffer_to_queue :: "ei \<Rightarrow> SwmQueue breader" where
  "ei_buffer_to_queue E = entity_object (SwmQueue_ctor E)"

definition val_queue :: "SwmQueue \<Rightarrow> eterm \<Rightarrow> bool" where
  "val_queue s = val_record [
     val_scl val_u64 (queue_id s), val_str (queue_name s), val_atom (queue_state s),
     val_list val_str (queue_jobs s), val_list val_str (queue_nodes s),
     val_list val_str (queue_users s), val_list val_str (queue_admins s),
     val_list val_str (queue_hooks s), val_scl val_i64 (queue_priority s),
     val_str (queue_comment s), val_scl val_u64 (queue_revision s)]"

section \<open>Reading well-formed records\<close>

context ei_laws begin

lemma user_ctor_reads:
  assumes "val_user s t"
  shows "constructs enc (SwmUser_ctor E) t s"
  using assms(1)
  unfolding val_user_def SwmUser_ctor_def SwmUser_fields_def
    SwmUser_init_def append.simps
  by (rule entity_record_reads [rotated])
    (rule fields_intros | erule reads_intros | (simp; fail))+

lemma user_array_reads:
  "val_list (val_user) vs t \<Longrightarrow> breads enc (ei_buffer_to_user_vec E) [] t vs"
  unfolding ei_buffer_to_user_vec_def
  by (rule entity_array_reads, assumption)
    (auto intro: user_ctor_reads val_record_tuple simp: val_user_def)

lemma user_object_reads:
  "val_user v t \<Longrightarrow> breads enc (ei_buffer_to_user E) x t v"
  unfolding ei_buffer_to_user_def by (rule entity_object_reads) (rule user_ctor_reads)

lemma role_ctor_reads:
  assumes "val_role s t"
  shows "constructs enc (SwmRole_ctor E) t s"
  using assms(1)
  unfolding val_role_def SwmRole_ctor_def SwmRole_fields_def
    SwmRole_init_def append.simps
  by (rule entity_record_reads [rotated])
    (rule fields_intros | erule reads_intros | (simp; fail))+

lemma role_array_reads:
  "val_list (val_role) vs t \<Longrightarrow> breads enc (ei_buffer_to_role_vec E) [] t vs"
  unfolding ei_buffer_to_role_vec_def
  by (rule entity_array_reads, assumption)
    (auto intro: role_ctor_reads val_record_tuple simp: val_role_def)

lemma role_object_reads:
  "val_role v t \<Longrightarrow> breads enc (ei_buffer_to_role E) x t v"
  unfolding ei_buffer_to_role_def by (rule entity_object_reads) (rule role_ctor_reads)

lemma account_ctor_reads:
  assumes "val_account s t"
  shows "constructs enc (SwmAccount_ctor E) t s"
  using assms(1)
  unfolding val_account_def SwmAccount_ctor_def SwmAccount_fields_def
    SwmAccount_init_def append.simps
  by (rule entity_record_reads [rotated])
    (rule fields_intros | erule reads_intros | (simp; fail))+

lemma account_array_reads:
  "val_list (val_account) vs t \<Longrightarrow> breads enc (ei_buffer_to_account_vec E) [] t vs"
  unfolding ei_buffer_to_account_vec_def
  by (rule entity_array_reads, assumption)
    (auto intro: account_ctor_reads val_record_tuple simp: val_account_def)

lemma account_object_reads:
  "val_account v t \<Longrightarrow> breads enc (ei_buffer_to_account E) x t v"
  unfolding ei_buffer_to_account_def by (rule entity_object_reads) (rule account_ctor_reads)

lemma executable_ctor_reads:
  assumes "val_executable s t"
  shows "constructs enc (SwmExecutable_ctor E) t s"
  using assms(1)
  unfolding val_executable_def SwmExecutable_ctor_def SwmExecutable_fields_def
    SwmExecutable_init_def append.simps
  by (rule entity_record_reads [rotated])
    (rule fields_intros | erule reads_intros | (simp; fail))+

lemma executable_array_reads:
  "val_list (val_executable) vs t \<Longrightarrow> breads enc (ei_buffer_to_executable_vec E) [] t vs"
  unfolding ei_buffer_to_executable_vec_def
  by (rule entity_array_reads, assumption)
    (auto intro: executable_ctor_reads val_record_tuple simp: val_executable_def)

lemma executable_object_reads:
  "val_executable v t \<Longrightarrow> breads enc (ei_buffer_to_executable E) x t v"
  unfolding ei_buffer_to_executable_def by (rule entity_object_reads) (rule executable_ctor_reads)

lemma hook_ctor_reads:
  assumes "val_hook s t"
  shows "constructs enc (SwmHook_ctor E) t s"
  using assms(1)
  unfolding val_hook_def SwmHook_ctor_def SwmHook_fields_def
    SwmHook_init_def append.simps
  by (rule entity_record_reads [rotated])
    (rule fields_intros | erule reads_intros executable_object_reads | (simp; fail))+

lemma hook_array_reads:
  "val_list (val_hook) vs t \<Longrightarrow> breads enc (ei_buffer_to_hook_vec E) [] t vs"
  unfolding ei_buffer_to_hook_vec_def
  by (rule entity_array_reads, assumption)
    (auto intro: hook_ctor_reads val_record_tuple simp: val_hook_def)

lemma hook_object_reads:
  "val_hook v t \<Longrightarrow> breads enc (ei_buffer_to_hook E) x t v"
  unfolding ei_buffer_to_hook_def by (rule entity_object_reads) (rule hook_ctor_reads)

lemma global_ctor_reads:
  assumes "val_global s t"
  shows "constructs enc (SwmGlobal_ctor E) t s"
  using assms(1)
  unfolding val_global_def SwmGlobal_ctor_def SwmGlobal_fields_def
    SwmGlobal_init_def append.simps
  by (rule entity_record_reads [rotated])
    (rule fields_intros | erule reads_intros | (simp; fail))+

lemma global_array_reads:
  "val_list (val_global) vs t \<Longrightarrow> breads enc (ei_buffer_to_global_vec E) [] t vs"
  unfolding ei_buffer_to_global_vec_def
  by (rule entity_array_reads, assumption)
    (auto intro: global_ctor_reads val_record_tuple simp: val_global_def)

lemma global_object_reads:
  "val_global v t \<Longrightarrow> breads enc (ei_buffer_to_global E) x t v"
  unfolding ei_buffer_to_global_def by (rule entity_object_reads) (rule global_ctor_reads)

lemma image_ctor_reads:
  assumes "val_image s t"
  shows "constructs enc (SwmImage_ctor E) t s"
  using assms(1)
  unfolding val_image_def SwmImage_ctor_def SwmImage_fields_def
    SwmImage_init_def append.simps
  by (rule entity_record_reads [rotated])
    (rule fields_intros | erule reads_intros | (simp; fail))+

lemma image_array_reads:
  "val_list (val_image) vs t \<Longrightarrow> breads enc (ei_buffer_to_image_vec E) [] t vs"
  unfolding ei_buffer_to_image_vec_def
  by (rule entity_array_reads, assumption)
    (auto intro: image_ctor_reads val_record_tuple simp: val_image_def)

lemma image_object_reads:
  "val_image v t \<Longrightarrow> breads enc (ei_buffer_to_image E) x t v"
  unfolding ei_buffer_to_image_def by (rule entity_object_reads) (rule image_ctor_reads)

lemma remote_ctor_reads:
  assumes "val_remote s t"
  shows "constructs enc (SwmRemote_ctor E) t s"
  using assms(1)
  unfolding val_remote_def SwmRemote_ctor_def SwmRemote_fields_def
    SwmRemote_init_def append.simps
  by (rule entity_record_reads [rotated])
    (rule fields_intros | erule reads_intros | (simp; fail))+

lemma remote_array_reads:
  "val_list (val_remote) vs t \<Longrightarrow> breads enc (ei_buffer_to_remote_vec E) [] t vs"
  unfolding ei_buffer_to_remote_vec_def
  by (rule entity_array_reads, assumption)
    (auto intro: remote_ctor_reads val_record_tuple simp: val_remote_def)

lemma remote_object_reads:
  "val_remote v t \<Longrightarrow> breads enc (ei_buffer_to_remote E) x t v"
  unfolding ei_buffer_to_remote_def by (rule entity_object_reads) (rule remote_ctor_reads)

lemma queue_ctor_reads:
  assumes "val_queue s t"
  shows "constructs enc (SwmQueue_ctor E) t s"
  using assms(1)
  unfolding val_queue_def SwmQueue_ctor_def SwmQueue_fields_def
    SwmQueue_init_def append.simps
  by (rule entity_record_reads [rotated])
    (rule fields_intros | erule reads_intros | (simp; fail))+

lemma queue_array_reads:
  "val_list (val_queue) vs t \<Longrightarrow> breads enc (ei_buffer_to_queue_vec E) [] t vs"
  unfolding ei_buffer_to_queue_vec_def
  by (rule entity_array_reads, assumption)
    (auto intro: queue_ctor_reads val_record_tuple simp: val_queue_def)

lemma queue_object_reads:
  "val_queue v t \<Longrightarrow> breads enc (ei_buffer_to_queue E) x t v"
  unfolding ei_buffer_to_queue_def by (rule entity_object_reads) (rule queue_ctor_reads)

end

end
