(* ===== verification/Entities_Sched.thy ===== *)
theory Entities_Sched
  imports Entities_Site
begin

text \<open>
  The classes of the scheduler and of the porter's reports: \<open>lib/wm_metric.cpp\<close>,
  \<open>wm_timetable.cpp\<close>, \<open>wm_scheduler_result.cpp\<close>, \<open>wm_scheduler.cpp\<close> and \<open>wm_process.cpp\<close>.
\<close>

section \<open>Classes and constructors\<close>

subsection \<open>\<open>SwmMetric\<close>\<close>

record SwmMetric =
  metric_name :: string
  metric_value_integer :: "u64 option"
  metric_value_float64 :: "double option"

definition SwmMetric_init :: SwmMetric where
  "SwmMetric_init = \<lparr>
     metric_name = [], metric_value_integer = None, metric_value_float64 = None\<rparr>"

definition SwmMetric_fields :: "ei \<Rightarrow> SwmMetric field list" where
  "SwmMetric_fields E = [
     fld (ei_buffer_to_atom E) metric_name metric_name_update,
     scl (ei_buffer_to_uint64_t E) metric_value_integer_update,
     scl (ei_buffer_to_double E) metric_value_float64_update]"

definition SwmMetric_ctor :: "ei \<Rightarrow> string \<Rightarrow> int \<Rightarrow> (int \<times> SwmMetric) option" where
  "SwmMetric_ctor E = entity_ctor E (SwmMetric_fields E) SwmMetric_init"

definition ei_buffer_to_metric_vec :: "ei \<Rightarrow> SwmMetric list breader" where
  "ei_buffer_to_metric_vec E = entity_array E (SwmMetric_ctor E)"

definition ei_buffer_to_metric :: "ei \<Rightarrow> SwmMetric breader" where
  "ei_buffer_to_metric E = entity_object (SwmMetric_ctor E)"

definition val_metric :: "SwmMetric \<Rightarrow> eterm \<Rightarrow> bool" where
  "val_metric s = val_record [
     val_atom (metric_name s), val_scl val_u64 (metric_value_integer s),
     val_scl val_double (metric_value_float64 s)]"

subsection \<open>\<open>SwmTimetable\<close>\<close>

record SwmTimetable =
  timetable_start_time :: "u64 option"
  timetable_job_id :: string
  timetable_job_nodes :: "string list"

definition SwmTimetable_init :: SwmTimetable where
  "SwmTimetable_init = \<lparr>
     timetable_start_time = None, timetable_job_id = [], timetable_job_nodes = []\<rparr>"

definition SwmTimetable_fields :: "ei \<Rightarrow> SwmTimetable field list" where
  "SwmTimetable_fields E = [
     scl (ei_buffer_to_uint64_t E) timetable_start_time_update,
     fld (ei_buffer_to_str E) timetable_job_id timetable_job_id_update,
     fld (ei_buffer_to_str_vec E) timetable_job_nodes timetable_job_nodes_update]"

definition SwmTimetable_ctor :: "ei \<Rightarrow> string \<Rightarrow> int \<Rightarrow> (int \<times> SwmTimetable) option" where
  "SwmTimetable_ctor E = entity_ctor E (SwmTimetable_fields E) SwmTimetable_init"

definition ei_buffer_to_timetable_vec :: "ei \<Rightarrow> SwmTimetable list breader" where
  "ei_buffer_to_timetable_vec E = entity_array E (SwmTimetable_ctor E)"

definition ei_buffer_to_timetable :: "ei \<Rightarrow> SwmTimetable breader" where
  "ei_buffer_to_timetable E = entity_object (SwmTimetable_ctor E)"

definition val_timetable :: "SwmTimetable \<Rightarrow> eterm \<Rightarrow> bool" where
  "val_timetable s = val_record [
     val_scl val_u64 (timetable_start_time s), val_str (timetable_job_id s),
     val_list val_str (timetable_job_nodes s)]"

subsection \<open>\<open>SwmSchedulerResult\<close>\<close>

record SwmSchedulerResult =
  scheduler_result_timetable :: "SwmTimetable list"
  scheduler_result_metrics :: "SwmMetric list"
  scheduler_result_request_id :: string
  scheduler_result_status :: "u64 option"
  scheduler_result_astro_time :: "double option"
  scheduler_result_idle_time :: "double option"
  scheduler_result_work_time :: "double option"

definition SwmSchedulerResult_init :: SwmSchedulerResult where
  "SwmSchedulerResult_init = \<lparr>
     scheduler_result_timetable = [], scheduler_result_metrics = [],
     scheduler_result_request_id = [], scheduler_result_status = None,
     scheduler_result_astro_time = None, scheduler_result_idle_time = None,
     scheduler_result_work_time = None\<rparr>"

definition SwmSchedulerResult_fields :: "ei \<Rightarrow> SwmSchedulerResult field list" where
  "SwmSchedulerResult_fields E = [
     nst (ei_buffer_to_timetable_vec E) scheduler_result_timetable scheduler_result_timetable_update,
     nst (ei_buffer_to_metric_vec E) scheduler_result_metrics scheduler_result_metrics_update,
     fld (ei_buffer_to_str E) scheduler_result_request_id scheduler_result_request_id_update,
     scl (ei_buffer_to_uint64_t E) scheduler_result_status_update,
     scl (ei_buffer_to_double E) scheduler_result_astro_time_update,
     scl (ei_buffer_to_double E) scheduler_result_idle_time_update,
     scl (ei_buffer_to_double E) scheduler_result_work_time_update]"

definition SwmSchedulerResult_ctor :: "ei \<Rightarrow> string \<Rightarrow> int \<Rightarrow> (int \<times> SwmSchedulerResult) option" where
  "SwmSchedulerResult_ctor E = entity_ctor E (SwmSchedulerResult_fields E) SwmSchedulerResult_init"

definition ei_buffer_to_scheduler_result_vec :: "ei \<Rightarrow> SwmSchedulerResult list breader" where
  "ei_buffer_to_scheduler_result_vec E = entity_array E (SwmSchedulerResult_ctor E)"

definition ei_buffer_to_scheduler_result :: "ei \<Rightarrow> SwmSchedulerResult breader" where
  "ei_buffer_to_scheduler_result E = entity_object (SwmSchedulerResult_ctor E)"

definition val_scheduler_result :: "SwmSchedulerResult \<Rightarrow> eterm \<Rightarrow> bool" where
  "val_scheduler_result s = val_record [
     val_list val_timetable (scheduler_result_timetable s),
     val_list val_metric (scheduler_result_metrics s), val_str (scheduler_result_request_id s),
     val_scl val_u64 (scheduler_result_status s),
     val_scl val_double (scheduler_result_astro_time s),
     val_scl val_double (scheduler_result_idle_time s),
     val_scl val_double (scheduler_result_work_time s)]"

subsection \<open>\<open>SwmScheduler\<close>\<close>

record SwmScheduler =
  scheduler_id :: "u64 option"
  scheduler_name :: string
  scheduler_state :: string
  scheduler_start_time :: string
  scheduler_stop_time :: string
  scheduler_run_interval :: "u64 option"
  scheduler_path :: SwmExecutable
  scheduler_family :: string
  scheduler_version :: string
  scheduler_cu :: "u64 option"
  scheduler_comment :: string
  scheduler_revision :: "u64 option"

definition SwmScheduler_init :: SwmScheduler where
  "SwmScheduler_init = \<lparr>
     scheduler_id = None, scheduler_name = [], scheduler_state = [], scheduler_start_time = [],
     scheduler_stop_time = [], scheduler_run_interval = None,
     scheduler_path = SwmExecutable_init, scheduler_family = [], scheduler_version = [],
     scheduler_cu = None, scheduler_comment = [], scheduler_revision = None\<rparr>"

definition SwmScheduler_fields :: "ei \<Rightarrow> SwmScheduler field list" where
  "SwmScheduler_fields E = [
     scl (ei_buffer_to_uint64_t E) scheduler_id_update,
     fld (ei_buffer_to_str E) scheduler_name scheduler_name_update,
     fld (ei_buffer_to_atom E) scheduler_state scheduler_state_update,
     fld (ei_buffer_to_str E) scheduler_start_time scheduler_start_time_update,
     fld (ei_buffer_to_str E) scheduler_stop_time scheduler_stop_time_update,
     scl (ei_buffer_to_uint64_t E) scheduler_run_interval_update,
     nst (ei_buffer_to_executable E) scheduler_path scheduler_path_update,
     fld (ei_buffer_to_str E) scheduler_family scheduler_family_update,
     fld (ei_buffer_to_str E) scheduler_version scheduler_version_update,
     scl (ei_buffer_to_uint64_t E) scheduler_cu_update,
     fld (ei_buffer_to_str E) scheduler_comment scheduler_comment_update,
     scl (ei_buffer_to_uint64_t E) scheduler_revision_update]"

definition SwmScheduler_ctor :: "ei \<Rightarrow> string \<Rightarrow> int \<Rightarrow> (int \<times> SwmScheduler) option" where
  "SwmScheduler_ctor E = entity_ctor E (SwmScheduler_fields E) SwmScheduler_init"

definition ei_buffer_to_scheduler_vec :: "ei \<Rightarrow> SwmScheduler list breader" where
  "ei_buffer_to_scheduler_vec E = entity_array E (SwmScheduler_ctor E)"

definition ei_buffer_to_scheduler :: "ei \<Rightarrow> SwmScheduler breader" where
  "ei_buffer_to_scheduler E = entity_object (SwmScheduler_ctor E)"

definition val_scheduler :: "SwmScheduler \<Rightarrow> eterm \<Rightarrow> bool" where
  "val_scheduler s = val_record [
     val_scl val_u64 (scheduler_id s), val_str (scheduler_name s), val_atom (scheduler_state s),
     val_str (scheduler_start_time s), val_str (scheduler_stop_time s),
     val_scl val_u64 (scheduler_run_interval s), val_executable (scheduler_path s),
     val_str (scheduler_family s), val_str (scheduler_version s),
     val_scl val_u64 (scheduler_cu s), val_str (scheduler_comment s),
     val_scl val_u64 (scheduler_revision s)]"

subsection \<open>\<open>SwmProcess\<close>\<close>

record SwmProcess =
  process_pid :: "int option"
  process_state :: string
  process_exitcode :: "int option"
  process_signal :: "int option"
  process_comment :: string

definition SwmProcess_init :: SwmProcess where
  "SwmProcess_init = \<lparr>
     process_pid = None, process_state = [], process_exitcode = None, process_signal = None,
     process_comment = []\<rparr>"

definition SwmProcess_fields :: "ei \<Rightarrow> SwmProcess field list" where
  "SwmProcess_fields E = [
     scl (ei_buffer_to_int64_t E) process_pid_update,
     fld (ei_buffer_to_str E) process_state process_state_update,
     scl (ei_buffer_to_int64_t E) process_exitcode_update,
     scl (ei_buffer_to_int64_t E) process_signal_update,
     fld (ei_buffer_to_str E) process_comment process_comment_update]"

definition SwmProcess_ctor :: "ei \<Rightarrow> string \<Rightarrow> int \<Rightarrow> (int \<times> SwmProcess) option" where
  "SwmProcess_ctor E = entity_ctor E (SwmProcess_fields E) SwmProcess_init"

definition ei_buffer_to_process_vec :: "ei \<Rightarrow> SwmProcess list breader" where
  "ei_buffer_to_process_vec E = entity_array E (SwmProcess_ctor E)"

definition ei_buffer_to_process :: "ei \<Rightarrow> SwmProcess breader" where
  "ei_buffer_to_process E = entity_object (SwmProcess_ctor E)"

definition val_process :: "SwmProcess \<Rightarrow> eterm \<Rightarrow> bool" where
  "val_process s = val_record [
     val_scl val_i64 (process_pid s), val_str (process_state s),
     val_scl val_i64 (process_exitcode s), val_scl val_i64 (process_signal s),
     val_str (process_comment s)]"

section \<open>Reading well-formed records\<close>

context ei_laws begin

lemma metric_ctor_reads:
  assumes "val_metric s t"
  shows "constructs enc (SwmMetric_ctor E) t s"
  using assms(1)
  unfolding val_metric_def SwmMetric_ctor_def SwmMetric_fields_def
    SwmMetric_init_def append.simps
  by (rule entity_record_reads [rotated])
    (rule fields_intros | erule reads_intros | (simp; fail))+

lemma metric_array_reads:
  "val_list (val_metric) vs t \<Longrightarrow> breads enc (ei_buffer_to_metric_vec E) [] t vs"
  unfolding ei_buffer_to_metric_vec_def
  by (rule entity_array_reads, assumption)
    (auto intro: metric_ctor_reads val_record_tuple simp: val_metric_def)

lemma metric_object_reads:
  "val_metric v t \<Longrightarrow> breads enc (ei_buffer_to_metric E) x t v"
  unfolding ei_buffer_to_metric_def by (rule entity_object_reads) (rule metric_ctor_reads)

lemma timetable_ctor_reads:
  assumes "val_timetable s t"
  shows "constructs enc (SwmTimetable_ctor E) t s"
  using assms(1)
  unfolding val_timetable_def SwmTimetable_ctor_def SwmTimetable_fields_def
    SwmTimetable_init_def append.simps
  by (rule entity_record_reads [rotated])
    (rule fields_intros | erule reads_intros | (simp; fail))+

lemma timetable_array_reads:
  "val_list (val_timetable) vs t \<Longrightarrow> breads enc (ei_buffer_to_timetable_vec E) [] t vs"
  unfolding ei_buffer_to_timetable_vec_def
  by (rule entity_array_reads, assumption)
    (auto intro: timetable_ctor_reads val_record_tuple simp: val_timetable_def)

lemma timetable_object_reads:
  "val_timetable v t \<Longrightarrow> breads enc (ei_buffer_to_timetable E) x t v"
  unfolding ei_buffer_to_timetable_def by (rule entity_object_reads) (rule timetable_ctor_reads)

lemma scheduler_result_ctor_reads:
  assumes "val_scheduler_result s t"
  shows "constructs enc (SwmSchedulerResult_ctor E) t s"
  using assms(1)
  unfolding val_scheduler_result_def SwmSchedulerResult_ctor_def SwmSchedulerResult_fields_def
    SwmSchedulerResult_init_def append.simps
  by (rule entity_record_reads [rotated])
    (rule fields_intros | erule reads_intros timetable_array_reads metric_array_reads | (simp; fail))+

lemma scheduler_result_array_reads:
  "val_list (val_scheduler_result) vs t \<Longrightarrow> breads enc (ei_buffer_to_scheduler_result_vec E) [] t vs"
  unfolding ei_buffer_to_scheduler_result_vec_def
  by (rule entity_array_reads, assumption)
    (auto intro: scheduler_result_ctor_reads val_record_tuple simp: val_scheduler_result_def)

lemma scheduler_result_object_reads:
  "val_scheduler_result v t \<Longrightarrow> breads enc (ei_buffer_to_scheduler_result E) x t v"
  unfolding ei_buffer_to_scheduler_result_def by (rule entity_object_reads) (rule scheduler_result_ctor_reads)

lemma scheduler_ctor_reads:
  assumes "val_scheduler s t"
  shows "constructs enc (SwmScheduler_ctor E) t s"
  using assms(1)
  unfolding val_scheduler_def SwmScheduler_ctor_def SwmScheduler_fields_def
    SwmScheduler_init_def append.simps
  by (rule entity_record_reads [rotated])
    (rule fields_intros | erule reads_intros executable_object_reads | (simp; fail))+

lemma scheduler_array_reads:
  "val_list (val_scheduler) vs t \<Longrightarrow> breads enc (ei_buffer_to_scheduler_vec E) [] t vs"
  unfolding ei_buffer_to_scheduler_vec_def
  by (rule entity_array_reads, assumption)
    (auto intro: scheduler_ctor_reads val_record_tuple simp: val_scheduler_def)

lemma scheduler_object_reads:
  "val_scheduler v t \<Longrightarrow> breads enc (ei_buffer_to_scheduler E) x t v"
  unfolding ei_buffer_to_scheduler_def by (rule entity_object_reads) (rule scheduler_ctor_reads)

lemma process_ctor_reads:
  assumes "val_process s t"
  shows "constructs enc (SwmProcess_ctor E) t s"
  using assms(1)
  unfolding val_process_def SwmProcess_ctor_def SwmProcess_fields_def
    SwmProcess_init_def append.simps
  by (rule entity_record_reads [rotated])
    (rule fields_intros | erule reads_intros | (simp; fail))+

lemma process_array_reads:
  "val_list (val_process) vs t \<Longrightarrow> breads enc (ei_buffer_to_process_vec E) [] t vs"
  unfolding ei_buffer_to_process_vec_def
  by (rule entity_array_reads, assumption)
    (auto intro: process_ctor_reads val_record_tuple simp: val_process_def)

lemma process_object_reads:
  "val_process v t \<Longrightarrow> breads enc (ei_buffer_to_process E) x t v"
  unfolding ei_buffer_to_process_def by (rule entity_object_reads) (rule process_ctor_reads)

end

end
