(* ===== verification/Ei_Etf.thy ===== *)
theory Ei_Etf
  imports Ei_Lib
begin

text \<open>
  An implementation of the interface \<open>ei\<close> on the bytes of the external term format, as the
  Erlang emulator writes them: the encoder \<open>etf\<close>, the decoding functions, and the proof that
  they satisfy \<open>ei_laws\<close>. The development uses it to show that the laws can hold and to evaluate
  the readers on concrete buffers.
\<close>

section \<open>Bytes\<close>

fun be_bytes :: "nat \<Rightarrow> nat \<Rightarrow> string" where
  "be_bytes 0 n = []"
| "be_bytes (Suc k) n = be_bytes k (n div 256) @ [char_of (n mod 256)]"

definition be_val :: "string \<Rightarrow> nat" where
  "be_val s = foldl (\<lambda>v c. v * 256 + uchar c) 0 s"

fun le_bytes :: "nat \<Rightarrow> string" where
  "le_bytes n = (if n = 0 then [] else char_of (n mod 256) # le_bytes (n div 256))"

declare le_bytes.simps [simp del]

fun le_val :: "string \<Rightarrow> nat" where
  "le_val [] = 0"
| "le_val (c # s) = uchar c + 256 * le_val s"

lemma length_be_bytes [simp]: "length (be_bytes k n) = k"
  by (induction k arbitrary: n) auto

lemma be_val_be_bytes: "n < 256 ^ k \<Longrightarrow> be_val (be_bytes k n) = n"
proof (induction k arbitrary: n)
  case 0
  then show ?case by (simp add: be_val_def)
next
  case (Suc k)
  then have "n div 256 < 256 ^ k" by (simp add: less_mult_imp_div_less mult.commute)
  then have "be_val (be_bytes k (n div 256)) = n div 256" by (rule Suc.IH)
  then show ?case by (simp add: be_val_def uchar_char_of)
qed

lemma le_val_le_bytes: "le_val (le_bytes n) = n"
  by (induction n rule: le_bytes.induct) (subst le_bytes.simps, auto simp: uchar_char_of)

definition get_be :: "nat \<Rightarrow> string \<Rightarrow> (nat \<times> string) option" where
  "get_be k s = (if length s < k then None else Some (be_val (take k s), drop k s))"

lemma get_be_bytes: "n < 256 ^ k \<Longrightarrow> get_be k (be_bytes k n @ r) = Some (n, r)"
  by (simp add: get_be_def be_val_be_bytes)

definition get_bytes :: "nat \<Rightarrow> string \<Rightarrow> (string \<times> string) option" where
  "get_bytes k s = (if length s < k then None else Some (take k s, drop k s))"

lemma get_bytes_append: "get_bytes (length x) (x @ r) = Some (x, r)"
  by (simp add: get_bytes_def)

section \<open>Floating point\<close>

text \<open>The 64 bits of a value: sign, 11 bits of exponent, 52 bits of fraction.\<close>

definition f64_enc :: "double \<Rightarrow> nat" where
  "f64_enc x = (case x of
     Fin r \<Rightarrow>
       if r = 0 then 0
       else let s = (if r < 0 then 2 ^ 63 else 0); e = max (- 1022) (flog2 \<bar>r\<bar>);
                m = nat \<lfloor>\<bar>r\<bar> / pow2 (e - 52)\<rfloor>
            in if m < 2 ^ 52 then s + m else s + nat (e + 1023) * 2 ^ 52 + (m - 2 ^ 52)
   | PInf \<Rightarrow> 2047 * 2 ^ 52
   | MInf \<Rightarrow> 2 ^ 63 + 2047 * 2 ^ 52
   | NaN \<Rightarrow> 2047 * 2 ^ 52 + 1)"

definition f64_dec :: "nat \<Rightarrow> double" where
  "f64_dec n = (let s = n div 2 ^ 63; e = n div 2 ^ 52 mod 2048; f = n mod 2 ^ 52;
       sg = (if s = 0 then 1 else - 1)
     in if e = 2047 then (if f \<noteq> 0 then NaN else if s = 0 then PInf else MInf)
        else if e = 0 then Fin (sg * of_nat f * pow2 (- 1074))
        else Fin (sg * of_nat (2 ^ 52 + f) * pow2 (int e - 1075)))"

lemma pow2_52: "pow2 (- 52) = 1 / 4503599627370496"
  by (simp add: pow2_def ipow2.simps)

text \<open>Two values that the examples use.\<close>

lemma f64_zero: "f64_enc (Fin 0) = 0" "f64_dec 0 = Fin 0"
  by (simp_all add: f64_enc_def f64_dec_def)

lemma f64_one: "f64_enc (Fin 1) = 1023 * 2 ^ 52" "f64_dec (1023 * 2 ^ 52) = Fin 1"
  by (simp_all add: f64_enc_def flog2_def bitlen.simps f64_dec_def Let_def pow2_52)

section \<open>The encoder\<close>

abbreviation tag :: "nat \<Rightarrow> char" where
  "tag n \<equiv> char_of n"

fun etf :: "eterm \<Rightarrow> string" where
  "etf (EInt n) =
     (if 0 \<le> n \<and> n < 256 then [tag 97, char_of (nat n)]
      else if - (2 ^ 31) \<le> n \<and> n < 2 ^ 31 then tag 98 # be_bytes 4 (nat (n mod 2 ^ 32))
      else tag 110 # char_of (length (le_bytes (nat \<bar>n\<bar>))) # char_of (if n < 0 then 1 else 0 :: nat) #
        le_bytes (nat \<bar>n\<bar>))"
| "etf (EFloat x) = tag 70 # be_bytes 8 (f64_enc x)"
| "etf (EAtom s) = tag 119 # char_of (length s) # s"
| "etf (EStr s) = tag 107 # be_bytes 2 (length s) @ s"
| "etf (EBin s) = tag 109 # be_bytes 4 (length s) @ s"
| "etf ENil = [tag 106]"
| "etf (EList ts) = tag 108 # be_bytes 4 (length ts) @ concat (map etf ts) @ [tag 106]"
| "etf (ETuple ts) =
     (if length ts < 256 then tag 104 # char_of (length ts) # concat (map etf ts)
      else tag 105 # be_bytes 4 (length ts) @ concat (map etf ts))"
| "etf (EMap ps) =
     tag 116 # be_bytes 4 (length ps) @ concat (map (\<lambda>p. etf (fst p) @ etf (snd p)) ps)"

text \<open>The terms the format covers, as the emulator encodes them.\<close>

fun etf_wf :: "eterm \<Rightarrow> bool" where
  "etf_wf (EInt n) \<longleftrightarrow> length (le_bytes (nat \<bar>n\<bar>)) < 256"
| "etf_wf (EFloat x) \<longleftrightarrow> f64_enc x < 256 ^ 8 \<and> f64_dec (f64_enc x) = x"
| "etf_wf (EAtom s) \<longleftrightarrow> length s < 256 \<and> list_all (\<lambda>c. uchar c < 128) s"
| "etf_wf (EStr s) \<longleftrightarrow> 0 < length s \<and> length s < 65536"
| "etf_wf (EBin s) \<longleftrightarrow> length s < 256 ^ 4"
| "etf_wf ENil \<longleftrightarrow> True"
| "etf_wf (EList ts) \<longleftrightarrow> ts \<noteq> [] \<and> length ts < 256 ^ 4 \<and> list_all etf_wf ts"
| "etf_wf (ETuple ts) \<longleftrightarrow> length ts < 256 ^ 4 \<and> list_all etf_wf ts"
| "etf_wf (EMap ps) \<longleftrightarrow> length ps < 256 ^ 4 \<and> list_all (\<lambda>p. etf_wf (fst p) \<and> etf_wf (snd p)) ps"

section \<open>The decoders\<close>

text \<open>
  On the bytes from the index on: tag and size; the length of a term's own bytes, with the
  number of terms that belong to it and follow.
\<close>

fun etf_type :: "string \<Rightarrow> (int \<times> int) option" where
  "etf_type [] = None"
| "etf_type (c # s) = (let n = uchar c in
     if n = 119 then map_option (\<lambda>(k, _). (ERL_ATOM_EXT, int k)) (get_be 1 s)
     else if n = 70 then Some (ERL_FLOAT_EXT, 0)
     else if n = 107 then map_option (\<lambda>(k, _). (ERL_STRING_EXT, int k)) (get_be 2 s)
     else if n = 104 then map_option (\<lambda>(k, _). (ERL_SMALL_TUPLE_EXT, int k)) (get_be 1 s)
     else if n = 105 \<or> n = 108 \<or> n = 109 \<or> n = 116 then
       map_option (\<lambda>(k, _). (int n, int k)) (get_be 4 s)
     else if n = 110 then map_option (\<lambda>(k, _). (int n, int k)) (get_be 1 s)
     else Some (int n, 0))"

fun etf_head :: "string \<Rightarrow> (nat \<times> string) option" where
  "etf_head [] = None"
| "etf_head (c # s) = (let n = uchar c in
     if n = 97 then map_option (\<lambda>(_, r). (0, r)) (get_bytes 1 s)
     else if n = 98 then map_option (\<lambda>(_, r). (0, r)) (get_bytes 4 s)
     else if n = 110 then
       (case get_be 1 s of None \<Rightarrow> None
        | Some (k, r) \<Rightarrow> map_option (\<lambda>(_, r). (0, r)) (get_bytes (Suc k) r))
     else if n = 70 then map_option (\<lambda>(_, r). (0, r)) (get_bytes 8 s)
     else if n = 119 then
       (case get_be 1 s of None \<Rightarrow> None
        | Some (k, r) \<Rightarrow> map_option (\<lambda>(_, r). (0, r)) (get_bytes k r))
     else if n = 107 then
       (case get_be 2 s of None \<Rightarrow> None
        | Some (k, r) \<Rightarrow> map_option (\<lambda>(_, r). (0, r)) (get_bytes k r))
     else if n = 109 then
       (case get_be 4 s of None \<Rightarrow> None
        | Some (k, r) \<Rightarrow> map_option (\<lambda>(_, r). (0, r)) (get_bytes k r))
     else if n = 106 then Some (0, s)
     else if n = 108 then map_option (\<lambda>(k, r). (Suc k, r)) (get_be 4 s)
     else if n = 104 then get_be 1 s
     else if n = 105 then get_be 4 s
     else if n = 116 then map_option (\<lambda>(k, r). (2 * k, r)) (get_be 4 s)
     else None)"

text \<open>Skip \<open>n\<close> terms.\<close>

function etf_skip :: "nat \<Rightarrow> string \<Rightarrow> string option" where
  "etf_skip n s = (if n = 0 then Some s else case etf_head s of
      None \<Rightarrow> None
    | Some (m, r) \<Rightarrow> if length r < length s then etf_skip (n - 1 + m) r else None)"
  by pat_completeness auto
termination
  by (relation "measure (\<lambda>(n, s). length s)") auto

declare etf_skip.simps [simp del]

definition etf_int :: "string \<Rightarrow> (int \<times> string) option" where
  "etf_int s = (case s of [] \<Rightarrow> None | c # s' \<Rightarrow> (let n = uchar c in
     if n = 97 then map_option (\<lambda>(v, r). (int v, r)) (get_be 1 s')
     else if n = 98 then
       map_option (\<lambda>(v, r). (if v < 2 ^ 31 then int v else int v - 2 ^ 32, r)) (get_be 4 s')
     else if n = 110 then
       (case get_be 1 s' of None \<Rightarrow> None
        | Some (k, r) \<Rightarrow> (case get_bytes (Suc k) r of None \<Rightarrow> None
            | Some (x, r') \<Rightarrow> Some (if uchar (hd x) = 0 then int (le_val (tl x)) else - int (le_val (tl x)), r')))
     else None))"

definition etf_sized :: "nat \<Rightarrow> nat \<Rightarrow> string \<Rightarrow> (string \<times> string) option" where
  "etf_sized n k s = (case s of [] \<Rightarrow> None | c # s' \<Rightarrow>
     if uchar c = n then (case get_be k s' of None \<Rightarrow> None | Some (m, r) \<Rightarrow> get_bytes m r) else None)"

definition etf_double :: "string \<Rightarrow> (double \<times> string) option" where
  "etf_double s = (case s of [] \<Rightarrow> None | c # s' \<Rightarrow>
     if uchar c = 70 then map_option (\<lambda>(v, r). (f64_dec v, r)) (get_be 8 s') else None)"

definition etf_tuple :: "string \<Rightarrow> (nat \<times> string) option" where
  "etf_tuple s = (case s of [] \<Rightarrow> None | c # s' \<Rightarrow>
     if uchar c = 104 then get_be 1 s' else if uchar c = 105 then get_be 4 s' else None)"

definition etf_list :: "string \<Rightarrow> (nat \<times> string) option" where
  "etf_list s = (case s of [] \<Rightarrow> None | c # s' \<Rightarrow>
     if uchar c = 106 then Some (0, s') else if uchar c = 108 then get_be 4 s' else None)"

definition etf_map :: "string \<Rightarrow> (nat \<times> string) option" where
  "etf_map s = (case s of [] \<Rightarrow> None | c # s' \<Rightarrow> if uchar c = 116 then get_be 4 s' else None)"

text \<open>From a decoder of bytes to a function on a buffer and an index.\<close>

definition at_index :: "(string \<Rightarrow> ('a \<times> string) option) \<Rightarrow> string \<Rightarrow> int \<Rightarrow> (int \<times> 'a) option" where
  "at_index f b i = (if i < 0 then None else
     map_option (\<lambda>(v, r). (int (length b - length r), v)) (f (drop (nat i) b)))"

definition etf_ei :: ei where
  "etf_ei = \<lparr>
     ei_get_type = \<lambda>b i. if i < 0 then None else etf_type (drop (nat i) b),
     ei_skip_term = \<lambda>b i. (if i < 0 then (- 1, i) else case etf_skip 1 (drop (nat i) b) of
        None \<Rightarrow> (- 1, i) | Some r \<Rightarrow> (0, int (length b - length r))),
     ei_decode_version = at_index (\<lambda>s. case s of [] \<Rightarrow> None | c # r \<Rightarrow>
        if uchar c = 131 then Some (131, r) else None),
     ei_decode_tuple_header = \<lambda>b i. map_option (\<lambda>(j, n). (j, int n)) (at_index etf_tuple b i),
     ei_decode_list_header = \<lambda>b i. map_option (\<lambda>(j, n). (j, int n)) (at_index etf_list b i),
     ei_decode_map_header = \<lambda>b i. map_option (\<lambda>(j, n). (j, int n)) (at_index etf_map b i),
     ei_decode_atom = at_index (etf_sized 119 1),
     ei_decode_string = at_index (etf_sized 107 2),
     ei_decode_iodata = at_index (etf_sized 109 4),
     ei_decode_binary = at_index (etf_sized 109 4),
     ei_decode_long = \<lambda>b i. (case at_index etf_int b i of None \<Rightarrow> None
        | Some (j, n) \<Rightarrow> if - (2 ^ 63) \<le> n \<and> n < 2 ^ 63 then Some (j, n) else None),
     ei_decode_ulong = \<lambda>b i. (case at_index etf_int b i of None \<Rightarrow> None
        | Some (j, n) \<Rightarrow> if 0 \<le> n \<and> n < 2 ^ 64 then Some (j, word_of_int n) else None),
     ei_decode_double = at_index etf_double,
     ei_x_new = Some [],
     ei_x_append_buf = \<lambda>x p n. if 0 \<le> n \<and> n \<le> int (length p) then Some (x @ take (nat n) p) else None,
     ei_print_term = \<lambda>b i. if i < 0 then i else case etf_skip 1 (drop (nat i) b) of
        None \<Rightarrow> i | Some r \<Rightarrow> int (length b - length r)\<rparr>"

definition etf_enc :: "string \<Rightarrow> int \<Rightarrow> eterm \<Rightarrow> int \<Rightarrow> bool" where
  "etf_enc b i t j \<longleftrightarrow> 0 \<le> i \<and> etf_wf t \<and> (\<exists>r. drop (nat i) b = etf t @ r) \<and>
     j = i + int (length (etf t))"

section \<open>The laws\<close>

text \<open>The terms whose encodings follow the head of a term.\<close>

fun subterms :: "eterm \<Rightarrow> eterm list" where
  "subterms (EList ts) = ts @ [ENil]"
| "subterms (ETuple ts) = ts"
| "subterms (EMap ps) = flatten_pairs ps"
| "subterms _ = []"

lemma etf_flatten: "concat (map (\<lambda>p. etf (fst p) @ etf (snd p)) ps) = concat (map etf (flatten_pairs ps))"
  by (induction ps) auto

lemma length_flatten [simp]: "length (flatten_pairs ps) = 2 * length ps"
  by (induction ps) auto

lemma wf_flatten:
  "list_all (\<lambda>p. P (fst p) \<and> P (snd p)) ps = list_all P (flatten_pairs ps)"
  by (induction ps) auto

lemma etf_split: "\<exists>p. p \<noteq> [] \<and> etf t = p @ concat (map etf (subterms t))"
proof (cases t)
  case (ETuple ts)
  then show ?thesis
    by (cases "length ts < 256")
      (auto intro: exI [of _ "[tag 104, char_of (length ts)]"]
        exI [of _ "tag 105 # be_bytes 4 (length ts)"])
next
  case (EList ts)
  then show ?thesis
    by (auto intro: exI [of _ "tag 108 # be_bytes 4 (length ts)"])
next
  case (EMap ps)
  then show ?thesis
    by (auto simp: etf_flatten intro: exI [of _ "tag 116 # be_bytes 4 (length ps)"])
qed auto

lemma get_be_1: "n < 256 \<Longrightarrow> get_be (Suc 0) (char_of n # r) = Some (n, r)"
  by (simp add: get_be_def be_val_def uchar_char_of)

lemma get_bytes_Suc: "get_bytes (Suc (length x)) (c # x @ r) = Some (c # x, r)"
  by (simp add: get_bytes_def)

lemma get_bytes_lit: "get_bytes (Suc 0) (c # r) = Some ([c], r)"
  by (simp add: get_bytes_def)

lemma get_bytes_be: "get_bytes k (be_bytes k n @ r) = Some (be_bytes k n, r)"
  using get_bytes_append [of "be_bytes k n"] by simp

lemma etf_head_etf:
  "etf_wf t \<Longrightarrow> etf_head (etf t @ r) = Some (length (subterms t), concat (map etf (subterms t)) @ r)"
  by (cases t)
    (auto simp: Let_def uchar_char_of get_be_1 get_be_bytes get_bytes_append get_bytes_Suc
      get_bytes_lit get_bytes_be etf_flatten simp del: be_bytes.simps)

definition skips :: "eterm \<Rightarrow> bool" where
  "skips t \<longleftrightarrow> (etf_wf t \<longrightarrow> (\<forall>n r. etf_skip (Suc n) (etf t @ r) = etf_skip n r))"

lemma etf_skip_list:
  "\<forall>u \<in> set us. skips u \<Longrightarrow> list_all etf_wf us \<Longrightarrow>
    etf_skip (n + length us) (concat (map etf us) @ r) = etf_skip n r"
proof (induction us)
  case (Cons u us)
  then have "etf_skip (Suc (n + length us)) (etf u @ (concat (map etf us) @ r)) =
      etf_skip (n + length us) (concat (map etf us) @ r)"
    by (simp add: skips_def)
  with Cons show ?case by simp
qed simp

lemma wf_subterms: "etf_wf t \<Longrightarrow> list_all etf_wf (subterms t)"
  by (cases t) (auto simp: wf_flatten)

lemma skips_step: "\<forall>u \<in> set (subterms t). skips u \<Longrightarrow> skips t"
  unfolding skips_def [of t]
proof (intro impI allI)
  fix n r
  assume u: "\<forall>u \<in> set (subterms t). skips u" and wf: "etf_wf t"
  have "length (concat (map etf (subterms t)) @ r) < length (etf t @ r)"
    using etf_split [of t] by auto
  then have "etf_skip (Suc n) (etf t @ r) =
      etf_skip (n + length (subterms t)) (concat (map etf (subterms t)) @ r)"
    by (subst etf_skip.simps) (simp add: etf_head_etf [OF wf])
  also have "\<dots> = etf_skip n r"
    by (rule etf_skip_list [OF u wf_subterms [OF wf]])
  finally show "etf_skip (Suc n) (etf t @ r) = etf_skip n r" .
qed

lemma set_flatten: "u \<in> set (flatten_pairs ps) \<longleftrightarrow> (\<exists>p \<in> set ps. u = fst p \<or> u = snd p)"
  by (induction ps) auto

lemma etf_skips: "skips t"
proof (induction t)
  case (EList ts)
  moreover have "skips ENil" by (rule skips_step) simp
  ultimately show ?case by (intro skips_step) auto
next
  case (EMap ps)
  then show ?case
    by (intro skips_step) (auto simp: set_flatten fsts.simps snds.simps)
qed (auto intro: skips_step)

lemma etf_skip_term: "etf_wf t \<Longrightarrow> etf_skip 1 (etf t @ r) = Some r"
  using etf_skips [of t] by (simp add: skips_def etf_skip.simps [of 0])

lemma etf_encI: "0 \<le> i \<Longrightarrow> etf_wf t \<Longrightarrow> drop (nat i) b = etf t @ r \<Longrightarrow>
    etf_enc b i t (i + int (length (etf t)))"
  by (auto simp: etf_enc_def)

text \<open>The bytes from \<open>i\<close> on and the index after them.\<close>

lemma etf_encE:
  assumes "etf_enc b i t j"
  obtains r where "0 \<le> i" "etf_wf t" "drop (nat i) b = etf t @ r" "j = i + int (length (etf t))"
    "int (length b) = j + int (length r)"
proof -
  obtain r where r: "0 \<le> i" "etf_wf t" "drop (nat i) b = etf t @ r" "j = i + int (length (etf t))"
    using assms by (auto simp: etf_enc_def)
  have "etf t \<noteq> []" using etf_split [of t] by auto
  then have "nat i < length b" using r(3) by (metis append_is_Nil_conv drop_all not_le)
  moreover have "length b - nat i = length (etf t) + length r"
    using arg_cong [OF r(3), of length] by simp
  ultimately have "int (length b) = j + int (length r)" using r(1,4) by linarith
  with r that show ?thesis by blast
qed

lemma at_index_etf:
  assumes "etf_enc b i t j" "\<And>r. f (etf t @ r) = Some (v, s @ r)" "etf t = p @ s"
  shows "at_index f b i = Some (j - int (length s), v)"
proof -
  obtain r where r: "0 \<le> i" "drop (nat i) b = etf t @ r" "j = i + int (length (etf t))"
    "int (length b) = j + int (length r)"
    using etf_encE [OF assms(1)] by metis
  have "length s \<le> length (etf t)" using assms(3) by simp
  then show ?thesis
    using r assms(2) by (simp add: at_index_def of_nat_diff)
qed

lemma at_index_leaf:
  "etf_enc b i t j \<Longrightarrow> (\<And>r. f (etf t @ r) = Some (v, r)) \<Longrightarrow> at_index f b i = Some (j, v)"
  using at_index_etf [of b i t j f v "[]" "etf t"] by simp

lemma drop_more: "drop n b = x @ y \<Longrightarrow> drop (n + length x) b = y"
  by (metis add.commute append_eq_conv_conj drop_drop)

lemma encs_etf:
  "0 \<le> k \<Longrightarrow> list_all etf_wf ts \<Longrightarrow> drop (nat k) b = concat (map etf ts) @ r \<Longrightarrow>
    encs etf_enc b k ts (k + int (length (concat (map etf ts))))"
proof (induction ts arbitrary: k)
  case (Cons t ts)
  let ?k = "k + int (length (etf t))"
  have d: "drop (nat k) b = etf t @ (concat (map etf ts) @ r)" using Cons.prems by simp
  have "drop (nat ?k) b = concat (map etf ts) @ r"
    using drop_more [OF d] Cons.prems(1) by (simp add: nat_add_distrib)
  then have "encs etf_enc b ?k ts (?k + int (length (concat (map etf ts))))"
    using Cons.prems by (intro Cons.IH) auto
  moreover have "etf_enc b k t ?k"
    using Cons.prems d by (intro etf_encI) auto
  ultimately show ?case by (auto simp: add.assoc)
qed simp

text \<open>A header that has been read leaves the encodings of the terms that belong to it.\<close>

lemma at_index_header:
  assumes e: "etf_enc b i t j"
    and f: "\<And>r. f (etf t @ r) = Some (n, concat (map etf (subterms t)) @ r)"
  shows "\<exists>k. at_index f b i = Some (k, n) \<and> encs etf_enc b k (subterms t) j"
proof -
  let ?s = "concat (map etf (subterms t))"
  obtain p where p: "etf t = p @ ?s" using etf_split [of t] by blast
  obtain r where r: "0 \<le> i" "etf_wf t" "drop (nat i) b = etf t @ r" "j = i + int (length (etf t))"
    using etf_encE [OF e] by metis
  have "drop (nat (i + int (length p))) b = ?s @ r"
    using drop_more [of "nat i" b p "?s @ r"] r(1,3) p by (simp add: nat_add_distrib)
  then have "encs etf_enc b (i + int (length p)) (subterms t) (i + int (length p) + int (length ?s))"
    using r by (intro encs_etf wf_subterms) auto
  moreover have "i + int (length p) + int (length ?s) = j" using r(4) p by simp
  moreover have "at_index f b i = Some (j - int (length ?s), n)"
    by (rule at_index_etf [OF e f p])
  moreover have "j - int (length ?s) = i + int (length p)" using r(4) p by simp
  ultimately show ?thesis by metis
qed

lemma etf_type_etf: "etf_wf t \<Longrightarrow>
    \<exists>sz. etf_type (etf t @ r) = Some (etype t, sz) \<and> (\<forall>n. esize t = Some n \<longrightarrow> sz = n)"
  by (cases t)
    (auto simp: Let_def uchar_char_of get_be_1 get_be_bytes erl_tags simp del: be_bytes.simps)

lemma etf_int_etf: "etf_wf (EInt n) \<Longrightarrow> etf_int (etf (EInt n) @ r) = Some (n, r)"
proof -
  assume wf: "etf_wf (EInt n)"
  consider (small) "0 \<le> n \<and> n < 256" | (mid) "\<not> (0 \<le> n \<and> n < 256)" "- (2 ^ 31) \<le> n \<and> n < 2 ^ 31"
    | (big) "\<not> (0 \<le> n \<and> n < 256)" "\<not> (- (2 ^ 31) \<le> n \<and> n < 2 ^ 31)" by blast
  then show ?thesis
  proof cases
    case small
    then have "nat n < 256" by linarith
    from get_be_1 [OF this, of r] small show ?thesis by (simp add: etf_int_def uchar_char_of)
  next
    case mid
    have m: "nat (n mod 2 ^ 32) < 256 ^ 4" by (simp add: nat_less_iff)
    have v: "int (nat (n mod 2 ^ 32)) = (if 0 \<le> n then n else n + 2 ^ 32)"
    proof (cases "0 \<le> n")
      case True
      then show ?thesis using mid by simp
    next
      case False
      then have "(n + 2 ^ 32) mod 2 ^ 32 = n + 2 ^ 32"
        using mid by (intro mod_pos_pos_trivial) auto
      then show ?thesis using False mid by simp
    qed
    obtain u where u: "u = nat (n mod 2 ^ 32)" by blast
    have "(if u < 2 ^ 31 then int u else int u - 2 ^ 32) = n"
      using mid v [folded u] by (cases "0 \<le> n") auto
    moreover have "etf (EInt n) = tag 98 # be_bytes 4 u"
      unfolding u using mid by (simp only: etf.simps if_False if_True simp_thms)
    ultimately show ?thesis
      using get_be_bytes [OF m [folded u], of r]
      by (simp only: etf_int_def append_Cons list.case Let_def uchar_char_of) simp
  next
    case big
    let ?x = "le_bytes (nat \<bar>n\<bar>)" and ?s = "char_of (if n < 0 then 1 else 0 :: nat) :: char"
    have "etf (EInt n) = tag 110 # char_of (length ?x) # ?s # ?x"
      using big by (simp only: etf.simps if_False)
    moreover have "get_be 1 (char_of (length ?x) # ?s # ?x @ r) = Some (length ?x, ?s # ?x @ r)"
      using wf get_be_1 [of "length ?x"] by simp
    ultimately show ?thesis
      by (simp add: etf_int_def uchar_char_of get_bytes_Suc le_val_le_bytes del: etf.simps)
  qed
qed

lemma etf_sized_etf:
  "etf_wf (EAtom s) \<Longrightarrow> etf_sized 119 1 (etf (EAtom s) @ r) = Some (s, r)"
  "etf_wf (EStr s) \<Longrightarrow> etf_sized 107 2 (etf (EStr s) @ r) = Some (s, r)"
  "etf_wf (EBin s) \<Longrightarrow> etf_sized 109 4 (etf (EBin s) @ r) = Some (s, r)"
  by (auto simp: etf_sized_def uchar_char_of get_be_1 get_be_bytes get_bytes_append
      simp del: be_bytes.simps)

lemma etf_double_etf: "etf_wf (EFloat x) \<Longrightarrow> etf_double (etf (EFloat x) @ r) = Some (x, r)"
  by (auto simp: etf_double_def uchar_char_of get_be_bytes simp del: be_bytes.simps)

lemma etf_tuple_etf: "etf_wf (ETuple ts) \<Longrightarrow>
    etf_tuple (etf (ETuple ts) @ r) = Some (length ts, concat (map etf ts) @ r)"
  by (auto simp: etf_tuple_def uchar_char_of get_be_1 get_be_bytes simp del: be_bytes.simps)

lemma etf_list_etf:
  "etf_wf (EList ts) \<Longrightarrow>
    etf_list (etf (EList ts) @ r) = Some (length ts, concat (map etf (ts @ [ENil])) @ r)"
  "etf_list (etf ENil @ r) = Some (0, r)"
  by (auto simp: etf_list_def uchar_char_of get_be_bytes simp del: be_bytes.simps)

lemma etf_map_etf: "etf_wf (EMap ps) \<Longrightarrow>
    etf_map (etf (EMap ps) @ r) = Some (length ps, concat (map etf (flatten_pairs ps)) @ r)"
  by (auto simp: etf_map_def uchar_char_of get_be_bytes etf_flatten simp del: be_bytes.simps)

lemma etf_enc_wf: "etf_enc b i t j \<Longrightarrow> etf_wf t"
  by (simp add: etf_enc_def)

lemma etf_slice: "etf_enc b i t j \<Longrightarrow> 0 \<le> i \<and> i \<le> j \<and> j \<le> int (length b) \<and>
    take (nat (j - i)) (drop (nat i) b) = etf t"
  by (elim etf_encE) auto

lemma float_wf: "etf_wf (EFloat (Fin 0))" "etf_wf (EFloat (Fin 1))"
proof -
  have "(0::nat) < 256 ^ 8" "(1023 * 2 ^ 52 :: nat) < 256 ^ 8" by simp_all
  then show "etf_wf (EFloat (Fin 0))" "etf_wf (EFloat (Fin 1))"
    by (simp_all only: etf_wf.simps f64_zero f64_one simp_thms)
qed

theorem ei_laws_etf: "ei_laws etf_ei etf_enc etf"
proof
  fix b i t j
  assume e: "etf_enc b i t j"
  show "\<exists>sz. ei_get_type etf_ei b i = Some (etype t, sz) \<and> (\<forall>n. esize t = Some n \<longrightarrow> sz = n)"
    using e by (elim etf_encE) (simp add: etf_ei_def etf_type_etf)
  show "ei_skip_term etf_ei b i = (0, j)" "ei_print_term etf_ei b i = j"
    using e by (elim etf_encE; simp add: etf_ei_def etf_skip_term [simplified])+
  show "0 \<le> i \<and> i \<le> j \<and> j \<le> int (length b) \<and> take (nat (j - i)) (drop (nat i) b) = etf t"
    using e by (rule etf_slice)
next
  fix b i ts j
  assume e: "etf_enc b i (ETuple ts) j"
  show "\<exists>k. ei_decode_tuple_header etf_ei b i = Some (k, int (length ts)) \<and> encs etf_enc b k ts j"
    using at_index_header [OF e, of etf_tuple "length ts"] etf_tuple_etf [OF etf_enc_wf [OF e]]
    by (auto simp: etf_ei_def)
next
  fix b i ts j
  assume e: "etf_enc b i (EList ts) j"
  show "ts \<noteq> [] \<and> (\<exists>k m. ei_decode_list_header etf_ei b i = Some (k, int (length ts)) \<and>
      encs etf_enc b k ts m \<and> etf_enc b m ENil j)"
    using at_index_header [OF e, of etf_list "length ts"] etf_list_etf(1) [OF etf_enc_wf [OF e]]
      etf_enc_wf [OF e]
    by (auto simp: etf_ei_def encs_append)
next
  fix b i j
  assume e: "etf_enc b i ENil j"
  show "ei_decode_list_header etf_ei b i = Some (j, 0)"
    using at_index_leaf [OF e, of etf_list 0] etf_list_etf(2) by (simp add: etf_ei_def)
next
  fix b i ps j
  assume e: "etf_enc b i (EMap ps) j"
  show "\<exists>k. ei_decode_map_header etf_ei b i = Some (k, int (length ps)) \<and>
      encs etf_enc b k (flatten_pairs ps) j"
    using at_index_header [OF e, of etf_map "length ps"] etf_map_etf [OF etf_enc_wf [OF e]]
    by (auto simp: etf_ei_def)
next
  fix b i s j
  assume e: "etf_enc b i (EAtom s) j"
  show "ei_decode_atom etf_ei b i = Some (j, s)"
    using at_index_leaf [OF e etf_sized_etf(1) [OF etf_enc_wf [OF e]]] by (simp add: etf_ei_def)
next
  fix b i s j
  assume e: "etf_enc b i (EStr s) j"
  show "ei_decode_string etf_ei b i = Some (j, s)"
    using at_index_leaf [OF e etf_sized_etf(2) [OF etf_enc_wf [OF e]]] by (simp add: etf_ei_def)
next
  fix b i s j
  assume e: "etf_enc b i (EBin s) j"
  show "ei_decode_iodata etf_ei b i = Some (j, s)" "ei_decode_binary etf_ei b i = Some (j, s)"
    using at_index_leaf [OF e etf_sized_etf(3) [OF etf_enc_wf [OF e]]] by (simp_all add: etf_ei_def)
next
  fix b i n j
  assume e: "etf_enc b i (EInt n) j"
  have at: "at_index etf_int b i = Some (j, n)"
    by (rule at_index_leaf [OF e etf_int_etf [OF etf_enc_wf [OF e]]])
  show "ei_decode_long etf_ei b i = Some (j, n)" if "- (2 ^ 63) \<le> n" "n < 2 ^ 63"
    using at that by (simp add: etf_ei_def)
  show "ei_decode_ulong etf_ei b i = Some (j, word_of_int n)" if "0 \<le> n" "n < 2 ^ 64"
    using at that by (simp add: etf_ei_def)
next
  fix b i d j
  assume e: "etf_enc b i (EFloat d) j"
  show "ei_decode_double etf_ei b i = Some (j, d)"
    using at_index_leaf [OF e etf_double_etf [OF etf_enc_wf [OF e]]] by (simp add: etf_ei_def)
next
  fix b :: string and i :: int
  assume "0 \<le> i" "i < int (length b)" "b ! nat i = char_of (131::nat)"
  moreover from this have "drop (nat i) b = char_of (131::nat) # drop (Suc (nat i)) b"
    by (metis Cons_nth_drop_Suc nat_less_iff)
  ultimately show "ei_decode_version etf_ei b i = Some (i + 1, 131)"
    by (simp add: etf_ei_def at_index_def uchar_char_of)
next
  show "ei_x_new etf_ei = Some []" by (simp add: etf_ei_def)
next
  fix n :: int and p x :: string
  assume "0 \<le> n" "n \<le> int (length p)"
  then show "ei_x_append_buf etf_ei x p n = Some (x @ take (nat n) p)" by (simp add: etf_ei_def)
qed

interpretation etf: ei_laws etf_ei etf_enc etf
  by (rule ei_laws_etf)

end
