(* ===== verification/Entity_Spec.thy ===== *)
theory Entity_Spec
  imports Job Entities_Cluster Entities_Sched Ei_Etf
begin

text \<open>
  What the entity readers guarantee, and what they do not: the records of the Erlang side are
  read field by field into the members, and the cases in which a reader reports success on a
  term it has not taken over.
\<close>

section \<open>Records that are read completely\<close>

definition sample_resource :: SwmResource where
  "sample_resource = SwmResource ''node'' (Some 1) [] [] [(''aws'', ''3'')] (Some 0)
     [SwmResource ''cpus'' (Some 24) [] [(''id'', etf (EInt 7))] [] (Some 0) []]"

definition sample_resource_term :: eterm where
  "sample_resource_term = ETuple [EAtom ''resource'', EStr ''node'', EInt 1, ENil, ENil,
     EMap [(EStr ''aws'', EInt 3)], EInt 0,
     EList [ETuple [EAtom ''resource'', EStr ''cpus'', EInt 24, ENil,
       EList [ETuple [EAtom ''id'', EInt 7]], EMap [], EInt 0, ENil]]]"

definition sample_job :: SwmJob where
  "sample_job = SwmJob_init\<lparr>job_id := ''j1'', job_nodes := [''n1'', ''n2''], job_duration := Some 60,
     job_env := [(''A'', ''1'')], job_deps := [(''ok'', ''j0'')], job_user_id := ''u'',
     job_script_content := ''#!/bin/sh'', job_request := [sample_resource], job_relocatable := ''false'',
     job_keep_resources := ''true'', job_checkpoint_interval := Some 0, job_exitcode := Some 0,
     job_signal := Some 9, job_priority := Some 300, job_revision := Some 4294967296\<rparr>"

definition sample_job_term :: eterm where
  "sample_job_term = ETuple [EAtom ''job'', EStr ''j1'', ENil, ENil, EList [EStr ''n1'', EBin ''n2''],
     ENil, ENil, ENil, ENil, ENil, EInt 60, ENil, ENil, ENil, ENil, ENil, ENil, EStr ''u'', ENil,
     EList [ETuple [EStr ''A'', EStr ''1'']], EList [ETuple [EAtom ''ok'', EStr ''j0'']], ENil, ENil,
     ENil, EBin ''#!/bin/sh'', EList [sample_resource_term], ENil, ENil, EAtom ''false'', EAtom ''true'',
     ENil, ENil, EInt 0, ENil, EInt 0, EInt 9, EInt 300, ENil, EInt 4294967296]"

text \<open>
  C21. Given a resource record with nested resources to any depth, the constructor of
  \<open>SwmResource\<close> takes over every field, nested resources included, and leaves the index right
  after the record; a nesting bound of the depth of the resource is enough for it to return.
\<close>

theorem resource_ctor_correct:
  assumes "ei_laws E enc bytes" and "enc b i t j"
    and "val_resource bytes r t" and "resource_depth r \<le> d"
  shows "SwmResource_ctor E d b i = Some (j, r)"
  using ei_laws.resource_ctor_reads [OF assms(1,3,4)] assms(2) by (simp add: constructs_def)

lemma etf_enc_whole: "etf_wf t \<Longrightarrow> etf_enc (etf t) 0 t (int (length (etf t)))"
  by (simp add: etf_enc_def)

lemmas val_simps = val_str_def val_atom_def val_u64_def val_i64_def val_double_def val_scl_def
  val_list_def val_pair_def val_bytes_def val_u64_list_def c_str_def

lemma val_map_sample: "val_map [(''aws'', ''3'')] (EMap [(EStr ''aws'', EInt 3)])"
proof -
  have "dec_int 3 = ''3''" by code_simp
  then show ?thesis
    by (auto simp: val_map_def val_str_def c_str_def om_emplace_def om_find_def
        intro!: exI [of _ "[(''aws'', ''3'')]"])
qed

lemma val_map_empty: "val_map [] (EMap [])"
  by (simp add: val_map_def)

lemma sample_resource_val: "val_resource etf sample_resource sample_resource_term"
  unfolding sample_resource_def sample_resource_term_def
  by (intro val_resource_nested) (auto simp: val_simps val_map_empty val_map_sample
      intro!: val_resource_nested)

lemma sample_resource_wf: "etf_wf sample_resource_term"
  by (simp add: sample_resource_term_def le_bytes.simps)

lemma sample_resource_depth: "resource_depth sample_resource = 2"
  by (simp add: sample_resource_def)

theorem resource_ctor_correct_witness:
  "SwmResource_ctor etf_ei 2 (etf sample_resource_term) 0 =
     Some (int (length (etf sample_resource_term)), sample_resource)"
  by (rule resource_ctor_correct [OF ei_laws_etf etf_enc_whole [OF sample_resource_wf]
        sample_resource_val]) (simp add: sample_resource_depth)

text \<open>
  C7. Given a job record of 38 well-typed fields, the constructor of \<open>SwmJob\<close> takes over every
  field in its member, the requested and the allocated resources with everything nested in
  them included, leaves no member indeterminate and ends right after the record.
\<close>

theorem job_ctor_correct:
  assumes "ei_laws E enc bytes" and "enc b i t j" and "val_job bytes s t"
    and "resource_list_depth (job_request s) \<le> d" and "resource_list_depth (job_resources s) \<le> d"
  shows "SwmJob_ctor E d b i = Some (j, s)"
  using ei_laws.job_ctor_reads [OF assms(1,3-5)] assms(2) by (simp add: constructs_def)

lemma sample_job_val: "val_job etf sample_job sample_job_term"
  by (simp add: val_job_def val_record_def sample_job_def sample_job_term_def SwmJob_init_def
      val_simps sample_resource_val)

lemma sample_job_wf: "etf_wf sample_job_term"
  using sample_resource_wf by (simp add: sample_job_term_def le_bytes.simps)

theorem job_ctor_correct_witness:
  "SwmJob_ctor etf_ei 2 (etf sample_job_term) 0 = Some (int (length (etf sample_job_term)), sample_job)"
  by (rule job_ctor_correct [OF ei_laws_etf etf_enc_whole [OF sample_job_wf] sample_job_val])
    (simp_all add: sample_job_def SwmJob_init_def resource_list_depth_def sample_resource_depth)

text \<open>
  Given a node record, the constructor of \<open>SwmNode\<close> takes over every field, the list of
  roles whether it arrives as a list or, when all roles are below 128, as a byte string, the
  opaque property terms byte by byte, and the map of prices.
\<close>

theorem node_ctor_correct:
  assumes "ei_laws E enc bytes" and "enc b i t j" and "val_node bytes s t"
    and "resource_list_depth (node_resources s) \<le> d"
  shows "SwmNode_ctor E d b i = Some (j, s)"
  using ei_laws.node_ctor_reads [OF assms(1,3,4)] assms(2) by (simp add: constructs_def)

definition sample_node :: SwmNode where
  "sample_node = SwmNode_init\<lparr>node_name := ''n1'', node_host := ''h'', node_api_port := Some 10001,
     node_state_power := ''up'', node_state_alloc := ''idle'', node_roles := [1, 2],
     node_properties := [(''x'', etf (ETuple [EInt 1, EFloat (Fin 1)]))], node_subdivision := ''grid'',
     node_is_template := ''false'', node_prices := [(''aws'', ''3'')], node_revision := Some 2\<rparr>"

definition sample_node_term :: eterm where
  "sample_node_term = ETuple [EAtom ''node'', ENil, EStr ''n1'', EStr ''h'', EInt 10001, ENil,
     EAtom ''up'', EAtom ''idle'', EStr [CHR 0x01, CHR 0x02], ENil,
     EList [ETuple [EAtom ''x'', ETuple [EInt 1, EFloat (Fin 1)]]], EAtom ''grid'', ENil, ENil, ENil,
     EAtom ''false'', ENil, EMap [(EStr ''aws'', EInt 3)], EInt 2]"

lemma sample_node_val: "val_node etf sample_node sample_node_term"
  by (simp add: val_node_def val_record_def sample_node_def sample_node_term_def SwmNode_init_def
      val_simps val_map_sample)

lemma sample_node_wf: "etf_wf sample_node_term"
  by (simp add: sample_node_term_def le_bytes.simps float_wf del: etf_wf.simps(2))

theorem node_ctor_correct_witness:
  "SwmNode_ctor etf_ei 0 (etf sample_node_term) 0 =
     Some (int (length (etf sample_node_term)), sample_node)"
  by (rule node_ctor_correct [OF ei_laws_etf etf_enc_whole [OF sample_node_wf] sample_node_val])
    (simp add: sample_node_def SwmNode_init_def resource_list_depth_def)

text \<open>
  C20. Given a scheduler result with its timetables and metrics, the constructor of
  \<open>SwmSchedulerResult\<close> takes over the elements of both arrays and every scalar field.
\<close>

theorem scheduler_result_ctor_correct:
  assumes "ei_laws E enc bytes" and "enc b i t j" and "val_scheduler_result s t"
  shows "SwmSchedulerResult_ctor E b i = Some (j, s)"
  using ei_laws.scheduler_result_ctor_reads [OF assms(1,3)] assms(2) by (simp add: constructs_def)

definition sample_result :: SwmSchedulerResult where
  "sample_result = SwmSchedulerResult_init\<lparr>
     scheduler_result_timetable := [
       \<lparr>timetable_start_time = Some 5, timetable_job_id = ''a'', timetable_job_nodes = [''n1'']\<rparr>,
       \<lparr>timetable_start_time = Some 9, timetable_job_id = ''b'', timetable_job_nodes = []\<rparr>],
     scheduler_result_request_id := ''r'', scheduler_result_status := Some 0,
     scheduler_result_astro_time := Some (Fin 1), scheduler_result_idle_time := Some (Fin 0),
     scheduler_result_work_time := Some (Fin 1)\<rparr>"

definition sample_result_term :: eterm where
  "sample_result_term = ETuple [EAtom ''scheduler_result'',
     EList [ETuple [EAtom ''timetable'', EInt 5, EStr ''a'', EList [EStr ''n1'']],
            ETuple [EAtom ''timetable'', EInt 9, EStr ''b'', ENil]],
     ENil, EStr ''r'', EInt 0, EFloat (Fin 1), EFloat (Fin 0), EFloat (Fin 1)]"

lemma sample_result_val: "val_scheduler_result sample_result sample_result_term"
  by (simp add: val_scheduler_result_def val_timetable_def val_record_def sample_result_def
      sample_result_term_def SwmSchedulerResult_init_def val_simps)

lemma sample_result_wf: "etf_wf sample_result_term"
  by (simp add: sample_result_term_def le_bytes.simps float_wf del: etf_wf.simps(2))

theorem scheduler_result_ctor_correct_witness:
  "SwmSchedulerResult_ctor etf_ei (etf sample_result_term) 0 =
     Some (int (length (etf sample_result_term)), sample_result)"
  by (rule scheduler_result_ctor_correct [OF ei_laws_etf etf_enc_whole [OF sample_result_wf]
        sample_result_val])

section \<open>Terms that are not taken over\<close>

text \<open>
  A list that is not a byte string (the form in which Erlang sends a string with a
  character above 255, or one longer than 65535 bytes) is skipped by the string reader: it
  reports success and the string keeps the value it had.
\<close>

theorem str_reader_skips_lists:
  assumes "ei_laws E enc bytes" and "enc b i (EList ts) j"
  shows "ei_buffer_to_str E b i s = (True, j, s)"
proof -
  have "\<exists>sz. ei_get_type E b i = Some (etype (EList ts), sz)"
    using ei_laws.type_of [OF assms] .
  then show ?thesis
    using ei_laws.skip [OF assms] by (auto simp: ei_buffer_to_str_def erl_tags)
qed

theorem str_reader_skips_lists_witness:
  "ei_buffer_to_str etf_ei (etf (EList [EInt 955, EInt 120])) 0 [] =
     (True, int (length (etf (EList [EInt 955, EInt 120]))), [])"
  by (rule str_reader_skips_lists [OF ei_laws_etf etf_enc_whole]) (simp add: le_bytes.simps)

lemma char_to_u64_negative: "128 \<le> uchar c \<Longrightarrow> uint (char_to_u64 c) = 2 ^ 64 - 256 + int (uchar c)"
proof -
  assume c: "128 \<le> uchar c"
  have "char_to_u64 c = word_of_int (int (uchar c) - 256)"
    unfolding char_to_u64_def using c by (simp only: not_less [symmetric] if_False)
  then have "uint (char_to_u64 c) = (int (uchar c) - 256) mod 2 ^ 64"
    by (simp only: uint_word_of_int) simp
  also have "\<dots> = (2 ^ 64 - 256 + int (uchar c)) mod 2 ^ 64"
    by (metis (no_types, lifting) add.commute add_diff_eq mod_add_self2)
  also have "\<dots> = 2 ^ 64 - 256 + int (uchar c)"
  proof (rule mod_pos_pos_trivial)
    have "int (uchar c) < 256" using uchar_less [of c] by (simp only: of_nat_less_numeral_iff)
    then show "2 ^ 64 - 256 + int (uchar c) < 2 ^ 64" by simp
  qed simp
  finally show ?thesis .
qed

text \<open>
  C38. Integers that arrive as a byte string go through a signed \<open>char\<close>: the vector has one
  element per byte, a byte below 128 is read as its value and any other byte \<open>c\<close> as
  \<open>2 ^ 64 - 256 + c\<close>.
\<close>

theorem uint64_vec_sign_extends:
  assumes "ei_laws E enc bytes" and "enc b i (EStr s) j"
  shows "\<exists>vs. ei_buffer_to_uint64_t_vec E b i [] = (True, j, vs) \<and> length vs = length s \<and>
    (\<forall>n < length s. uint (vs ! n) =
       (if uchar (s ! n) < 128 then int (uchar (s ! n)) else 2 ^ 64 - 256 + int (uchar (s ! n))))"
proof -
  obtain sz where "ei_get_type E b i = Some (ERL_STRING_EXT, sz)" "sz = int (length s)"
    using ei_laws.get_type [OF assms] by auto
  then have "ei_buffer_to_uint64_t_vec E b i [] = (True, j, map char_to_u64 s)"
    using ei_laws.string [OF assms] by (simp add: ei_buffer_to_uint64_t_vec_def)
  moreover have "uint (char_to_u64 c) = int (uchar c)" if "uchar c < 128" for c
    using that by (simp add: char_to_u64_def uint_nat unat_of_nat)
  ultimately show ?thesis by (auto simp: char_to_u64_negative)
qed

theorem uint64_vec_sign_extends_witness:
  "\<exists>vs. ei_buffer_to_uint64_t_vec etf_ei (etf (EStr [CHR 0x07, CHR 0xC8])) 0 [] = (True, 5, vs) \<and>
     length vs = 2 \<and> (\<forall>n < 2. uint (vs ! n) = [7, 18446744073709551560] ! n)"
proof -
  have "etf_wf (EStr [CHR 0x07, CHR 0xC8])" by simp
  from uint64_vec_sign_extends [OF ei_laws_etf etf_enc_whole [OF this]]
  show ?thesis by (auto simp: less_2_cases_iff)
qed

text \<open>
  A map value of a type without a case (here a binary) is not skipped: the reader reports
  success, stores the key with an empty value and leaves the index before the value, from which
  the next member will be read.
\<close>

theorem map_reader_leaves_binary:
  assumes "ei_laws E enc bytes" and "enc b i (EMap [(t, EBin v)]) j" and "val_str k t"
  shows "\<exists>m. ei_buffer_to_map E b i [] = (True, m, [(k, [])]) \<and> enc b m (EBin v) j"
proof -
  obtain h m where h: "ei_decode_map_header E b i = Some (h, 1)" "enc b h t m" "enc b m (EBin v) j"
    using ei_laws.map [OF assms(1,2)] by auto
  have "ei_buffer_to_str E b h [] = (True, m, k)"
    using ei_laws.reads_str [OF assms(1,3)] h(2) by (simp add: reads_def)
  moreover have "read_map_value E b m [] = (True, m, [])"
    using ei_laws.term_type [OF assms(1) h(3)] by (simp add: read_map_value_def erl_tags)
  ultimately show ?thesis using h by (auto simp: ei_buffer_to_map_def om_emplace_def om_find_def)
qed

theorem map_reader_leaves_binary_witness:
  "\<exists>m. ei_buffer_to_map etf_ei (etf (EMap [(EStr ''k'', EBin ''v'')])) 0 [] = (True, m, [(''k'', [])]) \<and>
     etf_enc (etf (EMap [(EStr ''k'', EBin ''v'')])) m (EBin ''v'') 15"
proof -
  have "etf_wf (EMap [(EStr ''k'', EBin ''v'')])" "val_str ''k'' (EStr ''k'')"
    by (simp_all add: val_str_def c_str_def)
  from map_reader_leaves_binary [OF ei_laws_etf etf_enc_whole [OF this(1)] this(2)]
  show ?thesis by simp
qed

lemma entity_elems_stuck:
  assumes "ei_laws E enc bytes" and "enc b k (EInt n) m"
  shows "entity_elems E ctor b c k xs = Some (True, k, xs)"
proof (induction c)
  case (Suc c)
  obtain sz where "ei_get_type E b k = Some (etype (EInt n), sz)"
    using ei_laws.type_of [OF assms] by blast
  then show ?case using Suc by (auto simp: erl_tags)
qed simp

text \<open>
  C37. In an array of entities an element that is not a tuple is not skipped: when the first
  element is one, the reader takes over no element at all, reports success, and leaves the
  index after the first element instead of after the list.
\<close>

theorem entity_array_stuck_element:
  assumes "ei_laws E enc bytes" and "enc b i (EList (EInt n # ts)) j"
  shows "\<exists>k m. ei_buffer_to_resource_vec E d b i [] = Some (True, m, []) \<and>
    enc b k (EInt n) m \<and> (\<exists>l. encs enc b m ts l \<and> enc b l ENil j)"
proof -
  obtain k m l where k: "ei_decode_list_header E b i = Some (k, int (Suc (length ts)))"
    "enc b k (EInt n) m" "encs enc b m ts l" "enc b l ENil j"
    using ei_laws.list [OF assms] by auto
  obtain sz where "ei_get_type E b i = Some (ERL_LIST_EXT, sz)"
    using ei_laws.type_of [OF assms] by auto
  moreover have "entity_elems E (SwmResource_ctor E d) b (Suc (length ts)) k [] = Some (True, k, [])"
    by (rule entity_elems_stuck [OF assms(1) k(2)])
  ultimately have "ei_buffer_to_resource_vec E d b i [] = Some (True, m, [])"
    using k(1) ei_laws.skip [OF assms(1) k(2)]
    by (simp add: ei_buffer_to_resource_vec_def entity_array_def del: entity_elems.simps of_nat_Suc)
  then show ?thesis using k by blast
qed

theorem entity_array_stuck_element_witness:
  "\<exists>k m. ei_buffer_to_resource_vec etf_ei 1 (etf (EList [EInt 1, EInt 2])) 0 [] = Some (True, m, []) \<and>
     etf_enc (etf (EList [EInt 1, EInt 2])) k (EInt 1) m \<and>
     (\<exists>l. encs etf_enc (etf (EList [EInt 1, EInt 2])) m [EInt 2] l \<and>
        etf_enc (etf (EList [EInt 1, EInt 2])) l ENil (int (length (etf (EList [EInt 1, EInt 2])))))"
  by (rule entity_array_stuck_element [OF ei_laws_etf etf_enc_whole]) (simp add: le_bytes.simps)

lemma user_ctor_stops:
  assumes "ei_laws E enc bytes"
    and "enc b i (ETuple [EAtom a0, t1, t2, t3, EAtom a, t5, t6]) j"
    and "val_str u t1" and "val_str n t2" and "val_str l t3"
  shows "\<exists>k m. SwmUser_ctor E b i = Some (m, \<lparr>user_id = u, user_name = n, user_acl = l,
      user_priority = None, user_comment = [], user_revision = None\<rparr>) \<and>
    enc b k (EAtom a) m \<and> encs enc b m [t5, t6] j"
proof -
  obtain h k1 k2 k3 k4 m where h: "ei_decode_tuple_header E b i = Some (h, 7)"
    "enc b h (EAtom a0) k1" "enc b k1 t1 k2" "enc b k2 t2 k3" "enc b k3 t3 k4" "enc b k4 (EAtom a) m"
    "encs enc b m [t5, t6] j"
    using ei_laws.tuple [OF assms(1,2)] by auto blast
  have "ei_skip_term E b h = (0, k1)" by (rule ei_laws.skip [OF assms(1) h(2)])
  moreover have "ei_buffer_to_str E b k1 [] = (True, k2, u)" "ei_buffer_to_str E b k2 [] = (True, k3, n)"
    "ei_buffer_to_str E b k3 [] = (True, k4, l)"
    using ei_laws.reads_str [OF assms(1)] assms(3-5) h(3-5) by (simp_all add: reads_def)
  moreover have "ei_buffer_to_int64_t E b k4 0 = (False, k4, 0)"
    using ei_laws.term_type [OF assms(1) h(6)]
    by (simp add: ei_buffer_to_int64_t_def is_int_type_def erl_tags)
  moreover have "ei_print_term E b k4 = m" by (rule ei_laws.print_index [OF assms(1) h(6)])
  ultimately have "SwmUser_ctor E b i = Some (m, \<lparr>user_id = u, user_name = n, user_acl = l,
      user_priority = None, user_comment = [], user_revision = None\<rparr>)"
    using h(1) by (simp add: SwmUser_ctor_def entity_ctor_def SwmUser_fields_def SwmUser_init_def
        fld_def scl_def)
  then show ?thesis using h(6,7) by blast
qed

text \<open>
  C36. A field of the wrong type ends the constructor: the members before it are taken over, it
  and every later member keep their initial values, the scalar ones stay indeterminate, the
  index is moved past the field by the message that prints it, the terms of the later members are
  left to whoever reads next, and nothing tells the caller.
\<close>

theorem user_ctor_stops_early:
  assumes "ei_laws E enc bytes"
    and "enc b i (ETuple [EAtom a0, t1, t2, t3, EAtom a, t5, t6]) j"
    and "val_str u t1" and "val_str n t2" and "val_str l t3"
  shows "\<exists>k m. SwmUser_ctor E b i = Some (m, \<lparr>user_id = u, user_name = n, user_acl = l,
      user_priority = None, user_comment = [], user_revision = None\<rparr>) \<and>
    enc b k (EAtom a) m \<and> encs enc b m [t5, t6] j"
  using user_ctor_stops [OF assms] .

theorem user_ctor_stops_early_witness:
  "\<exists>k m. SwmUser_ctor etf_ei (etf (ETuple [EAtom ''user'', EStr ''1'', EStr ''n'', ENil,
        EAtom ''undefined'', ENil, EInt 1])) 0 =
      Some (m, \<lparr>user_id = ''1'', user_name = ''n'', user_acl = [], user_priority = None,
        user_comment = [], user_revision = None\<rparr>) \<and>
    etf_enc (etf (ETuple [EAtom ''user'', EStr ''1'', EStr ''n'', ENil,
        EAtom ''undefined'', ENil, EInt 1])) k (EAtom ''undefined'') m \<and>
    encs etf_enc (etf (ETuple [EAtom ''user'', EStr ''1'', EStr ''n'', ENil,
        EAtom ''undefined'', ENil, EInt 1])) m [ENil, EInt 1]
      (int (length (etf (ETuple [EAtom ''user'', EStr ''1'', EStr ''n'', ENil,
        EAtom ''undefined'', ENil, EInt 1]))))"
  by (rule user_ctor_stops_early [OF ei_laws_etf etf_enc_whole])
    (simp_all add: le_bytes.simps val_str_def c_str_def)

end
