(* ===== verification/Porter_Data.thy ===== *)
theory Porter_Data
  imports Posix_Io Entity_Spec
begin

text \<open>
  \<open>porter/wm_porter_data.cpp\<close>: the request that the porter reads from its standard input (a
  command byte, a count, and for each part a type byte, a length and a term), and the decoding
  of its two parts into a user and a job. The stream is the characters it still holds.
\<close>

section \<open>Reading the request\<close>

definition SWM_COMMAND_PORTER_RUN :: char where "SWM_COMMAND_PORTER_RUN = CHR 0x01"
definition SWM_DATA_TYPES_COUNT :: nat where "SWM_DATA_TYPES_COUNT = 2"
definition ERLANG_BINARY_FORMAT_VERSION :: int where "ERLANG_BINARY_FORMAT_VERSION = 131"

text \<open>Writing \<open>x\<close> at offset \<open>m\<close> of a buffer.\<close>

definition put_at :: "string \<Rightarrow> nat \<Rightarrow> string \<Rightarrow> string" where
  "put_at buf m x = take m buf @ x @ drop (m + length x) buf"

lemma chunk_not_empty:
  "marker < len \<Longrightarrow> 0 < unat (if marker + 32 < len then 32 else len - marker :: u32)"
  by (auto simp: unat_gt_0)

lemma chunk_shrinks:
  assumes "marker < len"
    and "(Some x, s') = swm_read_exact (unat (if marker + 32 < len then 32 else len - marker :: u32)) s"
  shows "length s' < length s"
  using chunk_not_empty [OF assms(1)] assms(2)
  by (simp add: swm_read_exact_def split: if_split_asm del: if_split)

text \<open>
  The loop over chunks of \<open>BUF_SIZE\<close> bytes; \<open>marker\<close>, \<open>len\<close> and \<open>read_bytes\<close> have 32 bits.
\<close>

function read_chunks :: "u32 \<Rightarrow> u32 \<Rightarrow> string \<Rightarrow> string \<Rightarrow> string option \<times> string" where
  "read_chunks len marker buf s =
     (if marker < len then
        (let read_bytes = (if marker + 32 < len then 32 else len - marker) in
         case swm_read_exact (unat read_bytes) s of
           (None, s') \<Rightarrow> (None, s')
         | (Some x, s') \<Rightarrow> read_chunks len (marker + 32) (put_at buf (unat marker) x) s')
      else (Some buf, s))"
  by pat_completeness auto

termination
  by (relation "measure (\<lambda>(len, marker, buf, s). length s)") (auto dest: chunk_shrinks)

declare read_chunks.simps [simp del]

lemma marker_step:
  assumes "(m :: u32) < len" and "unat len \<le> 2 ^ 32 - 32"
  shows "unat (m + 32) = unat m + 32" "m + 32 < len \<longleftrightarrow> unat m + 32 < unat len"
    "unat (len - m) = unat len - unat m"
proof -
  have "unat m < unat len" using assms(1) by (simp add: word_less_nat_alt)
  then have "unat m + unat (32::u32) < 2 ^ LENGTH(32)" using assms(2) by simp
  then show n: "unat (m + 32) = unat m + 32" by (simp add: unat_add_lem [THEN iffD1])
  then show "m + 32 < len \<longleftrightarrow> unat m + 32 < unat len" by (simp add: word_less_nat_alt)
  show "unat (len - m) = unat len - unat m" using assms(1) by (simp add: unat_sub order_less_imp_le)
qed

text \<open>
  Whatever the fresh buffer holds, the chunks fill it with the bytes of the stream; a stream
  that ends too soon is an error.
\<close>

lemma read_chunks_from:
  assumes "unat len \<le> 2 ^ 32 - 32" and "length x = unat len"
    and "length buf = unat len" and "take (unat m) buf = take (unat m) x"
  shows "read_chunks len m buf (drop (unat m) x @ s) = (Some x, s)"
  using assms(3,4)
proof (induction "unat len - unat m" arbitrary: m buf rule: less_induct)
  case less
  show ?case
  proof (cases "m < len")
    case False
    then have "unat len \<le> unat m" by (simp add: word_less_nat_alt)
    then show ?thesis using less.prems assms(2) False by (simp add: read_chunks.simps)
  next
    case True
    note step = marker_step [OF True assms(1)]
    have lt: "unat m < unat len" using True by (simp add: word_less_nat_alt)
    define n where "n = unat (if m + 32 < len then 32 else len - m)"
    have n: "n = min 32 (unat len - unat m)" using step lt by (simp add: n_def)
    let ?c = "take n (drop (unat m) x)"
    have rd: "swm_read_exact n (drop (unat m) x @ s) = (Some ?c, drop n (drop (unat m) x) @ s)"
      using n assms(2) by (simp add: swm_read_exact_def)
    have dr: "drop n (drop (unat m) x) = drop (unat (m + 32)) x"
      using n step lt assms(2) by (cases "unat m + 32 \<le> unat len") (auto simp: add.commute)
    have tk: "take (unat (m + 32)) (put_at buf (unat m) ?c) = take (unat (m + 32)) x"
    proof -
      have "take (unat m) x @ ?c = take (unat m + n) x" by (simp add: take_add)
      moreover have "take (unat m + n) x = take (unat m + 32) x"
        using n assms(2) by (cases "32 \<le> unat len - unat m") auto
      moreover have "unat m + n = unat len" if "n \<noteq> 32" using n that lt by auto
      ultimately show ?thesis
        using step less.prems assms(2) n lt
        by (cases "n = 32") (auto simp: put_at_def)
    qed
    have len: "length (put_at buf (unat m) ?c) = unat len"
      using less.prems(1) n lt assms(2) by (simp add: put_at_def)
    have "read_chunks len m buf (drop (unat m) x @ s) =
        read_chunks len (m + 32) (put_at buf (unat m) ?c) (drop (unat (m + 32)) x @ s)"
      using True rd dr by (subst read_chunks.simps) (simp add: Let_def n_def [symmetric])
    also have "\<dots> = (Some x, s)"
      by (rule less.hyps) (use step lt len tk in auto)
    finally show ?thesis .
  qed
qed

lemma read_chunks_whole:
  "unat len \<le> 2 ^ 32 - 32 \<Longrightarrow> length x = unat len \<Longrightarrow> length buf = unat len \<Longrightarrow>
    read_chunks len 0 buf (x @ s) = (Some x, s)"
  using read_chunks_from [of len x buf 0 s] by simp

text \<open>
  One part of the request: the type byte is read and not used, the part is stored under its
  position. The version byte must be right and a term must follow it. \<open>None\<close> is the return value
  \<open>-1\<close>; the fresh buffer is filled with zeros here, which \<open>read_chunks_whole\<close> shows not to matter.
\<close>

definition term_ok :: "ei \<Rightarrow> string \<Rightarrow> int option" where
  "term_ok E b = (case ei_decode_version E b 0 of
      None \<Rightarrow> None
    | Some (index, version) \<Rightarrow>
        if version \<noteq> ERLANG_BINARY_FORMAT_VERSION then None
        else if ei_get_type E b index = None then None
        else Some index)"

definition get_datum :: "ei \<Rightarrow> string \<Rightarrow> string option \<times> string" where
  "get_datum E s = (case swm_read_exact 1 s of
      (None, s1) \<Rightarrow> (None, s1)
    | (Some _, s1) \<Rightarrow> (case swm_read_length s1 of
        (None, s2) \<Rightarrow> (None, s2)
      | (Some len, s2) \<Rightarrow> (case read_chunks len 0 (replicate (unat len) CHR 0x00) s2 of
          (None, s3) \<Rightarrow> (None, s3)
        | (Some b, s3) \<Rightarrow> if term_ok E b = None then (None, s3) else (Some b, s3))))"

fun get_data :: "ei \<Rightarrow> nat \<Rightarrow> string \<Rightarrow> string list option \<times> string" where
  "get_data E 0 s = (Some [], s)"
| "get_data E (Suc n) s = (case get_datum E s of
      (None, s1) \<Rightarrow> (None, s1)
    | (Some b, s1) \<Rightarrow> (case get_data E n s1 of
        (None, s2) \<Rightarrow> (None, s2) | (Some bs, s2) \<Rightarrow> (Some (b # bs), s2)))"

definition get_porter_data :: "ei \<Rightarrow> string \<Rightarrow> string list option \<times> string" where
  "get_porter_data E s = (case swm_read_exact 1 s of
      (None, s1) \<Rightarrow> (None, s1)
    | (Some c, s1) \<Rightarrow>
        if c ! 0 \<noteq> SWM_COMMAND_PORTER_RUN then (None, s1)
        else (case swm_read_exact 1 s1 of
            (None, s2) \<Rightarrow> (None, s2)
          | (Some t, s2) \<Rightarrow>
              if uchar (t ! 0) \<noteq> SWM_DATA_TYPES_COUNT then (None, s2)
              else get_data E SWM_DATA_TYPES_COUNT s2))"

section \<open>Truncated input\<close>

lemma read_chunks_short:
  assumes "unat len \<le> 2 ^ 32 - 32" and "length s < unat len - unat m"
  shows "read_chunks len m buf s = (None, [])"
  using assms(2)
proof (induction "length s" arbitrary: m buf s rule: less_induct)
  case less
  then have lt: "unat m < unat len" by linarith
  then have m: "m < len" by (simp add: word_less_nat_alt)
  note step = marker_step [OF m assms(1)]
  define n where "n = unat (if m + 32 < len then 32 else len - m)"
  have n: "n = min 32 (unat len - unat m)" using step lt by (simp add: n_def)
  show ?case
  proof (cases "n \<le> length s")
    case False
    then show ?thesis using m
      by (subst read_chunks.simps) (simp add: Let_def n_def [symmetric] swm_read_exact_def)
  next
    case True
    then have "n = 32" using n less.prems by linarith
    then have "read_chunks len (m + 32) (put_at buf (unat m) (take n s)) (drop n s) = (None, [])"
      using less.prems True step by (intro less.hyps) auto
    then show ?thesis using m True
      by (subst read_chunks.simps) (simp add: Let_def n_def [symmetric] swm_read_exact_def)
  qed
qed

text \<open>Every proper prefix of a part is refused.\<close>

lemma get_datum_short:
  assumes "int (length b) \<le> 2 ^ 32 - 32" and "k < 5 + length b"
  shows "fst (get_datum E (take k (ty # enc32 (of_nat (length b)) @ b))) = None"
proof -
  have n: "unat (of_nat (length b) :: u32) = length b"
    using assms(1) by (simp add: unat_of_nat)
  consider "k = 0" | k' where "k = Suc k'" "k' < 4" | k' where "k = Suc (4 + k')" "k' < length b"
  proof (cases k)
    case (Suc m)
    then show ?thesis using that(2) [of m] that(3) [of "m - 4"] assms(2) by (cases "m < 4") auto
  qed (use that in simp)
  then show ?thesis
  proof cases
    case 1
    then show ?thesis by (simp add: get_datum_def swm_read_exact_def)
  next
    case 2
    then show ?thesis by (simp add: get_datum_def swm_read_exact_def swm_read_length_def)
  next
    case 3
    have "read_chunks (of_nat (length b)) 0 (replicate (length b) CHR 0x00) (take k' b) = (None, [])"
      using 3 assms(1) n by (intro read_chunks_short) simp_all
    moreover have "swm_read_exact 1 (ty # r) = (Some [ty], r)" for r by (simp add: swm_read_exact_def)
    moreover have "take k (ty # enc32 (of_nat (length b)) @ b) = ty # enc32 (of_nat (length b)) @ take k' b"
      unfolding 3(1) take_Suc_Cons by simp
    ultimately show ?thesis
      using n by (simp add: get_datum_def swm_read_length_enc)
  qed
qed

section \<open>Decoding the parts\<close>

record SwmProcInfo =
  info_job :: SwmJob
  info_user :: SwmUser

definition SwmProcInfo_init :: SwmProcInfo where
  "SwmProcInfo_init = \<lparr>info_job = SwmJob_init, info_user = SwmUser_init\<rparr>"

text \<open>
  The part at position \<open>i\<close>: 0 is the user, 1 the job. \<open>None\<close>: the nesting bound was too small;
  the flag is the return value 0. A missing part is left out.
\<close>

definition parse_datum ::
  "ei \<Rightarrow> nat \<Rightarrow> nat \<Rightarrow> string option \<Rightarrow> SwmProcInfo \<Rightarrow> (bool \<times> SwmProcInfo) option" where
  "parse_datum E d i buf info = (case buf of
      None \<Rightarrow> Some (True, info)
    | Some b \<Rightarrow> (case term_ok E b of
        None \<Rightarrow> Some (False, info)
      | Some index \<Rightarrow>
          if i = 1 then map_option (\<lambda>(j, job). (True, info\<lparr>info_job := job\<rparr>)) (SwmJob_ctor E d b index)
          else if i = 0 then map_option (\<lambda>(j, user). (True, info\<lparr>info_user := user\<rparr>)) (SwmUser_ctor E b index)
          else Some (False, info)))"

fun parse_from ::
  "ei \<Rightarrow> nat \<Rightarrow> nat \<Rightarrow> string option list \<Rightarrow> SwmProcInfo \<Rightarrow> (bool \<times> SwmProcInfo) option" where
  "parse_from E d i [] info = Some (True, info)"
| "parse_from E d i (b # bs) info = (case parse_datum E d i b info of
      None \<Rightarrow> None
    | Some (ok, info') \<Rightarrow> if ok then parse_from E d (Suc i) bs info' else Some (False, info'))"

definition parse_data ::
  "ei \<Rightarrow> nat \<Rightarrow> string option list \<Rightarrow> SwmProcInfo \<Rightarrow> (bool \<times> SwmProcInfo) option" where
  "parse_data E d bufs info = parse_from E d 0 bufs info"

text \<open>The porter's \<open>main\<close> up to the point where it has the job and the user.\<close>

definition read_request :: "ei \<Rightarrow> nat \<Rightarrow> string \<Rightarrow> (SwmProcInfo option \<times> string) option" where
  "read_request E d s = (case get_porter_data E s of
      (None, s1) \<Rightarrow> Some (None, s1)
    | (Some bs, s1) \<Rightarrow> (case parse_data E d (map Some bs) SwmProcInfo_init of
        None \<Rightarrow> None
      | Some (ok, info) \<Rightarrow> Some (if ok then Some info else None, s1)))"

section \<open>The sender's side\<close>

text \<open>
  \<open>prepare_run_input\<close> of \<open>src/lib/wm_porter_protocol.erl\<close>, on the two terms as
  \<open>term_to_binary\<close> encodes them (a version byte and the bytes of the term).
\<close>

definition prepare_run_input :: "string \<Rightarrow> string \<Rightarrow> string" where
  "prepare_run_input ub jb =
     [CHR 0x01, CHR 0x02, CHR 0x00] @ enc32 (of_nat (length ub)) @ ub @
     [CHR 0x01] @ enc32 (of_nat (length jb)) @ jb"

context ei_laws begin

lemma term_ok_external: "enc (external bytes t) 1 t j \<Longrightarrow> term_ok E (external bytes t) = Some 1"
  using version [of 0 "external bytes t"] type_of [of "external bytes t" 1 t j]
  by (auto simp: term_ok_def ERLANG_BINARY_FORMAT_VERSION_def external_def)

lemma get_datum_external:
  assumes "enc (external bytes t) 1 t j" and "length (external bytes t) \<le> 2 ^ 32 - 32"
  shows "get_datum E (ty # enc32 (of_nat (length (external bytes t))) @ external bytes t @ s) =
    (Some (external bytes t), s)"
proof -
  let ?b = "external bytes t"
  have n: "unat (of_nat (length ?b) :: u32) = length ?b"
    using assms(2) by (simp add: unat_of_nat)
  have "swm_read_exact 1 (ty # r) = (Some [ty], r)" for r by (simp add: swm_read_exact_def)
  moreover have "read_chunks (of_nat (length ?b)) 0 (replicate (length ?b) CHR 0x00) (?b @ s) = (Some ?b, s)"
    using assms(2) n by (intro read_chunks_whole) simp_all
  ultimately show ?thesis
    using n term_ok_external [OF assms(1)] by (simp add: get_datum_def swm_read_length_enc)
qed

lemma get_porter_data_run:
  assumes "enc (external bytes u) 1 u i" and "length (external bytes u) \<le> 2 ^ 32 - 32"
    and "enc (external bytes t) 1 t j" and "length (external bytes t) \<le> 2 ^ 32 - 32"
  shows "get_porter_data E (prepare_run_input (external bytes u) (external bytes t) @ s) =
    (Some [external bytes u, external bytes t], s)"
  using get_datum_external [OF assms(1,2)] get_datum_external [OF assms(3,4)]
  by (simp add: get_porter_data_def prepare_run_input_def swm_read_exact_def SWM_COMMAND_PORTER_RUN_def
      SWM_DATA_TYPES_COUNT_def numeral_2_eq_2)

lemma get_porter_data_truncated:
  assumes "enc (external bytes u) 1 u i" and "length (external bytes u) \<le> 2 ^ 32 - 32"
    and "length (external bytes t) \<le> 2 ^ 32 - 32"
    and "k < length (prepare_run_input (external bytes u) (external bytes t))"
  shows "fst (get_porter_data E (take k (prepare_run_input (external bytes u) (external bytes t)))) = None"
proof -
  let ?u = "external bytes u" and ?t = "external bytes t"
  let ?pu = "CHR 0x00 # enc32 (of_nat (length ?u)) @ ?u" and ?pt = "CHR 0x01 # enc32 (of_nat (length ?t)) @ ?t"
  have inp: "prepare_run_input ?u ?t = [CHR 0x01, CHR 0x02] @ ?pu @ ?pt"
    by (simp add: prepare_run_input_def)
  have data: "fst (get_data E 2 (take m (?pu @ ?pt))) = None" if m: "m < length (?pu @ ?pt)" for m
  proof (cases "m < 5 + length ?u")
    case True
    then have "take m (?pu @ ?pt) = take m ?pu" by (simp only: take_append) simp
    moreover have "fst (get_datum E (take m ?pu)) = None"
      by (rule get_datum_short) (use assms(2) True in simp_all)
    ultimately show ?thesis
      by (cases "get_datum E (take m ?pu)") (simp add: numeral_2_eq_2)
  next
    case False
    then obtain m' where m': "m = (5 + length ?u) + m'" using le_Suc_ex not_less by blast
    have "take m (?pu @ ?pt) = CHR 0x00 # enc32 (of_nat (length ?u)) @ ?u @ take m' ?pt"
    proof -
      have "m = length ?pu + m'" using m' by simp
      then have "take m (?pu @ ?pt) = ?pu @ take m' ?pt" by (simp only: take_append) simp
      then show ?thesis by simp
    qed
    then have "get_datum E (take m (?pu @ ?pt)) = (Some ?u, take m' ?pt)"
      using get_datum_external [OF assms(1,2)] by simp
    moreover have "fst (get_datum E (take m' ?pt)) = None"
      by (rule get_datum_short) (use assms(3) m m' in simp_all)
    ultimately show ?thesis
      by (cases "get_datum E (take m' ?pt)") (simp add: numeral_2_eq_2)
  qed
  consider "k = 0" | "k = 1" | m where "k = Suc (Suc m)"
    by (metis One_nat_def not0_implies_Suc)
  then show ?thesis
  proof cases
    case 3
    then have "m < length (?pu @ ?pt)" using assms(4) inp by simp
    from data [OF this] show ?thesis
      unfolding inp 3
      by (simp add: get_porter_data_def swm_read_exact_def SWM_COMMAND_PORTER_RUN_def
          SWM_DATA_TYPES_COUNT_def)
  qed (simp_all add: inp get_porter_data_def swm_read_exact_def)
qed

end

section \<open>Properties\<close>

definition sample_user :: SwmUser where
  "sample_user = \<lparr>user_id = ''u1'', user_name = ''alice'', user_acl = [], user_priority = Some (- 5),
     user_comment = [], user_revision = Some 1\<rparr>"

definition sample_user_term :: eterm where
  "sample_user_term = ETuple [EAtom ''user'', EStr ''u1'', EStr ''alice'', ENil, EInt (- 5), ENil, EInt 1]"

definition partial_user_term :: eterm where
  "partial_user_term = ETuple [EAtom ''user'', EStr ''u1'', EStr ''alice'', ENil, EAtom ''undefined'',
     ENil, EInt 1]"

lemma external_etf: "etf_wf t \<Longrightarrow> etf_enc (external etf t) 1 t (1 + int (length (etf t)))"
  by (simp add: etf_enc_def external_def)

lemma sample_user_val: "val_user sample_user sample_user_term"
  by (simp add: val_user_def val_record_def sample_user_def sample_user_term_def val_simps)

lemma sample_user_wf: "etf_wf sample_user_term"
  by (simp add: sample_user_term_def le_bytes.simps)

lemma partial_user_wf: "etf_wf partial_user_term"
  by (simp add: partial_user_term_def le_bytes.simps)

lemma sample_lengths:
  "length (external etf sample_user_term) \<le> 2 ^ 32 - 32"
  "length (external etf partial_user_term) \<le> 2 ^ 32 - 32"
  "length (external etf sample_job_term) \<le> 2 ^ 32 - 32"
  by (simp_all add: external_def sample_user_term_def partial_user_term_def sample_job_term_def
      sample_resource_term_def le_bytes.simps)

lemma sample_job_depth:
  "resource_list_depth (job_request sample_job) \<le> 2" "resource_list_depth (job_resources sample_job) \<le> 2"
  by (simp_all add: sample_job_def SwmJob_init_def resource_list_depth_def sample_resource_depth)

lemma request_read:
  assumes "ei_laws E enc bytes"
    and "enc (external bytes ut) 1 ut i" and "length (external bytes ut) \<le> 2 ^ 32 - 32"
    and "enc (external bytes jt) 1 jt j" and "length (external bytes jt) \<le> 2 ^ 32 - 32"
    and "val_user user ut" and "val_job bytes job jt"
    and "resource_list_depth (job_request job) \<le> d" and "resource_list_depth (job_resources job) \<le> d"
  shows "read_request E d (prepare_run_input (external bytes ut) (external bytes jt) @ s) =
    Some (Some \<lparr>info_job = job, info_user = user\<rparr>, s)"
proof -
  have "SwmUser_ctor E (external bytes ut) 1 = Some (i, user)"
    using ei_laws.user_ctor_reads [OF assms(1,6)] assms(2) by (simp add: constructs_def)
  moreover have "SwmJob_ctor E d (external bytes jt) 1 = Some (j, job)"
    using ei_laws.job_ctor_reads [OF assms(1,7-9)] assms(4) by (simp add: constructs_def)
  ultimately show ?thesis
    using ei_laws.get_porter_data_run [OF assms(1-5)] ei_laws.term_ok_external [OF assms(1,2)]
      ei_laws.term_ok_external [OF assms(1,4)]
    by (simp add: read_request_def parse_data_def parse_datum_def SwmProcInfo_init_def)
qed

text \<open>
  C5. The request that \<open>prepare_run_input\<close> builds from a user and a job record is read back,
  chunk by chunk and whatever follows it on the stream, into exactly that user and that job.
\<close>

theorem request_delivery:
  assumes "ei_laws E enc bytes"
    and "enc (external bytes ut) 1 ut i" and "length (external bytes ut) \<le> 2 ^ 32 - 32"
    and "enc (external bytes jt) 1 jt j" and "length (external bytes jt) \<le> 2 ^ 32 - 32"
    and "val_user user ut" and "val_job bytes job jt"
    and "resource_list_depth (job_request job) \<le> d" and "resource_list_depth (job_resources job) \<le> d"
  shows "read_request E d (prepare_run_input (external bytes ut) (external bytes jt) @ s) =
    Some (Some \<lparr>info_job = job, info_user = user\<rparr>, s)"
  by (rule request_read [OF assms])

theorem request_delivery_witness:
  "read_request etf_ei 2 (prepare_run_input (external etf sample_user_term)
       (external etf sample_job_term) @ ''x'') =
     Some (Some \<lparr>info_job = sample_job, info_user = sample_user\<rparr>, ''x'')"
  by (rule request_delivery [OF ei_laws_etf external_etf [OF sample_user_wf] sample_lengths(1)
        external_etf [OF sample_job_wf] sample_lengths(3) sample_user_val sample_job_val sample_job_depth])

text \<open>
  C22. A request that is cut off at any byte is refused: the porter never starts a job on a part
  of a request.
\<close>

theorem request_truncated:
  assumes "ei_laws E enc bytes"
    and "enc (external bytes ut) 1 ut i" and "length (external bytes ut) \<le> 2 ^ 32 - 32"
    and "length (external bytes jt) \<le> 2 ^ 32 - 32"
    and "k < length (prepare_run_input (external bytes ut) (external bytes jt))"
  shows "\<exists>r. read_request E d (take k (prepare_run_input (external bytes ut) (external bytes jt))) =
    Some (None, r)"
  using ei_laws.get_porter_data_truncated [OF assms]
  by (cases "get_porter_data E (take k (prepare_run_input (external bytes ut) (external bytes jt)))")
    (simp add: read_request_def)

theorem request_truncated_witness:
  "\<exists>r. read_request etf_ei 2 (take 25 (prepare_run_input (external etf sample_user_term)
       (external etf sample_job_term))) = Some (None, r)"
  by (rule request_truncated [OF ei_laws_etf external_etf [OF sample_user_wf] sample_lengths(1,3)])
    (simp add: prepare_run_input_def external_def sample_user_term_def)

text \<open>
  The porter does not notice that a record was read only in part: a request whose user
  record has a priority that is no integer is accepted, with the rest of the user missing.
\<close>

theorem request_accepts_partial_user:
  assumes "ei_laws E enc bytes"
    and ut: "ut = ETuple [EAtom n, t1, t2, t3, EAtom a, t5, t6]"
    and "enc (external bytes ut) 1 ut i" and "length (external bytes ut) \<le> 2 ^ 32 - 32"
    and "enc (external bytes jt) 1 jt j" and "length (external bytes jt) \<le> 2 ^ 32 - 32"
    and "val_job bytes job jt"
    and "resource_list_depth (job_request job) \<le> d" and "resource_list_depth (job_resources job) \<le> d"
  shows "\<exists>user. read_request E d (prepare_run_input (external bytes ut) (external bytes jt)) =
      Some (Some \<lparr>info_job = job, info_user = user\<rparr>, []) \<and>
    user_priority user = None \<and> user_comment user = [] \<and> user_revision user = None"
proof -
  have "\<exists>s. val_str s t" for t by (simp add: val_str_def)
  then obtain u nm l where v: "val_str u t1" "val_str nm t2" "val_str l t3" by metis
  obtain k where "SwmUser_ctor E (external bytes ut) 1 = Some (k, \<lparr>user_id = u, user_name = nm,
      user_acl = l, user_priority = None, user_comment = [], user_revision = None\<rparr>)"
    using user_ctor_stops [OF assms(1) assms(3) [unfolded ut] v] ut by blast
  moreover have "SwmJob_ctor E d (external bytes jt) 1 = Some (j, job)"
    using ei_laws.job_ctor_reads [OF assms(1,7-9)] assms(5) by (simp add: constructs_def)
  ultimately show ?thesis
    using ei_laws.get_porter_data_run [OF assms(1,3-6), of "[]"] ei_laws.term_ok_external [OF assms(1,3)]
      ei_laws.term_ok_external [OF assms(1,5)]
    by (simp add: read_request_def parse_data_def parse_datum_def SwmProcInfo_init_def)
qed

theorem request_accepts_partial_user_witness:
  "\<exists>user. read_request etf_ei 2 (prepare_run_input (external etf partial_user_term)
       (external etf sample_job_term)) =
      Some (Some \<lparr>info_job = sample_job, info_user = user\<rparr>, []) \<and>
    user_priority user = None \<and> user_comment user = [] \<and> user_revision user = None"
  by (rule request_accepts_partial_user [OF ei_laws_etf partial_user_term_def
        external_etf [OF partial_user_wf] sample_lengths(2) external_etf [OF sample_job_wf]
        sample_lengths(3) sample_job_val sample_job_depth])

end
