(* ===== verification/Metrics_Probe.thy ===== *)
theory Metrics_Probe
  imports Doubles
begin

text \<open>
  What \<open>porter/wm_porter_metrics.cpp\<close> reads from the system: the cgroup files and NVML. The
  contents of files and the functions of the NVML library are the fields of a parameter; the
  parsing of the files, the loading of the library and the query over all devices are the
  source's.
\<close>

section \<open>The system\<close>

text \<open>
  The NVML library: whether \<open>dlopen\<close> finds a name, whether \<open>dlsym\<close> finds a symbol, and the
  results of the functions. A device handle is a number.
\<close>

record nvml =
  nv_dlopen :: "string \<Rightarrow> bool"
  nv_dlsym :: "string \<Rightarrow> bool"
  nv_init :: int
  nv_count :: "int \<times> u32"
  nv_handle :: "u32 \<Rightarrow> int \<times> nat"
  nv_util :: "nat \<Rightarrow> int \<times> u32"
  nv_memory :: "nat \<Rightarrow> int \<times> u64"

text \<open>
  The system at the time of one call: files by path (\<open>None\<close>: cannot be opened), the number that
  \<open>sysconf\<close> gives, the host name (\<open>None\<close>: the call fails), NVML, and the unspecified result of
  \<open>llround\<close> on a value that does not fit.
\<close>

record msys =
  ms_exists :: "string \<Rightarrow> bool"
  ms_file :: "string \<Rightarrow> string option"
  ms_ncpus :: int
  ms_hostname :: "string option"
  ms_nvml :: nvml
  ms_llround :: int

definition ncpus :: "msys \<Rightarrow> u32" where
  "ncpus S = (if ms_ncpus S < 1 then 1 else word_of_int (ms_ncpus S))"

definition hostname_str :: "msys \<Rightarrow> string" where
  "hostname_str S = (case ms_hostname S of None \<Rightarrow> ''unknown'' | Some b \<Rightarrow> c_str (take 255 b))"

definition is_cgroup_v2 :: "msys \<Rightarrow> bool" where
  "is_cgroup_v2 S = ms_exists S ''/sys/fs/cgroup/cgroup.controllers''"

section \<open>cgroup files\<close>

text \<open>\<open>std::getline\<close> over a whole stream.\<close>

fun getlines_from :: "string \<Rightarrow> string \<Rightarrow> string list" where
  "getlines_from cur [] = (if cur = [] then [] else [cur])"
| "getlines_from cur (c # s) =
     (if c = CHR 0x0A then cur # getlines_from [] s else getlines_from (cur @ [c]) s)"

text \<open>The first line of \<open>/proc/self/cgroup\<close> with the prefix of cgroup v2.\<close>

fun cgroup_line :: "string list \<Rightarrow> string" where
  "cgroup_line [] = []"
| "cgroup_line (line # ls) =
     (if str_substr line 0 3 \<noteq> ''0::'' then cgroup_line ls
      else let rel = drop 3 line;
               rel1 = (if rel = [] then ''/'' else rel);
               rel2 = (if hd rel1 \<noteq> CHR ''/'' then CHR ''/'' # rel1 else rel1)
           in ''/sys/fs/cgroup'' @ rel2)"

definition read_self_cgroup_v2_path :: "msys \<Rightarrow> string" where
  "read_self_cgroup_v2_path S = (case ms_file S ''/proc/self/cgroup'' of
     None \<Rightarrow> [] | Some s \<Rightarrow> cgroup_line (getlines_from [] s))"

text \<open>\<open>in >> key\<close> and \<open>in >> val\<close> for an unsigned 64-bit value; the rest of the stream.\<close>

definition read_token :: "string \<Rightarrow> (string \<times> string) option" where
  "read_token s = (let r = dropWhile is_space s; t = takeWhile (\<lambda>c. \<not> is_space c) r
     in if t = [] then None else Some (t, dropWhile (\<lambda>c. \<not> is_space c) r))"

definition read_u64 :: "string \<Rightarrow> (u64 \<times> string) option" where
  "read_u64 s = (case strto s of None \<Rightarrow> None
     | Some (v, n) \<Rightarrow> if 2 ^ 64 \<le> \<bar>v\<bar> then None else Some (word_of_int v, drop n s))"

lemma read_token_shorter: "read_token s = Some (t, r) \<Longrightarrow> length r < length s"
proof -
  assume "read_token s = Some (t, r)"
  then have t: "t = takeWhile (\<lambda>c. \<not> is_space c) (dropWhile is_space s)" "t \<noteq> []"
    and r: "r = dropWhile (\<lambda>c. \<not> is_space c) (dropWhile is_space s)"
    by (auto simp: read_token_def Let_def split: if_splits)
  have "length (t @ r) \<le> length s"
    unfolding t(1) r takeWhile_dropWhile_id by (rule length_dropWhile_le)
  with t(2) show ?thesis by (cases t) auto
qed

lemma read_u64_le: "read_u64 s = Some (v, r) \<Longrightarrow> length r \<le> length s"
  by (auto simp: read_u64_def split: option.splits if_splits)

text \<open>The loop over the pairs of \<open>cpu.stat\<close>.\<close>

function cpu_stat_usage :: "string \<Rightarrow> u64 option" where
  "cpu_stat_usage s = (case read_token s of
      None \<Rightarrow> None
    | Some (key, r) \<Rightarrow> (case read_u64 r of
        None \<Rightarrow> None
      | Some (val, r') \<Rightarrow> if key = ''usage_usec'' then Some val else cpu_stat_usage r'))"
  by pat_completeness auto
termination
  by (relation "measure length") (auto dest!: read_token_shorter read_u64_le)

declare cpu_stat_usage.simps [simp del]

definition read_usage_usec :: "msys \<Rightarrow> string \<Rightarrow> u64 option" where
  "read_usage_usec S path = (case ms_file S (path @ ''/cpu.stat'') of
     None \<Rightarrow> None | Some s \<Rightarrow> cpu_stat_usage s)"

definition read_memory_current :: "msys \<Rightarrow> string \<Rightarrow> u64 option" where
  "read_memory_current S path = (case ms_file S (path @ ''/memory.current'') of
     None \<Rightarrow> None | Some s \<Rightarrow> map_option fst (read_u64 s))"

section \<open>NVML\<close>

text \<open>The static \<open>NvmlLib\<close>: the flags that outlive a call.\<close>

record nvml_lib =
  load_attempted :: bool
  init_ok :: bool

definition NVML_SUCCESS :: int where "NVML_SUCCESS = 0"

definition nvml_symbols_ok :: "nvml \<Rightarrow> bool" where
  "nvml_symbols_ok N \<longleftrightarrow>
     (nv_dlsym N ''nvmlInit_v2'' \<or> nv_dlsym N ''nvmlInit'') \<and>
     (nv_dlsym N ''nvmlDeviceGetCount_v2'' \<or> nv_dlsym N ''nvmlDeviceGetCount'') \<and>
     (nv_dlsym N ''nvmlDeviceGetHandleByIndex_v2'' \<or> nv_dlsym N ''nvmlDeviceGetHandleByIndex'') \<and>
     nv_dlsym N ''nvmlDeviceGetUtilizationRates'' \<and> nv_dlsym N ''nvmlDeviceGetMemoryInfo''"

definition load_nvml :: "nvml \<Rightarrow> nvml_lib \<Rightarrow> bool \<times> nvml_lib" where
  "load_nvml N lib =
     (if load_attempted lib then (init_ok lib, lib)
      else let lib1 = lib\<lparr>load_attempted := True\<rparr> in
        if \<not> (nv_dlopen N ''libnvidia-ml.so.1'' \<or> nv_dlopen N ''libnvidia-ml.so'') then (False, lib1)
        else if \<not> nvml_symbols_ok N then (False, lib1)
        else if nv_init N \<noteq> NVML_SUCCESS then (False, lib1)
        else (True, lib1\<lparr>init_ok := True\<rparr>))"

record GpuSample =
  util_percent :: double
  mem_bytes :: u64

text \<open>The loop over the devices: sum of utilisation, sum of memory, number of devices read.\<close>

fun gpu_loop :: "nvml \<Rightarrow> nat list \<Rightarrow> double \<times> u64 \<times> u32 \<Rightarrow> double \<times> u64 \<times> u32" where
  "gpu_loop N [] acc = acc"
| "gpu_loop N (i # is) (util_sum, mem_sum, ok) =
     (let (rc, dev) = nv_handle N (of_nat i) in
      if rc \<noteq> NVML_SUCCESS then gpu_loop N is (util_sum, mem_sum, ok)
      else let (ru, gpu) = nv_util N dev; (rm, used) = nv_memory N dev in
        if ru \<noteq> NVML_SUCCESS \<or> rm \<noteq> NVML_SUCCESS then gpu_loop N is (util_sum, mem_sum, ok)
        else gpu_loop N is (dadd util_sum (of_integer (uint gpu)), mem_sum + used, ok + 1))"

definition query_gpu_nvml :: "nvml \<Rightarrow> nvml_lib \<Rightarrow> GpuSample option \<times> nvml_lib" where
  "query_gpu_nvml N lib = (case load_nvml N lib of (loaded, lib1) \<Rightarrow>
     if \<not> loaded then (None, lib1)
     else let (rc, count) = nv_count N in
       if rc \<noteq> NVML_SUCCESS \<or> count = 0 then (None, lib1)
       else (case gpu_loop N [0 ..< unat count] (Fin 0, 0, 0) of (util_sum, mem_sum, ok) \<Rightarrow>
         if ok = 0 then (None, lib1)
         else (Some \<lparr>util_percent = ddiv util_sum (of_integer (uint ok)), mem_bytes = mem_sum\<rparr>, lib1)))"

end
