(* ===== verification/Ei_Enc.thy ===== *)
theory Ei_Enc
  imports Ei_Etf
begin

text \<open>
  The encoding half of \<open>ei\<close>: the \<open>ei_x_encode_*\<close> functions as the fields of a parameter, what
  the sources rely on as the locale \<open>ei_enc_laws\<close>, and an implementation on the bytes of
  \<open>Ei_Etf\<close> that satisfies it. A dynamic buffer is its contents; \<open>None\<close> is a non-zero return.
\<close>

section \<open>The interface\<close>

record eix =
  eix_new :: "string option"
  eix_version :: "string \<Rightarrow> string option"
  eix_tuple_header :: "string \<Rightarrow> int \<Rightarrow> string option"
  eix_list_header :: "string \<Rightarrow> int \<Rightarrow> string option"
  eix_map_header :: "string \<Rightarrow> int \<Rightarrow> string option"
  eix_empty_list :: "string \<Rightarrow> string option"
  eix_atom :: "string \<Rightarrow> string \<Rightarrow> string option"
  eix_string :: "string \<Rightarrow> string \<Rightarrow> string option"
  eix_binary :: "string \<Rightarrow> string \<Rightarrow> string option"
  eix_long :: "string \<Rightarrow> int \<Rightarrow> string option"
  eix_ulong :: "string \<Rightarrow> u64 \<Rightarrow> string option"
  eix_longlong :: "string \<Rightarrow> int \<Rightarrow> string option"
  eix_ulonglong :: "string \<Rightarrow> u64 \<Rightarrow> string option"
  eix_double :: "string \<Rightarrow> double \<Rightarrow> string option"

text \<open>Encoding steps one after the other; the first that fails ends the encoding.\<close>

type_synonym enc_step = "string \<Rightarrow> string option"

fun enc_seq :: "enc_step list \<Rightarrow> enc_step" where
  "enc_seq [] x = Some x"
| "enc_seq (f # fs) x = (case f x of None \<Rightarrow> None | Some y \<Rightarrow> enc_seq fs y)"

definition eix_run :: "eix \<Rightarrow> enc_step list \<Rightarrow> string option" where
  "eix_run X fs = (case eix_new X of None \<Rightarrow> None | Some x \<Rightarrow> enc_seq fs x)"

lemma enc_seq_append:
  "enc_seq (fs @ gs) x = (case enc_seq fs x of None \<Rightarrow> None | Some y \<Rightarrow> enc_seq gs y)"
  by (induction fs arbitrary: x) (auto split: option.split)

text \<open>\<open>adds fs s\<close>: the steps \<open>fs\<close> append \<open>s\<close> to any buffer.\<close>

definition adds :: "enc_step list \<Rightarrow> string \<Rightarrow> bool" where
  "adds fs s \<longleftrightarrow> (\<forall>x. enc_seq fs x = Some (x @ s))"

lemma adds_Nil: "adds [] []"
  by (simp add: adds_def)

lemma adds_Cons: "(\<And>x. f x = Some (x @ s)) \<Longrightarrow> adds fs t \<Longrightarrow> adds (f # fs) (s @ t)"
  by (simp add: adds_def)

lemma adds_append: "adds fs s \<Longrightarrow> adds gs t \<Longrightarrow> adds (fs @ gs) (s @ t)"
  by (simp add: adds_def enc_seq_append)

lemma adds_each:
  "(\<And>a. a \<in> set as \<Longrightarrow> adds [f a] (g a)) \<Longrightarrow> adds (map f as) (concat (map g as))"
proof (induction as)
  case (Cons a as)
  have "adds ([f a] @ map f as) (g a @ concat (map g as))"
    by (rule adds_append) (use Cons in auto)
  then show ?case by simp
qed (simp add: adds_Nil)

section \<open>The laws\<close>

text \<open>
  \<open>bytes t\<close> is the encoding of \<open>t\<close>. A header appends what the encoding of the whole term starts
  with; the bounds are those under which \<open>ei\<close> documents the encodings it chooses.
\<close>

locale ei_enc_laws =
  fixes X :: eix
    and bytes :: "eterm \<Rightarrow> string"
  assumes new: "eix_new X = Some []"
    and version: "eix_version X x = Some (x @ [char_of (131 :: nat)])"
    and tuple: "0 \<le> n \<Longrightarrow> n < 2 ^ 31 \<Longrightarrow> \<exists>h. \<forall>x. eix_tuple_header X x n = Some (x @ h) \<and>
        (\<forall>ts. int (length ts) = n \<longrightarrow> bytes (ETuple ts) = h @ concat (map bytes ts))"
    and list: "0 < n \<Longrightarrow> n < 2 ^ 31 \<Longrightarrow> \<exists>h. \<forall>x. eix_list_header X x n = Some (x @ h) \<and>
        (\<forall>ts. int (length ts) = n \<longrightarrow> bytes (EList ts) = h @ concat (map bytes ts) @ bytes ENil)"
    and map: "0 \<le> n \<Longrightarrow> n < 2 ^ 31 \<Longrightarrow> \<exists>h. \<forall>x. eix_map_header X x n = Some (x @ h) \<and>
        (\<forall>ps. int (length ps) = n \<longrightarrow> bytes (EMap ps) = h @ concat (map bytes (flatten_pairs ps)))"
    and empty_list: "eix_empty_list X x = Some (x @ bytes ENil)"
    and atom: "length s < 256 \<Longrightarrow> eix_atom X x s = Some (x @ bytes (EAtom s))"
    and string: "length s < 65536 \<Longrightarrow>
        eix_string X x s = Some (x @ bytes (if s = [] then ENil else EStr s))"
    and binary: "length s < 2 ^ 31 \<Longrightarrow> eix_binary X x s = Some (x @ bytes (EBin s))"
    and long: "- (2 ^ 63) \<le> n \<Longrightarrow> n < 2 ^ 63 \<Longrightarrow> eix_long X x n = Some (x @ bytes (EInt n))"
    and ulong: "eix_ulong X x w = Some (x @ bytes (EInt (uint w)))"
    and longlong: "- (2 ^ 63) \<le> n \<Longrightarrow> n < 2 ^ 63 \<Longrightarrow> eix_longlong X x n = Some (x @ bytes (EInt n))"
    and ulonglong: "eix_ulonglong X x w = Some (x @ bytes (EInt (uint w)))"
    and real: "eix_double X x (Fin r) = Some (x @ bytes (EFloat (Fin r)))"
begin

lemma adds_version: "adds [eix_version X] [char_of (131 :: nat)]"
  by (simp add: adds_def version)

lemma adds_atom: "length s < 256 \<Longrightarrow> adds [\<lambda>x. eix_atom X x s] (bytes (EAtom s))"
  by (simp add: adds_def atom)

lemma adds_string: "length s < 65536 \<Longrightarrow>
    adds [\<lambda>x. eix_string X x s] (bytes (if s = [] then ENil else EStr s))"
  by (simp add: adds_def string)

lemma adds_binary: "length s < 2 ^ 31 \<Longrightarrow> adds [\<lambda>x. eix_binary X x s] (bytes (EBin s))"
  by (simp add: adds_def binary)

lemma adds_long: "- (2 ^ 63) \<le> n \<Longrightarrow> n < 2 ^ 63 \<Longrightarrow> adds [\<lambda>x. eix_long X x n] (bytes (EInt n))"
  by (simp add: adds_def long)

lemma adds_ulong: "adds [\<lambda>x. eix_ulong X x w] (bytes (EInt (uint w)))"
  by (simp add: adds_def ulong)

lemma adds_longlong:
  "- (2 ^ 63) \<le> n \<Longrightarrow> n < 2 ^ 63 \<Longrightarrow> adds [\<lambda>x. eix_longlong X x n] (bytes (EInt n))"
  by (simp add: adds_def longlong)

lemma adds_ulonglong: "adds [\<lambda>x. eix_ulonglong X x w] (bytes (EInt (uint w)))"
  by (simp add: adds_def ulonglong)

lemma adds_double: "adds [\<lambda>x. eix_double X x (Fin r)] (bytes (EFloat (Fin r)))"
  by (simp add: adds_def real)

lemma adds_tuple:
  assumes "adds fs (concat (map bytes ts))" and "length ts < 2 ^ 31" and "n = int (length ts)"
  shows "adds ((\<lambda>x. eix_tuple_header X x n) # fs) (bytes (ETuple ts))"
proof -
  obtain h where "\<forall>x. eix_tuple_header X x n = Some (x @ h)"
    "bytes (ETuple ts) = h @ concat (map bytes ts)"
    using tuple [of n] assms(2,3) by auto
  then show ?thesis using assms(1) by (simp add: adds_def)
qed

lemma adds_map:
  assumes "adds fs (concat (map bytes (flatten_pairs ps)))" and "length ps < 2 ^ 31"
    and "n = int (length ps)"
  shows "adds ((\<lambda>x. eix_map_header X x n) # fs) (bytes (EMap ps))"
proof -
  obtain h where "\<forall>x. eix_map_header X x n = Some (x @ h)"
    "bytes (EMap ps) = h @ concat (map bytes (flatten_pairs ps))"
    using map [of n] assms(2,3) by auto
  then show ?thesis using assms(1) by (simp add: adds_def)
qed

lemma adds_list:
  assumes "adds fs (concat (map bytes ts))" and "length ts < 2 ^ 31" and "ts \<noteq> []"
    and "n = int (length ts)"
  shows "adds ((\<lambda>x. eix_list_header X x n) # fs @ [eix_empty_list X]) (bytes (EList ts))"
proof -
  obtain h where "\<forall>x. eix_list_header X x n = Some (x @ h)"
    "bytes (EList ts) = h @ concat (map bytes ts) @ bytes ENil"
    using list [of n] assms(2-4) by auto
  then show ?thesis using assms(1) by (simp add: adds_def enc_seq_append empty_list)
qed

lemma adds_empty_list: "adds [eix_empty_list X] (bytes ENil)"
  by (simp add: adds_def empty_list)

lemma eix_run_adds: "adds fs s \<Longrightarrow> eix_run X fs = Some s"
  by (simp add: eix_run_def new adds_def)

end

section \<open>An implementation\<close>

definition etf_eix :: eix where
  "etf_eix = \<lparr>
     eix_new = Some [],
     eix_version = \<lambda>x. Some (x @ [tag 131]),
     eix_tuple_header = \<lambda>x n. Some (x @ (if n < 256 then [tag 104, char_of (nat n)] else tag 105 # be_bytes 4 (nat n))),
     eix_list_header = \<lambda>x n. Some (x @ tag 108 # be_bytes 4 (nat n)),
     eix_map_header = \<lambda>x n. Some (x @ tag 116 # be_bytes 4 (nat n)),
     eix_empty_list = \<lambda>x. Some (x @ etf ENil),
     eix_atom = \<lambda>x s. Some (x @ etf (EAtom s)),
     eix_string = \<lambda>x s. Some (x @ etf (if s = [] then ENil else EStr s)),
     eix_binary = \<lambda>x s. Some (x @ etf (EBin s)),
     eix_long = \<lambda>x n. Some (x @ etf (EInt n)),
     eix_ulong = \<lambda>x w. Some (x @ etf (EInt (uint w))),
     eix_longlong = \<lambda>x n. Some (x @ etf (EInt n)),
     eix_ulonglong = \<lambda>x w. Some (x @ etf (EInt (uint w))),
     eix_double = \<lambda>x d. Some (x @ etf (EFloat d))\<rparr>"

theorem ei_enc_laws_etf: "ei_enc_laws etf_eix etf"
proof
  fix n :: int
  assume n: "0 \<le> n" "n < 2 ^ 31"
  show "\<exists>h. \<forall>x. eix_tuple_header etf_eix x n = Some (x @ h) \<and>
      (\<forall>ts. int (length ts) = n \<longrightarrow> etf (ETuple ts) = h @ concat (map etf ts))"
    by (rule exI [of _ "if n < 256 then [tag 104, char_of (nat n)] else tag 105 # be_bytes 4 (nat n)"])
      (auto simp: etf_eix_def simp del: be_bytes.simps)
  show "\<exists>h. \<forall>x. eix_map_header etf_eix x n = Some (x @ h) \<and>
      (\<forall>ps. int (length ps) = n \<longrightarrow> etf (EMap ps) = h @ concat (map etf (flatten_pairs ps)))"
    by (rule exI [of _ "tag 116 # be_bytes 4 (nat n)"])
      (auto simp: etf_eix_def etf_flatten simp del: be_bytes.simps)
next
  fix n :: int
  assume "0 < n" "n < 2 ^ 31"
  show "\<exists>h. \<forall>x. eix_list_header etf_eix x n = Some (x @ h) \<and>
      (\<forall>ts. int (length ts) = n \<longrightarrow> etf (EList ts) = h @ concat (map etf ts) @ etf ENil)"
    by (rule exI [of _ "tag 108 # be_bytes 4 (nat n)"]) (auto simp: etf_eix_def simp del: be_bytes.simps)
qed (simp_all add: etf_eix_def)

interpretation etf_x: ei_enc_laws etf_eix etf
  by (rule ei_enc_laws_etf)

end
