(* ===== verification/Porter_Out.thy ===== *)
theory Porter_Out
  imports Ei_Enc Entity_Spec
begin

text \<open>
  The frames the porter writes to its standard output for the Erlang side: the state of the job
  process (\<open>send_process_info\<close> of \<open>porter/porter.cpp\<close>) and the request to start a task
  (\<open>send_porter_req\<close> of \<open>porter/wm_porter_ctrl.cpp\<close>). A function gets what has been written so
  far and gives whether it returned 0 and what has been written then. The result of the write itself
  (\<open>swm_write_exact\<close>, in \<open>Posix_Io\<close>) is not looked at; what the stream takes is a prefix of the frames.
\<close>

section \<open>The state of the process\<close>

definition PROCESS_TUPLE_SIZE :: int where "PROCESS_TUPLE_SIZE = 6"

text \<open>The pid is converted to \<open>unsigned long\<close>. A member that was never set has no value.\<close>

definition process_steps :: "eix \<Rightarrow> SwmProcess \<Rightarrow> enc_step list" where
  "process_steps X p = [
     eix_version X,
     \<lambda>x. eix_tuple_header X x PROCESS_TUPLE_SIZE,
     \<lambda>x. eix_atom X x ''process'',
     \<lambda>x. eix_ulong X x (word_of_int (the (process_pid p))),
     \<lambda>x. eix_string X x (c_str (process_state p)),
     \<lambda>x. eix_long X x (the (process_exitcode p)),
     \<lambda>x. eix_long X x (the (process_signal p)),
     \<lambda>x. eix_string X x (c_str (process_comment p))]"

definition send_process_info :: "eix \<Rightarrow> SwmProcess \<Rightarrow> string \<Rightarrow> bool \<times> string" where
  "send_process_info X p out = (case eix_run X (process_steps X p) of
     None \<Rightarrow> (False, out) | Some b \<Rightarrow> (True, out @ b))"

definition str_term :: "string \<Rightarrow> eterm" where
  "str_term s = (if s = [] then ENil else EStr s)"

definition process_term :: "SwmProcess \<Rightarrow> eterm" where
  "process_term p = ETuple [EAtom ''process'', EInt (uint (word_of_int (the (process_pid p)) :: u64)),
     str_term (c_str (process_state p)), EInt (the (process_exitcode p)), EInt (the (process_signal p)),
     str_term (c_str (process_comment p))]"

text \<open>A process whose numbers are set and in range.\<close>

definition process_ok :: "SwmProcess \<Rightarrow> bool" where
  "process_ok p \<longleftrightarrow> (\<exists>pid ec sg. process_pid p = Some pid \<and> 0 \<le> pid \<and> pid < 2 ^ 63 \<and>
     process_exitcode p = Some ec \<and> - (2 ^ 63) \<le> ec \<and> ec < 2 ^ 63 \<and>
     process_signal p = Some sg \<and> - (2 ^ 63) \<le> sg \<and> sg < 2 ^ 63) \<and>
   CHR 0x00 \<notin> set (process_state p) \<and> length (process_state p) < 65536 \<and>
   CHR 0x00 \<notin> set (process_comment p) \<and> length (process_comment p) < 65536"

context ei_enc_laws begin

lemma adds_str_term: "length s < 65536 \<Longrightarrow> adds [\<lambda>x. eix_string X x s] (bytes (str_term s))"
  using adds_string [of s] by (simp add: str_term_def)

lemma process_info_bytes:
  assumes "process_ok p"
  shows "send_process_info X p out = (True, out @ external bytes (process_term p))"
proof -
  let ?fs = "[\<lambda>x. eix_atom X x ''process''] @ [\<lambda>x. eix_ulong X x (word_of_int (the (process_pid p)))] @
     [\<lambda>x. eix_string X x (c_str (process_state p))] @ [\<lambda>x. eix_long X x (the (process_exitcode p))] @
     [\<lambda>x. eix_long X x (the (process_signal p))] @ [\<lambda>x. eix_string X x (c_str (process_comment p))]"
  obtain ts where ts: "process_term p = ETuple ts" "length ts = 6" by (simp add: process_term_def)
  have c: "c_str (process_state p) = process_state p" "c_str (process_comment p) = process_comment p"
    using assms by (simp_all add: process_ok_def c_str_id)
  have "adds ?fs (bytes (EAtom ''process'') @
      bytes (EInt (uint (word_of_int (the (process_pid p)) :: u64))) @
      bytes (str_term (c_str (process_state p))) @ bytes (EInt (the (process_exitcode p))) @
      bytes (EInt (the (process_signal p))) @ bytes (str_term (c_str (process_comment p))))"
    using assms
    by (intro adds_append adds_atom adds_ulong adds_str_term adds_long) (auto simp: process_ok_def c)
  then have "adds ?fs (concat (map bytes ts))"
    using ts(1) by (auto simp: process_term_def)
  then have "adds ((\<lambda>x. eix_tuple_header X x PROCESS_TUPLE_SIZE) # ?fs) (bytes (process_term p))"
    unfolding ts(1) by (rule adds_tuple) (simp_all add: ts(2) PROCESS_TUPLE_SIZE_def)
  then have "adds (process_steps X p) (external bytes (process_term p))"
    using adds_append [OF adds_version] by (simp add: process_steps_def external_def)
  then show ?thesis by (simp add: send_process_info_def eix_run_adds)
qed

end

section \<open>The request to start a task\<close>

definition porter_req_tuple_size :: int where "porter_req_tuple_size = 4"

text \<open>
  The arguments are sent as strings (the comment in the source says binaries), cut at the first
  NUL by \<open>c_str()\<close>.
\<close>

definition argv_steps :: "eix \<Rightarrow> string list \<Rightarrow> enc_step list" where
  "argv_steps X argv =
     (if argv = [] then [eix_empty_list X]
      else (\<lambda>x. eix_list_header X x (int (length argv))) #
        map (\<lambda>a x. eix_string X x (c_str a)) argv @ [eix_empty_list X])"

definition porter_req_steps :: "eix \<Rightarrow> string \<Rightarrow> string \<Rightarrow> bool \<Rightarrow> string list \<Rightarrow> enc_step list" where
  "porter_req_steps X ref meth pmix argv = [
     eix_version X,
     \<lambda>x. eix_tuple_header X x porter_req_tuple_size,
     \<lambda>x. eix_atom X x ''porter_req'',
     \<lambda>x. eix_binary X x ref,
     \<lambda>x. eix_atom X x meth,
     \<lambda>x. eix_map_header X x 2,
     \<lambda>x. eix_atom X x ''pmix'',
     \<lambda>x. eix_atom X x (if pmix then ''true'' else ''false''),
     \<lambda>x. eix_atom X x ''cmd''] @ argv_steps X argv"

definition send_porter_req ::
  "eix \<Rightarrow> string \<Rightarrow> string \<Rightarrow> bool \<Rightarrow> string list \<Rightarrow> string \<Rightarrow> bool \<times> string" where
  "send_porter_req X ref meth pmix argv out = (case eix_run X (porter_req_steps X ref meth pmix argv) of
     None \<Rightarrow> (False, out) | Some b \<Rightarrow> (True, out @ b))"

definition argv_term :: "string list \<Rightarrow> eterm" where
  "argv_term argv = (if argv = [] then ENil else EList (map (\<lambda>a. str_term (c_str a)) argv))"

definition porter_req_term :: "string \<Rightarrow> string \<Rightarrow> bool \<Rightarrow> string list \<Rightarrow> eterm" where
  "porter_req_term ref meth pmix argv = ETuple [EAtom ''porter_req'', EBin ref, EAtom meth,
     EMap [(EAtom ''pmix'', EAtom (if pmix then ''true'' else ''false'')), (EAtom ''cmd'', argv_term argv)]]"

lemma length_c_str: "length (c_str s) \<le> length s"
  by (simp add: c_str_def length_takeWhile_le)

context ei_enc_laws begin

lemma adds_argv:
  assumes "length argv < 2 ^ 31" and "\<forall>a \<in> set argv. length a < 65536"
  shows "adds (argv_steps X argv) (bytes (argv_term argv))"
proof (cases "argv = []")
  case True
  then show ?thesis by (simp add: argv_steps_def argv_term_def adds_empty_list)
next
  case False
  have "adds (map (\<lambda>a x. eix_string X x (c_str a)) argv) (concat (map (\<lambda>a. bytes (str_term (c_str a))) argv))"
    by (rule adds_each, rule adds_str_term) (use assms(2) length_c_str le_less_trans in blast)
  then have "adds ((\<lambda>x. eix_list_header X x (int (length argv))) #
      map (\<lambda>a x. eix_string X x (c_str a)) argv @ [eix_empty_list X])
      (bytes (EList (map (\<lambda>a. str_term (c_str a)) argv)))"
    using False assms(1) by (intro adds_list) (simp_all add: comp_def)
  then show ?thesis using False by (simp add: argv_steps_def argv_term_def)
qed

lemma porter_req_bytes:
  assumes "length ref < 2 ^ 31" and "length meth < 256" and "length argv < 2 ^ 31"
    and "\<forall>a \<in> set argv. length a < 65536"
  shows "send_porter_req X ref meth pmix argv out =
    (True, out @ external bytes (porter_req_term ref meth pmix argv))"
proof -
  let ?b = "if pmix then ''true'' else ''false''"
  let ?ps = "[(EAtom ''pmix'', EAtom ?b), (EAtom ''cmd'', argv_term argv)]"
  let ?ms = "[\<lambda>x. eix_atom X x ''pmix''] @ [\<lambda>x. eix_atom X x ?b] @ [\<lambda>x. eix_atom X x ''cmd''] @ argv_steps X argv"
  have "adds ?ms (bytes (EAtom ''pmix'') @ bytes (EAtom ?b) @ bytes (EAtom ''cmd'') @ bytes (argv_term argv))"
    using assms by (intro adds_append adds_atom adds_argv) auto
  then have "adds ?ms (concat (map bytes (flatten_pairs ?ps)))" by simp
  then have m: "adds ((\<lambda>x. eix_map_header X x 2) # ?ms) (bytes (EMap ?ps))"
    by (rule adds_map) simp_all
  let ?fs = "[\<lambda>x. eix_atom X x ''porter_req''] @ [\<lambda>x. eix_binary X x ref] @ [\<lambda>x. eix_atom X x meth] @
     ((\<lambda>x. eix_map_header X x 2) # ?ms)"
  have "adds ?fs (bytes (EAtom ''porter_req'') @ bytes (EBin ref) @ bytes (EAtom meth) @ bytes (EMap ?ps))"
    using assms(1,2) m by (intro adds_append adds_atom adds_binary) auto
  then have "adds ?fs (concat (map bytes [EAtom ''porter_req'', EBin ref, EAtom meth, EMap ?ps]))" by simp
  then have "adds ((\<lambda>x. eix_tuple_header X x porter_req_tuple_size) # ?fs)
      (bytes (porter_req_term ref meth pmix argv))"
    unfolding porter_req_term_def by (rule adds_tuple) (simp_all add: porter_req_tuple_size_def)
  then have "adds (porter_req_steps X ref meth pmix argv) (external bytes (porter_req_term ref meth pmix argv))"
    using adds_append [OF adds_version] by (simp add: porter_req_steps_def external_def)
  then show ?thesis by (simp add: send_porter_req_def eix_run_adds)
qed

end

section \<open>Properties\<close>

lemma val_str_term: "CHR 0x00 \<notin> set s \<Longrightarrow> val_str s (str_term (c_str s))"
  by (simp add: val_str_def str_term_def c_str_id)

text \<open>
  C19. The frame of a process is the tuple of six elements, and the constructor of \<open>SwmProcess\<close>
  reads from it exactly the process that was sent.
\<close>

theorem process_info_roundtrip:
  assumes "ei_enc_laws X bytes" and "ei_laws E enc bytes" and "process_ok p"
    and "enc (external bytes (process_term p)) 1 (process_term p) j"
  shows "send_process_info X p out = (True, out @ external bytes (process_term p)) \<and>
    SwmProcess_ctor E (external bytes (process_term p)) 1 = Some (j, p)"
proof
  show "send_process_info X p out = (True, out @ external bytes (process_term p))"
    by (rule ei_enc_laws.process_info_bytes [OF assms(1,3)])
  have "uint (word_of_int n :: u64) = n" if "0 \<le> n" "n < 2 ^ 63" for n
    using that by (simp add: uint_word_of_int)
  then have "val_process p (process_term p)"
    using assms(3) by (auto simp: process_ok_def process_term_def val_process_def val_record_def
        val_scl_def val_i64_def val_str_term)
  then show "SwmProcess_ctor E (external bytes (process_term p)) 1 = Some (j, p)"
    using ei_laws.process_ctor_reads [OF assms(2)] assms(4) by (simp add: constructs_def)
qed

definition sample_process :: SwmProcess where
  "sample_process = \<lparr>process_pid = Some 4711, process_state = ''F'', process_exitcode = Some (- 1),
     process_signal = Some 9, process_comment = []\<rparr>"

theorem process_info_roundtrip_witness:
  "send_process_info etf_eix sample_process [] = (True, [] @ external etf (process_term sample_process)) \<and>
   SwmProcess_ctor etf_ei (external etf (process_term sample_process)) 1 =
     Some (1 + int (length (etf (process_term sample_process))), sample_process)"
proof (rule process_info_roundtrip [OF ei_enc_laws_etf ei_laws_etf])
  show "process_ok sample_process" by (simp add: process_ok_def sample_process_def)
  have "etf_wf (process_term sample_process)"
    by (simp add: process_term_def sample_process_def str_term_def c_str_def le_bytes.simps)
  then show "etf_enc (external etf (process_term sample_process)) 1 (process_term sample_process)
      (1 + int (length (etf (process_term sample_process))))"
    by (simp add: etf_enc_def external_def)
qed

end
