(* ===== verification/Porter_Metrics.thy ===== *)
theory Porter_Metrics
  imports Metrics_Probe Porter_Out
begin

text \<open>
  \<open>porter/wm_porter_metrics.cpp\<close>: samples of the use of CPU, memory and GPU, the window that
  aggregates them between two reports, the configuration from the job's environment, and the
  frame that carries a report. Times are milliseconds; their differences fit.
\<close>

section \<open>Data\<close>

record PorterMetricsConfig =
  sample_interval_ms :: int
  report_interval_ms :: int
  collect_gpu :: bool

definition PorterMetricsConfig_init :: PorterMetricsConfig where
  "PorterMetricsConfig_init =
     \<lparr>sample_interval_ms = 15000, report_interval_ms = 120000, collect_gpu = False\<rparr>"

record PorterMetricsSample =
  s_cpu_percent :: "double option"
  s_mem_bytes :: "u64 option"
  s_gpu_util_percent :: "double option"
  s_gpu_mem_bytes :: "u64 option"

definition PorterMetricsSample_init :: PorterMetricsSample where
  "PorterMetricsSample_init = \<lparr>s_cpu_percent = None, s_mem_bytes = None, s_gpu_util_percent = None,
     s_gpu_mem_bytes = None\<rparr>"

definition sample_any :: "PorterMetricsSample \<Rightarrow> bool" where
  "sample_any s \<longleftrightarrow> s_cpu_percent s \<noteq> None \<or> s_mem_bytes s \<noteq> None \<or>
     s_gpu_util_percent s \<noteq> None \<or> s_gpu_mem_bytes s \<noteq> None"

record PorterMetricsWindow =
  start_ms :: int
  samples :: u32
  cpu_samples :: u32
  mem_samples :: u32
  gpu_samples :: u32
  cpu_sum :: double
  cpu_max :: double
  mem_sum :: double
  mem_max :: u64
  gpu_util_sum :: double
  gpu_util_max :: double
  gpu_mem_sum :: double
  gpu_mem_max :: u64

definition PorterMetricsWindow_init :: PorterMetricsWindow where
  "PorterMetricsWindow_init = \<lparr>start_ms = 0, samples = 0, cpu_samples = 0, mem_samples = 0,
     gpu_samples = 0, cpu_sum = Fin 0, cpu_max = Fin 0, mem_sum = Fin 0, mem_max = 0,
     gpu_util_sum = Fin 0, gpu_util_max = Fin 0, gpu_mem_sum = Fin 0, gpu_mem_max = 0\<rparr>"

definition window_empty :: "PorterMetricsWindow \<Rightarrow> bool" where
  "window_empty w \<longleftrightarrow> samples w = 0"

record PorterMetricsState =
  cgroup_v2_ok :: bool
  cgroup_checked :: bool
  warned_no_v2 :: bool
  cgroup_path :: string
  last_usage_usec :: u64
  last_sample_ms :: int
  have_cpu_baseline :: bool
  window :: PorterMetricsWindow

definition PorterMetricsState_init :: PorterMetricsState where
  "PorterMetricsState_init = \<lparr>cgroup_v2_ok = False, cgroup_checked = False, warned_no_v2 = False,
     cgroup_path = [], last_usage_usec = 0, last_sample_ms = 0, have_cpu_baseline = False,
     window = PorterMetricsWindow_init\<rparr>"

section \<open>The window\<close>

definition window_reset :: "int \<Rightarrow> PorterMetricsWindow" where
  "window_reset now_ms = PorterMetricsWindow_init\<lparr>start_ms := now_ms\<rparr>"

definition add_cpu :: "PorterMetricsSample \<Rightarrow> PorterMetricsWindow \<Rightarrow> PorterMetricsWindow" where
  "add_cpu s w = (case s_cpu_percent s of None \<Rightarrow> w | Some x \<Rightarrow>
     w\<lparr>cpu_sum := dadd (cpu_sum w) x,
       cpu_max := (if cpu_samples w = 0 \<or> dless (cpu_max w) x then x else cpu_max w),
       cpu_samples := cpu_samples w + 1\<rparr>)"

definition add_mem :: "PorterMetricsSample \<Rightarrow> PorterMetricsWindow \<Rightarrow> PorterMetricsWindow" where
  "add_mem s w = (case s_mem_bytes s of None \<Rightarrow> w | Some x \<Rightarrow>
     w\<lparr>mem_sum := dadd (mem_sum w) (of_integer (uint x)),
       mem_max := (if mem_max w < x then x else mem_max w),
       mem_samples := mem_samples w + 1\<rparr>)"

definition add_gpu :: "PorterMetricsSample \<Rightarrow> PorterMetricsWindow \<Rightarrow> PorterMetricsWindow" where
  "add_gpu s w =
     (if s_gpu_util_percent s = None \<and> s_gpu_mem_bytes s = None then w
      else
        let w1 = (case s_gpu_util_percent s of None \<Rightarrow> w | Some x \<Rightarrow>
              w\<lparr>gpu_util_sum := dadd (gpu_util_sum w) x,
                gpu_util_max := (if gpu_samples w = 0 \<or> dless (gpu_util_max w) x then x
                                 else gpu_util_max w)\<rparr>);
            w2 = (case s_gpu_mem_bytes s of None \<Rightarrow> w1 | Some x \<Rightarrow>
              w1\<lparr>gpu_mem_sum := dadd (gpu_mem_sum w1) (of_integer (uint x)),
                 gpu_mem_max := (if gpu_mem_max w1 < x then x else gpu_mem_max w1)\<rparr>)
        in w2\<lparr>gpu_samples := gpu_samples w2 + 1\<rparr>)"

definition window_add :: "PorterMetricsSample \<Rightarrow> PorterMetricsWindow \<Rightarrow> PorterMetricsWindow" where
  "window_add s w =
     (if \<not> sample_any s then w
      else add_gpu s (add_mem s (add_cpu s (w\<lparr>samples := samples w + 1\<rparr>))))"

definition window_ready :: "PorterMetricsWindow \<Rightarrow> int \<Rightarrow> int \<Rightarrow> bool" where
  "window_ready w now_ms report_ms \<longleftrightarrow>
     0 < report_ms \<and> 0 < start_ms w \<and> report_ms \<le> now_ms - start_ms w"

section \<open>Configuration\<close>

text \<open>The first entry of the environment with the key.\<close>

definition env_value :: "SwmJob \<Rightarrow> string \<Rightarrow> string option" where
  "env_value job key = map_of (job_env job) key"

definition parse_i64 :: "string \<Rightarrow> int option" where
  "parse_i64 s = (if s = [] then None else from_chars_i64 s)"

definition porter_metrics_config_from_job :: "SwmJob \<Rightarrow> PorterMetricsConfig" where
  "porter_metrics_config_from_job job = (let
     c0 = PorterMetricsConfig_init;
     c1 = (case env_value job ''SWM_METRICS_INTERVAL_MS'' of None \<Rightarrow> c0 | Some s \<Rightarrow>
       (case parse_i64 s of None \<Rightarrow> c0 | Some v \<Rightarrow> c0\<lparr>sample_interval_ms := v\<rparr>));
     c2 = (case env_value job ''SWM_METRICS_REPORT_MS'' of None \<Rightarrow> c1 | Some s \<Rightarrow>
       (case parse_i64 s of None \<Rightarrow> c1 | Some v \<Rightarrow> c1\<lparr>report_interval_ms := v\<rparr>));
     c3 = (if 0 < report_interval_ms c2 \<and> report_interval_ms c2 < sample_interval_ms c2
       then c2\<lparr>sample_interval_ms := report_interval_ms c2\<rparr> else c2)
     in case env_value job ''SWM_METRICS_GPU'' of None \<Rightarrow> c3 | Some g \<Rightarrow>
       c3\<lparr>collect_gpu := (g = ''1'' \<or> g = ''true'' \<or> g = ''yes'')\<rparr>)"

section \<open>The report\<close>

text \<open>The averages; an average of memory that does not fit an integer is unspecified.\<close>

definition round_u64 :: "msys \<Rightarrow> double \<Rightarrow> u64" where
  "round_u64 S x = word_of_int (case llround x of Some z \<Rightarrow> z | None \<Rightarrow> ms_llround S)"

definition cpu_avg :: "PorterMetricsWindow \<Rightarrow> double" where
  "cpu_avg w = (if 0 < cpu_samples w then ddiv (cpu_sum w) (of_integer (uint (cpu_samples w))) else Fin 0)"

definition mem_avg :: "msys \<Rightarrow> PorterMetricsWindow \<Rightarrow> u64" where
  "mem_avg S w = (if 0 < mem_samples w
     then round_u64 S (ddiv (mem_sum w) (of_integer (uint (mem_samples w)))) else 0)"

definition gpu_util_avg :: "PorterMetricsWindow \<Rightarrow> double" where
  "gpu_util_avg w = (if 0 < gpu_samples w
     then ddiv (gpu_util_sum w) (of_integer (uint (gpu_samples w))) else Fin 0)"

definition gpu_mem_avg :: "msys \<Rightarrow> PorterMetricsWindow \<Rightarrow> u64" where
  "gpu_mem_avg S w = (if 0 < gpu_samples w
     then round_u64 S (ddiv (gpu_mem_sum w) (of_integer (uint (gpu_samples w)))) else 0)"

definition encode_kv_binary :: "eix \<Rightarrow> string \<Rightarrow> string \<Rightarrow> enc_step list" where
  "encode_kv_binary X key v = [\<lambda>x. eix_atom X x key, \<lambda>x. eix_binary X x v]"

definition encode_kv_i64 :: "eix \<Rightarrow> string \<Rightarrow> int \<Rightarrow> enc_step list" where
  "encode_kv_i64 X key v = [\<lambda>x. eix_atom X x key, \<lambda>x. eix_longlong X x v]"

definition encode_kv_u64 :: "eix \<Rightarrow> string \<Rightarrow> u64 \<Rightarrow> enc_step list" where
  "encode_kv_u64 X key v = [\<lambda>x. eix_atom X x key, \<lambda>x. eix_ulonglong X x v]"

definition encode_kv_double :: "eix \<Rightarrow> string \<Rightarrow> double \<Rightarrow> enc_step list" where
  "encode_kv_double X key v = [\<lambda>x. eix_atom X x key, \<lambda>x. eix_double X x v]"

definition report_arity :: "PorterMetricsWindow \<Rightarrow> int" where
  "report_arity w = 5 + (if 0 < cpu_samples w then 2 else 0) + (if 0 < mem_samples w then 2 else 0) +
     (if 0 < gpu_samples w then 4 else 0)"

definition report_steps ::
  "eix \<Rightarrow> msys \<Rightarrow> string \<Rightarrow> string \<Rightarrow> int \<Rightarrow> PorterMetricsWindow \<Rightarrow> enc_step list" where
  "report_steps X S jid node ts w =
     [eix_version X, \<lambda>x. eix_tuple_header X x 2, \<lambda>x. eix_atom X x ''porter_metrics'',
      \<lambda>x. eix_map_header X x (report_arity w)] @
     encode_kv_binary X ''job_id'' jid @ encode_kv_binary X ''node'' node @
     encode_kv_i64 X ''ts'' ts @ encode_kv_u64 X ''samples'' (ucast (samples w)) @
     encode_kv_i64 X ''window_ms'' (max 0 (ts - start_ms w)) @
     (if 0 < cpu_samples w then encode_kv_double X ''cpu_percent'' (cpu_avg w) @
        encode_kv_double X ''cpu_percent_max'' (cpu_max w) else []) @
     (if 0 < mem_samples w then encode_kv_u64 X ''mem_bytes'' (mem_avg S w) @
        encode_kv_u64 X ''mem_bytes_max'' (mem_max w) else []) @
     (if 0 < gpu_samples w then encode_kv_double X ''gpu_util_percent'' (gpu_util_avg w) @
        encode_kv_double X ''gpu_util_percent_max'' (gpu_util_max w) @
        encode_kv_u64 X ''gpu_mem_bytes'' (gpu_mem_avg S w) @
        encode_kv_u64 X ''gpu_mem_bytes_max'' (gpu_mem_max w) else [])"

definition send_aggregated_metrics ::
  "eix \<Rightarrow> msys \<Rightarrow> string \<Rightarrow> string \<Rightarrow> int \<Rightarrow> PorterMetricsWindow \<Rightarrow> string \<Rightarrow> bool \<times> string" where
  "send_aggregated_metrics X S jid node ts w out =
     (if window_empty w then (True, out)
      else case eix_run X (report_steps X S jid node ts w) of
        None \<Rightarrow> (False, out) | Some b \<Rightarrow> (True, out @ b))"

section \<open>Sampling\<close>

definition ensure_cgroup :: "msys \<Rightarrow> PorterMetricsState \<Rightarrow> PorterMetricsState" where
  "ensure_cgroup S st =
     (if cgroup_checked st then st
      else let st1 = st\<lparr>cgroup_checked := True, cgroup_v2_ok := is_cgroup_v2 S\<rparr> in
        if cgroup_v2_ok st1 then
          (let p = read_self_cgroup_v2_path S
           in st1\<lparr>cgroup_path := (if p = [] then ''/sys/fs/cgroup'' else p)\<rparr>)
        else st1\<lparr>warned_no_v2 := True\<rparr>)"

text \<open>The CPU share since the last sample, in percent of all processors.\<close>

definition cpu_share :: "msys \<Rightarrow> int \<Rightarrow> u64 \<Rightarrow> double" where
  "cpu_share S dt_ms delta_usec = (let
     dt_usec = dmul (of_integer dt_ms) (Fin 1000);
     cpu = ddiv (dmul (Fin 100) (of_integer (uint delta_usec)))
       (dmul dt_usec (of_integer (uint (ncpus S))))
     in if dless cpu (Fin 0) then Fin 0 else cpu)"

definition sample_cpu ::
  "msys \<Rightarrow> PorterMetricsState \<Rightarrow> int \<Rightarrow> PorterMetricsSample \<Rightarrow> PorterMetricsSample \<times> PorterMetricsState" where
  "sample_cpu S st now_ms sm = (case read_usage_usec S (cgroup_path st) of
      None \<Rightarrow> (sm, st)
    | Some usage \<Rightarrow>
        (if have_cpu_baseline st \<and> 0 < last_sample_ms st \<and> 0 < now_ms - last_sample_ms st \<and>
            last_usage_usec st \<le> usage
         then sm\<lparr>s_cpu_percent :=
           Some (cpu_share S (now_ms - last_sample_ms st) (usage - last_usage_usec st))\<rparr>
         else sm,
         st\<lparr>last_usage_usec := usage, have_cpu_baseline := True\<rparr>))"

definition take_sample ::
  "msys \<Rightarrow> PorterMetricsConfig \<Rightarrow> PorterMetricsState \<Rightarrow> nvml_lib \<Rightarrow> int \<Rightarrow>
    PorterMetricsSample \<times> PorterMetricsState \<times> nvml_lib" where
  "take_sample S cfg st lib now_ms = (let
     st1 = ensure_cgroup S st;
     (sm2, st2) = (if cgroup_v2_ok st1 \<and> cgroup_path st1 \<noteq> []
        then (case sample_cpu S st1 now_ms PorterMetricsSample_init of (sm, st') \<Rightarrow>
          (sm\<lparr>s_mem_bytes := read_memory_current S (cgroup_path st')\<rparr>, st'))
        else (PorterMetricsSample_init, st1));
     (sm3, lib3) = (if collect_gpu cfg
        then (case query_gpu_nvml (ms_nvml S) lib of
            (None, lib') \<Rightarrow> (sm2, lib')
          | (Some g, lib') \<Rightarrow> (sm2\<lparr>s_gpu_util_percent := Some (util_percent g),
              s_gpu_mem_bytes := Some (mem_bytes g)\<rparr>, lib'))
        else (sm2, lib))
     in (sm3, st2\<lparr>last_sample_ms := now_ms\<rparr>, lib3))"

section \<open>Reporting\<close>

definition flush_window ::
  "eix \<Rightarrow> msys \<Rightarrow> SwmJob \<Rightarrow> PorterMetricsState \<Rightarrow> int \<Rightarrow> string \<Rightarrow> bool \<times> PorterMetricsState \<times> string" where
  "flush_window X S job st now_ms out =
     (if window_empty (window st) then (True, st\<lparr>window := window_reset now_ms\<rparr>, out)
      else case send_aggregated_metrics X S (job_id job) (hostname_str S) now_ms (window st) out of
        (ok, out') \<Rightarrow> if ok then (True, st\<lparr>window := window_reset now_ms\<rparr>, out') else (False, st, out'))"

text \<open>Open the window with the first sample, take a sample, add it.\<close>

definition sample_into_window ::
  "msys \<Rightarrow> PorterMetricsConfig \<Rightarrow> PorterMetricsState \<Rightarrow> nvml_lib \<Rightarrow> int \<Rightarrow> PorterMetricsState \<times> nvml_lib" where
  "sample_into_window S cfg st lib now_ms = (let
     st1 = (if start_ms (window st) = 0 then st\<lparr>window := window_reset now_ms\<rparr> else st);
     (sm, st2, lib2) = take_sample S cfg st1 lib now_ms
     in (st2\<lparr>window := window_add sm (window st2)\<rparr>, lib2))"

definition porter_metrics_maybe_send ::
  "eix \<Rightarrow> msys \<Rightarrow> SwmJob \<Rightarrow> PorterMetricsConfig \<Rightarrow> PorterMetricsState \<Rightarrow> nvml_lib \<Rightarrow> int \<Rightarrow> string \<Rightarrow>
    bool \<times> PorterMetricsState \<times> nvml_lib \<times> string" where
  "porter_metrics_maybe_send X S job cfg st lib now_ms out =
     (if sample_interval_ms cfg \<le> 0 \<or> report_interval_ms cfg \<le> 0 then (True, st, lib, out)
      else if last_sample_ms st \<noteq> 0 \<and> now_ms - last_sample_ms st < sample_interval_ms cfg
      then (True, st, lib, out)
      else case sample_into_window S cfg st lib now_ms of (st2, lib2) \<Rightarrow>
        if window_ready (window st2) now_ms (report_interval_ms cfg)
        then (case flush_window X S job st2 now_ms out of (ok, st3, out') \<Rightarrow> (ok, st3, lib2, out'))
        else (True, st2, lib2, out))"

definition porter_metrics_flush ::
  "eix \<Rightarrow> msys \<Rightarrow> SwmJob \<Rightarrow> PorterMetricsConfig \<Rightarrow> PorterMetricsState \<Rightarrow> nvml_lib \<Rightarrow> int \<Rightarrow> string \<Rightarrow>
    bool \<times> PorterMetricsState \<times> nvml_lib \<times> string" where
  "porter_metrics_flush X S job cfg st lib now_ms out =
     (if sample_interval_ms cfg \<le> 0 \<or> report_interval_ms cfg \<le> 0 then (True, st, lib, out)
      else case sample_into_window S cfg st lib now_ms of (st2, lib2) \<Rightarrow>
        (case flush_window X S job st2 now_ms out of (ok, st3, out') \<Rightarrow> (ok, st3, lib2, out')))"

section \<open>The window as a function of its samples\<close>

definition dmax :: "double \<Rightarrow> double \<Rightarrow> double" where
  "dmax a b = (if dless a b then b else a)"

text \<open>The maximum of a list in order of arrival; 0 for the empty list.\<close>

fun dmax_list :: "double list \<Rightarrow> double" where
  "dmax_list [] = Fin 0"
| "dmax_list (x # xs) = foldl dmax x xs"

definition present :: "('a \<Rightarrow> 'b option) \<Rightarrow> 'a list \<Rightarrow> 'b list" where
  "present f xs = concat (map (\<lambda>x. case f x of None \<Rightarrow> [] | Some y \<Rightarrow> [y]) xs)"

definition byte_sum :: "u64 list \<Rightarrow> double" where
  "byte_sum bs = foldl dadd (Fin 0) (map (\<lambda>b. of_integer (uint b)) bs)"

definition window_of_samples :: "int \<Rightarrow> PorterMetricsSample list \<Rightarrow> PorterMetricsWindow" where
  "window_of_samples t ss = \<lparr>start_ms = t,
     samples = of_nat (length (filter sample_any ss)),
     cpu_samples = of_nat (length (present s_cpu_percent ss)),
     mem_samples = of_nat (length (present s_mem_bytes ss)),
     gpu_samples = of_nat (length (present s_gpu_util_percent ss)),
     cpu_sum = foldl dadd (Fin 0) (present s_cpu_percent ss),
     cpu_max = dmax_list (present s_cpu_percent ss),
     mem_sum = byte_sum (present s_mem_bytes ss),
     mem_max = foldl max 0 (present s_mem_bytes ss),
     gpu_util_sum = foldl dadd (Fin 0) (present s_gpu_util_percent ss),
     gpu_util_max = dmax_list (present s_gpu_util_percent ss),
     gpu_mem_sum = byte_sum (present s_gpu_mem_bytes ss),
     gpu_mem_max = foldl max 0 (present s_gpu_mem_bytes ss)\<rparr>"

lemma present_simps [simp]:
  "present f [] = []"
  "present f (xs @ ys) = present f xs @ present f ys"
  "present f [x] = (case f x of None \<Rightarrow> [] | Some y \<Rightarrow> [y])"
  by (simp_all add: present_def)

lemma length_present: "length (present f xs) \<le> length xs"
  by (induction xs) (auto simp: present_def split: option.split)

lemma dmax_list_snoc: "dmax_list (xs @ [x]) = (if xs = [] then x else dmax (dmax_list xs) x)"
  by (cases xs) auto

lemma byte_sum_snoc: "byte_sum (bs @ [b]) = dadd (byte_sum bs) (of_integer (uint b))"
  by (simp add: byte_sum_def)

lemma of_nat_length_zero:
  "length xs < 2 ^ 32 \<Longrightarrow> (of_nat (length xs) :: u32) = 0 \<longleftrightarrow> xs = []"
  by (auto simp: word_of_nat_eq_0_iff dest: nat_dvd_not_less)

text \<open>GPU utilisation and GPU memory come together, as \<open>take_sample\<close> makes them.\<close>

definition gpu_paired :: "PorterMetricsSample \<Rightarrow> bool" where
  "gpu_paired s \<longleftrightarrow> (s_gpu_util_percent s = None) = (s_gpu_mem_bytes s = None)"

lemma add_cpu_sel [simp]:
  "start_ms (add_cpu s w) = start_ms w"
  "samples (add_cpu s w) = samples w"
  "mem_samples (add_cpu s w) = mem_samples w"
  "gpu_samples (add_cpu s w) = gpu_samples w"
  "mem_sum (add_cpu s w) = mem_sum w"
  "mem_max (add_cpu s w) = mem_max w"
  "gpu_util_sum (add_cpu s w) = gpu_util_sum w"
  "gpu_util_max (add_cpu s w) = gpu_util_max w"
  "gpu_mem_sum (add_cpu s w) = gpu_mem_sum w"
  "gpu_mem_max (add_cpu s w) = gpu_mem_max w"
  "cpu_samples (add_cpu s w) = (case s_cpu_percent s of None \<Rightarrow> cpu_samples w | Some x \<Rightarrow> cpu_samples w + 1)"
  "cpu_sum (add_cpu s w) = (case s_cpu_percent s of None \<Rightarrow> cpu_sum w | Some x \<Rightarrow> dadd (cpu_sum w) x)"
  "cpu_max (add_cpu s w) = (case s_cpu_percent s of None \<Rightarrow> cpu_max w | Some x \<Rightarrow> if cpu_samples w = 0 then x else dmax (cpu_max w) x)"
  by (auto simp: add_cpu_def dmax_def split: option.split)

lemma add_mem_sel [simp]:
  "start_ms (add_mem s w) = start_ms w"
  "samples (add_mem s w) = samples w"
  "cpu_samples (add_mem s w) = cpu_samples w"
  "gpu_samples (add_mem s w) = gpu_samples w"
  "cpu_sum (add_mem s w) = cpu_sum w"
  "cpu_max (add_mem s w) = cpu_max w"
  "gpu_util_sum (add_mem s w) = gpu_util_sum w"
  "gpu_util_max (add_mem s w) = gpu_util_max w"
  "gpu_mem_sum (add_mem s w) = gpu_mem_sum w"
  "gpu_mem_max (add_mem s w) = gpu_mem_max w"
  "mem_samples (add_mem s w) = (case s_mem_bytes s of None \<Rightarrow> mem_samples w | Some x \<Rightarrow> mem_samples w + 1)"
  "mem_sum (add_mem s w) = (case s_mem_bytes s of None \<Rightarrow> mem_sum w | Some x \<Rightarrow> dadd (mem_sum w) (of_integer (uint x)))"
  "mem_max (add_mem s w) = (case s_mem_bytes s of None \<Rightarrow> mem_max w | Some x \<Rightarrow> max (mem_max w) x)"
  by (auto simp: add_mem_def max_def not_less split: option.split)

lemma add_gpu_sel [simp]:
  "start_ms (add_gpu s w) = start_ms w"
  "samples (add_gpu s w) = samples w"
  "cpu_samples (add_gpu s w) = cpu_samples w"
  "mem_samples (add_gpu s w) = mem_samples w"
  "cpu_sum (add_gpu s w) = cpu_sum w"
  "cpu_max (add_gpu s w) = cpu_max w"
  "mem_sum (add_gpu s w) = mem_sum w"
  "mem_max (add_gpu s w) = mem_max w"
  "gpu_samples (add_gpu s w) = (if s_gpu_util_percent s = None \<and> s_gpu_mem_bytes s = None then gpu_samples w else gpu_samples w + 1)"
  "gpu_util_sum (add_gpu s w) = (case s_gpu_util_percent s of None \<Rightarrow> gpu_util_sum w | Some x \<Rightarrow> dadd (gpu_util_sum w) x)"
  "gpu_util_max (add_gpu s w) = (case s_gpu_util_percent s of None \<Rightarrow> gpu_util_max w | Some x \<Rightarrow> if gpu_samples w = 0 then x else dmax (gpu_util_max w) x)"
  "gpu_mem_sum (add_gpu s w) = (case s_gpu_mem_bytes s of None \<Rightarrow> gpu_mem_sum w | Some x \<Rightarrow> dadd (gpu_mem_sum w) (of_integer (uint x)))"
  "gpu_mem_max (add_gpu s w) = (case s_gpu_mem_bytes s of None \<Rightarrow> gpu_mem_max w | Some x \<Rightarrow> max (gpu_mem_max w) x)"
  by (auto simp: add_gpu_def Let_def dmax_def max_def not_less split: option.split)

lemma window_add_none: "\<not> sample_any s \<Longrightarrow> window_add s w = w"
  by (simp add: window_add_def)

lemma window_add_some:
  "sample_any s \<Longrightarrow> window_add s w = add_gpu s (add_mem s (add_cpu s (w\<lparr>samples := samples w + 1\<rparr>)))"
  by (simp add: window_add_def)

lemma window_of_samples_none: "\<not> sample_any s \<Longrightarrow> window_of_samples t (ss @ [s]) = window_of_samples t ss"
  by (simp add: window_of_samples_def sample_any_def)

lemma window_of_samples_snoc:
  assumes "length ss < 2 ^ 32" and "gpu_paired s"
  shows "window_of_samples t (ss @ [s]) = window_add s (window_of_samples t ss)"
proof (cases "sample_any s")
  case False
  then show ?thesis by (simp add: window_add_none window_of_samples_none)
next
  case True
  have l: "length (present f ss) < 2 ^ 32" for f :: "PorterMetricsSample \<Rightarrow> 'a option"
    using length_present [of f ss] assms(1) by linarith
  note z = of_nat_length_zero [OF l]
  have g: "s_gpu_util_percent s = None \<longleftrightarrow> s_gpu_mem_bytes s = None"
    using assms(2) by (simp add: gpu_paired_def)
  show ?thesis
    unfolding window_add_some [OF True]
  proof (rule PorterMetricsWindow.equality)
    show "samples (window_of_samples t (ss @ [s])) =
        samples (add_gpu s (add_mem s (add_cpu s (window_of_samples t ss\<lparr>samples := samples (window_of_samples t ss) + 1\<rparr>))))"
      using True by (simp add: window_of_samples_def)
    show "gpu_samples (window_of_samples t (ss @ [s])) =
        gpu_samples (add_gpu s (add_mem s (add_cpu s (window_of_samples t ss\<lparr>samples := samples (window_of_samples t ss) + 1\<rparr>))))"
      using g by (cases "s_gpu_util_percent s") (auto simp: window_of_samples_def)
  qed (simp_all add: window_of_samples_def z dmax_list_snoc byte_sum_snoc split: option.split)
qed

lemma window_fold:
  "length ss < 2 ^ 32 \<Longrightarrow> list_all gpu_paired ss \<Longrightarrow>
    fold window_add ss (window_reset t) = window_of_samples t ss"
proof (induction ss rule: rev_induct)
  case Nil
  then show ?case
    by (simp add: window_reset_def PorterMetricsWindow_init_def window_of_samples_def byte_sum_def)
next
  case (snoc s ss)
  then show ?case by (simp add: window_of_samples_snoc)
qed

section \<open>Sequences of calls\<close>

text \<open>
  The calls that the parent makes, each with the system and the time it finds: the times at
  which a report is written.
\<close>

fun report_times ::
  "eix \<Rightarrow> SwmJob \<Rightarrow> PorterMetricsConfig \<Rightarrow> PorterMetricsState \<Rightarrow> nvml_lib \<Rightarrow> (msys \<times> int) list \<Rightarrow> int list"
where
  "report_times X job cfg st lib [] = []"
| "report_times X job cfg st lib ((S, now_ms) # calls) =
     (case porter_metrics_maybe_send X S job cfg st lib now_ms [] of (ok, st', lib', out) \<Rightarrow>
        (if out = [] then [] else [now_ms]) @ report_times X job cfg st' lib' calls)"

lemma window_add_start [simp]: "start_ms (window_add s w) = start_ms w"
  by (simp add: window_add_def)

lemma ensure_cgroup_window [simp]: "window (ensure_cgroup S st) = window st"
  by (simp add: ensure_cgroup_def Let_def)

lemma sample_cpu_window: "sample_cpu S st now sm = (sm', st') \<Longrightarrow> window st' = window st"
  by (auto simp: sample_cpu_def split: option.splits)

lemma take_sample_window: "take_sample S cfg st lib now = (sm, st', lib') \<Longrightarrow> window st' = window st"
  by (auto simp: take_sample_def Let_def split: prod.splits option.splits if_splits
      dest!: sample_cpu_window)

lemma sample_into_window_start:
  assumes "sample_into_window S cfg st lib now = (st', lib')"
  shows "start_ms (window st') = (if start_ms (window st) = 0 then now else start_ms (window st))"
proof -
  let ?st = "if start_ms (window st) = 0 then st\<lparr>window := window_reset now\<rparr> else st"
  obtain sm st2 lib2 where t: "take_sample S cfg ?st lib now = (sm, st2, lib2)"
    by (cases "take_sample S cfg ?st lib now") auto
  with assms have "st' = st2\<lparr>window := window_add sm (window st2)\<rparr>"
    by (auto simp: sample_into_window_def Let_def)
  with take_sample_window [OF t] show ?thesis by (simp add: window_reset_def)
qed

text \<open>
  A call either leaves the start of an open window alone, or opens the window at its own time;
  it does the latter whenever it writes, and then a full interval has passed.
\<close>

lemma maybe_send_start:
  assumes "porter_metrics_maybe_send X S job cfg st lib now out = (ok, st', lib', out')"
  shows "start_ms (window st') = start_ms (window st) \<or>
      start_ms (window st) = 0 \<and> start_ms (window st') = now \<or>
      0 < report_interval_ms cfg \<and> 0 < start_ms (window st') \<and> start_ms (window st') = now \<and>
      start_ms (window st) + report_interval_ms cfg \<le> now"
    and "out' \<noteq> out \<Longrightarrow> 0 < report_interval_ms cfg \<and> start_ms (window st') = now \<and> 0 < now \<and>
      start_ms (window st) + report_interval_ms cfg \<le> now"
proof -
  obtain st2 lib2 where s: "sample_into_window S cfg st lib now = (st2, lib2)"
    by (cases "sample_into_window S cfg st lib now")
  note start = sample_into_window_start [OF s]
  show "start_ms (window st') = start_ms (window st) \<or>
      start_ms (window st) = 0 \<and> start_ms (window st') = now \<or>
      0 < report_interval_ms cfg \<and> 0 < start_ms (window st') \<and> start_ms (window st') = now \<and>
      start_ms (window st) + report_interval_ms cfg \<le> now"
    using assms s start
    by (auto simp: porter_metrics_maybe_send_def flush_window_def window_reset_def window_ready_def
        split: if_splits prod.splits)
  show "out' \<noteq> out \<Longrightarrow> 0 < report_interval_ms cfg \<and> start_ms (window st') = now \<and> 0 < now \<and>
      start_ms (window st) + report_interval_ms cfg \<le> now"
    using assms s start
    by (auto simp: porter_metrics_maybe_send_def flush_window_def window_reset_def window_ready_def
        send_aggregated_metrics_def split: if_splits prod.splits option.splits)
qed

lemma report_times_after:
  "0 < start_ms (window st) \<Longrightarrow>
    \<forall>t \<in> set (report_times X job cfg st lib calls). start_ms (window st) + report_interval_ms cfg \<le> t"
proof (induction calls arbitrary: st lib)
  case (Cons c calls)
  obtain S now where c: "c = (S, now)" by (cases c)
  obtain ok st' lib' out where m: "porter_metrics_maybe_send X S job cfg st lib now [] = (ok, st', lib', out)"
    by (cases "porter_metrics_maybe_send X S job cfg st lib now []") auto
  note st = maybe_send_start [OF m]
  have "start_ms (window st) \<le> start_ms (window st') \<and> 0 < start_ms (window st')"
    using st(1) Cons.prems by auto
  with Cons.IH [of st' lib'] st(2) show ?case
    by (auto simp: c m intro: order_trans)
qed simp

lemma report_times_spaced:
  "sorted_wrt (\<lambda>a b. a + report_interval_ms cfg \<le> b) (report_times X job cfg st lib calls)"
proof (induction calls arbitrary: st lib)
  case (Cons c calls)
  obtain S now where c: "c = (S, now)" by (cases c)
  obtain ok st' lib' out where m: "porter_metrics_maybe_send X S job cfg st lib now [] = (ok, st', lib', out)"
    by (cases "porter_metrics_maybe_send X S job cfg st lib now []") auto
  show ?case
    using Cons.IH [of st' lib'] maybe_send_start(2) [OF m] report_times_after [of st' X job cfg lib' calls]
    by (auto simp: c m)
qed simp

section \<open>The bytes of a report\<close>

definition report_pairs :: "msys \<Rightarrow> string \<Rightarrow> string \<Rightarrow> int \<Rightarrow> PorterMetricsWindow \<Rightarrow> (eterm \<times> eterm) list" where
  "report_pairs S jid node ts w =
     [(EAtom ''job_id'', EBin jid), (EAtom ''node'', EBin node), (EAtom ''ts'', EInt ts),
      (EAtom ''samples'', EInt (uint (samples w))),
      (EAtom ''window_ms'', EInt (max 0 (ts - start_ms w)))] @
     (if 0 < cpu_samples w then
        [(EAtom ''cpu_percent'', EFloat (cpu_avg w)), (EAtom ''cpu_percent_max'', EFloat (cpu_max w))]
      else []) @
     (if 0 < mem_samples w then
        [(EAtom ''mem_bytes'', EInt (uint (mem_avg S w))), (EAtom ''mem_bytes_max'', EInt (uint (mem_max w)))]
      else []) @
     (if 0 < gpu_samples w then
        [(EAtom ''gpu_util_percent'', EFloat (gpu_util_avg w)),
         (EAtom ''gpu_util_percent_max'', EFloat (gpu_util_max w)),
         (EAtom ''gpu_mem_bytes'', EInt (uint (gpu_mem_avg S w))),
         (EAtom ''gpu_mem_bytes_max'', EInt (uint (gpu_mem_max w)))]
      else [])"

definition report_term :: "msys \<Rightarrow> string \<Rightarrow> string \<Rightarrow> int \<Rightarrow> PorterMetricsWindow \<Rightarrow> eterm" where
  "report_term S jid node ts w = ETuple [EAtom ''porter_metrics'', EMap (report_pairs S jid node ts w)]"

definition is_fin :: "double \<Rightarrow> bool" where
  "is_fin d \<longleftrightarrow> (\<exists>r. d = Fin r)"

text \<open>The averages and maxima that a report carries are numbers.\<close>

definition window_finite :: "PorterMetricsWindow \<Rightarrow> bool" where
  "window_finite w \<longleftrightarrow> (0 < cpu_samples w \<longrightarrow> is_fin (cpu_avg w) \<and> is_fin (cpu_max w)) \<and>
     (0 < gpu_samples w \<longrightarrow> is_fin (gpu_util_avg w) \<and> is_fin (gpu_util_max w))"

lemma report_arity_pairs: "report_arity w = int (length (report_pairs S jid node ts w))"
  by (simp add: report_arity_def report_pairs_def)

lemma length_report_pairs: "length (report_pairs S jid node ts w) < 2 ^ 31"
  by (simp add: report_pairs_def)

lemma flatten_pairs_append: "flatten_pairs (ps @ qs) = flatten_pairs ps @ flatten_pairs qs"
  by (induction ps) auto

context ei_enc_laws begin

lemma adds_two: "adds [f] s \<Longrightarrow> adds [g] t \<Longrightarrow> adds [f, g] (s @ t)"
  using adds_append [of "[f]" s "[g]" t] by simp

lemma adds_kv_binary: "length key < 256 \<Longrightarrow> length v < 2 ^ 31 \<Longrightarrow>
    adds (encode_kv_binary X key v) (concat (map bytes (flatten_pairs [(EAtom key, EBin v)])))"
  by (simp add: encode_kv_binary_def adds_two adds_atom adds_binary)

lemma adds_kv_i64: "length key < 256 \<Longrightarrow> - (2 ^ 63) \<le> v \<Longrightarrow> v < 2 ^ 63 \<Longrightarrow>
    adds (encode_kv_i64 X key v) (concat (map bytes (flatten_pairs [(EAtom key, EInt v)])))"
  by (simp add: encode_kv_i64_def adds_two adds_atom adds_longlong)

lemma adds_kv_u64: "length key < 256 \<Longrightarrow>
    adds (encode_kv_u64 X key v) (concat (map bytes (flatten_pairs [(EAtom key, EInt (uint v))])))"
  by (simp add: encode_kv_u64_def adds_two adds_atom adds_ulonglong)

lemma adds_kv_double: "length key < 256 \<Longrightarrow> is_fin v \<Longrightarrow>
    adds (encode_kv_double X key v) (concat (map bytes (flatten_pairs [(EAtom key, EFloat v)])))"
  by (auto simp: encode_kv_double_def is_fin_def intro!: adds_two adds_atom adds_double)

lemma adds_pairs:
  "adds fs (concat (map bytes (flatten_pairs ps))) \<Longrightarrow> adds gs (concat (map bytes (flatten_pairs qs))) \<Longrightarrow>
    adds (fs @ gs) (concat (map bytes (flatten_pairs (ps @ qs))))"
  using adds_append by (simp add: flatten_pairs_append)

lemma adds_pairs_if:
  "(c \<Longrightarrow> adds fs (concat (map bytes (flatten_pairs ps)))) \<Longrightarrow>
    adds (if c then fs else []) (concat (map bytes (flatten_pairs (if c then ps else []))))"
  by (simp add: adds_Nil)

lemma report_bytes:
  assumes "length jid < 2 ^ 31" and "length node < 2 ^ 31" and "- (2 ^ 63) \<le> ts" and "ts < 2 ^ 63"
    and "ts - start_ms w < 2 ^ 63" and "window_finite w" and "samples w \<noteq> 0"
  shows "send_aggregated_metrics X S jid node ts w out =
    (True, out @ external bytes (report_term S jid node ts w))"
proof -
  have "uint (samples w) < 2 ^ 32" using uint_lt2p [of "samples w"] by simp
  then have u: "uint (ucast (samples w) :: u64) = uint (samples w)"
    by (simp add: unsigned_ucast_eq take_bit_int_eq_self)
  let ?fs = "encode_kv_binary X ''job_id'' jid @ encode_kv_binary X ''node'' node @
     encode_kv_i64 X ''ts'' ts @ encode_kv_u64 X ''samples'' (ucast (samples w)) @
     encode_kv_i64 X ''window_ms'' (max 0 (ts - start_ms w)) @
     (if 0 < cpu_samples w then encode_kv_double X ''cpu_percent'' (cpu_avg w) @
        encode_kv_double X ''cpu_percent_max'' (cpu_max w) else []) @
     (if 0 < mem_samples w then encode_kv_u64 X ''mem_bytes'' (mem_avg S w) @
        encode_kv_u64 X ''mem_bytes_max'' (mem_max w) else []) @
     (if 0 < gpu_samples w then encode_kv_double X ''gpu_util_percent'' (gpu_util_avg w) @
        encode_kv_double X ''gpu_util_percent_max'' (gpu_util_max w) @
        encode_kv_u64 X ''gpu_mem_bytes'' (gpu_mem_avg S w) @
        encode_kv_u64 X ''gpu_mem_bytes_max'' (gpu_mem_max w) else [])"
  let ?ps = "[(EAtom ''job_id'', EBin jid)] @ [(EAtom ''node'', EBin node)] @ [(EAtom ''ts'', EInt ts)] @
     [(EAtom ''samples'', EInt (uint (ucast (samples w) :: u64)))] @
     [(EAtom ''window_ms'', EInt (max 0 (ts - start_ms w)))] @
     (if 0 < cpu_samples w then
        [(EAtom ''cpu_percent'', EFloat (cpu_avg w))] @ [(EAtom ''cpu_percent_max'', EFloat (cpu_max w))]
      else []) @
     (if 0 < mem_samples w then [(EAtom ''mem_bytes'', EInt (uint (mem_avg S w)))] @
        [(EAtom ''mem_bytes_max'', EInt (uint (mem_max w)))] else []) @
     (if 0 < gpu_samples w then [(EAtom ''gpu_util_percent'', EFloat (gpu_util_avg w))] @
         [(EAtom ''gpu_util_percent_max'', EFloat (gpu_util_max w))] @
         [(EAtom ''gpu_mem_bytes'', EInt (uint (gpu_mem_avg S w)))] @
         [(EAtom ''gpu_mem_bytes_max'', EInt (uint (gpu_mem_max w)))] else [])"
  have ps: "?ps = report_pairs S jid node ts w" by (simp add: report_pairs_def u)
  have "adds ?fs (concat (map bytes (flatten_pairs ?ps)))"
    using assms
    by (intro adds_pairs adds_pairs_if adds_kv_binary adds_kv_i64 adds_kv_u64 adds_kv_double)
      (simp_all add: window_finite_def)
  then have "adds ?fs (concat (map bytes (flatten_pairs (report_pairs S jid node ts w))))"
    unfolding ps .
  then have m: "adds ((\<lambda>x. eix_map_header X x (report_arity w)) # ?fs)
      (bytes (EMap (report_pairs S jid node ts w)))"
    by (rule adds_map [OF _ length_report_pairs report_arity_pairs])
  have "adds ([\<lambda>x. eix_atom X x ''porter_metrics''] @ (\<lambda>x. eix_map_header X x (report_arity w)) # ?fs)
      (bytes (EAtom ''porter_metrics'') @ bytes (EMap (report_pairs S jid node ts w)))"
    by (intro adds_append [OF _ m] adds_atom) simp
  then have "adds ([\<lambda>x. eix_atom X x ''porter_metrics''] @ (\<lambda>x. eix_map_header X x (report_arity w)) # ?fs)
      (concat (map bytes [EAtom ''porter_metrics'', EMap (report_pairs S jid node ts w)]))"
    by simp
  then have "adds ((\<lambda>x. eix_tuple_header X x 2) # [\<lambda>x. eix_atom X x ''porter_metrics''] @
      (\<lambda>x. eix_map_header X x (report_arity w)) # ?fs) (bytes (report_term S jid node ts w))"
    unfolding report_term_def by (rule adds_tuple) simp_all
  then have "adds (report_steps X S jid node ts w) (external bytes (report_term S jid node ts w))"
    using adds_append [OF adds_version] by (simp add: report_steps_def external_def)
  then show ?thesis
    using assms(7) by (simp add: send_aggregated_metrics_def window_empty_def eix_run_adds)
qed

end

section \<open>Properties\<close>

text \<open>
  C16. The window is the aggregate of its samples, whatever their order: the counters count the
  samples that carry each quantity, the sums add them up in the order of arrival, the maxima
  are maxima, and a sample without any quantity changes nothing. The counters have 32 bits.
\<close>

theorem window_aggregates_samples:
  assumes "length ss < 2 ^ 32" and "list_all gpu_paired ss"
  shows "fold window_add ss (window_reset t) = window_of_samples t ss"
  by (rule window_fold [OF assms])

definition sample_a :: PorterMetricsSample where
  "sample_a = \<lparr>s_cpu_percent = Some (Fin 12), s_mem_bytes = Some 4096, s_gpu_util_percent = None,
     s_gpu_mem_bytes = None\<rparr>"

definition sample_b :: PorterMetricsSample where
  "sample_b = \<lparr>s_cpu_percent = None, s_mem_bytes = Some 1024, s_gpu_util_percent = Some (Fin 50),
     s_gpu_mem_bytes = Some 7\<rparr>"

theorem window_aggregates_samples_witness:
  "fold window_add [sample_a, PorterMetricsSample_init, sample_b] (window_reset 9) =
     window_of_samples 9 [sample_a, PorterMetricsSample_init, sample_b]"
  by (rule window_aggregates_samples)
    (simp_all add: gpu_paired_def sample_a_def sample_b_def PorterMetricsSample_init_def)

text \<open>
  C12. Any two reports of the periodic calls (\<open>porter_metrics_maybe_send\<close>, once per turn of the loop) are
  at least the configured report interval apart, whatever the clock, the files and the library do in
  between. The one report of \<open>porter_metrics_flush\<close> at the end of the job is not among them: it may
  follow the last periodic one at any distance.
\<close>

theorem reports_spaced:
  "sorted_wrt (\<lambda>a b. a + report_interval_ms cfg \<le> b) (report_times X job cfg st lib calls)"
  by (rule report_times_spaced)

text \<open>
  The configuration that is read from the job's environment never samples more rarely than
  it reports, unless reports are off.
\<close>

theorem config_sample_within_report:
  "report_interval_ms (porter_metrics_config_from_job job) \<le> 0 \<or>
   sample_interval_ms (porter_metrics_config_from_job job) \<le>
     report_interval_ms (porter_metrics_config_from_job job)"
  by (auto simp: porter_metrics_config_from_job_def Let_def PorterMetricsConfig_init_def
      split: option.splits if_splits)

text \<open>
  C23. The frame of a report is the tuple of its tag and one map, whose arity is the number of
  entries for every combination of quantities that the window has seen; the averages are
  rounded as C++ rounds them.
\<close>

theorem report_frame:
  assumes "ei_enc_laws X bytes" and "length jid < 2 ^ 31" and "length node < 2 ^ 31"
    and "- (2 ^ 63) \<le> ts" and "ts < 2 ^ 63" and "ts - start_ms w < 2 ^ 63" and "window_finite w"
    and "samples w \<noteq> 0"
  shows "send_aggregated_metrics X S jid node ts w out =
    (True, out @ external bytes (report_term S jid node ts w))"
  by (rule ei_enc_laws.report_bytes [OF assms])

definition sample_window :: PorterMetricsWindow where
  "sample_window = (window_reset 1000)\<lparr>samples := 2, cpu_samples := 1, cpu_sum := Fin 12,
     cpu_max := Fin 12, mem_samples := 2, mem_sum := Fin 5120, mem_max := 4096\<rparr>"

definition sample_system :: msys where
  "sample_system = \<lparr>ms_exists = (\<lambda>_. True),
     ms_file = [''/proc/self/cgroup'' \<mapsto> ''0::/job'', ''/sys/fs/cgroup/job/memory.current'' \<mapsto> ''4096''],
     ms_ncpus = 4, ms_hostname = Some ''n1'',
     ms_nvml = \<lparr>nv_dlopen = (\<lambda>_. False), nv_dlsym = (\<lambda>_. False), nv_init = 0, nv_count = (0, 0),
       nv_handle = (\<lambda>_. (0, 0)), nv_util = (\<lambda>_. (0, 0)), nv_memory = (\<lambda>_. (0, 0))\<rparr>,
     ms_llround = 0\<rparr>"

lemma rnd_12: "rnd 1 = Fin 1" "rnd 12 = Fin 12"
  by (simp_all add: rnd_def flog2_def quantum_def pow2_def bitlen.simps ipow2.simps
      round_half_even_def Let_def)

theorem report_frame_witness:
  "send_aggregated_metrics etf_eix sample_system ''j1'' ''n1'' 121000 sample_window [] =
    (True, [] @ external etf (report_term sample_system ''j1'' ''n1'' 121000 sample_window))"
  by (rule report_frame [OF ei_enc_laws_etf])
    (simp_all add: sample_window_def window_reset_def PorterMetricsWindow_init_def window_finite_def
      cpu_avg_def is_fin_def of_integer_def rnd_12)

end
