(* ===== verification/Safe_File.thy ===== *)
theory Safe_File
  imports Posix_Io Ordered_Map
begin

text \<open>
  \<open>lib/wm_safe_file.cpp\<close>: the private directory of a job and the exclusive creation of a file in
  it. The file system is a parameter, the fields of \<open>posix\<close> over a type of worlds; what the
  sources rely on is the locale \<open>posix_fs\<close>, stated for a world that nobody else changes between
  two calls. The file system of \<open>Mem_Fs\<close> satisfies it.
\<close>

section \<open>System calls\<close>

type_synonym mode = nat
type_synonym uid = u32

datatype errno = EEXIST | Other_error

text \<open>
  The id -1 is \<open>leave it as it is\<close> for \<open>chown\<close>, \<open>setregid\<close> and \<open>setreuid\<close>. \<open>same_perms\<close>: a mode with
  the same nine permission bits and sticky bit, which may have lost the bits above them, the two
  set-id bits: \<open>chown\<close> clears them on a program, and \<open>chmod\<close> the one of a foreign group.
\<close>

definition keep_id :: "uid \<Rightarrow> uid \<Rightarrow> uid" where
  "keep_id new old = (if new = -1 then old else new)"

definition same_perms :: "mode \<Rightarrow> mode \<Rightarrow> bool" where
  "same_perms m m' \<longleftrightarrow> m' mod 1024 = m mod 1024 \<and> m' AND m = m'"

lemma keep_id_simps [simp]: "new \<noteq> -1 \<Longrightarrow> keep_id new old = new" "keep_id (-1) old = old"
  by (simp_all add: keep_id_def)

lemma same_perms_refl [simp]: "same_perms m m"
  by (simp add: same_perms_def)

lemma same_perms_trans: "same_perms a b \<Longrightarrow> same_perms b c \<Longrightarrow> same_perms a c"
  unfolding same_perms_def by (metis and.assoc)

lemma same_perms_mod [simp]: "same_perms m (m mod 1024)"
proof -
  have "m mod 1024 = take_bit 10 m" by (simp add: take_bit_eq_mod)
  then show ?thesis by (simp add: same_perms_def bit_eq_iff bit_simps)
qed

lemma same_perms_small: "m < 1024 \<Longrightarrow> same_perms m m' \<Longrightarrow> m' = m"
proof -
  assume m: "m < 1024" and p: "same_perms m m'"
  then have 1: "m AND mask 10 = m" and 2: "m' AND m = m'"
    by (simp_all add: same_perms_def take_bit_eq_mod flip: take_bit_eq_mask)
  have "m' AND mask 10 = (m' AND m) AND mask 10" by (simp only: 2)
  also have "\<dots> = m'" by (subst and.assoc) (simp only: 1 2)
  finally have "take_bit 10 m' = m'" by (simp only: take_bit_eq_mask)
  then have "m' mod 1024 = m'" by (simp add: take_bit_eq_mod)
  with m p show "m' = m" by (simp add: same_perms_def)
qed

text \<open>
  A call gives \<open>None\<close> for the return value 0, an error otherwise, and the world after it.
  \<open>px_open_excl\<close> is \<open>open\<close> with \<open>O_WRONLY | O_CREAT | O_EXCL | O_NOFOLLOW | O_CLOEXEC\<close>,
  \<open>px_open_append\<close> with \<open>O_WRONLY | O_CREAT | O_APPEND\<close>.
\<close>

record 'w posix =
  px_getenv :: "string \<Rightarrow> 'w \<Rightarrow> string option"
  px_geteuid :: "'w \<Rightarrow> uid"
  px_mkdir :: "string \<Rightarrow> mode \<Rightarrow> 'w \<Rightarrow> errno option \<times> 'w"
  px_mkdtemp :: "string \<Rightarrow> 'w \<Rightarrow> string option \<times> 'w"
  px_chmod :: "string \<Rightarrow> mode \<Rightarrow> 'w \<Rightarrow> errno option \<times> 'w"
  px_chown :: "string \<Rightarrow> uid \<Rightarrow> uid \<Rightarrow> 'w \<Rightarrow> errno option \<times> 'w"
  px_open_excl :: "string \<Rightarrow> mode \<Rightarrow> 'w \<Rightarrow> int option \<times> 'w"
  px_open_append :: "string \<Rightarrow> mode \<Rightarrow> 'w \<Rightarrow> int option \<times> 'w"
  px_write :: "int \<Rightarrow> string \<Rightarrow> 'w \<Rightarrow> write_result \<times> 'w"
  px_fchmod :: "int \<Rightarrow> mode \<Rightarrow> 'w \<Rightarrow> errno option \<times> 'w"
  px_fchown :: "int \<Rightarrow> uid \<Rightarrow> uid \<Rightarrow> 'w \<Rightarrow> errno option \<times> 'w"
  px_close :: "int \<Rightarrow> 'w \<Rightarrow> errno option \<times> 'w"
  px_unlink :: "string \<Rightarrow> 'w \<Rightarrow> errno option \<times> 'w"
  px_chdir :: "string \<Rightarrow> 'w \<Rightarrow> errno option \<times> 'w"
  px_getcwd :: "'w \<Rightarrow> string option"

section \<open>The functions of the source\<close>

fun strip_slashes :: "string \<Rightarrow> string" where
  "strip_slashes s = (if s \<noteq> [] \<and> last s = CHR ''/'' then strip_slashes (butlast s) else s)"

declare strip_slashes.simps [simp del]

definition job_runtime_dir :: "'w posix \<Rightarrow> 'w \<Rightarrow> string \<Rightarrow> string" where
  "job_runtime_dir P w jid =
     (if jid = [] then []
      else case px_getenv P ''SWM_SPOOL'' w of
        None \<Rightarrow> []
      | Some spool \<Rightarrow> if spool = [] then [] else strip_slashes spool @ ''/job/'' @ jid)"

text \<open>
  The loop over the components of \<open>dir\<close> from \<open>pos\<close> on; \<open>pos\<close> is \<open>dir.size() + 1\<close> after a
  final slash. The flag says whether every \<open>mkdir\<close> succeeded or found the directory.
\<close>

definition push_part :: "string \<Rightarrow> string \<Rightarrow> string" where
  "push_part cur part =
     (if cur \<noteq> ''/'' \<and> cur \<noteq> [] \<and> last cur \<noteq> CHR ''/'' then cur @ ''/'' else cur) @ part"

definition mkdir_part :: "'w posix \<Rightarrow> string \<Rightarrow> string \<Rightarrow> 'w \<Rightarrow> bool \<times> string \<times> 'w" where
  "mkdir_part P cur part w =
     (if part = [] then (True, cur, w)
      else case px_mkdir P (push_part cur part) 448 w of
        (e, w') \<Rightarrow> (e = None \<or> e = Some EEXIST, push_part cur part, w'))"

lemma str_find_from_ge: "Some k = str_find_from p s pos \<Longrightarrow> pos \<le> k"
  by (cases "str_find p (drop pos s)") (auto simp: str_find_from_def split: if_splits)

function mkdir_loop :: "'w posix \<Rightarrow> string \<Rightarrow> nat \<Rightarrow> string \<Rightarrow> 'w \<Rightarrow> bool \<times> 'w" where
  "mkdir_loop P dir pos cur w =
     (if length dir < pos then (True, w)
      else let slash = str_find_from ''/'' dir pos;
               part = (case slash of None \<Rightarrow> drop pos dir | Some k \<Rightarrow> str_substr dir pos (k - pos))
        in case mkdir_part P cur part w of (ok, cur', w') \<Rightarrow>
          if \<not> ok then (False, w')
          else case slash of None \<Rightarrow> (True, w')
            | Some k \<Rightarrow> mkdir_loop P dir (k + 1) cur' w')"
  by pat_completeness auto
termination
  by (relation "measure (\<lambda>(P, dir, pos, cur, w). Suc (length dir) - pos)")
    (auto dest!: str_find_from_ge)

declare mkdir_loop.simps [simp del]

definition ensure_private_dir :: "'w posix \<Rightarrow> string \<Rightarrow> uid \<Rightarrow> uid \<Rightarrow> 'w \<Rightarrow> bool \<times> 'w" where
  "ensure_private_dir P dir uid gid w =
     (if dir = [] \<or> dir = ''/'' then (False, w)
      else let (pos, cur) = (if dir ! 0 = CHR ''/'' then (1, ''/'') else (0, [])) in
        case mkdir_loop P dir pos cur w of (ok, w1) \<Rightarrow>
          if \<not> ok then (False, w1)
          else case px_chmod P dir 448 w1 of (e, w2) \<Rightarrow>
            if e \<noteq> None then (False, w2)
            else if px_geteuid P w2 \<noteq> 0 \<or> uid = 0 then
              (case px_chown P dir uid gid w2 of (e', w3) \<Rightarrow> (e' = None, w3))
            else (True, w2))"

text \<open>
  The loop around \<open>write\<close>; \<open>None\<close> when it never ends. The flag is false when a write failed
  for another reason than an interrupt.
\<close>

partial_function (option) write_fd :: "'w posix \<Rightarrow> int \<Rightarrow> string \<Rightarrow> 'w \<Rightarrow> (bool \<times> 'w) option" where
  "write_fd X fd s w =
     (if s = [] then Some (True, w)
      else case px_write X fd s w of
        (Write_eintr, w') \<Rightarrow> write_fd X fd s w'
      | (Write_error, w') \<Rightarrow> Some (False, w')
      | (Wrote n, w') \<Rightarrow> write_fd X fd (drop n s) w')"

definition close_unlink :: "'w posix \<Rightarrow> int \<Rightarrow> string \<Rightarrow> 'w \<Rightarrow> 'w" where
  "close_unlink P fd path w = snd (px_unlink P path (snd (px_close P fd w)))"

definition finish_file :: "'w posix \<Rightarrow> int \<Rightarrow> string \<Rightarrow> uid \<Rightarrow> uid \<Rightarrow> mode \<Rightarrow> 'w \<Rightarrow> string \<times> 'w" where
  "finish_file P fd path uid gid mode w =
     (case px_fchmod P fd mode w of (e1, w1) \<Rightarrow>
        if e1 \<noteq> None then ([], close_unlink P fd path w1)
        else case px_fchown P fd uid gid w1 of (e2, w2) \<Rightarrow>
          if e2 \<noteq> None \<and> \<not> (px_geteuid P w2 = 0 \<and> uid \<noteq> 0) then ([], close_unlink P fd path w2)
          else case px_close P fd w2 of (e3, w3) \<Rightarrow>
            if e3 \<noteq> None then ([], snd (px_unlink P path w3)) else (path, w3))"

definition safe_write_exclusive ::
  "'w posix \<Rightarrow> string \<Rightarrow> string \<Rightarrow> string \<Rightarrow> uid \<Rightarrow> uid \<Rightarrow> mode \<Rightarrow> 'w \<Rightarrow> (string \<times> 'w) option" where
  "safe_write_exclusive P dir name content uid gid mode w =
     (if dir = [] \<or> name = [] \<or> str_find ''/'' name \<noteq> None \<or> name = ''.'' \<or> name = ''..''
      then Some ([], w)
      else case ensure_private_dir P dir uid gid w of (ok, w1) \<Rightarrow>
        if \<not> ok then Some ([], w1)
        else let path = dir @ ''/'' @ name in
          case px_open_excl P path mode w1 of
            (None, w2) \<Rightarrow> Some ([], w2)
          | (Some fd, w2) \<Rightarrow> (case write_fd P fd content w2 of
              None \<Rightarrow> None
            | Some (ok', w3) \<Rightarrow>
                if \<not> ok' then Some ([], close_unlink P fd path w3)
                else Some (finish_file P fd path uid gid mode w3)))"

text \<open>
  A relation between worlds that \<open>mkdir\<close>, \<open>chmod\<close> and \<open>chown\<close> keep to is kept to by
  \<open>ensure_private_dir\<close>.
\<close>

lemma mkdir_part_rel:
  assumes "mkdir_part P cur part w = (ok, cur', w')"
    and "\<And>p m w e w'. px_mkdir P p m w = (e, w') \<Longrightarrow> R w w'" and "\<And>w. R w w"
  shows "R w w'"
  using assms by (auto simp: mkdir_part_def split: if_splits prod.splits)

lemma mkdir_loop_rel:
  assumes mk: "\<And>p m w e w'. px_mkdir P p m w = (e, w') \<Longrightarrow> R w w'"
    and refl: "\<And>w. R w w" and trans: "\<And>u v w. R u v \<Longrightarrow> R v w \<Longrightarrow> R u w"
  shows "mkdir_loop P dir pos cur w = (ok, w') \<Longrightarrow> R w w'"
proof (induction "Suc (length dir) - pos" arbitrary: pos cur w rule: less_induct)
  case less
  define slash where "slash = str_find_from ''/'' dir pos"
  define part where "part = (case slash of None \<Rightarrow> drop pos dir | Some k \<Rightarrow> str_substr dir pos (k - pos))"
  obtain ok1 cur1 w1 where m: "mkdir_part P cur part w = (ok1, cur1, w1)"
    by (cases "mkdir_part P cur part w") auto
  note step = mkdir_loop.simps [of P dir pos, unfolded Let_def, folded slash_def, folded part_def]
  have first: "R w w1" by (rule mkdir_part_rel [OF m mk refl])
  show ?case
  proof (cases "length dir < pos \<or> \<not> ok1 \<or> slash = None")
    case True
    then show ?thesis
      using less.prems m first by (auto simp: step refl split: if_splits option.splits)
  next
    case False
    then obtain k where k: "slash = Some k" by blast
    then have "pos \<le> k" using str_find_from_ge slash_def by metis
    moreover have "mkdir_loop P dir (k + 1) cur1 w1 = (ok, w')"
      using less.prems m k False by (simp add: step)
    ultimately have "R w1 w'"
      using False by (intro less.hyps [of "k + 1"]) auto
    with first show ?thesis by (rule trans)
  qed
qed

lemma ensure_private_dir_rel:
  assumes "ensure_private_dir P dir u g w = (ok, w')"
    and mk: "\<And>p m w e w'. px_mkdir P p m w = (e, w') \<Longrightarrow> R w w'"
    and cm: "\<And>p m w e w'. px_chmod P p m w = (e, w') \<Longrightarrow> R w w'"
    and co: "\<And>p u g w e w'. px_chown P p u g w = (e, w') \<Longrightarrow> R w w'"
    and refl: "\<And>w. R w w" and trans: "\<And>u v w. R u v \<Longrightarrow> R v w \<Longrightarrow> R u w"
  shows "R w w'"
proof (cases "dir = [] \<or> dir = ''/''")
  case True
  with assms(1) show ?thesis by (auto simp: ensure_private_dir_def refl)
next
  case False
  obtain pos cur where pc: "(if dir ! 0 = CHR ''/'' then (1::nat, ''/'') else (0, [])) = (pos, cur)"
    by (metis surj_pair)
  obtain ok1 w1 where l: "mkdir_loop P dir pos cur w = (ok1, w1)" by (metis surj_pair)
  obtain e w2 where c: "px_chmod P dir 448 w1 = (e, w2)" by (metis surj_pair)
  obtain e' w3 where o: "px_chown P dir u g w2 = (e', w3)" by (metis surj_pair)
  have 1: "R w w1" by (rule mkdir_loop_rel [OF mk refl trans l])
  have 2: "R w w2" using 1 cm [OF c] by (rule trans)
  have 3: "R w w3" using 2 co [OF o] by (rule trans)
  have "w' \<in> {w1, w2, w3}"
    using assms(1) False by (auto simp: ensure_private_dir_def pc l c o split: if_splits)
  with 1 2 3 show ?thesis by auto
qed

section \<open>What the file system promises\<close>

datatype fnode = FDir mode uid uid | FFile mode uid uid string | FLink string

fun file_content :: "fnode option \<Rightarrow> string option" where
  "file_content (Some (FFile m u g c)) = Some c"
| "file_content _ = None"

text \<open>
  \<open>lkp w p\<close> is the inode a path leads to, its last component not followed when it is a link;
  \<open>ino w i\<close> what an inode holds and \<open>fdi w fd\<close> the inode a descriptor is open on. \<open>mkdir\<close> and
  an exclusive \<open>open\<close> put a fresh inode where there was none; a call that fails changes nothing;
  a call on a descriptor changes its inode only, and no call on a path changes the content of a
  file; a change of directory changes where relative paths lead. \<open>untouched\<close>: no name is gone or leads elsewhere, no file has another content.
\<close>

definition untouched ::
  "(string \<Rightarrow> 'i option) \<Rightarrow> ('i \<Rightarrow> fnode option) \<Rightarrow> (string \<Rightarrow> 'i option) \<Rightarrow> ('i \<Rightarrow> fnode option) \<Rightarrow> bool" where
  "untouched a n a' n' \<longleftrightarrow>
     (\<forall>q i. a q = Some i \<longrightarrow> a' q = Some i) \<and>
     (\<forall>i. n i \<noteq> None \<longrightarrow> n' i \<noteq> None \<and> file_content (n' i) = file_content (n i))"

lemma untouched_refl: "untouched a n a n"
  by (simp add: untouched_def)

lemma untouched_trans: "untouched a n a1 n1 \<Longrightarrow> untouched a1 n1 a2 n2 \<Longrightarrow> untouched a n a2 n2"
  unfolding untouched_def by metis

lemma untouched_fresh:
  "untouched a n a1 n1 \<Longrightarrow> n i = None \<Longrightarrow> untouched a n a1 (n1(i := x))"
  by (auto simp: untouched_def)

locale posix_fs =
  fixes P :: "'w posix"
    and euid :: uid
    and lkp :: "'w \<Rightarrow> string \<Rightarrow> 'i option"
    and ino :: "'w \<Rightarrow> 'i \<Rightarrow> fnode option"
    and fdi :: "'w \<Rightarrow> int \<Rightarrow> 'i option"
  assumes at_ino: "lkp w p = Some i \<Longrightarrow> ino w i \<noteq> None"
    and euid_law: "px_geteuid P w = euid"
    and mkdir_law: "px_mkdir P p m w = (e, w') \<Longrightarrow>
        if e = None then untouched (lkp w) (ino w) (lkp w') (ino w')
        else lkp w' = lkp w \<and> ino w' = ino w"
    and mkdtemp_law: "px_mkdtemp P p w = (d, w') \<Longrightarrow> untouched (lkp w) (ino w) (lkp w') (ino w')"
    and open_append_law: "px_open_append P p m w = (ofd, w') \<Longrightarrow>
        untouched (lkp w) (ino w) (lkp w') (ino w')"
    and chdir_law: "px_chdir P p w = (e, w') \<Longrightarrow>
        ino w' = ino w \<and> (\<forall>q. q \<noteq> [] \<and> hd q = CHR ''/'' \<longrightarrow> lkp w' q = lkp w q)"
    and chmod_law: "px_chmod P p m w = (e, w') \<Longrightarrow>
        lkp w' = lkp w \<and> untouched (lkp w) (ino w) (lkp w') (ino w')"
    and chown_law: "px_chown P p u g w = (e, w') \<Longrightarrow>
        lkp w' = lkp w \<and> untouched (lkp w) (ino w) (lkp w') (ino w')"
    and open_excl_law: "px_open_excl P p m w = (ofd, w') \<Longrightarrow>
        (case ofd of
           None \<Rightarrow> lkp w' = lkp w \<and> ino w' = ino w
         | Some fd \<Rightarrow> lkp w p = None \<and> untouched (lkp w) (ino w) (lkp w') (ino w') \<and>
             (\<exists>i m' u g. ino w i = None \<and> lkp w' p = Some i \<and> fdi w' fd = Some i \<and>
                ino w' = (ino w)(i \<mapsto> FFile m' u g [])))"
    and write_law: "px_write P fd s w = (r, w') \<Longrightarrow> fdi w fd = Some i \<Longrightarrow>
        ino w i = Some (FFile m u g c) \<Longrightarrow>
        fdi w' = fdi w \<and> lkp w' = lkp w \<and>
        (case r of
           Wrote n \<Rightarrow> n \<le> length s \<and> ino w' = (ino w)(i \<mapsto> FFile m u g (c @ take n s))
         | _ \<Rightarrow> ino w' = ino w)"
    and fchmod_law: "px_fchmod P fd m' w = (e, w') \<Longrightarrow> fdi w fd = Some i \<Longrightarrow>
        ino w i = Some (FFile m u g c) \<Longrightarrow>
        fdi w' = fdi w \<and> lkp w' = lkp w \<and>
        (if e = None then \<exists>m''. same_perms m' m'' \<and> ino w' = (ino w)(i \<mapsto> FFile m'' u g c)
         else ino w' = ino w)"
    and fchown_law: "px_fchown P fd u' g' w = (e, w') \<Longrightarrow> fdi w fd = Some i \<Longrightarrow>
        ino w i = Some (FFile m u g c) \<Longrightarrow>
        fdi w' = fdi w \<and> lkp w' = lkp w \<and>
        (if e = None then \<exists>m''. same_perms m m'' \<and>
           ino w' = (ino w)(i \<mapsto> FFile m'' (keep_id u' u) (keep_id g' g) c)
         else ino w' = ino w)"
    and close_law: "px_close P fd w = (e, w') \<Longrightarrow> lkp w' = lkp w \<and> ino w' = ino w"
    and unlink_law: "px_unlink P p w = (e, w') \<Longrightarrow> lkp w p = Some i \<Longrightarrow>
        ino w i = Some (FFile m u g c) \<Longrightarrow>
        (\<forall>q j. lkp w q = Some j \<and> j \<noteq> i \<longrightarrow> lkp w' q = Some j) \<and>
        (\<forall>j. j \<noteq> i \<longrightarrow> ino w' j = ino w j)"
begin

abbreviation same :: "'w \<Rightarrow> 'w \<Rightarrow> bool" where
  "same w w' \<equiv> untouched (lkp w) (ino w) (lkp w') (ino w')"

text \<open>\<open>fresh_file w w' p i f\<close>: since \<open>w\<close>, only the file \<open>f\<close> came to be, at \<open>p\<close>, in the inode \<open>i\<close>.\<close>

definition fresh_file :: "'w \<Rightarrow> 'w \<Rightarrow> string \<Rightarrow> 'i \<Rightarrow> fnode \<Rightarrow> bool" where
  "fresh_file w w' p i f \<longleftrightarrow> same w w' \<and> ino w i = None \<and> lkp w p = None \<and>
     lkp w' p = Some i \<and> ino w' i = Some f"

lemma fresh_file_step:
  "fresh_file w w1 p i f \<Longrightarrow> lkp w2 = lkp w1 \<Longrightarrow> ino w2 = (ino w1)(i \<mapsto> f') \<Longrightarrow> fresh_file w w2 p i f'"
  by (simp add: fresh_file_def untouched_fresh)

lemma fresh_file_same: "fresh_file w w' p i f \<Longrightarrow> same w w'"
  by (simp add: fresh_file_def)

lemma mkdir_same: "px_mkdir P p m w = (e, w') \<Longrightarrow> same w w'"
  using mkdir_law [of p m w e w'] by (auto split: if_splits intro: untouched_refl)

lemma ensure_private_dir_same:
  assumes "ensure_private_dir P dir u g w = (ok, w')"
  shows "same w w'"
  using assms
proof (rule ensure_private_dir_rel [where R = same])
  show "same w1 w2" if "px_mkdir P p m w1 = (e, w2)" for p m w1 e w2
    by (rule mkdir_same [OF that])
  show "same w1 w2" if "px_chmod P p m w1 = (e, w2)" for p m w1 e w2
    using chmod_law [OF that] by blast
  show "same w1 w2" if "px_chown P p u g w1 = (e, w2)" for p u g w1 e w2
    using chown_law [OF that] by blast
qed (auto intro: untouched_refl untouched_trans)

lemma write_fd_file:
  assumes "write_fd P fd s w1 = Some (ok, w2)"
    and "fresh_file w w1 p i (FFile m u g c)" and "fdi w1 fd = Some i"
  shows "fdi w2 fd = Some i \<and>
    (\<exists>c'. fresh_file w w2 p i (FFile m u g c') \<and> (ok \<longrightarrow> c' = c @ s))"
proof -
  define G where "G Q d t v1 y \<longleftrightarrow> (\<forall>c1. Q = P \<longrightarrow>
      fresh_file w v1 p i (FFile m u g c1) \<longrightarrow> fdi v1 d = Some i \<longrightarrow>
      fdi (snd y) d = Some i \<and>
      (\<exists>c'. fresh_file w (snd y) p i (FFile m u g c') \<and> (fst y \<longrightarrow> c' = c1 @ t)))"
    for Q d t v1 and y :: "bool \<times> 'w"
  have "G P fd s w1 (ok, w2)"
  proof (rule write_fd.raw_induct [where P = G, OF _ assms(1)])
    fix F Q d t v1 y
    assume ih: "\<And>Q d t v1 y. F Q d t v1 = Some y \<Longrightarrow> G Q d t v1 y"
      and eq: "(if t = [] then Some (True, v1)
        else case px_write Q d t v1 of
          (Wrote n, w') \<Rightarrow> F Q d (drop n t) w'
        | (Write_eintr, w') \<Rightarrow> F Q d t w'
        | (Write_error, w') \<Rightarrow> Some (False, w')) = Some y"
    show "G Q d t v1 y"
      unfolding G_def
    proof (intro allI impI)
      fix c1
      assume Q: "Q = P" and f: "fresh_file w v1 p i (FFile m u g c1)" and d: "fdi v1 d = Some i"
      obtain r v2 where r: "px_write P d t v1 = (r, v2)" by (metis surj_pair)
      have n: "ino v1 i = Some (FFile m u g c1)" using f by (simp add: fresh_file_def)
      note law = write_law [OF r d n]
      have d2: "fdi v2 d = Some i" using law d by simp
      show "fdi (snd y) d = Some i \<and>
          (\<exists>c'. fresh_file w (snd y) p i (FFile m u g c') \<and> (fst y \<longrightarrow> c' = c1 @ t))"
      proof (cases "t = []")
        case True
        then show ?thesis using eq f d by auto
      next
        case False
        have keep: "fresh_file w v2 p i (FFile m u g c1)" if "ino v2 = ino v1"
          using that law f by (simp add: fresh_file_def)
        show ?thesis
        proof (cases r)
          case (Wrote k)
          with law f have f2: "fresh_file w v2 p i (FFile m u g (c1 @ take k t))"
            by (auto intro: fresh_file_step)
          have "F Q d (drop k t) v2 = Some y" using eq False Q r Wrote by simp
          from ih [OF this] show ?thesis
            unfolding G_def using Q f2 d2 by (metis append.assoc append_take_drop_id)
        next
          case Write_eintr
          have "F Q d t v2 = Some y" using eq False Q r Write_eintr by simp
          from ih [OF this] show ?thesis
            unfolding G_def using Q keep law d2 Write_eintr by simp
        next
          case Write_error
          then show ?thesis using eq False Q r keep law d2 by auto
        qed
      qed
    qed
  qed
  with assms(2,3) show ?thesis by (simp add: G_def)
qed

lemma close_unlink_same:
  assumes "fresh_file w w1 p i (FFile m u g c)"
  shows "same w (close_unlink P fd p w1)"
proof -
  obtain e w2 where c: "px_close P fd w1 = (e, w2)" by (metis surj_pair)
  obtain e' w3 where u: "px_unlink P p w2 = (e', w3)" by (metis surj_pair)
  have "lkp w2 p = Some i" "ino w2 i = Some (FFile m u g c)"
    using assms close_law [OF c] by (auto simp: fresh_file_def)
  note law = unlink_law [OF u this]
  have "same w w2" "ino w i = None"
    using assms close_law [OF c] by (auto simp: fresh_file_def)
  moreover from this have "lkp w q \<noteq> Some i" for q
    using at_ino [of w q i] by auto
  ultimately have "same w w3" using law unfolding untouched_def by metis
  then show ?thesis by (simp add: close_unlink_def c u)
qed

lemma finish_file_same:
  assumes f: "fresh_file w w1 p i (FFile m u g c)" and d: "fdi w1 fd = Some i"
    and fin: "finish_file P fd p uid gid mode w1 = (r, w')"
  shows "same w w' \<and>
    (r = [] \<or> r = p \<and> (\<exists>m' u' g'. fresh_file w w' p i (FFile m' u' g' c) \<and> same_perms mode m' \<and>
       (u' = keep_id uid u \<and> g' = keep_id gid g \<or> euid = 0 \<and> uid \<noteq> 0)))"
proof -
  obtain e1 w2 where 1: "px_fchmod P fd mode w1 = (e1, w2)" by (metis surj_pair)
  obtain e2 w3 where 2: "px_fchown P fd uid gid w2 = (e2, w3)" by (metis surj_pair)
  obtain e3 w4 where 3: "px_close P fd w3 = (e3, w4)" by (metis surj_pair)
  have n1: "ino w1 i = Some (FFile m u g c)" using f by (simp add: fresh_file_def)
  note l1 = fchmod_law [OF 1 d n1]
  have id1: "(ino w1)(i \<mapsto> FFile m u g c) = ino w1" by (simp add: n1 fun_upd_idem)
  obtain m1 where m1: "e1 = None \<longrightarrow> same_perms mode m1" "ino w2 = (ino w1)(i \<mapsto> FFile m1 u g c)"
    using l1 id1 by (cases "e1 = None") (simp, metis, simp, metis)
  have f2: "fresh_file w w2 p i (FFile m1 u g c)" using l1 m1(2) fresh_file_step [OF f] by blast
  have d2: "fdi w2 fd = Some i" using l1 d by simp
  have n2: "ino w2 i = Some (FFile m1 u g c)" using f2 by (simp add: fresh_file_def)
  note l2 = fchown_law [OF 2 d2 n2]
  define v where "v = (if e2 = None then keep_id uid u else u)"
  define h where "h = (if e2 = None then keep_id gid g else g)"
  have id2: "(ino w2)(i \<mapsto> FFile m1 u g c) = ino w2" by (simp add: n2 fun_upd_idem)
  obtain m2 where m2: "same_perms m1 m2" "ino w3 = (ino w2)(i \<mapsto> FFile m2 v h c)"
    using l2 id2 unfolding v_def h_def by (cases "e2 = None") (simp, metis, simp, metis same_perms_refl)
  have f3: "fresh_file w w3 p i (FFile m2 v h c)" using l2 m2(2) fresh_file_step [OF f2] by blast
  have f4: "fresh_file w w4 p i (FFile m2 v h c)"
    using f3 close_law [OF 3] by (simp add: fresh_file_def)
  have perms: "e1 = None \<Longrightarrow> same_perms mode m2" using m1(1) m2(1) same_perms_trans by blast
  have x2: "same w (close_unlink P fd p w2)" by (rule close_unlink_same [OF f2])
  have x3: "same w (close_unlink P fd p w3)" by (rule close_unlink_same [OF f3])
  have x4: "same w (snd (px_unlink P p w4))"
    using close_unlink_same [OF f3, of fd] by (simp add: close_unlink_def 3)
  show ?thesis
    using fin x2 x3 x4 f4 perms
    by (auto simp: finish_file_def 1 2 3 euid_law v_def h_def fresh_file_same split: if_splits)
qed

lemma safe_write_exclusive_same:
  assumes "safe_write_exclusive P dir name content uid gid mode w = Some (r, w')"
  shows "same w w' \<and>
    (r = [] \<or> r = dir @ ''/'' @ name \<and> (\<exists>i m u g. fresh_file w w' r i (FFile m u g content) \<and>
       same_perms mode m \<and>
       ((uid = -1 \<or> u = uid) \<and> (gid = -1 \<or> g = gid) \<or> euid = 0 \<and> uid \<noteq> 0)))"
proof (cases "dir = [] \<or> name = [] \<or> str_find ''/'' name \<noteq> None \<or> name = ''.'' \<or> name = ''..''")
  case True
  with assms show ?thesis by (auto simp: safe_write_exclusive_def untouched_refl)
next
  case False
  define path where "path = dir @ ''/'' @ name"
  obtain ok w1 where 1: "ensure_private_dir P dir uid gid w = (ok, w1)" by (metis surj_pair)
  have s1: "same w w1" by (rule ensure_private_dir_same [OF 1])
  obtain ofd w2 where 2: "px_open_excl P path mode w1 = (ofd, w2)" by (metis surj_pair)
  note law = open_excl_law [OF 2]
  note unf = safe_write_exclusive_def [of P dir name content uid gid mode w, unfolded Let_def,
      folded path_def]
  show ?thesis
  proof (cases "\<not> ok \<or> ofd = None")
    case True
    then show ?thesis
      using assms False s1 law by (auto simp: unf 1 2 split: if_splits)
  next
    case opened: False
    then obtain fd where fd: "ofd = Some fd" by blast
    with law obtain i m u g where i: "ino w1 i = None" "lkp w1 path = None" "same w1 w2"
      "lkp w2 path = Some i" "fdi w2 fd = Some i" "ino w2 = (ino w1)(i \<mapsto> FFile m u g [])"
      by auto
    have "ino w i = None" "lkp w path = None" using s1 i unfolding untouched_def by (metis not_None_eq)+
    moreover have "same w w2" using s1 i(3) by (rule untouched_trans)
    ultimately have f2: "fresh_file w w2 path i (FFile m u g [])"
      using i by (simp add: fresh_file_def)
    have "write_fd P fd content w2 \<noteq> None" using assms False opened by (auto simp: unf 1 2 fd split: option.splits)
    then obtain ok' w3 where 3: "write_fd P fd content w2 = Some (ok', w3)" by (metis not_None_eq surj_pair)
    from write_fd_file [OF 3 f2 i(5)] obtain c' where
      f3: "fresh_file w w3 path i (FFile m u g c')" "ok' \<longrightarrow> c' = content" and d3: "fdi w3 fd = Some i"
      by auto
    show ?thesis
    proof (cases ok')
      case False
      then have "r = []" "w' = close_unlink P fd path w3"
        using assms \<open>\<not> (dir = [] \<or> _)\<close> opened by (auto simp: unf 1 2 3 fd)
      then show ?thesis using close_unlink_same [OF f3(1)] by simp
    next
      case True
      then have "finish_file P fd path uid gid mode w3 = (r, w')"
        using assms False opened by (auto simp: unf 1 2 3 fd)
      from finish_file_same [OF f3(1) d3 this] True f3(2) show ?thesis
        by (auto simp: path_def keep_id_def split: if_splits)
    qed
  qed
qed

end

end
