(* ===== verification/Mem_Fs.thy ===== *)
theory Mem_Fs
  imports Safe_File
begin

text \<open>
  A file system in memory that satisfies \<open>posix_fs\<close>: paths are the inodes, a new node needs its
  parent directory, \<open>chmod\<close> and \<open>chown\<close> follow one link and are refused to nobody, and a \<open>write\<close> takes at most three bytes.
  On it the two properties of \<open>safe_write_exclusive\<close> are applied.
\<close>

section \<open>The file system\<close>

record memfs =
  m_nodes :: "string \<Rightarrow> fnode option"
  m_fds :: "int \<Rightarrow> string option"
  m_next :: int
  m_cwd :: string

definition dirname :: "string \<Rightarrow> string" where
  "dirname p = (case str_rfind CHR ''/'' p of None \<Rightarrow> ''.'' | Some k \<Rightarrow> if k = 0 then ''/'' else take k p)"

fun is_dir :: "fnode option \<Rightarrow> bool" where
  "is_dir (Some (FDir m u g)) = True"
| "is_dir _ = False"

definition can_create :: "memfs \<Rightarrow> string \<Rightarrow> bool" where
  "can_create w p \<longleftrightarrow> m_nodes w p = None \<and> is_dir (m_nodes w (dirname p))"

definition put_node :: "string \<Rightarrow> fnode \<Rightarrow> memfs \<Rightarrow> memfs" where
  "put_node p f w = w\<lparr>m_nodes := (m_nodes w)(p \<mapsto> f)\<rparr>"

fun set_meta :: "(mode \<times> uid \<times> uid \<Rightarrow> mode \<times> uid \<times> uid) \<Rightarrow> fnode \<Rightarrow> fnode" where
  "set_meta h (FDir m u g) = (case h (m, u, g) of (m', u', g') \<Rightarrow> FDir m' u' g')"
| "set_meta h (FFile m u g c) = (case h (m, u, g) of (m', u', g') \<Rightarrow> FFile m' u' g' c)"
| "set_meta h (FLink t) = FLink t"

fun follow :: "memfs \<Rightarrow> string \<Rightarrow> string" where
  "follow w p = (case m_nodes w p of Some (FLink t) \<Rightarrow> t | _ \<Rightarrow> p)"

definition meta_at ::
  "(mode \<times> uid \<times> uid \<Rightarrow> mode \<times> uid \<times> uid) \<Rightarrow> string \<Rightarrow> memfs \<Rightarrow> errno option \<times> memfs" where
  "meta_at h p w = (case m_nodes w p of
     None \<Rightarrow> (Some Other_error, w) | Some f \<Rightarrow> (None, put_node p (set_meta h f) w))"

definition meta_fd ::
  "(mode \<times> uid \<times> uid \<Rightarrow> mode \<times> uid \<times> uid) \<Rightarrow> int \<Rightarrow> memfs \<Rightarrow> errno option \<times> memfs" where
  "meta_fd h fd w = (case m_fds w fd of None \<Rightarrow> (Some Other_error, w) | Some p \<Rightarrow> meta_at h p w)"

text \<open>A change of owner clears the set-id bits.\<close>

definition owned_by :: "uid \<Rightarrow> uid \<Rightarrow> mode \<times> uid \<times> uid \<Rightarrow> mode \<times> uid \<times> uid" where
  "owned_by u g x = (case x of (m, u0, g0) \<Rightarrow> (m mod 1024, keep_id u u0, keep_id g g0))"

definition mem_mkdir :: "uid \<Rightarrow> string \<Rightarrow> mode \<Rightarrow> memfs \<Rightarrow> errno option \<times> memfs" where
  "mem_mkdir e p m w =
     (if m_nodes w p \<noteq> None then (Some EEXIST, w)
      else if can_create w p then (None, put_node p (FDir m e e) w) else (Some Other_error, w))"

definition mem_open :: "uid \<Rightarrow> string \<Rightarrow> mode \<Rightarrow> memfs \<Rightarrow> int option \<times> memfs" where
  "mem_open e p m w =
     (if can_create w p then
        (Some (m_next w), put_node p (FFile m e e []) w
          \<lparr>m_fds := (m_fds w)(m_next w \<mapsto> p), m_next := m_next w + 1\<rparr>)
      else (None, w))"

definition mem_open_append :: "uid \<Rightarrow> string \<Rightarrow> mode \<Rightarrow> memfs \<Rightarrow> int option \<times> memfs" where
  "mem_open_append e p m w = (case m_nodes w p of
     Some (FFile m' u g c) \<Rightarrow>
       (Some (m_next w), w\<lparr>m_fds := (m_fds w)(m_next w \<mapsto> p), m_next := m_next w + 1\<rparr>)
   | None \<Rightarrow> mem_open e p m w
   | _ \<Rightarrow> (None, w))"

definition mem_write :: "int \<Rightarrow> string \<Rightarrow> memfs \<Rightarrow> write_result \<times> memfs" where
  "mem_write fd s w = (case m_fds w fd of
     None \<Rightarrow> (Write_error, w)
   | Some p \<Rightarrow> (case m_nodes w p of
       Some (FFile m u g c) \<Rightarrow>
         (Wrote (min 3 (length s)), put_node p (FFile m u g (c @ take (min 3 (length s)) s)) w)
     | _ \<Rightarrow> (Write_error, w)))"

definition mem_close :: "int \<Rightarrow> memfs \<Rightarrow> errno option \<times> memfs" where
  "mem_close fd w = (if m_fds w fd = None then (Some Other_error, w)
     else (None, w\<lparr>m_fds := (m_fds w)(fd := None)\<rparr>))"

definition mem_unlink :: "string \<Rightarrow> memfs \<Rightarrow> errno option \<times> memfs" where
  "mem_unlink p w = (if m_nodes w p = None \<or> is_dir (m_nodes w p) then (Some Other_error, w)
     else (None, w\<lparr>m_nodes := (m_nodes w)(p := None)\<rparr>))"

definition mem_mkdtemp :: "uid \<Rightarrow> string \<Rightarrow> memfs \<Rightarrow> string option \<times> memfs" where
  "mem_mkdtemp e tmpl w = (let p = take (length tmpl - 6) tmpl @ ''a0B1c2'' in
     if can_create w p then (Some p, put_node p (FDir 448 e e) w) else (None, w))"

definition mem_chdir :: "string \<Rightarrow> memfs \<Rightarrow> errno option \<times> memfs" where
  "mem_chdir p w = (if is_dir (m_nodes w p) then (None, w\<lparr>m_cwd := p\<rparr>) else (Some Other_error, w))"

definition mem_posix :: "uid \<Rightarrow> (string \<Rightarrow> string option) \<Rightarrow> memfs posix" where
  "mem_posix e env = \<lparr>
     px_getenv = \<lambda>v w. env v, px_geteuid = \<lambda>w. e,
     px_mkdir = mem_mkdir e, px_mkdtemp = mem_mkdtemp e,
     px_chmod = \<lambda>p m w. meta_at (\<lambda>(_, u, g). (m, u, g)) (follow w p) w,
     px_chown = \<lambda>p u g w. meta_at (owned_by u g) (follow w p) w,
     px_open_excl = mem_open e, px_open_append = mem_open_append e, px_write = mem_write,
     px_fchmod = \<lambda>fd m w. meta_fd (\<lambda>(_, u, g). (m, u, g)) fd w,
     px_fchown = \<lambda>fd u g w. meta_fd (owned_by u g) fd w,
     px_close = mem_close, px_unlink = mem_unlink,
     px_chdir = mem_chdir, px_getcwd = \<lambda>w. Some (m_cwd w)\<rparr>"

definition m_at :: "memfs \<Rightarrow> string \<Rightarrow> string option" where
  "m_at w p = (if m_nodes w p = None then None else Some p)"

section \<open>It satisfies the laws\<close>

lemma file_content_set_meta [simp]: "file_content (Some (set_meta h f)) = file_content (Some f)"
  by (cases f) (auto split: prod.splits)

lemma meta_at_law:
  "meta_at h p w = (e, w') \<Longrightarrow>
   m_at w' = m_at w \<and> m_fds w' = m_fds w \<and> untouched (m_at w) (m_nodes w) (m_at w') (m_nodes w')"
  by (auto simp: meta_at_def put_node_def m_at_def fun_eq_iff untouched_def
      split: option.splits if_splits)

lemma untouched_put_node:
  "m_nodes w p = None \<Longrightarrow> untouched (m_at w) (m_nodes w) (m_at (put_node p f w)) (m_nodes (put_node p f w))"
  by (auto simp: put_node_def m_at_def untouched_def)

interpretation mem: posix_fs "mem_posix e env" e m_at m_nodes m_fds
proof (unfold_locales, goal_cases)
  case (1 w p i)
  then show ?case by (auto simp: m_at_def split: if_splits)
next
  case 2
  show ?case by (simp add: mem_posix_def)
next
  case (3 p m w err w')
  then show ?case
    by (auto simp: mem_posix_def mem_mkdir_def can_create_def intro: untouched_put_node split: if_splits)
next
  case (4 p w d w')
  then show ?case
    by (auto simp: mem_posix_def mem_mkdtemp_def can_create_def Let_def untouched_refl
        intro: untouched_put_node split: if_splits)
next
  case (5 p m w ofd w')
  then show ?case
    using untouched_put_node [of w p "FFile m e e []"]
    by (auto simp: mem_posix_def mem_open_append_def mem_open_def can_create_def put_node_def m_at_def
        untouched_def split: if_splits option.splits fnode.splits)
next
  case (6 p w err w')
  then show ?case
    by (auto simp: mem_posix_def mem_chdir_def m_at_def split: if_splits)
next
  case (7 p m w err w')
  then show ?case using meta_at_law by (fastforce simp: mem_posix_def)
next
  case (8 p u g w err w')
  then show ?case using meta_at_law by (fastforce simp: mem_posix_def)
next
  case (9 p m w ofd w')
  then show ?case
    using untouched_put_node [of w p "FFile m e e []"]
    by (auto simp: mem_posix_def mem_open_def can_create_def put_node_def m_at_def untouched_def
        split: if_splits intro!: exI [of _ m] exI [of _ e])
next
  case (10 fd s w r w' i m u g c)
  then show ?case
    by (auto simp: mem_posix_def mem_write_def put_node_def m_at_def fun_eq_iff split: if_splits)
next
  case (11 fd m' w err w' i m u g c)
  then show ?case
    by (auto simp: mem_posix_def meta_fd_def meta_at_def put_node_def m_at_def fun_eq_iff
        intro!: exI [of _ m'] split: if_splits)
next
  case (12 fd u' g' w err w' i m u g c)
  then show ?case
    by (auto simp: mem_posix_def meta_fd_def meta_at_def put_node_def m_at_def owned_by_def fun_eq_iff
        intro!: exI [of _ "m mod 1024"] split: if_splits)
next
  case (13 fd w err w')
  then show ?case by (auto simp: mem_posix_def mem_close_def m_at_def fun_eq_iff split: if_splits)
next
  case (14 p w err w' i m u g c)
  then show ?case by (auto simp: mem_posix_def mem_unlink_def m_at_def split: if_splits)
qed

section \<open>The exclusive write\<close>

text \<open>
  C9. On every file system that keeps the laws, \<open>safe_write_exclusive\<close> loses no name and no content,
  whether it succeeds or fails at any step: every name that was there still leads to the same inode,
  and every inode holds the content it held. Modes and owners are not meant: those of \<open>dir\<close> are set
  even when it is somebody's file (\<open>private_dir_takes_file\<close>).
\<close>

theorem safe_write_never_clobbers:
  assumes "posix_fs P e lkp ino fdi"
    and "safe_write_exclusive P dir name content uid gid mode w = Some (r, w')"
  shows "untouched (lkp w) (ino w) (lkp w') (ino w')"
  using posix_fs.safe_write_exclusive_same [OF assms] by blast


lemma write_fd_returns:
  assumes "\<And>fd s w. s \<noteq> [] \<Longrightarrow> (case px_write P fd s w of
      (Wrote n, w') \<Rightarrow> 0 < n | (Write_eintr, w') \<Rightarrow> rank w' < (rank w :: nat) | (Write_error, w') \<Rightarrow> True)"
  shows "write_fd P fd s w \<noteq> None"
proof (induction "(length s, rank w)" arbitrary: s w rule: wf_induct_rule [OF wf_lex_prod [OF wf_less_than wf_less_than]])
  case 1
  show ?case
  proof (cases "s = []")
    case True
    then show ?thesis by (simp add: write_fd.simps)
  next
    case False
    obtain r w' where r: "px_write P fd s w = (r, w')" by (metis surj_pair)
    show ?thesis
      using assms [where fd = fd and s = s and w = w] False 1(1) [of s w'] 1(1) [of "drop (case r of Wrote n \<Rightarrow> n | _ \<Rightarrow> 0) s" w']
      by (subst write_fd.simps) (auto simp: r split: write_result.splits)
  qed
qed

lemma safe_write_total:
  assumes "\<And>fd s w. s \<noteq> [] \<Longrightarrow> (case px_write P fd s w of
      (Wrote n, w') \<Rightarrow> 0 < n | (Write_eintr, w') \<Rightarrow> rank w' < (rank w :: nat) | (Write_error, w') \<Rightarrow> True)"
  shows "\<exists>r w'. safe_write_exclusive P dir name content uid gid mode w = Some (r, w')"
proof -
  obtain ok w1 where 1: "ensure_private_dir P dir uid gid w = (ok, w1)" by (metis surj_pair)
  obtain ofd w2 where 2: "px_open_excl P (dir @ ''/'' @ name) mode w1 = (ofd, w2)" by (metis surj_pair)
  obtain ok' w3 where 3: "write_fd P (the ofd) content w2 = Some (ok', w3)"
    using write_fd_returns [where P = P and rank = rank, OF assms] by (metis not_None_eq surj_pair)
  obtain r w4 where 4: "finish_file P (the ofd) (dir @ ''/'' @ name) uid gid mode w3 = (r, w4)"
    by (metis surj_pair)
  show ?thesis
    using 2 3 4 by (cases ofd) (simp_all add: safe_write_exclusive_def Let_def 1)
qed

text \<open>
  C31. It returns, if every \<open>write\<close> takes at least one byte or fails, and is not interrupted for ever
  (a rank of the world goes down with each interrupt).
\<close>

theorem safe_write_returns:
  assumes "\<And>fd s w. s \<noteq> [] \<Longrightarrow> (case px_write P fd s w of
      (Wrote n, w') \<Rightarrow> 0 < n | (Write_eintr, w') \<Rightarrow> rank w' < (rank w :: nat) | (Write_error, w') \<Rightarrow> True)"
  shows "\<exists>r w'. safe_write_exclusive P dir name content uid gid mode w = Some (r, w')"
  by (rule safe_write_total) (rule assms)

section \<open>On a concrete spool\<close>

definition spool_fs :: memfs where
  "spool_fs = \<lparr>m_nodes = [''/'' \<mapsto> FDir 493 0 0, ''/s'' \<mapsto> FDir 493 0 0, ''/s/old'' \<mapsto> FFile 420 7 7 ''x''],
     m_fds = Map.empty, m_next = 3, m_cwd = ''/''\<rparr>"

lemma mem_posix_sel:
  "px_getenv (mem_posix e env) = (\<lambda>v w. env v)" "px_geteuid (mem_posix e env) = (\<lambda>w. e)"
  "px_mkdir (mem_posix e env) = mem_mkdir e" "px_mkdtemp (mem_posix e env) = mem_mkdtemp e"
  "px_chmod (mem_posix e env) = (\<lambda>p m w. meta_at (\<lambda>(_, u, g). (m, u, g)) (follow w p) w)"
  "px_chown (mem_posix e env) = (\<lambda>p u g w. meta_at (owned_by u g) (follow w p) w)"
  "px_open_excl (mem_posix e env) = mem_open e" "px_write (mem_posix e env) = mem_write"
  "px_fchmod (mem_posix e env) = (\<lambda>fd m w. meta_fd (\<lambda>(_, u, g). (m, u, g)) fd w)"
  "px_fchown (mem_posix e env) = (\<lambda>fd u g w. meta_fd (owned_by u g) fd w)"
  "px_close (mem_posix e env) = mem_close" "px_unlink (mem_posix e env) = mem_unlink"
  "px_open_append (mem_posix e env) = mem_open_append e" "px_chdir (mem_posix e env) = mem_chdir"
  "px_getcwd (mem_posix e env) = (\<lambda>w. Some (m_cwd w))"
  by (simp_all add: mem_posix_def)

lemmas mem_eval = mem_posix_sel
  mkdir_loop.simps mkdir_part_def push_part_def str_find_from_def str_substr_def starts_with_def
  mem_mkdir_def mem_open_def mem_write_def mem_close_def mem_unlink_def meta_at_def meta_fd_def
  can_create_def dirname_def put_node_def owned_by_def

definition spool_job :: memfs where
  "spool_job = \<lparr>m_nodes = [''/'' \<mapsto> FDir 493 0 0, ''/s'' \<mapsto> FDir 493 0 0, ''/s/old'' \<mapsto> FFile 420 7 7 ''x'',
     ''/s/j'' \<mapsto> FDir 448 7 9, ''/s/j/script'' \<mapsto> FFile 448 7 9 ''hello''],
     m_fds = Map.empty, m_next = 4, m_cwd = ''/''\<rparr>"

lemma spool_mkdir:
  "ensure_private_dir (mem_posix 7 env) ''/s/j'' 7 9 spool_fs =
    (True, put_node ''/s/j'' (FDir 448 7 9) spool_fs)"
  by (simp add: ensure_private_dir_def mem_eval spool_fs_def)

lemma spool_write:
  "safe_write_exclusive (mem_posix 7 env) ''/s/j'' ''script'' ''hello'' 7 9 448 spool_fs =
    Some (''/s/j/script'', spool_job)"
proof -
  have "str_find ''/'' ''script'' = None" by (simp add: starts_with_def)
  then show ?thesis
    by (simp add: safe_write_exclusive_def spool_mkdir)
      (simp add: Let_def mem_eval write_fd.simps finish_file_def spool_fs_def spool_job_def fun_eq_iff)
qed

text \<open>
  \<open>ensure_private_dir\<close> by root on the name of somebody's file gives the file the mode 0700, and for a
  job of root also makes it root's.
\<close>

lemma private_dir_takes_file:
  "ensure_private_dir (mem_posix 0 env) ''/s/old'' 8 8 spool_fs =
    (True, put_node ''/s/old'' (FFile 448 7 7 ''x'') spool_fs)"
  "ensure_private_dir (mem_posix 0 env) ''/s/old'' 0 0 spool_fs =
    (True, put_node ''/s/old'' (FFile 448 0 0 ''x'') spool_fs)"
  by (simp_all add: ensure_private_dir_def mem_eval spool_fs_def)

lemma safe_write_never_clobbers_witness:
  "untouched (m_at spool_fs) (m_nodes spool_fs) (m_at spool_job) (m_nodes spool_job)"
  by (rule safe_write_never_clobbers [OF mem.posix_fs_axioms spool_write])


lemma safe_write_returns_witness:
  "\<exists>r w'. safe_write_exclusive (mem_posix 7 (\<lambda>_. None)) ''/s/j'' ''script'' ''hello'' 7 9 448 spool_fs =
    Some (r, w')"
proof (rule safe_write_returns [where rank = "\<lambda>_. 0"])
  show "case px_write (mem_posix 7 (\<lambda>_. None)) fd s w of
      (Wrote n, w') \<Rightarrow> 0 < n | (Write_eintr, w') \<Rightarrow> (0::nat) < 0 | (Write_error, w') \<Rightarrow> True"
    if "s \<noteq> []" for fd s w
    using that by (auto simp: mem_posix_sel mem_write_def split: option.splits fnode.splits)
qed

end
