(* ===== verification/Porter_Priv.thy ===== *)
theory Porter_Priv
  imports Safe_File
begin

text \<open>
  \<open>porter/wm_porter_priv.cpp\<close>: how the porter becomes the user of the job. The kernel's credential
  calls are the fields of \<open>cred\<close>; what they promise is the locale \<open>cred_kernel\<close>, after the manual
  pages of \<open>initgroups\<close>, \<open>setregid\<close> and \<open>setreuid\<close> (where -1 stands for no change), with the supplementary groups that the group
  database lists for a name as a parameter. The rules of Linux at the end satisfy it.
\<close>

section \<open>Credentials\<close>

record creds =
  ruid :: uid
  euid :: uid
  suid :: uid
  rgid :: uid
  egid :: uid
  sgid :: uid
  groups :: "uid set"

record cred =
  cr_initgroups :: "string \<Rightarrow> uid \<Rightarrow> creds \<Rightarrow> bool \<times> creds"
  cr_setregid :: "uid \<Rightarrow> uid \<Rightarrow> creds \<Rightarrow> bool \<times> creds"
  cr_setreuid :: "uid \<Rightarrow> uid \<Rightarrow> creds \<Rightarrow> bool \<times> creds"

section \<open>The function of the source\<close>

text \<open>The first component is the value of the function, the second the credentials after it. A null
  \<open>username\<close> is \<open>None\<close>.\<close>

definition drop_privileges :: "cred \<Rightarrow> string option \<Rightarrow> uid \<Rightarrow> uid \<Rightarrow> creds \<Rightarrow> int \<times> creds" where
  "drop_privileges K username u g c =
     (if username = None \<or> username = Some [] then (-1, c)
      else case (if euid c = 0 then cr_initgroups K (the username) g c else (True, c)) of (ok1, c1) \<Rightarrow>
        if \<not> ok1 then (-1, c1)
        else case cr_setregid K g g c1 of (ok2, c2) \<Rightarrow>
          if \<not> ok2 then (-1, c2)
          else case cr_setreuid K u u c2 of (ok3, c3) \<Rightarrow>
            if \<not> ok3 then (-1, c3) else (0, c3))"

section \<open>What the kernel promises\<close>

text \<open>
  A call that fails changes nothing. \<open>initgroups\<close> needs privilege and replaces the supplementary
  groups; \<open>setregid(g, g)\<close> and \<open>setreuid(u, u)\<close> set the three ids of their kind, and a process
  whose effective user is not root can only take ids it already has. With the id -1 they change nothing.
\<close>

locale cred_kernel =
  fixes K :: cred
    and member :: "string \<Rightarrow> uid set"
  assumes initgroups_law: "cr_initgroups K n g c = (ok, c') \<Longrightarrow>
      c' = (if ok then c\<lparr>groups := insert g (member n)\<rparr> else c) \<and> (ok \<longrightarrow> euid c = 0)"
    and setregid_law: "cr_setregid K g g c = (ok, c') \<Longrightarrow>
      c' = (if ok \<and> g \<noteq> -1 then c\<lparr>rgid := g, egid := g, sgid := g\<rparr> else c) \<and>
      (ok \<and> g \<noteq> -1 \<longrightarrow> euid c = 0 \<or> g \<in> {rgid c, egid c, sgid c})"
    and setreuid_law: "cr_setreuid K u u c = (ok, c') \<Longrightarrow>
      c' = (if ok \<and> u \<noteq> -1 then c\<lparr>ruid := u, euid := u, suid := u\<rparr> else c) \<and>
      (ok \<and> u \<noteq> -1 \<longrightarrow> euid c = 0 \<or> u \<in> {ruid c, euid c, suid c})"
begin

text \<open>The credentials after a success.\<close>

lemma drop_privileges_zero:
  assumes "drop_privileges K username u g c = (0, c')"
  obtains n where "username = Some n" "n \<noteq> []"
    "c' = \<lparr>ruid = keep_id u (ruid c), euid = keep_id u (euid c), suid = keep_id u (suid c),
      rgid = keep_id g (rgid c), egid = keep_id g (egid c), sgid = keep_id g (sgid c),
      groups = (if euid c = 0 then insert g (member n) else groups c)\<rparr>"
    "euid c = 0 \<or> u \<in> {-1, ruid c, euid c, suid c} \<and> g \<in> {-1, rgid c, egid c, sgid c}"
proof -
  from assms obtain n where n: "username = Some n" "n \<noteq> []"
    by (cases username) (auto simp: drop_privileges_def split: if_splits)
  obtain ok1 c1 where 1: "(if euid c = 0 then cr_initgroups K n g c else (True, c)) = (ok1, c1)"
    by (metis surj_pair)
  obtain ok2 c2 where 2: "cr_setregid K g g c1 = (ok2, c2)" by (metis surj_pair)
  obtain ok3 c3 where 3: "cr_setreuid K u u c2 = (ok3, c3)" by (metis surj_pair)
  have ok: "ok1" "ok2" "ok3" "c' = c3"
    using assms n 1 by (cases "euid c = 0", auto simp: drop_privileges_def 2 3 split: if_splits)
  have c1: "c1 = c\<lparr>groups := if euid c = 0 then insert g (member n) else groups c\<rparr>"
    using 1 ok(1) initgroups_law [of n g c ok1 c1] by (auto split: if_splits)
  have c2: "c2 = (if g = -1 then c1 else c1\<lparr>rgid := g, egid := g, sgid := g\<rparr>)"
    and g: "euid c = 0 \<or> g \<in> {-1, rgid c, egid c, sgid c}"
    using setregid_law [OF 2] ok(2) c1 by auto
  have c3: "c3 = (if u = -1 then c2 else c2\<lparr>ruid := u, euid := u, suid := u\<rparr>)"
    and u: "euid c = 0 \<or> u \<in> {-1, ruid c, euid c, suid c}"
    using setreuid_law [OF 3] ok(3) c1 c2 by (auto split: if_splits)
  have "c' = \<lparr>ruid = keep_id u (ruid c), euid = keep_id u (euid c), suid = keep_id u (suid c),
      rgid = keep_id g (rgid c), egid = keep_id g (egid c), sgid = keep_id g (sgid c),
      groups = (if euid c = 0 then insert g (member n) else groups c)\<rparr>"
    using ok(4) c1 c2 c3 by (intro creds.equality) (simp_all add: keep_id_def)
  then show thesis using that [OF n] g u by blast
qed

text \<open>After a success with another user than root nothing gives the privilege back.\<close>

lemma dropped_for_good:
  assumes "drop_privileges K username u g c = (0, c')" and "u \<noteq> 0" "u \<noteq> -1"
  shows "\<not> fst (cr_setreuid K 0 0 c')"
proof -
  obtain ok c2 where s: "cr_setreuid K 0 0 c' = (ok, c2)" by (metis surj_pair)
  from assms(1,3) have "ruid c' = u" "euid c' = u" "suid c' = u" by (elim drop_privileges_zero, simp)+
  with setreuid_law [OF s] assms(2) show ?thesis by (auto simp: s)
qed

end

section \<open>The rules of Linux\<close>

definition linux_setregid :: "uid \<Rightarrow> uid \<Rightarrow> creds \<Rightarrow> bool \<times> creds" where
  "linux_setregid r e c =
     (if euid c = 0 \<or> r \<in> {-1, rgid c, egid c} \<and> e \<in> {-1, rgid c, egid c, sgid c}
      then (True, c\<lparr>rgid := keep_id r (rgid c), egid := keep_id e (egid c),
        sgid := (if r \<noteq> -1 \<or> e \<noteq> -1 \<and> e \<noteq> rgid c then keep_id e (egid c) else sgid c)\<rparr>)
      else (False, c))"

definition linux_setreuid :: "uid \<Rightarrow> uid \<Rightarrow> creds \<Rightarrow> bool \<times> creds" where
  "linux_setreuid r e c =
     (if euid c = 0 \<or> r \<in> {-1, ruid c, euid c} \<and> e \<in> {-1, ruid c, euid c, suid c}
      then (True, c\<lparr>ruid := keep_id r (ruid c), euid := keep_id e (euid c),
        suid := (if r \<noteq> -1 \<or> e \<noteq> -1 \<and> e \<noteq> ruid c then keep_id e (euid c) else suid c)\<rparr>)
      else (False, c))"

definition linux_cred :: "(string \<Rightarrow> uid set) \<Rightarrow> cred" where
  "linux_cred mem = \<lparr>
     cr_initgroups = \<lambda>n g c. if euid c = 0 \<and> g \<noteq> -1 then (True, c\<lparr>groups := insert g (mem n)\<rparr>) else (False, c),
     cr_setregid = linux_setregid, cr_setreuid = linux_setreuid\<rparr>"

interpretation linux: cred_kernel "linux_cred mem" mem
  by unfold_locales (auto simp: linux_cred_def linux_setregid_def linux_setreuid_def split: if_splits)

section \<open>Properties\<close>

text \<open>
  C8. When \<open>drop_privileges\<close> returns 0, for a user and group other than the reserved id -1, the real,
  effective and saved ids of user and group are those that were asked for; if the user is not root,
  root cannot be regained. A process that was root has exactly the supplementary groups of that user,
  any other process, which can only take ids that it had, keeps its groups. An id of -1 leaves the
  three ids of its kind as they were.
\<close>

theorem drop_privileges_complete:
  assumes "cred_kernel K member" and "drop_privileges K username u g c = (0, c')"
  shows "\<exists>n. username = Some n \<and> n \<noteq> [] \<and>
    c' = \<lparr>ruid = keep_id u (ruid c), euid = keep_id u (euid c), suid = keep_id u (suid c),
      rgid = keep_id g (rgid c), egid = keep_id g (egid c), sgid = keep_id g (sgid c),
      groups = (if euid c = 0 then insert g (member n) else groups c)\<rparr> \<and>
    (euid c = 0 \<or> u \<in> {-1, ruid c, euid c, suid c} \<and> g \<in> {-1, rgid c, egid c, sgid c}) \<and>
    (u \<noteq> 0 \<and> u \<noteq> -1 \<longrightarrow> \<not> fst (cr_setreuid K 0 0 c'))"
  using cred_kernel.drop_privileges_zero [OF assms] cred_kernel.dropped_for_good [OF assms] by metis

definition root_creds :: creds where
  "root_creds = \<lparr>ruid = 0, euid = 0, suid = 0, rgid = 0, egid = 0, sgid = 0, groups = {0, 4}\<rparr>"

lemma root_drops:
  "drop_privileges (linux_cred (\<lambda>n. {100})) (Some ''alice'') 7 9 root_creds =
    (0, \<lparr>ruid = 7, euid = 7, suid = 7, rgid = 9, egid = 9, sgid = 9, groups = {9, 100}\<rparr>)"
  by (simp add: drop_privileges_def linux_cred_def linux_setregid_def linux_setreuid_def root_creds_def)

lemma drop_privileges_complete_witness:
  "\<not> fst (cr_setreuid (linux_cred (\<lambda>n. {100})) 0 0
      \<lparr>ruid = 7, euid = 7, suid = 7, rgid = 9, egid = 9, sgid = 9, groups = {9, 100}\<rparr>)"
  using drop_privileges_complete [OF linux.cred_kernel_axioms root_drops] by simp

text \<open>A root that is told to become the user -1 is told that it has, and is still root.\<close>

lemma root_keeps_root:
  "drop_privileges (linux_cred (\<lambda>n. {100})) (Some ''alice'') (-1) 9 root_creds =
    (0, \<lparr>ruid = 0, euid = 0, suid = 0, rgid = 9, egid = 9, sgid = 9, groups = {9, 100}\<rparr>)"
  by (simp add: drop_privileges_def linux_cred_def linux_setregid_def linux_setreuid_def root_creds_def)

text \<open>A porter that is root always succeeds on the rules of Linux.\<close>

lemma drop_privileges_root:
  "euid c = 0 \<Longrightarrow> n \<noteq> [] \<Longrightarrow> g \<noteq> -1 \<Longrightarrow> fst (drop_privileges (linux_cred mem) (Some n) u g c) = 0"
  by (simp add: drop_privileges_def linux_cred_def linux_setregid_def linux_setreuid_def)

end
