(* ===== verification/Entity_Access.thy ===== *)
theory Entity_Access
  imports Job Entities_Site Entities_Cluster Entities_Sched
begin

text \<open>
  The accessors of the entity classes. The getter of a member is the selector of the record; a
  setter gives the object with the new value, which for a scalar member ends its being
  indeterminate. \<open>SwmResource\<close>, a datatype, has its setters in \<open>Resource\<close> and its getters here.
\<close>

section \<open>Setters\<close>

subsection \<open>\<open>SwmJob\<close>\<close>

definition SwmJob_set_id :: "string \<Rightarrow> SwmJob \<Rightarrow> SwmJob" where
  "SwmJob_set_id new_val s = s\<lparr>job_id := new_val\<rparr>"

definition SwmJob_set_name :: "string \<Rightarrow> SwmJob \<Rightarrow> SwmJob" where
  "SwmJob_set_name new_val s = s\<lparr>job_name := new_val\<rparr>"

definition SwmJob_set_cluster_id :: "string \<Rightarrow> SwmJob \<Rightarrow> SwmJob" where
  "SwmJob_set_cluster_id new_val s = s\<lparr>job_cluster_id := new_val\<rparr>"

definition SwmJob_set_nodes :: "string list \<Rightarrow> SwmJob \<Rightarrow> SwmJob" where
  "SwmJob_set_nodes new_val s = s\<lparr>job_nodes := new_val\<rparr>"

definition SwmJob_set_state :: "string \<Rightarrow> SwmJob \<Rightarrow> SwmJob" where
  "SwmJob_set_state new_val s = s\<lparr>job_state := new_val\<rparr>"

definition SwmJob_set_state_details :: "string \<Rightarrow> SwmJob \<Rightarrow> SwmJob" where
  "SwmJob_set_state_details new_val s = s\<lparr>job_state_details := new_val\<rparr>"

definition SwmJob_set_start_time :: "string \<Rightarrow> SwmJob \<Rightarrow> SwmJob" where
  "SwmJob_set_start_time new_val s = s\<lparr>job_start_time := new_val\<rparr>"

definition SwmJob_set_submit_time :: "string \<Rightarrow> SwmJob \<Rightarrow> SwmJob" where
  "SwmJob_set_submit_time new_val s = s\<lparr>job_submit_time := new_val\<rparr>"

definition SwmJob_set_end_time :: "string \<Rightarrow> SwmJob \<Rightarrow> SwmJob" where
  "SwmJob_set_end_time new_val s = s\<lparr>job_end_time := new_val\<rparr>"

definition SwmJob_set_duration :: "u64 \<Rightarrow> SwmJob \<Rightarrow> SwmJob" where
  "SwmJob_set_duration new_val s = s\<lparr>job_duration := Some new_val\<rparr>"

definition SwmJob_set_job_stdin :: "string \<Rightarrow> SwmJob \<Rightarrow> SwmJob" where
  "SwmJob_set_job_stdin new_val s = s\<lparr>job_stdin := new_val\<rparr>"

definition SwmJob_set_job_stdout :: "string \<Rightarrow> SwmJob \<Rightarrow> SwmJob" where
  "SwmJob_set_job_stdout new_val s = s\<lparr>job_stdout := new_val\<rparr>"

definition SwmJob_set_job_stderr :: "string \<Rightarrow> SwmJob \<Rightarrow> SwmJob" where
  "SwmJob_set_job_stderr new_val s = s\<lparr>job_stderr := new_val\<rparr>"

definition SwmJob_set_input_files :: "string list \<Rightarrow> SwmJob \<Rightarrow> SwmJob" where
  "SwmJob_set_input_files new_val s = s\<lparr>job_input_files := new_val\<rparr>"

definition SwmJob_set_output_files :: "string list \<Rightarrow> SwmJob \<Rightarrow> SwmJob" where
  "SwmJob_set_output_files new_val s = s\<lparr>job_output_files := new_val\<rparr>"

definition SwmJob_set_workdir :: "string \<Rightarrow> SwmJob \<Rightarrow> SwmJob" where
  "SwmJob_set_workdir new_val s = s\<lparr>job_workdir := new_val\<rparr>"

definition SwmJob_set_user_id :: "string \<Rightarrow> SwmJob \<Rightarrow> SwmJob" where
  "SwmJob_set_user_id new_val s = s\<lparr>job_user_id := new_val\<rparr>"

definition SwmJob_set_hooks :: "string list \<Rightarrow> SwmJob \<Rightarrow> SwmJob" where
  "SwmJob_set_hooks new_val s = s\<lparr>job_hooks := new_val\<rparr>"

definition SwmJob_set_env :: "(string \<times> string) list \<Rightarrow> SwmJob \<Rightarrow> SwmJob" where
  "SwmJob_set_env new_val s = s\<lparr>job_env := new_val\<rparr>"

definition SwmJob_set_deps :: "(string \<times> string) list \<Rightarrow> SwmJob \<Rightarrow> SwmJob" where
  "SwmJob_set_deps new_val s = s\<lparr>job_deps := new_val\<rparr>"

definition SwmJob_set_account_id :: "string \<Rightarrow> SwmJob \<Rightarrow> SwmJob" where
  "SwmJob_set_account_id new_val s = s\<lparr>job_account_id := new_val\<rparr>"

definition SwmJob_set_gang_id :: "string \<Rightarrow> SwmJob \<Rightarrow> SwmJob" where
  "SwmJob_set_gang_id new_val s = s\<lparr>job_gang_id := new_val\<rparr>"

definition SwmJob_set_execution_path :: "string \<Rightarrow> SwmJob \<Rightarrow> SwmJob" where
  "SwmJob_set_execution_path new_val s = s\<lparr>job_execution_path := new_val\<rparr>"

definition SwmJob_set_script_content :: "string \<Rightarrow> SwmJob \<Rightarrow> SwmJob" where
  "SwmJob_set_script_content new_val s = s\<lparr>job_script_content := new_val\<rparr>"

definition SwmJob_set_request :: "SwmResource list \<Rightarrow> SwmJob \<Rightarrow> SwmJob" where
  "SwmJob_set_request new_val s = s\<lparr>job_request := new_val\<rparr>"

definition SwmJob_set_resources :: "SwmResource list \<Rightarrow> SwmJob \<Rightarrow> SwmJob" where
  "SwmJob_set_resources new_val s = s\<lparr>job_resources := new_val\<rparr>"

definition SwmJob_set_container :: "string \<Rightarrow> SwmJob \<Rightarrow> SwmJob" where
  "SwmJob_set_container new_val s = s\<lparr>job_container := new_val\<rparr>"

definition SwmJob_set_relocatable :: "string \<Rightarrow> SwmJob \<Rightarrow> SwmJob" where
  "SwmJob_set_relocatable new_val s = s\<lparr>job_relocatable := new_val\<rparr>"

definition SwmJob_set_keep_resources :: "string \<Rightarrow> SwmJob \<Rightarrow> SwmJob" where
  "SwmJob_set_keep_resources new_val s = s\<lparr>job_keep_resources := new_val\<rparr>"

definition SwmJob_set_checkpoint :: "string \<Rightarrow> SwmJob \<Rightarrow> SwmJob" where
  "SwmJob_set_checkpoint new_val s = s\<lparr>job_checkpoint := new_val\<rparr>"

definition SwmJob_set_checkpoint_dir :: "string \<Rightarrow> SwmJob \<Rightarrow> SwmJob" where
  "SwmJob_set_checkpoint_dir new_val s = s\<lparr>job_checkpoint_dir := new_val\<rparr>"

definition SwmJob_set_checkpoint_interval :: "u64 \<Rightarrow> SwmJob \<Rightarrow> SwmJob" where
  "SwmJob_set_checkpoint_interval new_val s = s\<lparr>job_checkpoint_interval := Some new_val\<rparr>"

definition SwmJob_set_last_checkpoint_time :: "string \<Rightarrow> SwmJob \<Rightarrow> SwmJob" where
  "SwmJob_set_last_checkpoint_time new_val s = s\<lparr>job_last_checkpoint_time := new_val\<rparr>"

definition SwmJob_set_exitcode :: "u64 \<Rightarrow> SwmJob \<Rightarrow> SwmJob" where
  "SwmJob_set_exitcode new_val s = s\<lparr>job_exitcode := Some new_val\<rparr>"

definition SwmJob_set_signal :: "u64 \<Rightarrow> SwmJob \<Rightarrow> SwmJob" where
  "SwmJob_set_signal new_val s = s\<lparr>job_signal := Some new_val\<rparr>"

definition SwmJob_set_priority :: "u64 \<Rightarrow> SwmJob \<Rightarrow> SwmJob" where
  "SwmJob_set_priority new_val s = s\<lparr>job_priority := Some new_val\<rparr>"

definition SwmJob_set_comment :: "string \<Rightarrow> SwmJob \<Rightarrow> SwmJob" where
  "SwmJob_set_comment new_val s = s\<lparr>job_comment := new_val\<rparr>"

definition SwmJob_set_revision :: "u64 \<Rightarrow> SwmJob \<Rightarrow> SwmJob" where
  "SwmJob_set_revision new_val s = s\<lparr>job_revision := Some new_val\<rparr>"

subsection \<open>\<open>SwmUser\<close>\<close>

definition SwmUser_set_id :: "string \<Rightarrow> SwmUser \<Rightarrow> SwmUser" where
  "SwmUser_set_id new_val s = s\<lparr>user_id := new_val\<rparr>"

definition SwmUser_set_name :: "string \<Rightarrow> SwmUser \<Rightarrow> SwmUser" where
  "SwmUser_set_name new_val s = s\<lparr>user_name := new_val\<rparr>"

definition SwmUser_set_acl :: "string \<Rightarrow> SwmUser \<Rightarrow> SwmUser" where
  "SwmUser_set_acl new_val s = s\<lparr>user_acl := new_val\<rparr>"

definition SwmUser_set_priority :: "int \<Rightarrow> SwmUser \<Rightarrow> SwmUser" where
  "SwmUser_set_priority new_val s = s\<lparr>user_priority := Some new_val\<rparr>"

definition SwmUser_set_comment :: "string \<Rightarrow> SwmUser \<Rightarrow> SwmUser" where
  "SwmUser_set_comment new_val s = s\<lparr>user_comment := new_val\<rparr>"

definition SwmUser_set_revision :: "u64 \<Rightarrow> SwmUser \<Rightarrow> SwmUser" where
  "SwmUser_set_revision new_val s = s\<lparr>user_revision := Some new_val\<rparr>"

subsection \<open>\<open>SwmRole\<close>\<close>

definition SwmRole_set_id :: "u64 \<Rightarrow> SwmRole \<Rightarrow> SwmRole" where
  "SwmRole_set_id new_val s = s\<lparr>role_id := Some new_val\<rparr>"

definition SwmRole_set_name :: "string \<Rightarrow> SwmRole \<Rightarrow> SwmRole" where
  "SwmRole_set_name new_val s = s\<lparr>role_name := new_val\<rparr>"

definition SwmRole_set_services :: "u64 list \<Rightarrow> SwmRole \<Rightarrow> SwmRole" where
  "SwmRole_set_services new_val s = s\<lparr>role_services := new_val\<rparr>"

definition SwmRole_set_comment :: "string \<Rightarrow> SwmRole \<Rightarrow> SwmRole" where
  "SwmRole_set_comment new_val s = s\<lparr>role_comment := new_val\<rparr>"

definition SwmRole_set_revision :: "u64 \<Rightarrow> SwmRole \<Rightarrow> SwmRole" where
  "SwmRole_set_revision new_val s = s\<lparr>role_revision := Some new_val\<rparr>"

subsection \<open>\<open>SwmAccount\<close>\<close>

definition SwmAccount_set_id :: "string \<Rightarrow> SwmAccount \<Rightarrow> SwmAccount" where
  "SwmAccount_set_id new_val s = s\<lparr>account_id := new_val\<rparr>"

definition SwmAccount_set_name :: "string \<Rightarrow> SwmAccount \<Rightarrow> SwmAccount" where
  "SwmAccount_set_name new_val s = s\<lparr>account_name := new_val\<rparr>"

definition SwmAccount_set_price_list :: "string \<Rightarrow> SwmAccount \<Rightarrow> SwmAccount" where
  "SwmAccount_set_price_list new_val s = s\<lparr>account_price_list := new_val\<rparr>"

definition SwmAccount_set_users :: "string list \<Rightarrow> SwmAccount \<Rightarrow> SwmAccount" where
  "SwmAccount_set_users new_val s = s\<lparr>account_users := new_val\<rparr>"

definition SwmAccount_set_admins :: "string list \<Rightarrow> SwmAccount \<Rightarrow> SwmAccount" where
  "SwmAccount_set_admins new_val s = s\<lparr>account_admins := new_val\<rparr>"

definition SwmAccount_set_comment :: "string \<Rightarrow> SwmAccount \<Rightarrow> SwmAccount" where
  "SwmAccount_set_comment new_val s = s\<lparr>account_comment := new_val\<rparr>"

definition SwmAccount_set_revision :: "u64 \<Rightarrow> SwmAccount \<Rightarrow> SwmAccount" where
  "SwmAccount_set_revision new_val s = s\<lparr>account_revision := Some new_val\<rparr>"

subsection \<open>\<open>SwmExecutable\<close>\<close>

definition SwmExecutable_set_name :: "string \<Rightarrow> SwmExecutable \<Rightarrow> SwmExecutable" where
  "SwmExecutable_set_name new_val s = s\<lparr>executable_name := new_val\<rparr>"

definition SwmExecutable_set_path :: "string \<Rightarrow> SwmExecutable \<Rightarrow> SwmExecutable" where
  "SwmExecutable_set_path new_val s = s\<lparr>executable_path := new_val\<rparr>"

definition SwmExecutable_set_user :: "string \<Rightarrow> SwmExecutable \<Rightarrow> SwmExecutable" where
  "SwmExecutable_set_user new_val s = s\<lparr>executable_user := new_val\<rparr>"

definition SwmExecutable_set_comment :: "string \<Rightarrow> SwmExecutable \<Rightarrow> SwmExecutable" where
  "SwmExecutable_set_comment new_val s = s\<lparr>executable_comment := new_val\<rparr>"

definition SwmExecutable_set_revision :: "u64 \<Rightarrow> SwmExecutable \<Rightarrow> SwmExecutable" where
  "SwmExecutable_set_revision new_val s = s\<lparr>executable_revision := Some new_val\<rparr>"

subsection \<open>\<open>SwmHook\<close>\<close>

definition SwmHook_set_id :: "string \<Rightarrow> SwmHook \<Rightarrow> SwmHook" where
  "SwmHook_set_id new_val s = s\<lparr>hook_id := new_val\<rparr>"

definition SwmHook_set_name :: "string \<Rightarrow> SwmHook \<Rightarrow> SwmHook" where
  "SwmHook_set_name new_val s = s\<lparr>hook_name := new_val\<rparr>"

definition SwmHook_set_event :: "string \<Rightarrow> SwmHook \<Rightarrow> SwmHook" where
  "SwmHook_set_event new_val s = s\<lparr>hook_event := new_val\<rparr>"

definition SwmHook_set_state :: "string \<Rightarrow> SwmHook \<Rightarrow> SwmHook" where
  "SwmHook_set_state new_val s = s\<lparr>hook_state := new_val\<rparr>"

definition SwmHook_set_executable :: "SwmExecutable \<Rightarrow> SwmHook \<Rightarrow> SwmHook" where
  "SwmHook_set_executable new_val s = s\<lparr>hook_executable := new_val\<rparr>"

definition SwmHook_set_comment :: "string \<Rightarrow> SwmHook \<Rightarrow> SwmHook" where
  "SwmHook_set_comment new_val s = s\<lparr>hook_comment := new_val\<rparr>"

definition SwmHook_set_revision :: "u64 \<Rightarrow> SwmHook \<Rightarrow> SwmHook" where
  "SwmHook_set_revision new_val s = s\<lparr>hook_revision := Some new_val\<rparr>"

subsection \<open>\<open>SwmGlobal\<close>\<close>

definition SwmGlobal_set_name :: "string \<Rightarrow> SwmGlobal \<Rightarrow> SwmGlobal" where
  "SwmGlobal_set_name new_val s = s\<lparr>global_name := new_val\<rparr>"

definition SwmGlobal_set_value :: "string \<Rightarrow> SwmGlobal \<Rightarrow> SwmGlobal" where
  "SwmGlobal_set_value new_val s = s\<lparr>global_value := new_val\<rparr>"

definition SwmGlobal_set_comment :: "string \<Rightarrow> SwmGlobal \<Rightarrow> SwmGlobal" where
  "SwmGlobal_set_comment new_val s = s\<lparr>global_comment := new_val\<rparr>"

definition SwmGlobal_set_revision :: "u64 \<Rightarrow> SwmGlobal \<Rightarrow> SwmGlobal" where
  "SwmGlobal_set_revision new_val s = s\<lparr>global_revision := Some new_val\<rparr>"

subsection \<open>\<open>SwmImage\<close>\<close>

definition SwmImage_set_name :: "string \<Rightarrow> SwmImage \<Rightarrow> SwmImage" where
  "SwmImage_set_name new_val s = s\<lparr>image_name := new_val\<rparr>"

definition SwmImage_set_id :: "string \<Rightarrow> SwmImage \<Rightarrow> SwmImage" where
  "SwmImage_set_id new_val s = s\<lparr>image_id := new_val\<rparr>"

definition SwmImage_set_tags :: "string list \<Rightarrow> SwmImage \<Rightarrow> SwmImage" where
  "SwmImage_set_tags new_val s = s\<lparr>image_tags := new_val\<rparr>"

definition SwmImage_set_size :: "u64 \<Rightarrow> SwmImage \<Rightarrow> SwmImage" where
  "SwmImage_set_size new_val s = s\<lparr>image_size := Some new_val\<rparr>"

definition SwmImage_set_kind :: "string \<Rightarrow> SwmImage \<Rightarrow> SwmImage" where
  "SwmImage_set_kind new_val s = s\<lparr>image_kind := new_val\<rparr>"

definition SwmImage_set_status :: "string \<Rightarrow> SwmImage \<Rightarrow> SwmImage" where
  "SwmImage_set_status new_val s = s\<lparr>image_status := new_val\<rparr>"

definition SwmImage_set_remote_id :: "string \<Rightarrow> SwmImage \<Rightarrow> SwmImage" where
  "SwmImage_set_remote_id new_val s = s\<lparr>image_remote_id := new_val\<rparr>"

definition SwmImage_set_created :: "string \<Rightarrow> SwmImage \<Rightarrow> SwmImage" where
  "SwmImage_set_created new_val s = s\<lparr>image_created := new_val\<rparr>"

definition SwmImage_set_updated :: "string \<Rightarrow> SwmImage \<Rightarrow> SwmImage" where
  "SwmImage_set_updated new_val s = s\<lparr>image_updated := new_val\<rparr>"

definition SwmImage_set_comment :: "string \<Rightarrow> SwmImage \<Rightarrow> SwmImage" where
  "SwmImage_set_comment new_val s = s\<lparr>image_comment := new_val\<rparr>"

definition SwmImage_set_revision :: "u64 \<Rightarrow> SwmImage \<Rightarrow> SwmImage" where
  "SwmImage_set_revision new_val s = s\<lparr>image_revision := Some new_val\<rparr>"

subsection \<open>\<open>SwmRemote\<close>\<close>

definition SwmRemote_set_id :: "string \<Rightarrow> SwmRemote \<Rightarrow> SwmRemote" where
  "SwmRemote_set_id new_val s = s\<lparr>remote_id := new_val\<rparr>"

definition SwmRemote_set_account_id :: "string \<Rightarrow> SwmRemote \<Rightarrow> SwmRemote" where
  "SwmRemote_set_account_id new_val s = s\<lparr>remote_account_id := new_val\<rparr>"

definition SwmRemote_set_default_image_id :: "string \<Rightarrow> SwmRemote \<Rightarrow> SwmRemote" where
  "SwmRemote_set_default_image_id new_val s = s\<lparr>remote_default_image_id := new_val\<rparr>"

definition SwmRemote_set_default_flavor_id :: "string \<Rightarrow> SwmRemote \<Rightarrow> SwmRemote" where
  "SwmRemote_set_default_flavor_id new_val s = s\<lparr>remote_default_flavor_id := new_val\<rparr>"

definition SwmRemote_set_name :: "string \<Rightarrow> SwmRemote \<Rightarrow> SwmRemote" where
  "SwmRemote_set_name new_val s = s\<lparr>remote_name := new_val\<rparr>"

definition SwmRemote_set_kind :: "string \<Rightarrow> SwmRemote \<Rightarrow> SwmRemote" where
  "SwmRemote_set_kind new_val s = s\<lparr>remote_kind := new_val\<rparr>"

definition SwmRemote_set_location :: "string \<Rightarrow> SwmRemote \<Rightarrow> SwmRemote" where
  "SwmRemote_set_location new_val s = s\<lparr>remote_location := new_val\<rparr>"

definition SwmRemote_set_server :: "string \<Rightarrow> SwmRemote \<Rightarrow> SwmRemote" where
  "SwmRemote_set_server new_val s = s\<lparr>remote_server := new_val\<rparr>"

definition SwmRemote_set_port :: "u64 \<Rightarrow> SwmRemote \<Rightarrow> SwmRemote" where
  "SwmRemote_set_port new_val s = s\<lparr>remote_port := Some new_val\<rparr>"

definition SwmRemote_set_runtime :: "(string, string) omap \<Rightarrow> SwmRemote \<Rightarrow> SwmRemote" where
  "SwmRemote_set_runtime new_val s = s\<lparr>remote_runtime := new_val\<rparr>"

definition SwmRemote_set_revision :: "u64 \<Rightarrow> SwmRemote \<Rightarrow> SwmRemote" where
  "SwmRemote_set_revision new_val s = s\<lparr>remote_revision := Some new_val\<rparr>"

subsection \<open>\<open>SwmQueue\<close>\<close>

definition SwmQueue_set_id :: "u64 \<Rightarrow> SwmQueue \<Rightarrow> SwmQueue" where
  "SwmQueue_set_id new_val s = s\<lparr>queue_id := Some new_val\<rparr>"

definition SwmQueue_set_name :: "string \<Rightarrow> SwmQueue \<Rightarrow> SwmQueue" where
  "SwmQueue_set_name new_val s = s\<lparr>queue_name := new_val\<rparr>"

definition SwmQueue_set_state :: "string \<Rightarrow> SwmQueue \<Rightarrow> SwmQueue" where
  "SwmQueue_set_state new_val s = s\<lparr>queue_state := new_val\<rparr>"

definition SwmQueue_set_jobs :: "string list \<Rightarrow> SwmQueue \<Rightarrow> SwmQueue" where
  "SwmQueue_set_jobs new_val s = s\<lparr>queue_jobs := new_val\<rparr>"

definition SwmQueue_set_nodes :: "string list \<Rightarrow> SwmQueue \<Rightarrow> SwmQueue" where
  "SwmQueue_set_nodes new_val s = s\<lparr>queue_nodes := new_val\<rparr>"

definition SwmQueue_set_users :: "string list \<Rightarrow> SwmQueue \<Rightarrow> SwmQueue" where
  "SwmQueue_set_users new_val s = s\<lparr>queue_users := new_val\<rparr>"

definition SwmQueue_set_admins :: "string list \<Rightarrow> SwmQueue \<Rightarrow> SwmQueue" where
  "SwmQueue_set_admins new_val s = s\<lparr>queue_admins := new_val\<rparr>"

definition SwmQueue_set_hooks :: "string list \<Rightarrow> SwmQueue \<Rightarrow> SwmQueue" where
  "SwmQueue_set_hooks new_val s = s\<lparr>queue_hooks := new_val\<rparr>"

definition SwmQueue_set_priority :: "int \<Rightarrow> SwmQueue \<Rightarrow> SwmQueue" where
  "SwmQueue_set_priority new_val s = s\<lparr>queue_priority := Some new_val\<rparr>"

definition SwmQueue_set_comment :: "string \<Rightarrow> SwmQueue \<Rightarrow> SwmQueue" where
  "SwmQueue_set_comment new_val s = s\<lparr>queue_comment := new_val\<rparr>"

definition SwmQueue_set_revision :: "u64 \<Rightarrow> SwmQueue \<Rightarrow> SwmQueue" where
  "SwmQueue_set_revision new_val s = s\<lparr>queue_revision := Some new_val\<rparr>"

subsection \<open>\<open>SwmNode\<close>\<close>

definition SwmNode_set_id :: "string \<Rightarrow> SwmNode \<Rightarrow> SwmNode" where
  "SwmNode_set_id new_val s = s\<lparr>node_id := new_val\<rparr>"

definition SwmNode_set_name :: "string \<Rightarrow> SwmNode \<Rightarrow> SwmNode" where
  "SwmNode_set_name new_val s = s\<lparr>node_name := new_val\<rparr>"

definition SwmNode_set_host :: "string \<Rightarrow> SwmNode \<Rightarrow> SwmNode" where
  "SwmNode_set_host new_val s = s\<lparr>node_host := new_val\<rparr>"

definition SwmNode_set_api_port :: "u64 \<Rightarrow> SwmNode \<Rightarrow> SwmNode" where
  "SwmNode_set_api_port new_val s = s\<lparr>node_api_port := Some new_val\<rparr>"

definition SwmNode_set_parent :: "string \<Rightarrow> SwmNode \<Rightarrow> SwmNode" where
  "SwmNode_set_parent new_val s = s\<lparr>node_parent := new_val\<rparr>"

definition SwmNode_set_state_power :: "string \<Rightarrow> SwmNode \<Rightarrow> SwmNode" where
  "SwmNode_set_state_power new_val s = s\<lparr>node_state_power := new_val\<rparr>"

definition SwmNode_set_state_alloc :: "string \<Rightarrow> SwmNode \<Rightarrow> SwmNode" where
  "SwmNode_set_state_alloc new_val s = s\<lparr>node_state_alloc := new_val\<rparr>"

definition SwmNode_set_roles :: "u64 list \<Rightarrow> SwmNode \<Rightarrow> SwmNode" where
  "SwmNode_set_roles new_val s = s\<lparr>node_roles := new_val\<rparr>"

definition SwmNode_set_resources :: "SwmResource list \<Rightarrow> SwmNode \<Rightarrow> SwmNode" where
  "SwmNode_set_resources new_val s = s\<lparr>node_resources := new_val\<rparr>"

definition SwmNode_set_properties :: "(string \<times> string) list \<Rightarrow> SwmNode \<Rightarrow> SwmNode" where
  "SwmNode_set_properties new_val s = s\<lparr>node_properties := new_val\<rparr>"

definition SwmNode_set_subdivision :: "string \<Rightarrow> SwmNode \<Rightarrow> SwmNode" where
  "SwmNode_set_subdivision new_val s = s\<lparr>node_subdivision := new_val\<rparr>"

definition SwmNode_set_subdivision_id :: "string \<Rightarrow> SwmNode \<Rightarrow> SwmNode" where
  "SwmNode_set_subdivision_id new_val s = s\<lparr>node_subdivision_id := new_val\<rparr>"

definition SwmNode_set_comment :: "string \<Rightarrow> SwmNode \<Rightarrow> SwmNode" where
  "SwmNode_set_comment new_val s = s\<lparr>node_comment := new_val\<rparr>"

definition SwmNode_set_remote_id :: "string \<Rightarrow> SwmNode \<Rightarrow> SwmNode" where
  "SwmNode_set_remote_id new_val s = s\<lparr>node_remote_id := new_val\<rparr>"

definition SwmNode_set_is_template :: "string \<Rightarrow> SwmNode \<Rightarrow> SwmNode" where
  "SwmNode_set_is_template new_val s = s\<lparr>node_is_template := new_val\<rparr>"

definition SwmNode_set_gateway :: "string \<Rightarrow> SwmNode \<Rightarrow> SwmNode" where
  "SwmNode_set_gateway new_val s = s\<lparr>node_gateway := new_val\<rparr>"

definition SwmNode_set_prices :: "(string, string) omap \<Rightarrow> SwmNode \<Rightarrow> SwmNode" where
  "SwmNode_set_prices new_val s = s\<lparr>node_prices := new_val\<rparr>"

definition SwmNode_set_revision :: "u64 \<Rightarrow> SwmNode \<Rightarrow> SwmNode" where
  "SwmNode_set_revision new_val s = s\<lparr>node_revision := Some new_val\<rparr>"

subsection \<open>\<open>SwmPartition\<close>\<close>

definition SwmPartition_set_id :: "string \<Rightarrow> SwmPartition \<Rightarrow> SwmPartition" where
  "SwmPartition_set_id new_val s = s\<lparr>partition_id := new_val\<rparr>"

definition SwmPartition_set_name :: "string \<Rightarrow> SwmPartition \<Rightarrow> SwmPartition" where
  "SwmPartition_set_name new_val s = s\<lparr>partition_name := new_val\<rparr>"

definition SwmPartition_set_state :: "string \<Rightarrow> SwmPartition \<Rightarrow> SwmPartition" where
  "SwmPartition_set_state new_val s = s\<lparr>partition_state := new_val\<rparr>"

definition SwmPartition_set_manager :: "string \<Rightarrow> SwmPartition \<Rightarrow> SwmPartition" where
  "SwmPartition_set_manager new_val s = s\<lparr>partition_manager := new_val\<rparr>"

definition SwmPartition_set_nodes :: "string list \<Rightarrow> SwmPartition \<Rightarrow> SwmPartition" where
  "SwmPartition_set_nodes new_val s = s\<lparr>partition_nodes := new_val\<rparr>"

definition SwmPartition_set_partitions :: "string list \<Rightarrow> SwmPartition \<Rightarrow> SwmPartition" where
  "SwmPartition_set_partitions new_val s = s\<lparr>partition_partitions := new_val\<rparr>"

definition SwmPartition_set_hooks :: "string list \<Rightarrow> SwmPartition \<Rightarrow> SwmPartition" where
  "SwmPartition_set_hooks new_val s = s\<lparr>partition_hooks := new_val\<rparr>"

definition SwmPartition_set_scheduler :: "u64 \<Rightarrow> SwmPartition \<Rightarrow> SwmPartition" where
  "SwmPartition_set_scheduler new_val s = s\<lparr>partition_scheduler := Some new_val\<rparr>"

definition SwmPartition_set_jobs_per_node :: "u64 \<Rightarrow> SwmPartition \<Rightarrow> SwmPartition" where
  "SwmPartition_set_jobs_per_node new_val s = s\<lparr>partition_jobs_per_node := Some new_val\<rparr>"

definition SwmPartition_set_resources :: "SwmResource list \<Rightarrow> SwmPartition \<Rightarrow> SwmPartition" where
  "SwmPartition_set_resources new_val s = s\<lparr>partition_resources := new_val\<rparr>"

definition SwmPartition_set_properties :: "(string \<times> string) list \<Rightarrow> SwmPartition \<Rightarrow> SwmPartition" where
  "SwmPartition_set_properties new_val s = s\<lparr>partition_properties := new_val\<rparr>"

definition SwmPartition_set_subdivision :: "string \<Rightarrow> SwmPartition \<Rightarrow> SwmPartition" where
  "SwmPartition_set_subdivision new_val s = s\<lparr>partition_subdivision := new_val\<rparr>"

definition SwmPartition_set_subdivision_id :: "string \<Rightarrow> SwmPartition \<Rightarrow> SwmPartition" where
  "SwmPartition_set_subdivision_id new_val s = s\<lparr>partition_subdivision_id := new_val\<rparr>"

definition SwmPartition_set_created :: "string \<Rightarrow> SwmPartition \<Rightarrow> SwmPartition" where
  "SwmPartition_set_created new_val s = s\<lparr>partition_created := new_val\<rparr>"

definition SwmPartition_set_updated :: "string \<Rightarrow> SwmPartition \<Rightarrow> SwmPartition" where
  "SwmPartition_set_updated new_val s = s\<lparr>partition_updated := new_val\<rparr>"

definition SwmPartition_set_external_id :: "string \<Rightarrow> SwmPartition \<Rightarrow> SwmPartition" where
  "SwmPartition_set_external_id new_val s = s\<lparr>partition_external_id := new_val\<rparr>"

definition SwmPartition_set_addresses :: "(string, string) omap \<Rightarrow> SwmPartition \<Rightarrow> SwmPartition" where
  "SwmPartition_set_addresses new_val s = s\<lparr>partition_addresses := new_val\<rparr>"

definition SwmPartition_set_comment :: "string \<Rightarrow> SwmPartition \<Rightarrow> SwmPartition" where
  "SwmPartition_set_comment new_val s = s\<lparr>partition_comment := new_val\<rparr>"

definition SwmPartition_set_revision :: "u64 \<Rightarrow> SwmPartition \<Rightarrow> SwmPartition" where
  "SwmPartition_set_revision new_val s = s\<lparr>partition_revision := Some new_val\<rparr>"

subsection \<open>\<open>SwmCluster\<close>\<close>

definition SwmCluster_set_id :: "string \<Rightarrow> SwmCluster \<Rightarrow> SwmCluster" where
  "SwmCluster_set_id new_val s = s\<lparr>cluster_id := new_val\<rparr>"

definition SwmCluster_set_name :: "string \<Rightarrow> SwmCluster \<Rightarrow> SwmCluster" where
  "SwmCluster_set_name new_val s = s\<lparr>cluster_name := new_val\<rparr>"

definition SwmCluster_set_state :: "string \<Rightarrow> SwmCluster \<Rightarrow> SwmCluster" where
  "SwmCluster_set_state new_val s = s\<lparr>cluster_state := new_val\<rparr>"

definition SwmCluster_set_manager :: "string \<Rightarrow> SwmCluster \<Rightarrow> SwmCluster" where
  "SwmCluster_set_manager new_val s = s\<lparr>cluster_manager := new_val\<rparr>"

definition SwmCluster_set_partitions :: "string list \<Rightarrow> SwmCluster \<Rightarrow> SwmCluster" where
  "SwmCluster_set_partitions new_val s = s\<lparr>cluster_partitions := new_val\<rparr>"

definition SwmCluster_set_hooks :: "string list \<Rightarrow> SwmCluster \<Rightarrow> SwmCluster" where
  "SwmCluster_set_hooks new_val s = s\<lparr>cluster_hooks := new_val\<rparr>"

definition SwmCluster_set_scheduler :: "u64 \<Rightarrow> SwmCluster \<Rightarrow> SwmCluster" where
  "SwmCluster_set_scheduler new_val s = s\<lparr>cluster_scheduler := Some new_val\<rparr>"

definition SwmCluster_set_resources :: "SwmResource list \<Rightarrow> SwmCluster \<Rightarrow> SwmCluster" where
  "SwmCluster_set_resources new_val s = s\<lparr>cluster_resources := new_val\<rparr>"

definition SwmCluster_set_properties :: "(string \<times> string) list \<Rightarrow> SwmCluster \<Rightarrow> SwmCluster" where
  "SwmCluster_set_properties new_val s = s\<lparr>cluster_properties := new_val\<rparr>"

definition SwmCluster_set_comment :: "string \<Rightarrow> SwmCluster \<Rightarrow> SwmCluster" where
  "SwmCluster_set_comment new_val s = s\<lparr>cluster_comment := new_val\<rparr>"

definition SwmCluster_set_revision :: "u64 \<Rightarrow> SwmCluster \<Rightarrow> SwmCluster" where
  "SwmCluster_set_revision new_val s = s\<lparr>cluster_revision := Some new_val\<rparr>"

subsection \<open>\<open>SwmGrid\<close>\<close>

definition SwmGrid_set_id :: "string \<Rightarrow> SwmGrid \<Rightarrow> SwmGrid" where
  "SwmGrid_set_id new_val s = s\<lparr>grid_id := new_val\<rparr>"

definition SwmGrid_set_name :: "string \<Rightarrow> SwmGrid \<Rightarrow> SwmGrid" where
  "SwmGrid_set_name new_val s = s\<lparr>grid_name := new_val\<rparr>"

definition SwmGrid_set_state :: "string \<Rightarrow> SwmGrid \<Rightarrow> SwmGrid" where
  "SwmGrid_set_state new_val s = s\<lparr>grid_state := new_val\<rparr>"

definition SwmGrid_set_manager :: "string \<Rightarrow> SwmGrid \<Rightarrow> SwmGrid" where
  "SwmGrid_set_manager new_val s = s\<lparr>grid_manager := new_val\<rparr>"

definition SwmGrid_set_clusters :: "string list \<Rightarrow> SwmGrid \<Rightarrow> SwmGrid" where
  "SwmGrid_set_clusters new_val s = s\<lparr>grid_clusters := new_val\<rparr>"

definition SwmGrid_set_hooks :: "string list \<Rightarrow> SwmGrid \<Rightarrow> SwmGrid" where
  "SwmGrid_set_hooks new_val s = s\<lparr>grid_hooks := new_val\<rparr>"

definition SwmGrid_set_scheduler :: "u64 \<Rightarrow> SwmGrid \<Rightarrow> SwmGrid" where
  "SwmGrid_set_scheduler new_val s = s\<lparr>grid_scheduler := Some new_val\<rparr>"

definition SwmGrid_set_resources :: "SwmResource list \<Rightarrow> SwmGrid \<Rightarrow> SwmGrid" where
  "SwmGrid_set_resources new_val s = s\<lparr>grid_resources := new_val\<rparr>"

definition SwmGrid_set_properties :: "(string \<times> string) list \<Rightarrow> SwmGrid \<Rightarrow> SwmGrid" where
  "SwmGrid_set_properties new_val s = s\<lparr>grid_properties := new_val\<rparr>"

definition SwmGrid_set_comment :: "string \<Rightarrow> SwmGrid \<Rightarrow> SwmGrid" where
  "SwmGrid_set_comment new_val s = s\<lparr>grid_comment := new_val\<rparr>"

definition SwmGrid_set_revision :: "u64 \<Rightarrow> SwmGrid \<Rightarrow> SwmGrid" where
  "SwmGrid_set_revision new_val s = s\<lparr>grid_revision := Some new_val\<rparr>"

subsection \<open>\<open>SwmBootInfo\<close>\<close>

definition SwmBootInfo_set_node_host :: "string \<Rightarrow> SwmBootInfo \<Rightarrow> SwmBootInfo" where
  "SwmBootInfo_set_node_host new_val s = s\<lparr>boot_info_node_host := new_val\<rparr>"

definition SwmBootInfo_set_node_port :: "u64 \<Rightarrow> SwmBootInfo \<Rightarrow> SwmBootInfo" where
  "SwmBootInfo_set_node_port new_val s = s\<lparr>boot_info_node_port := Some new_val\<rparr>"

definition SwmBootInfo_set_parent_host :: "string \<Rightarrow> SwmBootInfo \<Rightarrow> SwmBootInfo" where
  "SwmBootInfo_set_parent_host new_val s = s\<lparr>boot_info_parent_host := new_val\<rparr>"

definition SwmBootInfo_set_parent_port :: "u64 \<Rightarrow> SwmBootInfo \<Rightarrow> SwmBootInfo" where
  "SwmBootInfo_set_parent_port new_val s = s\<lparr>boot_info_parent_port := Some new_val\<rparr>"

subsection \<open>\<open>SwmRelocation\<close>\<close>

definition SwmRelocation_set_id :: "u64 \<Rightarrow> SwmRelocation \<Rightarrow> SwmRelocation" where
  "SwmRelocation_set_id new_val s = s\<lparr>relocation_id := Some new_val\<rparr>"

definition SwmRelocation_set_job_id :: "string \<Rightarrow> SwmRelocation \<Rightarrow> SwmRelocation" where
  "SwmRelocation_set_job_id new_val s = s\<lparr>relocation_job_id := new_val\<rparr>"

definition SwmRelocation_set_template_node_id :: "string \<Rightarrow> SwmRelocation \<Rightarrow> SwmRelocation" where
  "SwmRelocation_set_template_node_id new_val s = s\<lparr>relocation_template_node_id := new_val\<rparr>"

definition SwmRelocation_set_canceled :: "string \<Rightarrow> SwmRelocation \<Rightarrow> SwmRelocation" where
  "SwmRelocation_set_canceled new_val s = s\<lparr>relocation_canceled := new_val\<rparr>"

subsection \<open>\<open>SwmMetric\<close>\<close>

definition SwmMetric_set_name :: "string \<Rightarrow> SwmMetric \<Rightarrow> SwmMetric" where
  "SwmMetric_set_name new_val s = s\<lparr>metric_name := new_val\<rparr>"

definition SwmMetric_set_value_integer :: "u64 \<Rightarrow> SwmMetric \<Rightarrow> SwmMetric" where
  "SwmMetric_set_value_integer new_val s = s\<lparr>metric_value_integer := Some new_val\<rparr>"

definition SwmMetric_set_value_float64 :: "double \<Rightarrow> SwmMetric \<Rightarrow> SwmMetric" where
  "SwmMetric_set_value_float64 new_val s = s\<lparr>metric_value_float64 := Some new_val\<rparr>"

subsection \<open>\<open>SwmTimetable\<close>\<close>

definition SwmTimetable_set_start_time :: "u64 \<Rightarrow> SwmTimetable \<Rightarrow> SwmTimetable" where
  "SwmTimetable_set_start_time new_val s = s\<lparr>timetable_start_time := Some new_val\<rparr>"

definition SwmTimetable_set_job_id :: "string \<Rightarrow> SwmTimetable \<Rightarrow> SwmTimetable" where
  "SwmTimetable_set_job_id new_val s = s\<lparr>timetable_job_id := new_val\<rparr>"

definition SwmTimetable_set_job_nodes :: "string list \<Rightarrow> SwmTimetable \<Rightarrow> SwmTimetable" where
  "SwmTimetable_set_job_nodes new_val s = s\<lparr>timetable_job_nodes := new_val\<rparr>"

subsection \<open>\<open>SwmSchedulerResult\<close>\<close>

definition SwmSchedulerResult_set_timetable :: "SwmTimetable list \<Rightarrow> SwmSchedulerResult \<Rightarrow> SwmSchedulerResult" where
  "SwmSchedulerResult_set_timetable new_val s = s\<lparr>scheduler_result_timetable := new_val\<rparr>"

definition SwmSchedulerResult_set_metrics :: "SwmMetric list \<Rightarrow> SwmSchedulerResult \<Rightarrow> SwmSchedulerResult" where
  "SwmSchedulerResult_set_metrics new_val s = s\<lparr>scheduler_result_metrics := new_val\<rparr>"

definition SwmSchedulerResult_set_request_id :: "string \<Rightarrow> SwmSchedulerResult \<Rightarrow> SwmSchedulerResult" where
  "SwmSchedulerResult_set_request_id new_val s = s\<lparr>scheduler_result_request_id := new_val\<rparr>"

definition SwmSchedulerResult_set_status :: "u64 \<Rightarrow> SwmSchedulerResult \<Rightarrow> SwmSchedulerResult" where
  "SwmSchedulerResult_set_status new_val s = s\<lparr>scheduler_result_status := Some new_val\<rparr>"

definition SwmSchedulerResult_set_astro_time :: "double \<Rightarrow> SwmSchedulerResult \<Rightarrow> SwmSchedulerResult" where
  "SwmSchedulerResult_set_astro_time new_val s = s\<lparr>scheduler_result_astro_time := Some new_val\<rparr>"

definition SwmSchedulerResult_set_idle_time :: "double \<Rightarrow> SwmSchedulerResult \<Rightarrow> SwmSchedulerResult" where
  "SwmSchedulerResult_set_idle_time new_val s = s\<lparr>scheduler_result_idle_time := Some new_val\<rparr>"

definition SwmSchedulerResult_set_work_time :: "double \<Rightarrow> SwmSchedulerResult \<Rightarrow> SwmSchedulerResult" where
  "SwmSchedulerResult_set_work_time new_val s = s\<lparr>scheduler_result_work_time := Some new_val\<rparr>"

subsection \<open>\<open>SwmScheduler\<close>\<close>

definition SwmScheduler_set_id :: "u64 \<Rightarrow> SwmScheduler \<Rightarrow> SwmScheduler" where
  "SwmScheduler_set_id new_val s = s\<lparr>scheduler_id := Some new_val\<rparr>"

definition SwmScheduler_set_name :: "string \<Rightarrow> SwmScheduler \<Rightarrow> SwmScheduler" where
  "SwmScheduler_set_name new_val s = s\<lparr>scheduler_name := new_val\<rparr>"

definition SwmScheduler_set_state :: "string \<Rightarrow> SwmScheduler \<Rightarrow> SwmScheduler" where
  "SwmScheduler_set_state new_val s = s\<lparr>scheduler_state := new_val\<rparr>"

definition SwmScheduler_set_start_time :: "string \<Rightarrow> SwmScheduler \<Rightarrow> SwmScheduler" where
  "SwmScheduler_set_start_time new_val s = s\<lparr>scheduler_start_time := new_val\<rparr>"

definition SwmScheduler_set_stop_time :: "string \<Rightarrow> SwmScheduler \<Rightarrow> SwmScheduler" where
  "SwmScheduler_set_stop_time new_val s = s\<lparr>scheduler_stop_time := new_val\<rparr>"

definition SwmScheduler_set_run_interval :: "u64 \<Rightarrow> SwmScheduler \<Rightarrow> SwmScheduler" where
  "SwmScheduler_set_run_interval new_val s = s\<lparr>scheduler_run_interval := Some new_val\<rparr>"

definition SwmScheduler_set_path :: "SwmExecutable \<Rightarrow> SwmScheduler \<Rightarrow> SwmScheduler" where
  "SwmScheduler_set_path new_val s = s\<lparr>scheduler_path := new_val\<rparr>"

definition SwmScheduler_set_family :: "string \<Rightarrow> SwmScheduler \<Rightarrow> SwmScheduler" where
  "SwmScheduler_set_family new_val s = s\<lparr>scheduler_family := new_val\<rparr>"

definition SwmScheduler_set_version :: "string \<Rightarrow> SwmScheduler \<Rightarrow> SwmScheduler" where
  "SwmScheduler_set_version new_val s = s\<lparr>scheduler_version := new_val\<rparr>"

definition SwmScheduler_set_cu :: "u64 \<Rightarrow> SwmScheduler \<Rightarrow> SwmScheduler" where
  "SwmScheduler_set_cu new_val s = s\<lparr>scheduler_cu := Some new_val\<rparr>"

definition SwmScheduler_set_comment :: "string \<Rightarrow> SwmScheduler \<Rightarrow> SwmScheduler" where
  "SwmScheduler_set_comment new_val s = s\<lparr>scheduler_comment := new_val\<rparr>"

definition SwmScheduler_set_revision :: "u64 \<Rightarrow> SwmScheduler \<Rightarrow> SwmScheduler" where
  "SwmScheduler_set_revision new_val s = s\<lparr>scheduler_revision := Some new_val\<rparr>"

subsection \<open>\<open>SwmProcess\<close>\<close>

definition SwmProcess_set_pid :: "int \<Rightarrow> SwmProcess \<Rightarrow> SwmProcess" where
  "SwmProcess_set_pid new_val s = s\<lparr>process_pid := Some new_val\<rparr>"

definition SwmProcess_set_state :: "string \<Rightarrow> SwmProcess \<Rightarrow> SwmProcess" where
  "SwmProcess_set_state new_val s = s\<lparr>process_state := new_val\<rparr>"

definition SwmProcess_set_exitcode :: "int \<Rightarrow> SwmProcess \<Rightarrow> SwmProcess" where
  "SwmProcess_set_exitcode new_val s = s\<lparr>process_exitcode := Some new_val\<rparr>"

definition SwmProcess_set_signal :: "int \<Rightarrow> SwmProcess \<Rightarrow> SwmProcess" where
  "SwmProcess_set_signal new_val s = s\<lparr>process_signal := Some new_val\<rparr>"

definition SwmProcess_set_comment :: "string \<Rightarrow> SwmProcess \<Rightarrow> SwmProcess" where
  "SwmProcess_set_comment new_val s = s\<lparr>process_comment := new_val\<rparr>"

subsection \<open>\<open>SwmResource\<close>\<close>

definition SwmResource_get_name :: "SwmResource \<Rightarrow> string" where
  "SwmResource_get_name s = resource_name s"

definition SwmResource_get_count :: "SwmResource \<Rightarrow> u64 option" where
  "SwmResource_get_count s = resource_count s"

definition SwmResource_get_hooks :: "SwmResource \<Rightarrow> string list" where
  "SwmResource_get_hooks s = resource_hooks s"

definition SwmResource_get_properties :: "SwmResource \<Rightarrow> (string \<times> string) list" where
  "SwmResource_get_properties s = resource_properties s"

definition SwmResource_get_prices :: "SwmResource \<Rightarrow> (string, string) omap" where
  "SwmResource_get_prices s = resource_prices s"

definition SwmResource_get_usage_time :: "SwmResource \<Rightarrow> u64 option" where
  "SwmResource_get_usage_time s = resource_usage_time s"

definition SwmResource_get_resources :: "SwmResource \<Rightarrow> SwmResource list" where
  "SwmResource_get_resources s = resource_resources s"

section \<open>A process that is built with setters\<close>

text \<open>Whatever the order, the setters of a process assign all its members.\<close>

lemma process_from_setters:
  "SwmProcess_set_comment c (SwmProcess_set_signal g (SwmProcess_set_exitcode e (SwmProcess_set_state s
     (SwmProcess_set_pid p x)))) =
   \<lparr>process_pid = Some p, process_state = s, process_exitcode = Some e, process_signal = Some g,
     process_comment = c\<rparr>"
  by (simp add: SwmProcess_set_comment_def SwmProcess_set_signal_def SwmProcess_set_exitcode_def
      SwmProcess_set_state_def SwmProcess_set_pid_def)

lemmas process_setter_defs = SwmProcess_set_comment_def SwmProcess_set_signal_def SwmProcess_set_exitcode_def
  SwmProcess_set_state_def SwmProcess_set_pid_def

end
