(* ===== verification/Porter_Loop.thy ===== *)
theory Porter_Loop
  imports Porter_Ctrl Posix_Io Porter_Out Porter_Metrics Porter_Data Entity_Access
begin

text \<open>
  The parent process of the porter after the fork, lines 519 to 792 of \<open>porter/porter.cpp\<close>: it
  relays the requests of \<open>swm-task\<close> from the control socket to its standard output, the replies
  from its standard input back to the socket, reports the state of the job process, and ends with
  the final report. One turn of its loop gets what the system calls of that turn return (\<open>tick\<close>)
  and gives the new state with the trace of what the porter did.
\<close>

section \<open>State\<close>

text \<open>
  What standard input, a non-blocking pipe, will deliver. A \<open>read\<close> gets at most what one chunk
  holds; the end of the list is the present, where a read gives \<open>EAGAIN\<close>.
\<close>

datatype pipe_event = Chunk string | Again | Eof | Read_fails

datatype pipe_result = Got string | Got_again | Got_eof | Got_error

fun pipe_read :: "nat \<Rightarrow> pipe_event list \<Rightarrow> pipe_result \<times> pipe_event list" where
  "pipe_read n [] = (Got_again, [])"
| "pipe_read n (Again # p) = (Got_again, p)"
| "pipe_read n (Eof # p) = (Got_eof, Eof # p)"
| "pipe_read n (Read_fails # p) = (Got_error, p)"
| "pipe_read n (Chunk c # p) =
     (if c = [] then pipe_read n p
      else if n < length c then (Got (take n c), Chunk (drop n c) # p) else (Got c, p))"

text \<open>
  What the porter does: a frame written to standard output (a request to start a task, the state of
  the process, metrics), a line given to \<open>porter_ctrl_write_line\<close> for a descriptor, a descriptor
  closed, a path unlinked.
\<close>

datatype action =
    Out_req string
  | Out_state SwmProcess string
  | Out_metrics string
  | Reply int string
  | Close_fd int
  | Unlink string

record pstate =
  ctrl_client :: int
  ctrl_buf :: string
  pending_refs :: "(string, int) omap"
  metrics_state :: PorterMetricsState
  metrics_lib :: nvml_lib
  pipe :: "pipe_event list"
  refs_made :: nat
  trace :: "action list"

definition act :: "action \<Rightarrow> pstate \<Rightarrow> pstate" where
  "act a st = st\<lparr>trace := trace st @ [a]\<rparr>"

text \<open>
  What does not change during the loop: the two halves of \<open>ei\<close>, the process ids, the results of
  the successive calls of \<open>time\<close> and \<open>rand\<close>, the job, the listening socket and its path.
\<close>

record penv =
  pe_eix :: eix
  pe_ei :: ei
  pe_pid :: int
  pe_child :: int
  pe_time_rand :: "nat \<Rightarrow> int \<times> int"
  pe_job :: SwmJob
  pe_cfg :: PorterMetricsConfig
  ctrl_listen :: int
  ctrl_path :: string

section \<open>Requests from the control socket\<close>

definition make_ref :: "penv \<Rightarrow> nat \<Rightarrow> string" where
  "make_ref V n = dec_int (pe_pid V) @ ''-'' @ dec_int (fst (pe_time_rand V n)) @ ''-'' @
     dec_int (snd (pe_time_rand V n))"

definition handle_ctrl_line :: "penv \<Rightarrow> string \<Rightarrow> pstate \<Rightarrow> pstate" where
  "handle_ctrl_line V line st =
     (case porter_ctrl_parse_spawn line of (ok, pmix, argv) \<Rightarrow>
        if \<not> ok then
          (if 0 \<le> ctrl_client st then act (Reply (ctrl_client st) ''ERR bad SPAWN line'') st else st)
        else let ref = make_ref V (refs_made st);
                 st1 = st\<lparr>refs_made := refs_made st + 1,
                   pending_refs := om_assign ref (ctrl_client st) (pending_refs st)\<rparr>
          in case send_porter_req (pe_eix V) ref ''spawn_task'' pmix argv [] of (sent, b) \<Rightarrow>
            if sent then act (Out_req b) st1
            else (act (Reply (ctrl_client st1) ''ERR relay failed'') st1)
              \<lparr>pending_refs := om_erase ref (pending_refs st1)\<rparr>)"

datatype ctrl_read = Ctrl_again | Ctrl_error | Ctrl_data string

definition drop_client :: "pstate \<Rightarrow> pstate" where
  "drop_client st = (act (Close_fd (ctrl_client st)) st)\<lparr>ctrl_client := -1\<rparr>"

definition try_read_ctrl_client :: "penv \<Rightarrow> ctrl_read \<Rightarrow> pstate \<Rightarrow> pstate" where
  "try_read_ctrl_client V r st =
     (if ctrl_client st < 0 then st
      else case r of
        Ctrl_again \<Rightarrow> st
      | Ctrl_error \<Rightarrow> drop_client st
      | Ctrl_data d \<Rightarrow>
          if d = [] then drop_client st
          else case ctrl_feed (ctrl_buf st) d of (buf, ls) \<Rightarrow>
            foldl (\<lambda>s l. handle_ctrl_line V l s) (st\<lparr>ctrl_buf := buf\<rparr>) ls)"

section \<open>Replies from standard input\<close>

definition PORTER_COMMAND_CTRL_REPLY :: char where "PORTER_COMMAND_CTRL_REPLY = CHR 0x02"

text \<open>
  The loop over the bytes of the term: \<open>None\<close> while the next \<open>read\<close> keeps giving \<open>EAGAIN\<close>,
  otherwise the bytes unless a read failed or met the end, and what is left in the pipe.
\<close>

fun read_body :: "nat \<Rightarrow> string \<Rightarrow> pipe_event list \<Rightarrow> (string option \<times> pipe_event list) option" where
  "read_body n got [] = (if n = 0 then Some (Some got, []) else None)"
| "read_body n got (e # p) =
     (if n = 0 then Some (Some got, e # p)
      else case e of
        Again \<Rightarrow> read_body n got p
      | Eof \<Rightarrow> Some (None, e # p)
      | Read_fails \<Rightarrow> Some (None, p)
      | Chunk c \<Rightarrow>
          if n < length c then Some (Some (got @ take n c), Chunk (drop n c) # p)
          else read_body (n - length c) (got @ c) p)"

text \<open>
  The reference and the index after it, from \<open>{porter_rep, Ref, Msg}\<close>; the tag is not compared. The
  source decodes the tag, and below the tag of the message, into 64 bytes, which is enough for the
  atoms that the Erlang side sends and not for every atom.
\<close>

definition reply_ref :: "ei \<Rightarrow> string \<Rightarrow> (string \<times> int) option" where
  "reply_ref E b = (case ei_decode_version E b 0 of None \<Rightarrow> None | Some (i1, _) \<Rightarrow>
     (case ei_decode_tuple_header E b i1 of None \<Rightarrow> None | Some (i2, arity) \<Rightarrow>
       if arity < 3 then None
       else case ei_decode_atom E b i2 of None \<Rightarrow> None | Some (i3, _) \<Rightarrow>
         (case ei_get_type E b i3 of None \<Rightarrow> None | Some (ty, _) \<Rightarrow>
           if ty = ERL_BINARY_EXT then
             (case ei_decode_binary E b i3 of None \<Rightarrow> None | Some (i4, s) \<Rightarrow> Some (c_str s, i4))
           else if ty = ERL_STRING_EXT then
             (case ei_decode_string E b i3 of None \<Rightarrow> None | Some (i4, s) \<Rightarrow> Some (c_str s, i4))
           else None)))"

definition is_atom_type :: "int \<Rightarrow> bool" where
  "is_atom_type ty \<longleftrightarrow> ty = ERL_ATOM_EXT \<or> ty = ERL_ATOM_UTF8_EXT \<or> ty = ERL_SMALL_ATOM_EXT \<or>
     ty = ERL_SMALL_ATOM_UTF8_EXT"

text \<open>\<open>ei_decode_long\<close> that leaves \<open>code\<close> at its initial 1 when it fails.\<close>

definition done_value :: "ei \<Rightarrow> string \<Rightarrow> int \<Rightarrow> int" where
  "done_value E b i = (case ei_decode_long E b i of None \<Rightarrow> 1 | Some (_, c) \<Rightarrow> c)"

text \<open>The line that a message makes the porter write, and whether the reference is then forgotten.\<close>

definition reply_msg :: "ei \<Rightarrow> string \<Rightarrow> int \<Rightarrow> string \<Rightarrow> (string \<times> bool) option" where
  "reply_msg E b i ref = (case ei_get_type E b i of None \<Rightarrow> None | Some (mty, _) \<Rightarrow>
     if is_atom_type mty then
       (case ei_decode_atom E b i of None \<Rightarrow> None | Some (_, a) \<Rightarrow>
          if c_str a = ''ok'' \<or> starts_with ''ok'' (c_str a) then Some (''OK '' @ ref, False) else None)
     else if mty = ERL_SMALL_TUPLE_EXT \<or> mty = ERL_LARGE_TUPLE_EXT then
       (case ei_decode_tuple_header E b i of None \<Rightarrow> None | Some (i2, tarity) \<Rightarrow>
          if tarity < 1 then None
          else case ei_decode_atom E b i2 of None \<Rightarrow> None | Some (i3, a) \<Rightarrow>
            if c_str a = ''done'' \<and> 2 \<le> tarity then Some (''DONE '' @ dec_int (done_value E b i3), True)
            else if c_str a = ''ok'' then Some (''OK '' @ ref, False)
            else if c_str a = ''error'' then Some (''ERR task failed'', True)
            else None)
     else None)"

definition handle_reply :: "ei \<Rightarrow> string \<Rightarrow> pstate \<Rightarrow> pstate" where
  "handle_reply E b st = (case reply_ref E b of None \<Rightarrow> st | Some (ref, i) \<Rightarrow>
     (case om_find ref (pending_refs st) of None \<Rightarrow> st | Some cfd \<Rightarrow>
       (case reply_msg E b i ref of None \<Rightarrow> st | Some (line, forget) \<Rightarrow>
         (act (Reply cfd line) st)
           \<lparr>pending_refs := if forget then om_erase ref (pending_refs st) else pending_refs st\<rparr>)))"

definition try_read_stdin_reply :: "penv \<Rightarrow> pstate \<Rightarrow> pstate option" where
  "try_read_stdin_reply V st = (case pipe_read 1 (pipe st) of
     (Got h, p1) \<Rightarrow>
       if hd h \<noteq> PORTER_COMMAND_CTRL_REPLY then Some (st\<lparr>pipe := p1\<rparr>)
       else (case pipe_read 4 p1 of
         (Got l, p2) \<Rightarrow>
           if length l \<noteq> 4 then Some (st\<lparr>pipe := p2\<rparr>)
           else let len = be32 l in
             if len = 0 \<or> 16 * 1024 * 1024 < len then Some (st\<lparr>pipe := p2\<rparr>)
             else (case read_body (unat len) [] p2 of
               None \<Rightarrow> None
             | Some (None, p3) \<Rightarrow> Some (st\<lparr>pipe := p3\<rparr>)
             | Some (Some b, p3) \<Rightarrow> Some (handle_reply (pe_ei V) b (st\<lparr>pipe := p3\<rparr>)))
       | (_, p2) \<Rightarrow> Some (st\<lparr>pipe := p2\<rparr>))
   | (_, p1) \<Rightarrow> Some (st\<lparr>pipe := p1\<rparr>))"

section \<open>The status of the job process\<close>

text \<open>The macros of \<open>sys/wait.h\<close> on a status of 32 bits.\<close>

definition WEXITSTATUS :: "u32 \<Rightarrow> int" where "WEXITSTATUS s = uint (drop_bit 8 (s AND 0xFF00))"
definition WTERMSIG :: "u32 \<Rightarrow> int" where "WTERMSIG s = uint (s AND 0x7F)"
definition WIFEXITED :: "u32 \<Rightarrow> bool" where "WIFEXITED s \<longleftrightarrow> WTERMSIG s = 0"
definition WIFSIGNALED :: "u32 \<Rightarrow> bool" where "WIFSIGNALED s \<longleftrightarrow> 1 \<le> WTERMSIG s \<and> WTERMSIG s < 127"
definition WIFSTOPPED :: "u32 \<Rightarrow> bool" where "WIFSTOPPED s \<longleftrightarrow> s AND 0xFF = 0x7F"

definition exit_and_signal :: "u32 \<Rightarrow> int \<times> int" where
  "exit_and_signal s =
     (if WIFEXITED s then WEXITSTATUS s else -1,
      if WIFSTOPPED s then WEXITSTATUS s else if WIFSIGNALED s then WTERMSIG s else 0)"

datatype wait_result = Wait_error | Still_running | Child_status u32

definition new_process :: "penv \<Rightarrow> SwmProcess" where
  "new_process V = SwmProcess_set_signal (-1) (SwmProcess_set_exitcode (-1)
     (SwmProcess_set_state ''E'' (SwmProcess_set_pid (pe_child V) SwmProcess_init)))"

text \<open>
  The process that is sent in a turn. A member that the branch of the turn does not set keeps the
  value of \<open>new_process\<close>, which is then the argument here.
\<close>

definition process_of :: "penv \<Rightarrow> string \<Rightarrow> int \<Rightarrow> int \<Rightarrow> string \<Rightarrow> SwmProcess" where
  "process_of V state exitcode sig comment = SwmProcess_set_comment comment (SwmProcess_set_signal sig
     (SwmProcess_set_exitcode exitcode (SwmProcess_set_state state (new_process V))))"

lemma process_of_fields:
  "process_of V state exitcode sig comment = \<lparr>process_pid = Some (pe_child V), process_state = state,
     process_exitcode = Some exitcode, process_signal = Some sig, process_comment = comment\<rparr>"
  by (simp add: process_of_def new_process_def process_setter_defs SwmProcess_init_def)

text \<open>The three branches of the source, as the setters they call.\<close>

lemma process_of_branches:
  "process_of V ''R'' (-1) (-1) [] = SwmProcess_set_state ''R'' (new_process V)"
  "process_of V ''F'' exitcode sig [] =
     SwmProcess_set_signal sig (SwmProcess_set_exitcode exitcode (SwmProcess_set_state ''F'' (new_process V)))"
  "process_of V ''E'' (-1) (-1) msg = SwmProcess_set_comment msg (new_process V)"
  by (simp_all add: process_of_def new_process_def process_setter_defs SwmProcess_init_def)

section \<open>One turn of the loop\<close>

text \<open>
  What the system gives in a turn: the descriptor of a new client, the read of the client, the
  result of \<open>waitpid\<close>, the system as the metrics see it and the clock. A turn is \<open>Blocked\<close> when it
  never leaves the reading of a reply, and \<open>Exits\<close> with the code of the porter.
\<close>

record tick =
  t_accept :: "int option"
  t_ctrl :: ctrl_read
  t_wait :: wait_result
  t_sys :: msys
  t_now :: int

datatype turn = Goes_on pstate | Exits int pstate | Blocked

definition accept_client :: "penv \<Rightarrow> int option \<Rightarrow> pstate \<Rightarrow> pstate" where
  "accept_client V a st =
     (if 0 \<le> ctrl_listen V \<and> ctrl_client st < 0 then
        (case a of Some cfd \<Rightarrow> if 0 \<le> cfd then st\<lparr>ctrl_client := cfd, ctrl_buf := []\<rparr> else st
         | None \<Rightarrow> st)
      else st)"

definition send_state :: "penv \<Rightarrow> SwmProcess \<Rightarrow> pstate \<Rightarrow> bool \<times> pstate" where
  "send_state V p st = (case send_process_info (pe_eix V) p [] of (ok, b) \<Rightarrow>
     (ok, if ok then act (Out_state p b) st else st))"

definition with_metrics :: "bool \<times> PorterMetricsState \<times> nvml_lib \<times> string \<Rightarrow> pstate \<Rightarrow> bool \<times> pstate" where
  "with_metrics r st = (case r of (ok, ms, lib, out) \<Rightarrow>
     (ok, (if out = [] then st else act (Out_metrics out) st)\<lparr>metrics_state := ms, metrics_lib := lib\<rparr>))"

text \<open>
  After the loop, up to the last \<open>wait\<close>.
\<close>

definition finish :: "penv \<Rightarrow> pstate \<Rightarrow> pstate" where
  "finish V st = (let
     st1 = (if 0 \<le> ctrl_client st then act (Close_fd (ctrl_client st)) st else st)
     in if 0 \<le> ctrl_listen V then act (Unlink (ctrl_path V)) (act (Close_fd (ctrl_listen V)) st1) else st1)"

definition running_turn :: "penv \<Rightarrow> tick \<Rightarrow> pstate \<Rightarrow> turn" where
  "running_turn V t st = (case send_state V (process_of V ''R'' (-1) (-1) []) st of (ok, st1) \<Rightarrow>
     if \<not> ok then Exits 1 st1
     else case with_metrics (porter_metrics_maybe_send (pe_eix V) (t_sys t) (pe_job V) (pe_cfg V)
            (metrics_state st1) (metrics_lib st1) (t_now t) []) st1 of (ok', st2) \<Rightarrow>
       if \<not> ok' then Exits 1 st2 else Goes_on st2)"

definition final_turn :: "penv \<Rightarrow> tick \<Rightarrow> u32 \<Rightarrow> pstate \<Rightarrow> turn" where
  "final_turn V t s st = (case with_metrics (porter_metrics_flush (pe_eix V) (t_sys t) (pe_job V) (pe_cfg V)
            (metrics_state st) (metrics_lib st) (t_now t) []) st of (_, st1) \<Rightarrow>
     (case exit_and_signal s of (exitcode, sig) \<Rightarrow>
       (case send_state V (process_of V ''F'' exitcode sig []) st1 of (ok, st2) \<Rightarrow>
         if \<not> ok then Exits 1 st2 else Exits 0 (finish V st2))))"

definition error_turn :: "penv \<Rightarrow> pstate \<Rightarrow> turn" where
  "error_turn V st = (case send_state V (process_of V ''E'' (-1) (-1) ''waitpid error'') st of
     (_, st1) \<Rightarrow> Exits 1 st1)"

definition relay :: "penv \<Rightarrow> int option \<Rightarrow> ctrl_read \<Rightarrow> pstate \<Rightarrow> pstate option" where
  "relay V a r st = try_read_stdin_reply V (try_read_ctrl_client V r (accept_client V a st))"

definition turn :: "penv \<Rightarrow> tick \<Rightarrow> pstate \<Rightarrow> turn" where
  "turn V t st =
     (case relay V (t_accept t) (t_ctrl t) st of
        None \<Rightarrow> Blocked
      | Some st1 \<Rightarrow> (case t_wait t of
          Wait_error \<Rightarrow> error_turn V st1
        | Still_running \<Rightarrow> running_turn V t st1
        | Child_status s \<Rightarrow> final_turn V t s st1))"

fun parent_loop :: "penv \<Rightarrow> tick list \<Rightarrow> pstate \<Rightarrow> turn" where
  "parent_loop V [] st = Goes_on st"
| "parent_loop V (t # ts) st = (case turn V t st of Goes_on st1 \<Rightarrow> parent_loop V ts st1 | r \<Rightarrow> r)"

definition parent_init :: "pipe_event list \<Rightarrow> pstate" where
  "parent_init p = \<lparr>ctrl_client = -1, ctrl_buf = [], pending_refs = [],
     metrics_state = PorterMetricsState_init,
     metrics_lib = \<lparr>load_attempted = False, init_ok = False\<rparr>, pipe = p, refs_made = 0, trace = []\<rparr>"

end
