(* ===== verification/Relay_Spec.thy ===== *)
theory Relay_Spec
  imports Porter_Loop Task
begin

text \<open>
  What the porter's parent loop promises to \<open>swm-task\<close> and to the Erlang side: a request and its
  replies reach the other end, the job process is reported until it ends and then exactly once
  more. Three theorems show where the relay does not do so.
\<close>

section \<open>Reading replies\<close>

fun chunk_bytes :: "pipe_event \<Rightarrow> string" where
  "chunk_bytes (Chunk c) = c"
| "chunk_bytes _ = []"

definition in_flight :: "pipe_event list \<Rightarrow> bool" where
  "in_flight es \<longleftrightarrow> Eof \<notin> set es \<and> Read_fails \<notin> set es"

lemma read_body_chunks:
  "in_flight es \<Longrightarrow> \<exists>q. read_body (length (concat (map chunk_bytes es))) got (es @ p) =
     Some (Some (got @ concat (map chunk_bytes es)), q)"
proof (induction es arbitrary: got)
  case Nil
  then show ?case by (cases p) auto
next
  case (Cons e es)
  then have es: "in_flight es" by (auto simp: in_flight_def)
  show ?case
  proof (cases e)
    case (Chunk c)
    then show ?thesis using Cons.IH [OF es, of "got @ c"] by auto
  next
    case Again
    then show ?thesis using Cons.IH [OF es, of got] by auto
  qed (use Cons.prems in \<open>auto simp: in_flight_def\<close>)
qed

text \<open>The frame that \<open>wm_porter_protocol:prepare_ctrl_reply/2\<close> builds.\<close>

definition rep_term :: "string \<Rightarrow> eterm \<Rightarrow> eterm" where
  "rep_term ref msg = ETuple [EAtom ''porter_rep'', EBin ref, msg]"

definition reply_frame :: "string \<Rightarrow> string" where
  "reply_frame b = PORTER_COMMAND_CTRL_REPLY # enc32 (of_nat (length b)) @ b"

text \<open>
  \<open>arrives b p\<close>: the pipe delivers the frame of \<open>b\<close> next, the five bytes of its header together,
  the rest in pieces of any size with any number of empty reads between them.
\<close>

definition arrives :: "string \<Rightarrow> pipe_event list \<Rightarrow> bool" where
  "arrives b p \<longleftrightarrow> (\<exists>b0 es rest. p = Chunk (PORTER_COMMAND_CTRL_REPLY # enc32 (of_nat (length b)) @ b0) # es @ rest \<and>
     in_flight es \<and> b = b0 @ concat (map chunk_bytes es))"

lemma stdin_reply_read:
  assumes "arrives b (pipe st)" and "b \<noteq> []" and "length b \<le> 16 * 1024 * 1024"
  shows "\<exists>q. try_read_stdin_reply V st = Some (handle_reply (pe_ei V) b (st\<lparr>pipe := q\<rparr>))"
proof -
  let ?n = "of_nat (length b) :: u32"
  obtain b0 es p where pipe: "pipe st = Chunk (PORTER_COMMAND_CTRL_REPLY # enc32 ?n @ b0) # es @ p"
    and es: "in_flight es" and b: "b = b0 @ concat (map chunk_bytes es)"
    using assms(1) unfolding arrives_def by blast
  have u: "unat ?n = length b" using assms(3) by (simp add: unat_of_nat)
  then have n0: "?n \<noteq> 0" using assms(2) by (metis length_0_conv unat_0)
  have le: "\<not> 16 * 1024 * 1024 < ?n" using assms(3) u by (simp add: word_less_nat_alt)
  define q where "q = (if b0 = [] then es @ p else Chunk b0 # es @ p)"
  have l4: "length (enc32 ?n) = 4" by simp
  then have ne: "enc32 ?n \<noteq> []" by force
  have "pipe_read 1 (pipe st) = (Got [PORTER_COMMAND_CTRL_REPLY], Chunk (enc32 ?n @ b0) # es @ p)"
    using l4 by (auto simp: pipe)
  moreover have "pipe_read 4 (Chunk (enc32 ?n @ b0) # es @ p) = (Got (enc32 ?n), q)"
    using l4 ne by (cases b0) (auto simp: q_def)
  moreover have "\<exists>r. read_body (length b) [] q = Some (Some b, r)"
  proof (cases "b0 = []")
    case True
    then show ?thesis using read_body_chunks [OF es, of "[]" p] by (simp add: q_def b)
  next
    case False
    have "in_flight (Chunk b0 # es)" using es by (simp add: in_flight_def)
    from read_body_chunks [OF this, of "[]" p] False show ?thesis by (simp add: q_def b)
  qed
  ultimately show ?thesis
    using n0 le u by (auto simp: try_read_stdin_reply_def be32_enc32 Let_def)
qed

section \<open>Understanding replies\<close>

text \<open>The line for a message of \<open>wm_pmix:reply_porter/3\<close>, and whether the reference is then forgotten.\<close>

fun reply_line_of :: "string \<Rightarrow> eterm \<Rightarrow> (string \<times> bool) option" where
  "reply_line_of ref (EAtom a) = (if starts_with ''ok'' (c_str a) then Some (''OK '' @ ref, False) else None)"
| "reply_line_of ref (ETuple (EAtom a # EInt n # ts)) =
     (if c_str a = ''done'' then Some (''DONE '' @ dec_int n, True)
      else if c_str a = ''ok'' then Some (''OK '' @ ref, False)
      else if c_str a = ''error'' then Some (''ERR task failed'', True) else None)"
| "reply_line_of ref (ETuple (EAtom a # ts)) =
     (if c_str a = ''ok'' then Some (''OK '' @ ref, False)
      else if c_str a = ''error'' then Some (''ERR task failed'', True) else None)"
| "reply_line_of ref t = None"

text \<open>Messages whose numbers fit a \<open>long\<close>; \<open>done\<close> comes with a number.\<close>

fun msg_ok :: "eterm \<Rightarrow> bool" where
  "msg_ok (ETuple (EAtom a # EInt n # ts)) \<longleftrightarrow> - (2 ^ 63) \<le> n \<and> n < 2 ^ 63"
| "msg_ok (ETuple (EAtom a # ts)) \<longleftrightarrow> c_str a \<noteq> ''done''"
| "msg_ok (EAtom a) \<longleftrightarrow> True"
| "msg_ok t \<longleftrightarrow> False"

context ei_laws begin

lemma reply_msg_atom:
  assumes "enc b i (EAtom a) j"
  shows "reply_msg E b i ref = reply_line_of ref (EAtom a)"
proof -
  obtain sz where "ei_get_type E b i = Some (ERL_ATOM_EXT, sz)" using type_of [OF assms] by auto
  moreover have "starts_with ''ok'' ''ok''" by (simp add: starts_with_def)
  ultimately show ?thesis
    using atom [OF assms] by (auto simp: reply_msg_def is_atom_type_def)
qed

lemma reply_msg_tuple:
  assumes e: "enc b i (ETuple (EAtom a # ts)) j" and ok: "msg_ok (ETuple (EAtom a # ts))"
  shows "reply_msg E b i ref = reply_line_of ref (ETuple (EAtom a # ts))"
proof -
  obtain sz where ty: "ei_get_type E b i = Some (etype (ETuple (EAtom a # ts)), sz)"
    using type_of [OF e] by auto
  obtain k where h: "ei_decode_tuple_header E b i = Some (k, 1 + int (length ts))"
    and ks: "encs enc b k (EAtom a # ts) j" using tuple [OF e] by auto
  then obtain m where a: "enc b k (EAtom a) m" and m: "encs enc b m ts j" by auto
  have at: "ei_decode_atom E b k = Some (m, a)" by (rule atom [OF a])
  note defs = reply_msg_def is_atom_type_def erl_tags
  show ?thesis
  proof (cases "\<exists>n us. ts = EInt n # us")
    case True
    then obtain n us where ts: "ts = EInt n # us" by blast
    with m obtain l where "enc b m (EInt n) l" by auto
    moreover have "- (2 ^ 63) \<le> n" "n < 2 ^ 63" using ok by (simp_all add: ts)
    ultimately have "done_value E b m = n" by (simp add: done_value_def long)
    then show ?thesis using ty h at by (simp add: defs ts)
  next
    case False
    then have "c_str a \<noteq> ''done''"
      and "reply_line_of ref (ETuple (EAtom a # ts)) = (if c_str a = ''ok'' then Some (''OK '' @ ref, False)
        else if c_str a = ''error'' then Some (''ERR task failed'', True) else None)"
      using ok by (cases "(ref, ETuple (EAtom a # ts))" rule: reply_line_of.cases; simp)+
    then show ?thesis using ty h at by (simp add: defs)
  qed
qed

lemma reply_msg_line:
  assumes "enc b i msg j" and "msg_ok msg"
  shows "reply_msg E b i ref = reply_line_of ref msg"
  using assms reply_msg_atom reply_msg_tuple by (cases msg rule: msg_ok.cases) auto

lemma reply_ref_read:
  assumes "enc (external bytes (rep_term ref msg)) 1 (rep_term ref msg) j"
  shows "\<exists>k. reply_ref E (external bytes (rep_term ref msg)) = Some (c_str ref, k) \<and>
    enc (external bytes (rep_term ref msg)) k msg j"
proof -
  let ?b = "external bytes (rep_term ref msg)"
  obtain k where h: "ei_decode_tuple_header E ?b 1 = Some (k, 3)"
    and ks: "encs enc ?b k [EAtom ''porter_rep'', EBin ref, msg] j"
    using tuple assms unfolding rep_term_def by fastforce
  then obtain k1 k2 where a: "enc ?b k (EAtom ''porter_rep'') k1" and r: "enc ?b k1 (EBin ref) k2"
    and m: "enc ?b k2 msg j" by auto
  have v: "ei_decode_version E ?b 0 = Some (1, 131)"
    using version [of 0 ?b] by (simp add: external_def)
  obtain sz where ty: "ei_get_type E ?b k1 = Some (ERL_BINARY_EXT, sz)" using type_of [OF r] by auto
  show ?thesis
    using v h atom [OF a] ty binary [OF r] m by (simp add: reply_ref_def)
qed

lemma handle_reply_line:
  assumes "enc (external bytes (rep_term ref msg)) 1 (rep_term ref msg) j" and "msg_ok msg"
    and "CHR 0x00 \<notin> set ref"
  shows "handle_reply E (external bytes (rep_term ref msg)) st =
    (case om_find ref (pending_refs st) of None \<Rightarrow> st | Some cfd \<Rightarrow>
      (case reply_line_of ref msg of None \<Rightarrow> st | Some (line, forget) \<Rightarrow>
        (act (Reply cfd line) st)
          \<lparr>pending_refs := if forget then om_erase ref (pending_refs st) else pending_refs st\<rparr>))"
proof -
  obtain k where "reply_ref E (external bytes (rep_term ref msg)) = Some (c_str ref, k)"
    "enc (external bytes (rep_term ref msg)) k msg j" using reply_ref_read [OF assms(1)] by blast
  then show ?thesis
    using reply_msg_line [OF _ assms(2)] assms(3)
    by (simp add: handle_reply_def c_str_id split: option.split)
qed

end

section \<open>One request and its replies\<close>

definition args_ok :: "string list \<Rightarrow> bool" where
  "args_ok argv \<longleftrightarrow> argv \<noteq> [] \<and> length argv < 2 ^ 31 \<and>
     (\<forall>a \<in> set argv. a \<noteq> [] \<and> a \<noteq> ''--pmix'' \<and> CHR 0x0A \<notin> set a \<and> length a < 65536)"

lemma parse_spawn_args_ok:
  "args_ok argv \<Longrightarrow> porter_ctrl_parse_spawn (butlast (spawn_request pmix argv)) = (True, pmix, argv)"
proof -
  assume a: "args_ok argv"
  then have "filter (\<lambda>a. a \<noteq> [] \<and> a \<noteq> ''--pmix'') argv = argv" "argv \<noteq> []" "''--pmix'' \<notin> set argv"
    by (auto simp: args_ok_def filter_id_conv)
  then show ?thesis by (simp add: parse_spawn_line Let_def)
qed

lemma ctrl_feed_request:
  assumes "args_ok argv" and "buf @ d = spawn_request pmix argv"
  shows "ctrl_feed buf d = ([], [butlast (spawn_request pmix argv)])"
proof -
  have "CHR 0x0A \<notin> set (butlast (spawn_request pmix argv))"
    by (rule spawn_request_no_newline) (use assms(1) in \<open>auto simp: args_ok_def\<close>)
  from split_lines_message [OF this, of "[]"] show ?thesis
    using spawn_request_line [of pmix argv] by (simp add: ctrl_feed_def assms(2))
qed

definition req_frame :: "(eterm \<Rightarrow> string) \<Rightarrow> string \<Rightarrow> bool \<Rightarrow> string list \<Rightarrow> action" where
  "req_frame bytes ref pmix argv = Out_req (external bytes (porter_req_term ref ''spawn_task'' pmix argv))"

lemma request_step:
  assumes X: "ei_enc_laws (pe_eix V) bytes" and args: "args_ok argv"
    and client: "0 \<le> ctrl_client st" and d: "ctrl_buf st @ d = spawn_request pmix argv" "d \<noteq> []"
    and ref: "ref = make_ref V (refs_made st)" "length ref < 2 ^ 31"
  shows "try_read_ctrl_client V (Ctrl_data d) st =
    st\<lparr>ctrl_buf := [], refs_made := refs_made st + 1,
       pending_refs := om_assign ref (ctrl_client st) (pending_refs st),
       trace := trace st @ [req_frame bytes ref pmix argv]\<rparr>"
proof -
  have "send_porter_req (pe_eix V) ref ''spawn_task'' pmix argv [] =
      (True, external bytes (porter_req_term ref ''spawn_task'' pmix argv))"
    using ei_enc_laws.porter_req_bytes [OF X ref(2), of "''spawn_task''" argv pmix "[]"] args
    by (auto simp: args_ok_def)
  then show ?thesis
    using client d(2) ref(1)
    by (simp add: try_read_ctrl_client_def ctrl_feed_request [OF args d(1)] handle_ctrl_line_def
        parse_spawn_args_ok [OF args] Let_def act_def req_frame_def)
qed

text \<open>
  C24. A request that \<open>swm-task\<close> wrote, complete in the buffer of the control client, makes the
  porter write exactly one \<open>porter_req\<close> frame with a new reference and the arguments, and remember
  that reference for this client.
\<close>

theorem spawn_request_relayed:
  assumes "ei_enc_laws (pe_eix V) bytes" and "args_ok argv" and "0 \<le> ctrl_client st"
    and "ctrl_buf st @ d = spawn_request pmix argv" and "d \<noteq> []"
    and "ref = make_ref V (refs_made st)" and "length ref < 2 ^ 31"
    and "om_ok (pending_refs st)"
  shows "let st' = try_read_ctrl_client V (Ctrl_data d) st in
    trace st' = trace st @ [Out_req (external bytes (porter_req_term ref ''spawn_task'' pmix argv))] \<and>
    om_find ref (pending_refs st') = Some (ctrl_client st) \<and> ctrl_client st' = ctrl_client st \<and>
    ctrl_buf st' = []"
  using om.find_assign [OF assms(8)]
  by (simp add: request_step [OF assms(1-7)] req_frame_def Let_def)

lemma reply_step:
  assumes E: "ei_laws (pe_ei V) enc bytes" and b: "b = external bytes (rep_term ref msg)"
    and enc: "enc b 1 (rep_term ref msg) j"
    and len: "length b \<le> 16 * 1024 * 1024" and arr: "arrives b (pipe st)"
    and msg: "msg_ok msg" "reply_line_of ref msg = Some (line, forget)" and ref: "CHR 0x00 \<notin> set ref"
    and pend: "om_find ref (pending_refs st) = Some cfd"
  shows "\<exists>q. try_read_stdin_reply V st = Some (st\<lparr>pipe := q,
    pending_refs := if forget then om_erase ref (pending_refs st) else pending_refs st,
    trace := trace st @ [Reply cfd line]\<rparr>)"
proof -
  have "b \<noteq> []" by (simp add: b external_def)
  from stdin_reply_read [OF arr this len, of V] obtain q where
    q: "try_read_stdin_reply V st = Some (handle_reply (pe_ei V) b (st\<lparr>pipe := q\<rparr>))" by blast
  show ?thesis
    using ei_laws.handle_reply_line [OF E enc [unfolded b] msg(1) ref, of "st\<lparr>pipe := q\<rparr>"] q pend msg(2)
    by (intro exI [of _ q]) (simp add: b act_def)
qed

text \<open>
  C13. A reply \<open>{porter_rep, Ref, Msg}\<close> to a pending reference, whose five header bytes can be read at
  once and whose body comes in pieces of any size with pauses in between, makes the porter write the line of the message to the client that sent the request; the
  reference is forgotten with \<open>done\<close> and \<open>error\<close>.
\<close>

theorem reply_relayed:
  assumes "ei_laws (pe_ei V) enc bytes" and "b = external bytes (rep_term ref msg)"
    and "enc b 1 (rep_term ref msg) j"
    and "length b \<le> 16 * 1024 * 1024" and "arrives b (pipe st)"
    and "msg_ok msg" and "reply_line_of ref msg = Some (line, forget)" and "CHR 0x00 \<notin> set ref"
    and "om_find ref (pending_refs st) = Some cfd"
  shows "\<exists>q. try_read_stdin_reply V st = Some (st\<lparr>pipe := q,
    pending_refs := if forget then om_erase ref (pending_refs st) else pending_refs st,
    trace := trace st @ [Reply cfd line]\<rparr>)"
  by (rule reply_step [OF assms])

section \<open>The round trip\<close>

text \<open>The bytes that the lines given for a descriptor make a client read.\<close>

fun replies :: "int \<Rightarrow> action list \<Rightarrow> string" where
  "replies fd [] = []"
| "replies fd (Reply f l # as) = (if f = fd then ctrl_line_msg l else []) @ replies fd as"
| "replies fd (_ # as) = replies fd as"

lemma replies_append [simp]: "replies fd (as @ bs) = replies fd as @ replies fd bs"
  by (induction fd as rule: replies.induct) auto

definition metrics_ok :: "penv \<Rightarrow> bool" where
  "metrics_ok V \<longleftrightarrow> (\<forall>S ms lib now. fst (porter_metrics_maybe_send (pe_eix V) S (pe_job V) (pe_cfg V) ms lib now []))"

lemma metrics_off: "sample_interval_ms (pe_cfg V) \<le> 0 \<Longrightarrow> metrics_ok V"
  by (simp add: metrics_ok_def porter_metrics_maybe_send_def)

definition pid_ok :: "penv \<Rightarrow> bool" where
  "pid_ok V \<longleftrightarrow> 0 \<le> pe_child V \<and> pe_child V < 2 ^ 31"

definition same_relay :: "pstate \<Rightarrow> pstate \<Rightarrow> bool" where
  "same_relay st st' \<longleftrightarrow> ctrl_client st' = ctrl_client st \<and> ctrl_buf st' = ctrl_buf st \<and>
     pending_refs st' = pending_refs st \<and> pipe st' = pipe st \<and> refs_made st' = refs_made st \<and>
     (\<forall>fd. replies fd (trace st') = replies fd (trace st)) \<and> (\<exists>as. trace st' = trace st @ as)"

lemma running_turn_same:
  assumes "ei_enc_laws (pe_eix V) bytes" and "metrics_ok V" and "pid_ok V"
  shows "\<exists>st'. running_turn V t st = Goes_on st' \<and> same_relay st st'"
proof -
  let ?p = "process_of V ''R'' (-1) (-1) []"
  have p: "process_ok ?p" using assms(3) by (simp add: process_ok_def process_of_fields pid_ok_def)
  obtain b where s: "send_state V ?p st = (True, act (Out_state ?p b) st)"
    using ei_enc_laws.process_info_bytes [OF assms(1) p, of "[]"] by (simp add: send_state_def)
  let ?st = "act (Out_state ?p b) st"
  obtain ms lib out where m: "porter_metrics_maybe_send (pe_eix V) (t_sys t) (pe_job V) (pe_cfg V)
      (metrics_state ?st) (metrics_lib ?st) (t_now t) [] = (True, ms, lib, out)"
    using assms(2) unfolding metrics_ok_def by (metis prod.collapse)
  show ?thesis
    using s m by (simp add: running_turn_def with_metrics_def same_relay_def act_def)
qed

lemma turn_running:
  assumes "ei_enc_laws (pe_eix V) bytes" and "metrics_ok V" and "pid_ok V"
    and "t_wait t = Still_running" and "relay V (t_accept t) (t_ctrl t) st = Some st1"
  shows "\<exists>st'. turn V t st = Goes_on st' \<and> same_relay st1 st'"
  using running_turn_same [OF assms(1-3), of t st1] assms(4,5) by (simp add: turn_def)


definition ok_msg :: "string \<Rightarrow> eterm" where
  "ok_msg task_id = ETuple [EAtom ''ok'', EBin task_id]"

definition done_msg :: "int \<Rightarrow> eterm" where
  "done_msg code = ETuple [EAtom ''done'', EInt code]"

lemma ok_done_lines:
  "msg_ok (ok_msg t)" "reply_line_of ref (ok_msg t) = Some (''OK '' @ ref, False)"
  "- (2 ^ 31) \<le> c \<Longrightarrow> c < 2 ^ 31 \<Longrightarrow> msg_ok (done_msg c)"
  "reply_line_of ref (done_msg c) = Some (''DONE '' @ dec_int c, True)"
  by (simp_all add: ok_msg_def done_msg_def c_str_def)

text \<open>The reply is in \<open>enc\<close>'s sense a term at index 1 of its bytes, and not too long for the porter.\<close>

definition sendable :: "(string \<Rightarrow> int \<Rightarrow> eterm \<Rightarrow> int \<Rightarrow> bool) \<Rightarrow> (eterm \<Rightarrow> string) \<Rightarrow> eterm \<Rightarrow> bool" where
  "sendable enc bytes t \<longleftrightarrow> (\<exists>j. enc (external bytes t) 1 t j) \<and> length (external bytes t) \<le> 16 * 1024 * 1024"

lemma arrives_whole: "arrives b (Chunk (reply_frame b) # p)"
  unfolding arrives_def reply_frame_def
  by (intro exI [of _ b] exI [of _ "[]"] exI [of _ p]) (simp add: in_flight_def)

lemma idle_read: "try_read_ctrl_client V Ctrl_again st = st"
  by (simp add: try_read_ctrl_client_def)

lemma no_accept: "0 \<le> ctrl_client st \<Longrightarrow> accept_client V a st = st"
  by (simp add: accept_client_def)

lemma pipe_wait: "pipe st = Again # p \<Longrightarrow> try_read_stdin_reply V st = Some (st\<lparr>pipe := p\<rparr>)"
  by (simp add: try_read_stdin_reply_def)

lemma make_ref_chars: "c \<in> set (make_ref V n) \<Longrightarrow> is_digit c \<or> c = CHR ''-''"
  by (auto simp: make_ref_def dec_int_def dest: dec_nat_digits split: if_splits)

lemma make_ref_plain: "CHR 0x00 \<notin> set (make_ref V n)" "CHR 0x0A \<notin> set (make_ref V n)"
  using make_ref_chars by (fastforce simp: is_digit_def)+

lemma read_body_done: "read_body 0 got p = Some (Some got, p)"
  by (cases p) auto

lemma stdin_reply_whole:
  assumes "pipe st = Chunk (reply_frame b) # p" and "b \<noteq> []" and "length b \<le> 16 * 1024 * 1024"
  shows "try_read_stdin_reply V st = Some (handle_reply (pe_ei V) b (st\<lparr>pipe := p\<rparr>))"
proof -
  let ?n = "of_nat (length b) :: u32"
  have u: "unat ?n = length b" using assms(3) by (simp add: unat_of_nat)
  then have n0: "?n \<noteq> 0" using assms(2) by (metis length_0_conv unat_0)
  have le: "\<not> 16 * 1024 * 1024 < ?n" using assms(3) u by (simp add: word_less_nat_alt)
  have l4: "length (enc32 ?n) = 4" by simp
  then have ne: "enc32 ?n \<noteq> []" by force
  have "pipe_read 1 (pipe st) = (Got [PORTER_COMMAND_CTRL_REPLY], Chunk (enc32 ?n @ b) # p)"
    using l4 by (auto simp: assms(1) reply_frame_def)
  moreover have "pipe_read 4 (Chunk (enc32 ?n @ b) # p) = (Got (enc32 ?n), Chunk b # p)"
    using l4 ne assms(2) by auto
  moreover have "read_body (length b) [] (Chunk b # p) = Some (Some b, p)"
    using assms(2) by (simp add: read_body_done)
  ultimately show ?thesis
    using n0 le u by (simp add: try_read_stdin_reply_def be32_enc32 Let_def)
qed

lemma reply_whole:
  assumes E: "ei_laws (pe_ei V) enc bytes" and b: "sendable enc bytes (rep_term ref msg)"
    and p: "pipe st = Chunk (reply_frame (external bytes (rep_term ref msg))) # p"
    and msg: "msg_ok msg" "reply_line_of ref msg = Some (line, forget)" and ref: "CHR 0x00 \<notin> set ref"
    and pend: "om_find ref (pending_refs st) = Some cfd"
  shows "try_read_stdin_reply V st = Some (st\<lparr>pipe := p,
    pending_refs := if forget then om_erase ref (pending_refs st) else pending_refs st,
    trace := trace st @ [Reply cfd line]\<rparr>)"
proof -
  let ?b = "external bytes (rep_term ref msg)"
  obtain j where enc: "enc ?b 1 (rep_term ref msg) j" and len: "length ?b \<le> 16 * 1024 * 1024"
    using b unfolding sendable_def by blast
  have "?b \<noteq> []" by (simp add: external_def)
  from stdin_reply_whole [OF p this len] show ?thesis
    using ei_laws.handle_reply_line [OF E enc msg(1) ref, of "st\<lparr>pipe := p\<rparr>"] pend msg(2)
    by (simp add: act_def)
qed

lemma request_turn:
  assumes X: "ei_enc_laws (pe_eix V) bytes" and V: "metrics_ok V" "pid_ok V" "0 \<le> ctrl_listen V"
    and args: "args_ok argv" and fd: "0 \<le> fd"
    and ref: "ref = make_ref V (refs_made st)" "length ref < 2 ^ 31"
    and t: "t_wait t = Still_running" "t_accept t = Some fd" "t_ctrl t = Ctrl_data (spawn_request pmix argv)"
    and st: "ctrl_client st < 0" "pipe st = Again # p"
  shows "\<exists>st'. turn V t st = Goes_on st' \<and> ctrl_client st' = fd \<and> pipe st' = p \<and>
    pending_refs st' = om_assign ref fd (pending_refs st) \<and>
    req_frame bytes ref pmix argv \<in> set (trace st') \<and> replies fd (trace st') = replies fd (trace st)"
proof -
  let ?sa = "st\<lparr>ctrl_client := fd, ctrl_buf := []\<rparr>"
  have a: "accept_client V (t_accept t) st = ?sa"
    using V(3) fd st t(2) by (simp add: accept_client_def)
  have "spawn_request pmix argv \<noteq> []" by (simp add: spawn_request_def)
  then have c: "try_read_ctrl_client V (t_ctrl t) ?sa =
      ?sa\<lparr>ctrl_buf := [], refs_made := refs_made st + 1, pending_refs := om_assign ref fd (pending_refs st),
        trace := trace st @ [req_frame bytes ref pmix argv]\<rparr>" (is "_ = ?sb")
    using request_step [OF X args, of ?sa "spawn_request pmix argv" pmix ref] fd ref by (simp add: t(3))
  have "pipe ?sb = Again # p" by (simp add: st(2))
  from pipe_wait [OF this] have "relay V (t_accept t) (t_ctrl t) st = Some (?sb\<lparr>pipe := p\<rparr>)"
    by (simp only: relay_def a c)
  from turn_running [OF X V(1,2) t(1) this] obtain st' where
    "turn V t st = Goes_on st'" "same_relay (?sb\<lparr>pipe := p\<rparr>) st'" by blast
  then show ?thesis by (intro exI [of _ st']) (auto simp: same_relay_def req_frame_def)
qed

lemma accept_keeps [simp]:
  "pipe (accept_client V a st) = pipe st" "pending_refs (accept_client V a st) = pending_refs st"
  "trace (accept_client V a st) = trace st" "refs_made (accept_client V a st) = refs_made st"
  by (simp_all add: accept_client_def split: option.split)

lemma reply_turn:
  assumes X: "ei_enc_laws (pe_eix V) bytes" and E: "ei_laws (pe_ei V) enc bytes"
    and V: "metrics_ok V" "pid_ok V" and t: "t_wait t = Still_running" "t_ctrl t = Ctrl_again"
    and b: "sendable enc bytes (rep_term ref msg)"
    and st: "pipe st = Chunk (reply_frame (external bytes (rep_term ref msg))) # p"
    and msg: "msg_ok msg" "reply_line_of ref msg = Some (line, forget)" and ref: "CHR 0x00 \<notin> set ref"
    and pend: "om_find ref (pending_refs st) = Some cfd"
  shows "\<exists>st'. turn V t st = Goes_on st' \<and> ctrl_client st' = ctrl_client (accept_client V (t_accept t) st) \<and>
    pipe st' = p \<and> refs_made st' = refs_made st \<and>
    pending_refs st' = (if forget then om_erase ref (pending_refs st) else pending_refs st) \<and>
    set (trace st) \<subseteq> set (trace st') \<and> replies cfd (trace st') = replies cfd (trace st) @ ctrl_line_msg line"
proof -
  let ?sa = "accept_client V (t_accept t) st"
  have r: "try_read_stdin_reply V ?sa = Some (?sa\<lparr>pipe := p,
      pending_refs := if forget then om_erase ref (pending_refs ?sa) else pending_refs ?sa,
      trace := trace ?sa @ [Reply cfd line]\<rparr>)"
    by (rule reply_whole [OF E b _ msg ref]) (simp_all add: st pend)
  have "relay V (t_accept t) (t_ctrl t) st = try_read_stdin_reply V ?sa"
    by (simp add: relay_def idle_read t(2))
  from turn_running [OF X V t(1) this [unfolded r]] obtain st' where
    "turn V t st = Goes_on st'" and "same_relay (?sa\<lparr>pipe := p,
      pending_refs := if forget then om_erase ref (pending_refs ?sa) else pending_refs ?sa,
      trace := trace ?sa @ [Reply cfd line]\<rparr>) st'" by blast
  then show ?thesis by (intro exI [of _ st']) (auto simp: same_relay_def)
qed

text \<open>
  C2. A request makes the round trip: \<open>swm-task\<close> connects and sends its request, the Erlang side
  sends \<open>{ok, TaskId}\<close> and \<open>{done, Code}\<close> for the reference of the frame it got, and three turns of
  the porter's loop later \<open>swm-task\<close> has read what makes it exit with \<open>Code\<close>.
\<close>

theorem spawn_end_to_end:
  assumes X: "ei_enc_laws (pe_eix V) bytes" and E: "ei_laws (pe_ei V) enc bytes"
    and V: "metrics_ok V" "pid_ok V" "0 \<le> ctrl_listen V"
    and args: "args_ok argv" and fd: "0 \<le> fd" and code: "- (2 ^ 31) \<le> code" "code < 2 ^ 31"
    and ref: "ref = make_ref V 0" "length ref < 2 ^ 31"
    and t1: "t_wait t1 = Still_running" "t_accept t1 = Some fd" "t_ctrl t1 = Ctrl_data (spawn_request pmix argv)"
    and t2: "t_wait t2 = Still_running" "t_ctrl t2 = Ctrl_again"
    and t3: "t_wait t3 = Still_running" "t_ctrl t3 = Ctrl_again"
    and ok: "sendable enc bytes (rep_term ref (ok_msg task_id))"
    and dn: "sendable enc bytes (rep_term ref (done_msg code))"
    and path: "path \<noteq> []" "connect_porter_ctrl socket_ok connect path"
    and ws: "Write_error \<notin> set ws" "length (spawn_request pmix argv) \<le> sum_list (map wrote ws)"
  shows "\<exists>st. parent_loop V [t1, t2, t3] (parent_init
      [Again, Chunk (reply_frame (external bytes (rep_term ref (ok_msg task_id)))),
       Chunk (reply_frame (external bytes (rep_term ref (done_msg code))))]) = Goes_on st \<and>
    req_frame bytes ref pmix argv \<in> set (trace st) \<and>
    run_via_porter (Some path) socket_ok connect ws (map Read_char (replies fd (trace st)) @ rest) pmix argv =
      Some (code, spawn_request pmix argv)"
proof -
  let ?c2 = "Chunk (reply_frame (external bytes (rep_term ref (done_msg code))))"
  let ?c1 = "Chunk (reply_frame (external bytes (rep_term ref (ok_msg task_id))))"
  let ?s0 = "parent_init [Again, ?c1, ?c2]"
  have plain: "CHR 0x00 \<notin> set ref" "CHR 0x0A \<notin> set ref" using make_ref_plain ref(1) by simp_all
  have s0: "ctrl_client ?s0 < 0" "pipe ?s0 = Again # [?c1, ?c2]" "refs_made ?s0 = 0"
    "pending_refs ?s0 = []" "trace ?s0 = []" by (simp_all add: parent_init_def)
  obtain s1 where s1: "turn V t1 ?s0 = Goes_on s1" "ctrl_client s1 = fd" "pipe s1 = [?c1, ?c2]"
    "pending_refs s1 = [(ref, fd)]" "req_frame bytes ref pmix argv \<in> set (trace s1)" "replies fd (trace s1) = []"
    using request_turn [OF X V args fd _ _ t1 s0(1,2), of ref] ref s0 by auto
  obtain s2 where s2: "turn V t2 s1 = Goes_on s2" "ctrl_client s2 = fd" "pipe s2 = [?c2]"
    "pending_refs s2 = [(ref, fd)]" "req_frame bytes ref pmix argv \<in> set (trace s2)"
    "replies fd (trace s2) = ctrl_line_msg (''OK '' @ ref)"
    using reply_turn [OF X E V(1,2) t2 ok s1(3) ok_done_lines(1,2) plain(1), of fd] s1 fd
    by (auto simp: om_find_def no_accept)
  obtain s3 where s3: "turn V t3 s2 = Goes_on s3" "req_frame bytes ref pmix argv \<in> set (trace s3)"
    "replies fd (trace s3) = ctrl_line_msg (''OK '' @ ref) @ ctrl_line_msg (''DONE '' @ dec_int code)"
    using reply_turn [OF X E V(1,2) t3 dn s2(3) ok_done_lines(3) [OF code] ok_done_lines(4) plain(1), of fd]
      s2 fd by (auto simp: om_find_def no_accept)
  have "run_via_porter (Some path) socket_ok connect ws (map Read_char (replies fd (trace s3)) @ rest) pmix argv =
      Some (code, spawn_request pmix argv)"
    using run_done_code [OF path ws, of "[ref]" code rest] plain(2) code by (simp add: s3)
  with s1(1) s2(1) s3(1,2) show ?thesis by simp
qed

section \<open>A porter to run the theorems on\<close>

definition sample_env :: penv where
  "sample_env = \<lparr>pe_eix = etf_eix, pe_ei = etf_ei, pe_pid = 10, pe_child = 11,
     pe_time_rand = (\<lambda>n. (5, int n)), pe_job = SwmJob_init,
     pe_cfg = PorterMetricsConfig_init\<lparr>sample_interval_ms := 0\<rparr>, ctrl_listen = 3, ctrl_path = ''/s/j/ctrl.sock''\<rparr>"

lemma sample_env_sel [simp]:
  "pe_eix sample_env = etf_eix" "pe_ei sample_env = etf_ei" "ctrl_listen sample_env = 3"
  "pe_child sample_env = 11" "ctrl_path sample_env = ''/s/j/ctrl.sock''"
  by (simp_all add: sample_env_def)

lemma sample_env_ok: "metrics_ok sample_env" "pid_ok sample_env"
  by (rule metrics_off, simp add: sample_env_def) (simp add: pid_ok_def)

lemma sample_refs: "make_ref sample_env 0 = ''10-5-0''" "make_ref sample_env 1 = ''10-5-1''"
  by (simp_all add: make_ref_def sample_env_def dec_int_def dec_nat.simps digit_char_def char_of_def bit_0)

definition sample_tick :: "int option \<Rightarrow> ctrl_read \<Rightarrow> wait_result \<Rightarrow> tick" where
  "sample_tick a r w = \<lparr>t_accept = a, t_ctrl = r, t_wait = w, t_sys = sample_system, t_now = 0\<rparr>"

lemma sample_tick_sel [simp]:
  "t_accept (sample_tick a r w) = a" "t_ctrl (sample_tick a r w) = r" "t_wait (sample_tick a r w) = w"
  by (simp_all add: sample_tick_def)

lemma etf_sendable:
  "etf_wf t \<Longrightarrow> length (external etf t) \<le> 16 * 1024 * 1024 \<Longrightarrow> sendable etf_enc etf t"
  unfolding sendable_def by (auto simp: external_def intro!: exI etf_encI [of 1 t _ "[]"])

lemma sample_sendable:
  "sendable etf_enc etf (rep_term ''10-5-0'' (ok_msg ''t1''))"
  "sendable etf_enc etf (rep_term ''10-5-0'' (done_msg 3))"
  by (rule etf_sendable; simp add: rep_term_def ok_msg_def done_msg_def external_def le_bytes.simps)+

lemma spawn_end_to_end_witness:
  "\<exists>st. parent_loop sample_env
      [sample_tick (Some 5) (Ctrl_data (spawn_request False [''ls''])) Still_running,
       sample_tick None Ctrl_again Still_running, sample_tick None Ctrl_again Still_running]
      (parent_init
      [Again, Chunk (reply_frame (external etf (rep_term ''10-5-0'' (ok_msg ''t1'')))),
       Chunk (reply_frame (external etf (rep_term ''10-5-0'' (done_msg 3))))]) = Goes_on st \<and>
    req_frame etf ''10-5-0'' False [''ls''] \<in> set (trace st) \<and>
    run_via_porter (Some ''/c'') True (\<lambda>p. True) [Wrote 100] (map Read_char (replies 5 (trace st)) @ [])
      False [''ls''] = Some (3, spawn_request False [''ls''])"
  by (rule spawn_end_to_end [OF _ _ sample_env_ok _ _ _ _ _ sample_refs(1) [symmetric] _ _ _ _ _ _ _ _ sample_sendable])
    (simp_all add: ei_enc_laws_etf ei_laws_etf args_ok_def connect_porter_ctrl_def wrote_def spawn_request_def)

theorem spawn_request_relayed_witness:
  "let st' = try_read_ctrl_client sample_env (Ctrl_data (''WN ls'' @ [CHR 0x0A]))
      (parent_init []\<lparr>ctrl_client := 5, ctrl_buf := ''SPA''\<rparr>) in
    trace st' = trace (parent_init []\<lparr>ctrl_client := 5, ctrl_buf := ''SPA''\<rparr>) @
      [Out_req (external etf (porter_req_term ''10-5-0'' ''spawn_task'' False [''ls'']))] \<and>
    om_find ''10-5-0'' (pending_refs st') = Some (ctrl_client (parent_init []\<lparr>ctrl_client := 5, ctrl_buf := ''SPA''\<rparr>)) \<and>
    ctrl_client st' = ctrl_client (parent_init []\<lparr>ctrl_client := 5, ctrl_buf := ''SPA''\<rparr>) \<and> ctrl_buf st' = []"
  by (rule spawn_request_relayed)
    (simp_all add: ei_enc_laws_etf args_ok_def parent_init_def sample_refs spawn_request_def om_ok_def)

end
