(* ===== verification/Status_Spec.thy ===== *)
theory Status_Spec
  imports Relay_Spec
begin

text \<open>
  What the parent of the porter reports on the job process: as often as it runs, once when it has
  ended, and what the status word of \<open>waitpid\<close> is turned into. Then two ways in which the relay of
  replies goes wrong.
\<close>

section \<open>The reports on the job process\<close>

fun states :: "action list \<Rightarrow> SwmProcess list" where
  "states [] = []"
| "states (Out_state p b # as) = p # states as"
| "states (_ # as) = states as"

lemma states_append [simp]: "states (as @ bs) = states as @ states bs"
  by (induction as rule: states.induct) auto

lemma states_act [simp]:
  "states (trace (act a st)) = states (trace st) @ (case a of Out_state p b \<Rightarrow> [p] | _ \<Rightarrow> [])"
  by (cases a) (simp_all add: act_def)

lemma states_drop_client [simp]: "states (trace (drop_client st)) = states (trace st)"
  by (simp add: drop_client_def)

lemma states_ctrl_line [simp]: "states (trace (handle_ctrl_line V l st)) = states (trace st)"
  by (simp add: handle_ctrl_line_def Let_def split: prod.split)

lemma states_ctrl_lines [simp]:
  "states (trace (foldl (\<lambda>s l. handle_ctrl_line V l s) st ls)) = states (trace st)"
  by (induction ls arbitrary: st) simp_all

lemma states_ctrl [simp]: "states (trace (try_read_ctrl_client V r st)) = states (trace st)"
  by (simp add: try_read_ctrl_client_def split: ctrl_read.split prod.split)

lemma states_accept [simp]: "states (trace (accept_client V a st)) = states (trace st)"
  by (simp add: accept_client_def split: option.split)

lemma states_handle_reply [simp]: "states (trace (handle_reply E b st)) = states (trace st)"
  by (simp add: handle_reply_def split: option.split prod.split)

lemma states_stdin: "try_read_stdin_reply V st = Some st' \<Longrightarrow> states (trace st') = states (trace st)"
  by (auto simp: try_read_stdin_reply_def Let_def split: prod.splits pipe_result.splits option.splits if_splits)

lemma states_relay: "relay V a r st = Some st' \<Longrightarrow> states (trace st') = states (trace st)"
  by (auto simp: relay_def dest: states_stdin)

definition running_process :: "penv \<Rightarrow> SwmProcess" where
  "running_process V = process_of V ''R'' (-1) (-1) []"

lemma states_with_metrics: "with_metrics r st = (ok, st') \<Longrightarrow> states (trace st') = states (trace st)"
  by (auto simp: with_metrics_def split: prod.splits if_splits)

lemma states_send: "send_state V p st = (ok, st') \<Longrightarrow>
    states (trace st') = states (trace st) @ (if ok then [p] else [])"
  by (auto simp: send_state_def split: prod.splits if_splits)

lemma states_finish [simp]: "states (trace (finish V st)) = states (trace st)"
  by (simp add: finish_def Let_def)

lemma running_turn_states:
  "running_turn V t st = Goes_on st' \<Longrightarrow> states (trace st') = states (trace st) @ [running_process V]"
  unfolding running_turn_def running_process_def
  by (auto split: prod.splits if_splits dest!: states_send states_with_metrics)

lemma running_turn_code: "running_turn V t st \<noteq> Exits 0 st'"
  by (simp add: running_turn_def split: prod.split)

definition final_process :: "penv \<Rightarrow> u32 \<Rightarrow> SwmProcess" where
  "final_process V s = process_of V ''F'' (fst (exit_and_signal s)) (snd (exit_and_signal s)) []"

lemma final_turn_states:
  "final_turn V t s st = Exits 0 st' \<Longrightarrow> states (trace st') = states (trace st) @ [final_process V s]"
  unfolding final_turn_def final_process_def
  by (auto split: prod.splits if_splits dest!: states_send states_with_metrics)

lemma turn_goes_on:
  assumes "turn V t st = Goes_on st'"
  shows "t_wait t = Still_running \<and> states (trace st') = states (trace st) @ [running_process V]"
  using assms running_turn_states
  by (fastforce simp: turn_def error_turn_def final_turn_def
      split: option.splits wait_result.splits prod.splits if_splits dest: states_relay)

lemma turn_exits_0:
  assumes "turn V t st = Exits 0 st'"
  shows "\<exists>s. t_wait t = Child_status s \<and> states (trace st') = states (trace st) @ [final_process V s]"
  using assms running_turn_code final_turn_states
  by (fastforce simp: turn_def error_turn_def
      split: option.splits wait_result.splits prod.splits dest: states_relay)

lemma parent_loop_states:
  assumes "parent_loop V ts st = Exits 0 st'"
  shows "\<exists>us t s. (\<exists>vs. ts = us @ t # vs) \<and> (\<forall>u \<in> set us. t_wait u = Still_running) \<and>
    t_wait t = Child_status s \<and>
    states (trace st') = states (trace st) @ replicate (length us) (running_process V) @ [final_process V s]"
  using assms
proof (induction ts arbitrary: st)
  case (Cons t ts)
  show ?case
  proof (cases "turn V t st")
    case (Goes_on st1)
    from Cons.IH [of st1] Cons.prems Goes_on obtain us v s vs where
      "ts = us @ v # vs" "\<forall>u \<in> set us. t_wait u = Still_running" "t_wait v = Child_status s"
      "states (trace st') = states (trace st1) @ replicate (length us) (running_process V) @ [final_process V s]"
      by auto
    with turn_goes_on [OF Goes_on] show ?thesis
      by (intro exI [of _ "t # us"] exI [of _ v] exI [of _ s]) auto
  next
    case (Exits c st1)
    with Cons.prems turn_exits_0 [of V t st st'] show ?thesis
      by (auto intro!: exI [of _ "[]"])
  qed (use Cons.prems in simp)
qed simp

text \<open>
  C6. A porter that exits with 0 has reported the job process as running once per turn as long as it
  ran, and then, when \<open>waitpid\<close> gave its status, exactly once more as finished with that status.
\<close>

theorem final_report_once:
  assumes "parent_loop V ts (parent_init p) = Exits 0 st"
  shows "\<exists>us t s. (\<exists>vs. ts = us @ t # vs) \<and> (\<forall>u \<in> set us. t_wait u = Still_running) \<and>
    t_wait t = Child_status s \<and>
    states (trace st) = replicate (length us) (process_of V ''R'' (-1) (-1) []) @
      [process_of V ''F'' (fst (exit_and_signal s)) (snd (exit_and_signal s)) []]"
  using parent_loop_states [OF assms]
  by (simp add: parent_init_def running_process_def final_process_def)

lemma exit_and_signal_bounds: "- 1 \<le> fst (exit_and_signal s) \<and> fst (exit_and_signal s) < 2 ^ 32"
  "0 \<le> snd (exit_and_signal s) \<and> snd (exit_and_signal s) < 2 ^ 32"
  using uint_bounded [of "drop_bit 8 (s AND 0xFF00)"] uint_bounded [of "s AND 0x7F"]
  by (auto simp: exit_and_signal_def WEXITSTATUS_def WTERMSIG_def intro: order_trans [OF _ uint_ge_0])

lemma final_turn_exits:
  assumes "ei_enc_laws (pe_eix V) bytes" and "pid_ok V"
  shows "\<exists>st'. final_turn V t s st = Exits 0 st'"
proof -
  let ?p = "process_of V ''F'' (fst (exit_and_signal s)) (snd (exit_and_signal s)) []"
  have "process_ok ?p"
    using assms(2) exit_and_signal_bounds [of s] by (simp add: process_ok_def process_of_fields pid_ok_def)
  note b = ei_enc_laws.process_info_bytes [OF assms(1) this, of "[]"]
  obtain ok st1 where "with_metrics (porter_metrics_flush (pe_eix V) (t_sys t) (pe_job V) (pe_cfg V)
      (metrics_state st) (metrics_lib st) (t_now t) []) st = (ok, st1)" by (metis surj_pair)
  moreover obtain st2 where "send_state V ?p st1 = (True, st2)" by (simp add: send_state_def b)
  ultimately show ?thesis by (simp add: final_turn_def split_def)
qed

text \<open>
  What one turn, and what \<open>n\<close> turns, take from standard input, whatever else they do: \<open>None\<close> when a turn
  begins to read the body of a reply of which not all comes.
\<close>

definition stdin_turn :: "pipe_event list \<Rightarrow> pipe_event list option" where
  "stdin_turn p = (case pipe_read 1 p of
     (Got h, p1) \<Rightarrow> if hd h \<noteq> PORTER_COMMAND_CTRL_REPLY then Some p1 else (case pipe_read 4 p1 of
       (Got l, p2) \<Rightarrow> if length l \<noteq> 4 \<or> be32 l = 0 \<or> 16 * 1024 * 1024 < be32 l then Some p2
         else map_option snd (read_body (unat (be32 l)) [] p2)
     | (_, p2) \<Rightarrow> Some p2)
   | (_, p1) \<Rightarrow> Some p1)"

fun stdin_turns :: "nat \<Rightarrow> pipe_event list \<Rightarrow> pipe_event list option" where
  "stdin_turns 0 p = Some p"
| "stdin_turns (Suc n) p = (case stdin_turn p of None \<Rightarrow> None | Some p' \<Rightarrow> stdin_turns n p')"

lemma stdin_turns_empty: "stdin_turns n [] = Some []"
  by (induction n) (simp_all add: stdin_turn_def)

lemma stdin_turn_try_read: "map_option pipe (try_read_stdin_reply V st) = stdin_turn (pipe st)"
proof -
  have h: "pipe (handle_reply E b st) = pipe st" for E b st
    by (simp add: handle_reply_def act_def split: option.split prod.split)
  show ?thesis
    by (simp add: try_read_stdin_reply_def stdin_turn_def Let_def h split: prod.split pipe_result.split option.split)
qed

lemma relay_pipe: "map_option pipe (relay V a r st) = stdin_turn (pipe st)"
proof -
  have l: "pipe (foldl (\<lambda>s l. handle_ctrl_line V l s) st ls) = pipe st" for st ls
    by (induction ls arbitrary: st) (simp_all add: handle_ctrl_line_def act_def Let_def split: prod.split)
  have "pipe (try_read_ctrl_client V r (accept_client V a st)) = pipe st"
    by (simp add: try_read_ctrl_client_def drop_client_def act_def accept_client_def l
        split: ctrl_read.split prod.split option.split)
  then show ?thesis by (simp add: relay_def stdin_turn_try_read)
qed

text \<open>While the child runs and in the turn after, the loop ends unless a turn never leaves a reply.\<close>

lemma porter_loop_result:
  assumes "ei_enc_laws (pe_eix V) bytes" and "metrics_ok V" and "pid_ok V"
    and "\<forall>u \<in> set us. t_wait u = Still_running" and t: "t_wait t = Child_status s"
  shows "if stdin_turns (Suc (length us)) (pipe st) = None then parent_loop V (us @ t # vs) st = Blocked
    else \<exists>st'. parent_loop V (us @ t # vs) st = Exits 0 st'"
  using assms(4)
proof (induction us arbitrary: st)
  case Nil
  show ?case
  proof (cases "relay V (t_accept t) (t_ctrl t) st")
    case None
    with relay_pipe [of V "t_accept t" "t_ctrl t" st] show ?thesis by (simp add: turn_def)
  next
    case (Some st1)
    with relay_pipe [of V "t_accept t" "t_ctrl t" st] have "stdin_turn (pipe st) = Some (pipe st1)" by simp
    moreover obtain st2 where "final_turn V t s st1 = Exits 0 st2" using final_turn_exits [OF assms(1,3)] by blast
    ultimately show ?thesis using t Some by (simp add: turn_def)
  qed
next
  case (Cons u us)
  show ?case
  proof (cases "relay V (t_accept u) (t_ctrl u) st")
    case None
    with relay_pipe [of V "t_accept u" "t_ctrl u" st] show ?thesis by (simp add: turn_def)
  next
    case (Some st1)
    with relay_pipe [of V "t_accept u" "t_ctrl u" st] have p: "stdin_turn (pipe st) = Some (pipe st1)" by simp
    obtain st2 where st2: "turn V u st = Goes_on st2" "same_relay st1 st2"
      using turn_running [OF assms(1-3) _ Some] Cons.prems by auto
    then have "pipe st2 = pipe st1" by (simp add: same_relay_def)
    then show ?thesis using Cons.IH [of st2] Cons.prems st2(1) p by simp
  qed
qed

lemma porter_ends:
  assumes "ei_enc_laws (pe_eix V) bytes" and "metrics_ok V" and "pid_ok V"
    and "\<forall>u \<in> set us. t_wait u = Still_running" and "t_wait t = Child_status s"
  shows "\<exists>st. parent_loop V (us @ t # vs) (parent_init []) = Exits 0 st"
  using porter_loop_result [OF assms, of "parent_init []" vs]
  by (simp add: parent_init_def stdin_turns_empty del: stdin_turns.simps)

lemma byte_masks: "(0x7F :: u32) = mask 7" "(0xFF :: u32) = mask 8" "(0xFF00 :: u32) = push_bit 8 (mask 8)"
  "(0x80 :: u32) = push_bit 7 1"
  by (simp_all add: mask_eq_exp_minus_1 push_bit_eq_mult)

lemmas word_bits = bit_and_iff bit_or_iff bit_push_bit_iff bit_drop_bit_eq bit_mask_iff

lemma status_shifted:
  "drop_bit 8 (push_bit 8 (c AND 0xFF) AND 0xFF00) = c AND (0xFF :: u32)"
  "push_bit 8 c AND 0x7F = (0 :: u32)"
  "drop_bit 8 ((push_bit 8 (c AND 0xFF) OR 0x7F) AND 0xFF00) = c AND (0xFF :: u32)"
  "(push_bit 8 c OR 0x7F) AND 0x7F = (0x7F :: u32)"
  "(push_bit 8 c OR 0x7F) AND 0xFF = (0x7F :: u32)"
  unfolding byte_masks by (rule bit_word_eqI, simp add: word_bits; fastforce)+

lemma seven_bits: 
  assumes "uint (sig :: u32) < 127" shows "sig AND 0x7F = sig" 
proof -
  have "uint sig < 2 ^ 7" using assms by simp
  then have "take_bit 7 (uint sig) = uint sig" by (simp only: take_bit_int_eq_self uint_ge_0)
  then have "uint (take_bit 7 sig) = uint sig" by (simp only: unsigned_take_bit_eq)
  then have "take_bit 7 sig = sig" by (rule unsigned_word_eqI [where 'a = int])
  then show ?thesis by (simp only: byte_masks(1) take_bit_eq_mask)
qed

lemma core_bits:
  "(sig OR 0x80) AND 0x7F = sig AND (0x7F :: u32)"
  "(x AND 0xFF) AND 0x7F = x AND (0x7F :: u32)"
proof -
  have "\<not> bit (0x80 :: u32) n" if "n < 7" for n
    using that by (auto simp: byte_masks(4) bit_push_bit_iff simp del: push_bit_of_1 push_bit_numeral)
  then show "(sig OR 0x80) AND 0x7F = sig AND (0x7F :: u32)"
    unfolding byte_masks(1) by (intro bit_word_eqI) (auto simp: word_bits)
  show "(x AND 0xFF) AND 0x7F = x AND (0x7F :: u32)"
    unfolding byte_masks by (rule bit_word_eqI) (auto simp: word_bits)
qed

lemma low_seven:
  assumes "uint (sig :: u32) < 127"
  shows "(sig OR (if core then 0x80 else 0)) AND 0x7F = sig"
    and "(sig OR (if core then 0x80 else 0)) AND 0xFF \<noteq> 0x7F"
proof -
  show low: "(sig OR (if core then 0x80 else 0)) AND 0x7F = sig"
    using seven_bits [OF assms] by (simp add: core_bits(1))
  show "(sig OR (if core then 0x80 else 0)) AND 0xFF \<noteq> 0x7F"
  proof
    assume "(sig OR (if core then 0x80 else 0)) AND 0xFF = 0x7F"
    then have "sig = 0x7F AND 0x7F"
      using core_bits(2) [of "sig OR (if core then 0x80 else 0)"] low by simp
    with assms show False by simp
  qed
qed

text \<open>
  C34. The status of a process that called \<open>exit(code)\<close> is reported as that code, that of one killed by
  a signal as -1 with the signal, with or without a core dump. A process that is only stopped, which
  \<open>WUNTRACED\<close> asks \<open>waitpid\<close> to report, is reported like one that was killed: -1 and the signal.
\<close>

theorem wait_status_reported:
  "exit_and_signal (push_bit 8 (code AND 0xFF)) = (uint (code AND 0xFF), 0) \<and>
   (1 \<le> uint sig \<and> uint sig < 127 \<longrightarrow>
     exit_and_signal (sig OR (if core then 0x80 else 0)) = (-1, uint sig)) \<and>
   exit_and_signal (push_bit 8 (stop AND 0xFF) OR 0x7F) = (-1, uint (stop AND 0xFF))"
proof (intro conjI impI)
  have "push_bit 8 (code AND 0xFF) AND 0xFF \<noteq> (0x7F :: u32)"
    using core_bits(2) [of "push_bit 8 (code AND 0xFF)"] status_shifted(2) [of "code AND 0xFF"] by auto
  then show "exit_and_signal (push_bit 8 (code AND 0xFF)) = (uint (code AND 0xFF), 0)"
    by (simp only: exit_and_signal_def WEXITSTATUS_def WTERMSIG_def WIFEXITED_def WIFSIGNALED_def
        WIFSTOPPED_def status_shifted) simp
next
  assume "1 \<le> uint sig \<and> uint sig < 127"
  with low_seven [of sig core] show "exit_and_signal (sig OR (if core then 0x80 else 0)) = (-1, uint sig)"
    by (simp only: exit_and_signal_def WTERMSIG_def WIFEXITED_def WIFSIGNALED_def WIFSTOPPED_def) simp
next
  show "exit_and_signal (push_bit 8 (stop AND 0xFF) OR 0x7F) = (-1, uint (stop AND 0xFF))"
    by (simp only: exit_and_signal_def WEXITSTATUS_def WTERMSIG_def WIFEXITED_def WIFSIGNALED_def
        WIFSTOPPED_def status_shifted) simp
qed

section \<open>Where the relay goes wrong\<close>

text \<open>
  C39. A client that leaves does not take its pending references along. When the next client gets the
  same descriptor, it is told the exit code of a task that it never asked for.
\<close>

theorem stale_reply_to_new_client:
  assumes X: "ei_enc_laws (pe_eix V) bytes" and E: "ei_laws (pe_ei V) enc bytes"
    and V: "metrics_ok V" "pid_ok V" "0 \<le> ctrl_listen V"
    and fd: "ctrl_client st = fd" "0 \<le> fd" and pend: "om_find ref (pending_refs st) = Some fd"
    and ref: "CHR 0x00 \<notin> set ref" and code: "- (2 ^ 31) \<le> code" "code < 2 ^ 31"
    and t1: "t_wait t1 = Still_running" "t_ctrl t1 = Ctrl_data []"
    and t2: "t_wait t2 = Still_running" "t_ctrl t2 = Ctrl_again" "t_accept t2 = Some fd"
    and dn: "sendable enc bytes (rep_term ref (done_msg code))"
    and p: "pipe st = Again # Chunk (reply_frame (external bytes (rep_term ref (done_msg code)))) # p"
  shows "\<exists>st'. parent_loop V [t1, t2] st = Goes_on st' \<and> Close_fd fd \<in> set (trace st') \<and>
    ctrl_client st' = fd \<and> refs_made st' = refs_made st \<and>
    replies fd (trace st') = replies fd (trace st) @ ctrl_line_msg (''DONE '' @ dec_int code)"
proof -
  have d: "try_read_ctrl_client V (t_ctrl t1) (accept_client V (t_accept t1) st) = drop_client st"
    using fd by (simp add: no_accept t1(2) try_read_ctrl_client_def)
  have "pipe (drop_client st) = Again # Chunk (reply_frame (external bytes (rep_term ref (done_msg code)))) # p"
    by (simp add: drop_client_def act_def p)
  from pipe_wait [OF this, of V] have "relay V (t_accept t1) (t_ctrl t1) st =
      Some (drop_client st\<lparr>pipe := Chunk (reply_frame (external bytes (rep_term ref (done_msg code)))) # p\<rparr>)"
    by (simp only: relay_def d)
  from turn_running [OF X V(1,2) t1(1) this] obtain s1 where s1: "turn V t1 st = Goes_on s1"
    "ctrl_client s1 < 0" "om_find ref (pending_refs s1) = Some fd" "refs_made s1 = refs_made st"
    "pipe s1 = Chunk (reply_frame (external bytes (rep_term ref (done_msg code)))) # p"
    "Close_fd fd \<in> set (trace s1)" "replies fd (trace s1) = replies fd (trace st)"
    using fd(1) pend by (auto simp: same_relay_def drop_client_def act_def)
  obtain s2 where s2: "turn V t2 s1 = Goes_on s2" "ctrl_client s2 = ctrl_client (accept_client V (t_accept t2) s1)"
    "refs_made s2 = refs_made s1" "set (trace s1) \<subseteq> set (trace s2)"
    "replies fd (trace s2) = replies fd (trace s1) @ ctrl_line_msg (''DONE '' @ dec_int code)"
    using reply_turn [OF X E V(1,2) t2(1,2) dn s1(5) ok_done_lines(3) [OF code] ok_done_lines(4) ref s1(3)] by blast
  have "ctrl_client s2 = fd" using s2(2) s1(2) V(3) fd(2) by (simp add: accept_client_def t2(3))
  with s1 s2 show ?thesis by auto
qed

text \<open>
  C40. When the five bytes of a reply's header do not arrive together, the reply is lost: the command
  byte is gone, and the next turn takes the first byte of the length for a command.
\<close>

theorem short_header_loses_reply:
  assumes "pipe st = Chunk [PORTER_COMMAND_CTRL_REPLY] # Again # Chunk (enc32 (of_nat (length b)) @ b) # p"
    and "length b < 2 ^ 24"
  shows "\<exists>st1 st2. try_read_stdin_reply V st = Some st1 \<and> try_read_stdin_reply V st1 = Some st2 \<and>
    trace st2 = trace st \<and> pending_refs st2 = pending_refs st \<and>
    pipe st2 = Chunk (drop 1 (enc32 (of_nat (length b))) @ b) # p"
proof -
  let ?n = "of_nat (length b) :: u32"
  let ?st1 = "st\<lparr>pipe := Chunk (enc32 ?n @ b) # p\<rparr>"
  have "unat ?n = length b" using assms(2) by (simp add: unat_of_nat)
  then have "unat (drop_bit 24 ?n) = 0" using assms(2) unfolding unat_drop_bit_eq by (simp add: drop_bit_eq_div)
  then have "drop_bit 24 ?n = 0" by (simp only: unsigned_eq_0_iff)
  then have h: "enc32 ?n = CHR 0x00 # drop 1 (enc32 ?n)" by (simp add: enc32_def char_of_def)
  have 1: "try_read_stdin_reply V st = Some ?st1"
    by (simp add: try_read_stdin_reply_def assms(1))
  have "pipe_read 1 (pipe ?st1) = (Got [CHR 0x00], Chunk (drop 1 (enc32 ?n) @ b) # p)"
    by (subst h) (simp add: enc32_def)
  then have "try_read_stdin_reply V ?st1 = Some (?st1\<lparr>pipe := Chunk (drop 1 (enc32 ?n) @ b) # p\<rparr>)"
    by (simp add: try_read_stdin_reply_def PORTER_COMMAND_CTRL_REPLY_def)
  with 1 show ?thesis by simp
qed

section \<open>On the sample porter\<close>

lemma sample_arrives:
  "arrives (external etf (rep_term ''10-5-0'' (done_msg 3)))
     (pipe (parent_init [Chunk (reply_frame (external etf (rep_term ''10-5-0'' (done_msg 3))))]))"
  by (simp add: parent_init_def arrives_whole)

lemma reply_relayed_witness:
  "\<exists>q. try_read_stdin_reply sample_env (parent_init [Chunk (reply_frame (external etf (rep_term ''10-5-0'' (done_msg 3))))]
        \<lparr>pending_refs := [(''10-5-0'', 5)]\<rparr>) =
     Some (parent_init [Chunk (reply_frame (external etf (rep_term ''10-5-0'' (done_msg 3))))]
        \<lparr>pending_refs := [(''10-5-0'', 5)], pipe := q, 
         pending_refs := if True then om_erase ''10-5-0'' [(''10-5-0'', 5)] else [(''10-5-0'', 5)],
         trace := [] @ [Reply 5 (''DONE '' @ dec_int 3)]\<rparr>)"
proof -
  let ?st = "parent_init [Chunk (reply_frame (external etf (rep_term ''10-5-0'' (done_msg 3))))]
        \<lparr>pending_refs := [(''10-5-0'', 5)]\<rparr>"
  let ?b = "external etf (rep_term ''10-5-0'' (done_msg 3))"
  obtain j where "etf_enc ?b 1 (rep_term ''10-5-0'' (done_msg 3)) j" "length ?b \<le> 16 * 1024 * 1024"
    using sample_sendable(2) unfolding sendable_def by blast
  from reply_relayed [of sample_env etf_enc etf ?b "''10-5-0''" "done_msg 3" j ?st, OF _ refl this _
      ok_done_lines(3,4)] show ?thesis
    by (simp add: ei_laws_etf parent_init_def arrives_whole om_find_def)
qed

lemma sample_runs:
  "\<exists>st. parent_loop sample_env ([sample_tick None Ctrl_again Still_running] @
     sample_tick None Ctrl_again (Child_status 0x100) # []) (parent_init []) = Exits 0 st"
  by (rule porter_ends [OF _ sample_env_ok, where bytes = etf]) (simp_all add: ei_enc_laws_etf)

lemma final_report_once_witness:
  "\<exists>st :: pstate. states (trace st) = [process_of sample_env ''R'' (-1) (-1) [], process_of sample_env ''F'' 1 0 []]"
proof -
  obtain st where st: "parent_loop sample_env [sample_tick None Ctrl_again Still_running,
     sample_tick None Ctrl_again (Child_status 0x100)] (parent_init []) = Exits 0 st"
    using sample_runs by auto
  from final_report_once [OF st] obtain us t s vs where
    r: "[sample_tick None Ctrl_again Still_running, sample_tick None Ctrl_again (Child_status 0x100)] = us @ t # vs"
    "t_wait t = Child_status s" "states (trace st) = replicate (length us) (process_of sample_env ''R'' (-1) (-1) []) @
      [process_of sample_env ''F'' (fst (exit_and_signal s)) (snd (exit_and_signal s)) []]" by blast
  from r(1,2) have "us = [sample_tick None Ctrl_again Still_running] \<and> s = 0x100"
    by (cases us) (auto simp: Cons_eq_append_conv)
  then show ?thesis
    using r(3) by (intro exI [of _ st]) (simp add: exit_and_signal_def WIFEXITED_def WTERMSIG_def WEXITSTATUS_def WIFSTOPPED_def WIFSIGNALED_def)
qed

lemma wait_status_reported_witness:
  "exit_and_signal (11 OR 0x80) = (-1, 11)"
  using wait_status_reported [of 7 11 True 19] by simp

lemma short_header_loses_reply_witness:
  "\<exists>st1 st2. try_read_stdin_reply sample_env (parent_init
      [Chunk [PORTER_COMMAND_CTRL_REPLY], Again, Chunk (enc32 (of_nat (length ''abc'')) @ ''abc'')]) = Some st1 \<and>
    try_read_stdin_reply sample_env st1 = Some st2 \<and> trace st2 = [] \<and> pending_refs st2 = [] \<and>
    pipe st2 = Chunk (drop 1 (enc32 (of_nat (length ''abc''))) @ ''abc'') # []"
  using short_header_loses_reply [of "parent_init [Chunk [PORTER_COMMAND_CTRL_REPLY], Again,
      Chunk (enc32 (of_nat (length ''abc'')) @ ''abc'')]" "''abc''" "[]" sample_env]
  by (simp add: parent_init_def)

definition stale_state :: pstate where
  "stale_state = parent_init [Again, Chunk (reply_frame (external etf (rep_term ''10-5-0'' (done_msg 3))))]
     \<lparr>ctrl_client := 5, pending_refs := [(''10-5-0'', 5)]\<rparr>"

lemma stale_reply_to_new_client_witness:
  "\<exists>st'. parent_loop sample_env [sample_tick None (Ctrl_data []) Still_running,
      sample_tick (Some 5) Ctrl_again Still_running] stale_state = Goes_on st' \<and>
    Close_fd 5 \<in> set (trace st') \<and> ctrl_client st' = 5 \<and> refs_made st' = refs_made stale_state \<and>
    replies 5 (trace st') = replies 5 (trace stale_state) @ ctrl_line_msg (''DONE '' @ dec_int 3)"
  by (rule stale_reply_to_new_client [OF _ _ sample_env_ok _ _ _ _ _ _ _ _ _ _ _ _ sample_sendable(2), where p = "[]"])
    (simp_all add: ei_enc_laws_etf ei_laws_etf stale_state_def parent_init_def om_find_def)

end
