(* ===== verification/Relay_Inv.thy ===== *)
theory Relay_Inv
  imports Relay_Spec
begin

text \<open>
  An invariant of the relay: whom the parent of the porter answers, and how often. It holds in every
  state that the loop comes to, whatever the clients send, the Erlang side replies and the system
  calls return.
\<close>

section \<open>The invariant\<close>

text \<open>A line that ends a request: the task has ended, has failed, or was never asked for.\<close>

definition final_line :: "string \<Rightarrow> bool" where
  "final_line l \<longleftrightarrow> starts_with ''DONE '' l \<or> l = ''ERR task failed'' \<or> l = ''ERR relay failed''"

fun final_reply :: "action \<Rightarrow> bool" where
  "final_reply (Reply c l) = final_line l"
| "final_reply a = False"

definition finals :: "action list \<Rightarrow> nat" where
  "finals as = length (filter final_reply as)"

text \<open>
  \<open>A\<close> are the clients that have been accepted. The store of references is in order, each reference was
  made by the porter and belongs to such a client, only such clients are written to, and no request
  gets a second final line: those written and those to come are at most the requests made.
\<close>

definition relay_inv :: "penv \<Rightarrow> int set \<Rightarrow> pstate \<Rightarrow> bool" where
  "relay_inv V A st \<longleftrightarrow> om_ok (pending_refs st) \<and>
     (\<forall>(r, c) \<in> set (pending_refs st). c \<in> A \<and> (\<exists>n < refs_made st. r = make_ref V n)) \<and>
     (\<forall>c l. Reply c l \<in> set (trace st) \<longrightarrow> c \<in> A) \<and>
     (0 \<le> ctrl_client st \<longrightarrow> ctrl_client st \<in> A) \<and>
     finals (trace st) + length (pending_refs st) \<le> refs_made st"

lemma finals_simps [simp]: "finals [] = 0" "finals (as @ bs) = finals as + finals bs"
  "finals [a] = (if final_reply a then 1 else 0)"
  by (simp_all add: finals_def)

lemma act_fields [simp]:
  "pending_refs (act a st) = pending_refs st" "trace (act a st) = trace st @ [a]"
  "ctrl_client (act a st) = ctrl_client st" "refs_made (act a st) = refs_made st"
  "ctrl_buf (act a st) = ctrl_buf st" "pipe (act a st) = pipe st"
  by (simp_all add: act_def)

lemma om_assign_set: "set (om_assign k v m) \<subseteq> insert (k, v) (set m)"
  by (induction k v m rule: om_assign.induct) auto

lemma om_assign_length: "length (om_assign k v m) \<le> Suc (length m)"
  by (induction k v m rule: om_assign.induct) auto

lemma om_erase_assign_length: "length (om_erase k (om_assign k v m)) \<le> length m"
  by (induction k v m rule: om_assign.induct) (auto simp: om_erase_def le_SucI)

lemma om_erase_length: "om_find k m = Some v \<Longrightarrow> length (om_erase k m) < length m"
proof (induction m)
  case (Cons p m)
  have "length (filter (\<lambda>p. fst p \<noteq> k) m) < Suc (length m)"
    by (rule le_imp_less_Suc [OF length_filter_le])
  with Cons show ?case by (cases p) (auto simp: om_find_def om_erase_def split: if_splits)
qed (simp add: om_find_def)

lemma om_find_set: "om_find k m = Some v \<Longrightarrow> (k, v) \<in> set m"
  by (simp add: om_find_def map_of_SomeD)

section \<open>Every operation keeps it\<close>

lemma inv_act:
  "relay_inv V A st \<Longrightarrow> \<not> final_reply a \<Longrightarrow> (\<And>c l. a = Reply c l \<Longrightarrow> c \<in> A) \<Longrightarrow> relay_inv V A (act a st)"
  by (auto simp: relay_inv_def)

lemma inv_irrelevant:
  "relay_inv V A st \<Longrightarrow> pending_refs st' = pending_refs st \<Longrightarrow> trace st' = trace st \<Longrightarrow>
   ctrl_client st' = ctrl_client st \<Longrightarrow> refs_made st' = refs_made st \<Longrightarrow> relay_inv V A st'"
  by (simp add: relay_inv_def)

lemma inv_pending:
  "relay_inv V A st \<Longrightarrow> (r, c) \<in> set (pending_refs st) \<Longrightarrow> c \<in> A \<and> (\<exists>n < refs_made st. r = make_ref V n)"
  unfolding relay_inv_def by (elim conjE, drule (1) bspec) simp

lemma inv_drop_client: "relay_inv V A st \<Longrightarrow> relay_inv V A (drop_client st)"
  by (auto simp: relay_inv_def drop_client_def)

lemma inv_accept:
  "relay_inv V A st \<Longrightarrow> (\<And>c. a = Some c \<Longrightarrow> 0 \<le> c \<Longrightarrow> c \<in> A) \<Longrightarrow> relay_inv V A (accept_client V a st)"
  by (auto simp: relay_inv_def accept_client_def split: option.splits)

lemma inv_new_ref:
  assumes "relay_inv V A st" and "0 \<le> ctrl_client st"
  defines "ref \<equiv> make_ref V (refs_made st)"
  shows "relay_inv V A (st\<lparr>refs_made := refs_made st + 1,
    pending_refs := om_assign ref (ctrl_client st) (pending_refs st)\<rparr>)"
    and "relay_inv V A ((act (Reply (ctrl_client st) ''ERR relay failed'') (st\<lparr>refs_made := refs_made st + 1,
      pending_refs := om_assign ref (ctrl_client st) (pending_refs st)\<rparr>))
      \<lparr>pending_refs := om_erase ref (om_assign ref (ctrl_client st) (pending_refs st))\<rparr>)"
proof -
  let ?m = "pending_refs st" and ?m' = "om_assign ref (ctrl_client st) (pending_refs st)"
  have ok: "om_ok ?m'" "om_ok (om_erase ref ?m')"
    using assms(1) by (simp_all add: relay_inv_def om_ok_assign om_ok_erase)
  have old: "c \<in> A \<and> (\<exists>n < refs_made st + 1. r = make_ref V n)" if "(r, c) \<in> set ?m" for r c
  proof -
    obtain n where "c \<in> A" "n < refs_made st" "r = make_ref V n"
      using inv_pending [OF assms(1) \<open>(r, c) \<in> set ?m\<close>] by blast
    moreover from this have "n < refs_made st + 1" by simp
    ultimately show ?thesis by blast
  qed
  have new: "ctrl_client st \<in> A" using assms(1,2) unfolding relay_inv_def by blast
  have all: "\<forall>(r, c) \<in> set ?m'. c \<in> A \<and> (\<exists>n < refs_made st + 1. r = make_ref V n)"
  proof (rule ballI)
    fix x assume "x \<in> set ?m'"
    then consider "x = (ref, ctrl_client st)" | "x \<in> set ?m"
      using om_assign_set [of ref "ctrl_client st" ?m] by blast
    then show "case x of (r, c) \<Rightarrow> c \<in> A \<and> (\<exists>n < refs_made st + 1. r = make_ref V n)"
    proof cases
      case 1
      then show ?thesis using new unfolding ref_def by auto
    next
      case 2
      then show ?thesis using old [of "fst x" "snd x"] by (simp add: case_prod_unfold)
    qed
  qed
  moreover have "set (om_erase ref ?m') \<subseteq> set ?m'" by (auto simp: om_erase_def)
  ultimately have all': "\<forall>(r, c) \<in> set (om_erase ref ?m'). c \<in> A \<and> (\<exists>n < refs_made st + 1. r = make_ref V n)"
    by blast
  have len: "length ?m' \<le> Suc (length ?m)" "length (om_erase ref ?m') \<le> length ?m"
    by (rule om_assign_length, rule om_erase_assign_length)
  show "relay_inv V A (st\<lparr>refs_made := refs_made st + 1, pending_refs := ?m'\<rparr>)"
    using assms(1) ok(1) all len(1) unfolding relay_inv_def by simp
  show "relay_inv V A ((act (Reply (ctrl_client st) ''ERR relay failed'') (st\<lparr>refs_made := refs_made st + 1,
      pending_refs := ?m'\<rparr>))\<lparr>pending_refs := om_erase ref ?m'\<rparr>)"
    using assms(1,2) ok(2) all' len(2) unfolding relay_inv_def by (auto simp: final_line_def)
qed

lemma inv_ctrl_line:
  assumes "relay_inv V A st" and "0 \<le> ctrl_client st"
  shows "relay_inv V A (handle_ctrl_line V l st) \<and> ctrl_client (handle_ctrl_line V l st) = ctrl_client st"
proof -
  obtain ok pmix argv where p: "porter_ctrl_parse_spawn l = (ok, pmix, argv)" by (cases "porter_ctrl_parse_spawn l") auto
  obtain sent b where s: "send_porter_req (pe_eix V) (make_ref V (refs_made st)) ''spawn_task'' pmix argv [] = (sent, b)"
    by (metis surj_pair)
  have "relay_inv V A (act (Reply (ctrl_client st) ''ERR bad SPAWN line'') st)"
    using assms by (intro inv_act) (auto simp: relay_inv_def final_line_def starts_with_def)
  moreover note inv_act [OF inv_new_ref(1) [OF assms], of "Out_req b"] inv_new_ref(2) [OF assms]
  ultimately show ?thesis
    using assms(2) by (simp add: handle_ctrl_line_def p s Let_def)
qed

lemma inv_ctrl_lines:
  "relay_inv V A st \<Longrightarrow> 0 \<le> ctrl_client st \<Longrightarrow> relay_inv V A (foldl (\<lambda>s l. handle_ctrl_line V l s) st ls)"
  by (induction ls arbitrary: st) (simp_all add: inv_ctrl_line)

lemma inv_ctrl:
  assumes "relay_inv V A st"
  shows "relay_inv V A (try_read_ctrl_client V r st)"
proof (cases "ctrl_client st < 0")
  case True
  with assms show ?thesis by (simp add: try_read_ctrl_client_def)
next
  case False
  show ?thesis
  proof (cases r)
    case (Ctrl_data d)
    obtain buf ls where f: "ctrl_feed (ctrl_buf st) d = (buf, ls)" by (metis surj_pair)
    have "relay_inv V A (st\<lparr>ctrl_buf := buf\<rparr>)" using assms by (rule inv_irrelevant) simp_all
    then have "relay_inv V A (foldl (\<lambda>s l. handle_ctrl_line V l s) (st\<lparr>ctrl_buf := buf\<rparr>) ls)"
      using False by (intro inv_ctrl_lines) simp_all
    moreover have "try_read_ctrl_client V r st = (if d = [] then drop_client st
        else foldl (\<lambda>s l. handle_ctrl_line V l s) (st\<lparr>ctrl_buf := buf\<rparr>) ls)"
      using False by (simp add: try_read_ctrl_client_def Ctrl_data f)
    ultimately show ?thesis using inv_drop_client [OF assms] by simp
  qed (use assms inv_drop_client [OF assms] False in \<open>simp_all add: try_read_ctrl_client_def\<close>)
qed

lemma final_lines: "final_line (''DONE '' @ c)" "\<not> final_line (''OK '' @ r)" "final_line ''ERR task failed''"
  by (simp_all add: final_line_def starts_with_def)

lemmas final_lines_Cons [simp] = final_lines [unfolded append_Cons append_Nil]

lemma reply_msg_final: "reply_msg E b i ref = Some (line, forget) \<Longrightarrow> forget = final_line line"
  unfolding reply_msg_def
  by (simp only: split: option.split_asm prod.split_asm if_split_asm) auto

lemma inv_handle_reply:
  assumes "relay_inv V A st"
  shows "relay_inv V A (handle_reply E b st)"
proof (cases "reply_ref E b")
  case None
  with assms show ?thesis by (simp add: handle_reply_def)
next
  case (Some ri)
  obtain ref i where ri: "ri = (ref, i)" by (metis surj_pair)
  show ?thesis
  proof (cases "om_find ref (pending_refs st) = None \<or> reply_msg E b i ref = None")
    case True
    then show ?thesis using assms by (auto simp: handle_reply_def Some ri split: option.split)
  next
    case False
    then obtain cfd line forget where f: "om_find ref (pending_refs st) = Some cfd"
      and m: "reply_msg E b i ref = Some (line, forget)" by (metis not_None_eq surj_pair)
    have A: "cfd \<in> A" using inv_pending [OF assms om_find_set [OF f]] by simp
    have step: "handle_reply E b st = (act (Reply cfd line) st)
        \<lparr>pending_refs := if forget then om_erase ref (pending_refs st) else pending_refs st\<rparr>"
      by (simp add: handle_reply_def Some ri f m)
    show ?thesis
    proof (cases forget)
      case True
      have "set (om_erase ref (pending_refs st)) \<subseteq> set (pending_refs st)" by (auto simp: om_erase_def)
      moreover have "om_ok (om_erase ref (pending_refs st))" using assms by (simp add: relay_inv_def om_ok_erase)
      ultimately show ?thesis
        using assms A om_erase_length [OF f] reply_msg_final [OF m] True
        unfolding step relay_inv_def by auto
    next
      case False
      then have "relay_inv V A (act (Reply cfd line) st)"
        using inv_act [OF assms, of "Reply cfd line"] A reply_msg_final [OF m] by simp
      then show ?thesis unfolding step by (rule inv_irrelevant) (simp_all add: False)
    qed
  qed
qed

lemma inv_stdin:
  assumes "relay_inv V A st" and "try_read_stdin_reply V st = Some st'"
  shows "relay_inv V A st'"
proof -
  have p: "relay_inv V A (st\<lparr>pipe := q\<rparr>)" for q using assms(1) by (rule inv_irrelevant) simp_all
  with inv_handle_reply [OF p] assms(2) show ?thesis
    by (auto simp: try_read_stdin_reply_def Let_def split: prod.splits pipe_result.splits option.splits if_splits)
qed

lemma inv_relay:
  assumes "relay_inv V A st" and "\<And>c. a = Some c \<Longrightarrow> 0 \<le> c \<Longrightarrow> c \<in> A" and "relay V a r st = Some st'"
  shows "relay_inv V A st'"
  using inv_stdin [OF inv_ctrl [OF inv_accept [OF assms(1,2)]]] assms(3) unfolding relay_def by blast

lemma inv_send: "relay_inv V A st \<Longrightarrow> send_state V p st = (ok, st') \<Longrightarrow> relay_inv V A st'"
  by (auto simp: send_state_def intro: inv_act split: prod.splits if_splits)

lemma inv_metrics:
  assumes "relay_inv V A st" and "with_metrics r st = (ok, st')"
  shows "relay_inv V A st'"
proof -
  obtain k ms lib b where r: "r = (k, ms, lib, b)" by (metis surj_pair)
  have "relay_inv V A (if b = [] then st else act (Out_metrics b) st)"
    using assms(1) inv_act [OF assms(1), of "Out_metrics b"] by simp
  then show ?thesis by (rule inv_irrelevant) (use assms(2) r in \<open>auto simp: with_metrics_def\<close>)
qed

lemma inv_finish: "relay_inv V A st \<Longrightarrow> relay_inv V A (finish V st)"
  by (auto simp: finish_def Let_def intro!: inv_act)

section \<open>The loop\<close>

text \<open>The state that a turn leaves, if it ends.\<close>

fun turn_state :: "turn \<Rightarrow> pstate option" where
  "turn_state (Goes_on st) = Some st"
| "turn_state (Exits c st) = Some st"
| "turn_state Blocked = None"

definition clients :: "tick list \<Rightarrow> int set" where
  "clients ts = {c. \<exists>t \<in> set ts. t_accept t = Some c \<and> 0 \<le> c}"

lemma inv_turn:
  assumes inv: "relay_inv V A st" and acc: "\<And>c. t_accept t = Some c \<Longrightarrow> 0 \<le> c \<Longrightarrow> c \<in> A"
    and st': "turn_state (turn V t st) = Some st'"
  shows "relay_inv V A st'"
proof -
  obtain st1 where r: "relay V (t_accept t) (t_ctrl t) st = Some st1"
    using st' by (auto simp: turn_def split: option.splits)
  note i = inv_relay [OF inv acc r]
  show ?thesis
  proof (cases "t_wait t")
    case Wait_error
    then show ?thesis
      using st' i by (auto simp: turn_def r error_turn_def split: prod.splits elim: inv_send)
  next
    case Still_running
    then show ?thesis
      using st' i by (auto simp: turn_def r running_turn_def split: prod.splits if_splits dest: inv_send inv_metrics)
  next
    case (Child_status s)
    then show ?thesis
      using st' i by (auto simp: turn_def r final_turn_def split: prod.splits if_splits
          dest: inv_send inv_metrics intro: inv_finish)
  qed
qed

lemma inv_loop:
  assumes "relay_inv V A st" and "clients ts \<subseteq> A" and "turn_state (parent_loop V ts st) = Some st'"
  shows "relay_inv V A st'"
  using assms
proof (induction ts arbitrary: st)
  case (Cons t ts)
  have "c \<in> A" if "t_accept t = Some c" "0 \<le> c" for c
    using Cons.prems(2) that by (auto simp: clients_def)
  note step = inv_turn [OF Cons.prems(1) this]
  have rest: "clients ts \<subseteq> A" using Cons.prems(2) by (auto simp: clients_def)
  show ?case
  proof (cases "turn V t st")
    case (Goes_on st1)
    with step [of t st1] Cons.IH [OF _ rest, of st1] Cons.prems(3) show ?thesis by simp
  next
    case (Exits c st1)
    with step [of t st1] Cons.prems(3) show ?thesis by simp
  qed (use Cons.prems(3) in simp)
qed simp

text \<open>
  C11. In every state that the parent's loop comes to, running or at its end: each pending reference
  was made by the porter for a client that it had accepted, every line it ever wrote to a client
  went to an accepted one, and there are at most as many final lines as requests, so that no
  request is answered twice.
\<close>

theorem relay_answers_once:
  assumes "turn_state (parent_loop V ts (parent_init p)) = Some st"
  shows "om_ok (pending_refs st) \<and>
    (\<forall>(r, c) \<in> set (pending_refs st). c \<in> clients ts \<and> (\<exists>n < refs_made st. r = make_ref V n)) \<and>
    (\<forall>c l. Reply c l \<in> set (trace st) \<longrightarrow> c \<in> clients ts) \<and>
    finals (trace st) + length (pending_refs st) \<le> refs_made st"
proof -
  have "relay_inv V (clients ts) (parent_init p)" by (simp add: relay_inv_def parent_init_def om_ok_def)
  from inv_loop [OF this subset_refl assms] show ?thesis by (simp add: relay_inv_def)
qed

text \<open>A client asks for a task, the task ends, and the client has read its one final line.\<close>

lemma sample_asked_and_done:
  "\<exists>st. parent_loop sample_env [sample_tick (Some 5) (Ctrl_data (spawn_request False [''ls''])) Still_running,
       sample_tick None Ctrl_again Still_running]
      (parent_init [Again, Chunk (reply_frame (external etf (rep_term ''10-5-0'' (done_msg 3))))]) = Goes_on st \<and>
    replies 5 (trace st) = ctrl_line_msg (''DONE '' @ dec_int 3) \<and> pending_refs st = []"
    (is "\<exists>st. parent_loop _ [?t1, ?t2] (parent_init [Again, ?c]) = _ \<and> _")
proof -
  obtain s1 where s1: "turn sample_env ?t1 (parent_init [Again, ?c]) = Goes_on s1" "ctrl_client s1 = 5"
    "pipe s1 = [?c]" "pending_refs s1 = [(''10-5-0'', 5)]" "replies 5 (trace s1) = []"
    using request_turn [of sample_env etf "[''ls'']" 5 "''10-5-0''" "parent_init [Again, ?c]" ?t1 False "[?c]"]
      sample_env_ok sample_refs
    by (auto simp: ei_enc_laws_etf args_ok_def parent_init_def)
  have "\<exists>st. turn sample_env ?t2 s1 = Goes_on st \<and> replies 5 (trace st) = ctrl_line_msg (''DONE '' @ dec_int 3) \<and>
      pending_refs st = []"
    using reply_turn [OF _ _ sample_env_ok _ _ sample_sendable(2) s1(3) ok_done_lines(3) ok_done_lines(4), of ?t2 5]
      s1 by (auto simp: ei_enc_laws_etf ei_laws_etf om_find_def om_erase_def)
  with s1(1) show ?thesis by auto
qed

lemma relay_answers_once_witness:
  "\<exists>st :: pstate. replies 5 (trace st) = ctrl_line_msg (''DONE '' @ dec_int 3) \<and> pending_refs st = [] \<and>
    (\<forall>c l. Reply c l \<in> set (trace st) \<longrightarrow> c \<in> {5}) \<and> finals (trace st) \<le> refs_made st"
proof -
  let ?ts = "[sample_tick (Some 5) (Ctrl_data (spawn_request False [''ls''])) Still_running,
       sample_tick None Ctrl_again Still_running]"
  obtain st where st: "turn_state (parent_loop sample_env ?ts (parent_init
      [Again, Chunk (reply_frame (external etf (rep_term ''10-5-0'' (done_msg 3))))])) = Some st"
    "replies 5 (trace st) = ctrl_line_msg (''DONE '' @ dec_int 3)" "pending_refs st = []"
    using sample_asked_and_done by auto
  have "clients ?ts = {5}" by (auto simp: clients_def)
  with relay_answers_once [OF st(1)] st(2,3) show ?thesis by auto
qed

end
