(* ===== verification/Porter_Env.thy ===== *)
theory Porter_Env
  imports Safe_File Porter_Priv Job
begin

text \<open>
  What the child of the porter does between \<open>fork\<close> and \<open>execve\<close>, lines 53 to 120 and 164 to 417
  of \<open>porter/porter.cpp\<close>: it saves the script of the job, makes the directories and log files,
  builds the environment, becomes the user of the job, puts the log files in the place of its standard
  output and error, and runs the script with \<open>/bin/sh\<close>. The file system is the parameter \<open>posix\<close>,
  the credential calls \<open>cred\<close>, the table of descriptors and \<open>execve\<close> are functions. A function that may
  end the process gives \<open>Inl\<close> the exit code.
\<close>

section \<open>Exit codes\<close>

definition EXIT_SUCCESS :: int where "EXIT_SUCCESS = 0"
definition EXIT_FAILURE :: int where "EXIT_FAILURE = 1"
definition EXIT_SYSTEM_ERROR :: int where "EXIT_SYSTEM_ERROR = 100"
definition EXIT_USER_NOT_FOUND :: int where "EXIT_USER_NOT_FOUND = 103"
definition EXIT_FILE_ERROR :: int where "EXIT_FILE_ERROR = 104"

section \<open>The environment of the job\<close>

text \<open>
  \<open>setenv(name, value, 1)\<close> fails on a name that is empty or holds \<open>=\<close>; its result is not looked at.
\<close>

type_synonym env = "string \<Rightarrow> string option"

definition setenv :: "string \<Rightarrow> string \<Rightarrow> env \<Rightarrow> env" where
  "setenv n v e = (let n' = c_str n in
     if n' = [] \<or> CHR ''='' \<in> set n' then e else e(n' \<mapsto> c_str v))"

record passwd =
  pw_name :: string
  pw_dir :: string
  pw_uid :: uid
  pw_gid :: uid

fun ports_of_properties :: "ei \<Rightarrow> (string \<times> string) list \<Rightarrow> string option" where
  "ports_of_properties E [] = None"
| "ports_of_properties E ((k, buf) # ps) =
     (if k \<noteq> ''value'' then ports_of_properties E ps
      else case ei_buffer_to_str E buf 0 [] of (ok, _, value) \<Rightarrow>
        if ok then Some value else ports_of_properties E ps)"

fun ports_of_resources :: "ei \<Rightarrow> SwmResource list \<Rightarrow> string" where
  "ports_of_resources E [] = []"
| "ports_of_resources E (r # rs) =
     (if resource_name r \<noteq> ''ports'' then ports_of_resources E rs
      else case ports_of_properties E (resource_properties r) of
        Some value \<Rightarrow> value | None \<Rightarrow> ports_of_resources E rs)"

definition ports_from_request :: "ei \<Rightarrow> SwmJob \<Rightarrow> string" where
  "ports_from_request E job = ports_of_resources E (job_request job)"

text \<open>\<open>exe\<close> is what \<open>readlink\<close> gives for \<open>/proc/self/exe\<close>, \<open>None\<close> when that is nothing.\<close>

definition swm_path_dirs :: "string option \<Rightarrow> string list" where
  "swm_path_dirs exe = ''/opt/swm/current/bin'' #
     (case exe of None \<Rightarrow> [] | Some e \<Rightarrow>
       (case str_rfind CHR ''/'' e of None \<Rightarrow> [] | Some slash \<Rightarrow>
         if 0 < slash \<and> str_substr e 0 slash \<noteq> ''/opt/swm/current/bin'' then [str_substr e 0 slash] else []))"

definition add_dir :: "string \<Rightarrow> string \<Rightarrow> string" where
  "add_dir path dir = (if path = [] then [] else path @ '':'') @ dir"

definition job_path :: "string \<Rightarrow> string option \<Rightarrow> string option \<Rightarrow> string" where
  "job_path cwd exe old_path = (let
     path = foldl add_dir cwd (swm_path_dirs exe)
     in case old_path of None \<Rightarrow> path | Some p \<Rightarrow> if p = [] then path else add_dir path p)"

definition yes_no :: "string \<Rightarrow> string" where
  "yes_no s = (if s = ''true'' then ''YES'' else ''NO'')"

text \<open>The variables that the porter sets from the job, in the order of the source.\<close>

definition swm_exports :: "ei \<Rightarrow> SwmJob \<Rightarrow> (string \<times> string) list" where
  "swm_exports E job = [
     (''SWM_JOB_ID'', job_id job),
     (''SWM_JOB_NAME'', job_name job),
     (''SWM_JOB_ACCOUNT'', job_account_id job),
     (''SWM_JOB_NODES'', join_csv (job_nodes job)),
     (''SWM_JOB_NODES_NUMBER'', dec_nat (length (job_nodes job))),
     (''SWM_JOB_COMMENT'', job_comment job),
     (''SWM_JOB_INPUT_FILES'', join_csv (job_input_files job)),
     (''SWM_JOB_OUTPUT_FILES'', join_csv (job_output_files job)),
     (''SWM_JOB_PORTS'', ports_from_request E job),
     (''SWM_RELOCATABLE'', yes_no (job_relocatable job)),
     (''SWM_KEEP_RESOURCES'', yes_no (job_keep_resources job))]"

definition setenvs :: "(string \<times> string) list \<Rightarrow> env \<Rightarrow> env" where
  "setenvs kvs e = foldl (\<lambda>e (k, v). setenv k v e) e kvs"

definition set_env :: "ei \<Rightarrow> string option \<Rightarrow> passwd \<Rightarrow> SwmJob \<Rightarrow> string \<Rightarrow> env \<Rightarrow> env" where
  "set_env E exe pw job ctrl_path e = (let
     cwd = job_workdir job;
     e1 = setenv ''USER'' (pw_name pw) (setenv ''HOME'' (pw_dir pw) e);
     e2 = setenvs (filter (\<lambda>kv. fst kv \<noteq> []) (job_env job)) e1;
     e3 = setenvs (swm_exports E job) e2;
     e4 = (if ctrl_path \<noteq> [] then setenv ''SWM_PORTER_CTRL'' ctrl_path e3 else e3);
     e5 = setenv ''PATH'' (job_path cwd exe (e4 ''PATH'')) e4
     in if cwd \<noteq> [] then setenv ''PWD'' cwd e5 else e5)"

section \<open>Log files\<close>

text \<open>
  \<open>task_num\<close> is the value of \<open>SWM_PMIX_RANK\<close>. The suffix of a task goes before the last dot of the
  whole path.
\<close>

definition replace_job_id :: "string \<Rightarrow> string \<Rightarrow> string" where
  "replace_job_id path jid = (case str_find ''%j'' path of None \<Rightarrow> path
     | Some pos \<Rightarrow> str_substr path 0 pos @ jid @ drop (pos + 2) path)"

definition add_task :: "string option \<Rightarrow> string \<Rightarrow> string" where
  "add_task task_num path = (case task_num of None \<Rightarrow> path | Some n \<Rightarrow>
     if n = [] then path
     else case str_rfind CHR ''.'' path of
       None \<Rightarrow> path @ ''-task'' @ n
     | Some dot \<Rightarrow> str_substr path 0 dot @ ''-task'' @ n @ drop dot path)"

definition job_log_path :: "string \<Rightarrow> string \<Rightarrow> string option \<Rightarrow> string" where
  "job_log_path path jid task_num = add_task task_num (replace_job_id path jid)"

definition open_job_log_fd :: "'w posix \<Rightarrow> string \<Rightarrow> string \<Rightarrow> 'w \<Rightarrow> (int + int) \<times> 'w" where
  "open_job_log_fd P path jid w =
     (if path = [] then (Inr (-1), w)
      else case px_open_append P (job_log_path path jid (px_getenv P ''SWM_PMIX_RANK'' w)) 420 w of
        (None, w') \<Rightarrow> (Inl EXIT_FILE_ERROR, w') | (Some fd, w') \<Rightarrow> (Inr fd, w'))"

definition open_job_logs :: "'w posix \<Rightarrow> SwmJob \<Rightarrow> 'w \<Rightarrow> (int + int \<times> int) \<times> 'w" where
  "open_job_logs P job w = (case open_job_log_fd P (job_stdout job) (job_id job) w of
     (Inl c, w1) \<Rightarrow> (Inl c, w1)
   | (Inr out_fd, w1) \<Rightarrow> (case open_job_log_fd P (job_stderr job) (job_id job) w1 of
       (Inl c, w2) \<Rightarrow> (Inl c, w2) | (Inr err_fd, w2) \<Rightarrow> (Inr (out_fd, err_fd), w2)))"

section \<open>Script, directories and log files on disk\<close>

definition save_script ::
  "'w posix \<Rightarrow> SwmJob \<Rightarrow> uid \<Rightarrow> uid \<Rightarrow> string \<Rightarrow> 'w \<Rightarrow> ((int + string) \<times> 'w) option" where
  "save_script P job u g content w = (let
     made = (if job_runtime_dir P w (job_id job) \<noteq> [] then (Inr (job_runtime_dir P w (job_id job)), w)
       else case px_mkdtemp P ''/tmp/swm-job-XXXXXX'' w of
         (None, w1) \<Rightarrow> (Inl EXIT_FAILURE, w1)
       | (Some dir, w1) \<Rightarrow> (case px_chmod P dir 448 w1 of
           (e, w2) \<Rightarrow> (if e \<noteq> None then Inl EXIT_FAILURE else Inr dir, w2)))
     in case made of
       (Inl c, w1) \<Rightarrow> Some (Inl c, w1)
     | (Inr dir, w1) \<Rightarrow> (case safe_write_exclusive P dir ''job.sh'' content u g 448 w1 of
         None \<Rightarrow> None
       | Some (path, w2) \<Rightarrow> Some (if path = [] then Inl EXIT_FAILURE else Inr path, w2)))"

text \<open>\<open>chown\<close> unless the porter is root and the user of the job is not.\<close>

definition chown_unless_rootless :: "'w posix \<Rightarrow> string \<Rightarrow> uid \<Rightarrow> uid \<Rightarrow> 'w \<Rightarrow> (int + unit) \<times> 'w" where
  "chown_unless_rootless P p u g w =
     (if px_geteuid P w \<noteq> 0 \<or> u = 0 then
        (case px_chown P p u g w of (e, w1) \<Rightarrow> (if e \<noteq> None then Inl EXIT_FAILURE else Inr (), w1))
      else (Inr (), w))"

definition ensure_owned_dir :: "'w posix \<Rightarrow> string \<Rightarrow> uid \<Rightarrow> uid \<Rightarrow> 'w \<Rightarrow> (int + unit) \<times> 'w" where
  "ensure_owned_dir P dir u g w =
     (if dir = [] \<or> dir = ''/'' then (Inr (), w)
      else case px_mkdir P dir 493 w of (e, w1) \<Rightarrow>
        if e \<noteq> None \<and> e \<noteq> Some EEXIST then (Inl EXIT_FAILURE, w1)
        else chown_unless_rootless P dir u g w1)"

definition ensure_parent_dir :: "'w posix \<Rightarrow> string \<Rightarrow> uid \<Rightarrow> uid \<Rightarrow> 'w \<Rightarrow> (int + unit) \<times> 'w" where
  "ensure_parent_dir P path u g w = (case str_rfind CHR ''/'' path of
     None \<Rightarrow> (Inr (), w)
   | Some slash \<Rightarrow> if 0 < slash then ensure_owned_dir P (str_substr path 0 slash) u g w else (Inr (), w))"

definition ensure_log_file :: "'w posix \<Rightarrow> string \<Rightarrow> uid \<Rightarrow> uid \<Rightarrow> 'w \<Rightarrow> (int + unit) \<times> 'w" where
  "ensure_log_file P path u g w =
     (if path = [] then (Inr (), w)
      else case ensure_parent_dir P path u g w of
        (Inl c, w1) \<Rightarrow> (Inl c, w1)
      | (Inr _, w1) \<Rightarrow> (case px_open_append P path 420 w1 of
          (None, w2) \<Rightarrow> (Inl EXIT_FILE_ERROR, w2)
        | (Some fd, w2) \<Rightarrow> chown_unless_rootless P path u g (snd (px_close P fd w2))))"

definition set_job_dir_ownership :: "'w posix \<Rightarrow> SwmJob \<Rightarrow> uid \<Rightarrow> uid \<Rightarrow> 'w \<Rightarrow> (int + unit) \<times> 'w" where
  "set_job_dir_ownership P job u g w =
     (case (if job_workdir job \<noteq> [] then ensure_owned_dir P (job_workdir job) u g w else (Inr (), w)) of
        (Inl c, w1) \<Rightarrow> (Inl c, w1)
      | (Inr _, w1) \<Rightarrow> (case ensure_log_file P (job_stdout job) u g w1 of
          (Inl c, w2) \<Rightarrow> (Inl c, w2)
        | (Inr _, w2) \<Rightarrow> ensure_log_file P (job_stderr job) u g w2))"

text \<open>The result of \<open>chdir\<close> is not looked at.\<close>

definition set_workdir :: "'w posix \<Rightarrow> passwd \<Rightarrow> SwmJob \<Rightarrow> 'w \<Rightarrow> (int + unit) \<times> 'w" where
  "set_workdir P pw job w = (let
     w1 = snd (px_chdir P (if job_workdir job = [] then pw_dir pw else job_workdir job) w)
     in (if px_getcwd P w1 = None then Inl EXIT_SYSTEM_ERROR else Inr (), w1))"

definition set_uid_gid :: "cred \<Rightarrow> string \<Rightarrow> uid \<Rightarrow> uid \<Rightarrow> creds \<Rightarrow> (int + unit) \<times> creds" where
  "set_uid_gid K username u g c = (case drop_privileges K (Some username) u g c of
     (r, c') \<Rightarrow> (if r \<noteq> 0 then Inl EXIT_SYSTEM_ERROR else Inr (), c'))"

section \<open>Standard output and standard error of the job\<close>

text \<open>
  A table of descriptors says which open file each stands for. \<open>dup2\<close> fails on a descriptor that is not
  open; the result of \<open>close\<close> is not looked at.
\<close>

type_synonym fd_table = "int \<Rightarrow> nat option"

definition dup2 :: "int \<Rightarrow> int \<Rightarrow> fd_table \<Rightarrow> fd_table option" where
  "dup2 fd new tab = (case tab fd of None \<Rightarrow> None | Some f \<Rightarrow> Some (tab(new \<mapsto> f)))"

definition install_log :: "int \<Rightarrow> int \<Rightarrow> fd_table \<Rightarrow> (int + unit) \<times> fd_table" where
  "install_log fd std tab =
     (if 0 \<le> fd then
        (case dup2 fd std tab of None \<Rightarrow> (Inl EXIT_SYSTEM_ERROR, tab) | Some t \<Rightarrow> (Inr (), t(fd := None)))
      else (Inr (), tab))"

definition install_job_logs :: "int \<times> int \<Rightarrow> fd_table \<Rightarrow> (int + unit) \<times> fd_table" where
  "install_job_logs fds tab = (case install_log (fst fds) 1 tab of
     (Inl c, t) \<Rightarrow> (Inl c, t) | (Inr _, t) \<Rightarrow> install_log (snd fds) 2 t)"

text \<open>
  With the two log files open on descriptors of their own, the job writes to them and has no other
  descriptor on them.
\<close>

lemma install_job_logs_result:
  assumes "tab out_fd = Some f" "tab err_fd = Some g" and "2 < out_fd" "2 < err_fd" "out_fd \<noteq> err_fd"
  shows "install_job_logs (out_fd, err_fd) tab =
    (Inr (), tab(1 \<mapsto> f, 2 \<mapsto> g, out_fd := None, err_fd := None))"
  using assms by (auto simp: install_job_logs_def install_log_def dup2_def fun_eq_iff)

text \<open>A log file on the number of the stream it is meant for is closed.\<close>

lemma install_job_logs_stdout: "tab 1 = Some f \<Longrightarrow> install_job_logs (1, -1) tab = (Inr (), tab(1 := None))"
  by (simp add: install_job_logs_def install_log_def dup2_def)

section \<open>The child\<close>

text \<open>
  The lookup of the user, at most 20 times; \<open>look k\<close> is what the \<open>k\<close>-th call of \<open>getpwnam\<close> gives.
  The source passes a pointer into a string that no longer exists; this is the lookup of the name
  that is meant.
\<close>

fun find_user :: "(nat \<Rightarrow> passwd option) \<Rightarrow> nat \<Rightarrow> nat \<Rightarrow> passwd option" where
  "find_user look k 0 = None"
| "find_user look k (Suc n) = (case look k of Some pw \<Rightarrow> Some pw | None \<Rightarrow> find_user look (k + 1) n)"

text \<open>What is run: \<open>/bin/sh -c path\<close> with an environment, as somebody, with a table of descriptors.\<close>

record exec_call =
  ex_path :: string
  ex_env :: env
  ex_creds :: creds
  ex_fds :: fd_table

definition child_files ::
  "'w posix \<Rightarrow> passwd \<Rightarrow> SwmJob \<Rightarrow> 'w \<Rightarrow> ((int + string \<times> (int \<times> int)) \<times> 'w) option" where
  "child_files P pw job w = (case save_script P job (pw_uid pw) (pw_gid pw) (job_script_content job) w of
     None \<Rightarrow> None
   | Some (Inl c, w1) \<Rightarrow> Some (Inl c, w1)
   | Some (Inr path, w1) \<Rightarrow> (case set_job_dir_ownership P job (pw_uid pw) (pw_gid pw) w1 of
       (Inl c, w2) \<Rightarrow> Some (Inl c, w2)
     | (Inr _, w2) \<Rightarrow> (case open_job_logs P job w2 of
         (Inl c, w3) \<Rightarrow> Some (Inl c, w3)
       | (Inr fds, w3) \<Rightarrow> Some (Inr (path, fds), w3))))"

text \<open>
  \<open>T w\<close> is the table of descriptors in the world \<open>w\<close>; \<open>X x\<close> says whether \<open>execve\<close> replaces the process
  by \<open>x\<close>. When it does not, it returns, and the child goes on to the end of \<open>main\<close>.
\<close>

definition child_run ::
  "'w posix \<Rightarrow> ('w \<Rightarrow> fd_table) \<Rightarrow> (exec_call \<Rightarrow> bool) \<Rightarrow> cred \<Rightarrow> ei \<Rightarrow> (nat \<Rightarrow> passwd option) \<Rightarrow> string option \<Rightarrow> string \<Rightarrow> SwmJob \<Rightarrow> string \<Rightarrow>
   creds \<Rightarrow> 'w \<Rightarrow> ((int + exec_call) \<times> 'w) option" where
  "child_run P T X K E look exe username job ctrl_path c w = (case find_user look 0 20 of
     None \<Rightarrow> Some (Inl EXIT_USER_NOT_FOUND, w)
   | Some pw \<Rightarrow> (case child_files P pw job w of
       None \<Rightarrow> None
     | Some (Inl code, w1) \<Rightarrow> Some (Inl code, w1)
     | Some (Inr (path, fds), w1) \<Rightarrow> (let
         env = set_env E exe pw job ctrl_path (\<lambda>v. px_getenv P v w1)
         in case set_workdir P pw job w1 of
           (Inl code, w2) \<Rightarrow> Some (Inl code, w2)
         | (Inr _, w2) \<Rightarrow> (case set_uid_gid K username (pw_uid pw) (pw_gid pw) c of
             (Inl code, _) \<Rightarrow> Some (Inl code, w2)
           | (Inr _, c') \<Rightarrow> (case install_job_logs fds (T w2) of
               (Inl code, _) \<Rightarrow> Some (Inl code, w2)
             | (Inr _, t) \<Rightarrow> (let x = \<lparr>ex_path = path, ex_env = env, ex_creds = c', ex_fds = t\<rparr>
                 in Some (if X x then Inr x else Inl EXIT_SUCCESS, w2)))))))"

end
