(* ===== verification/Child_Spec.thy ===== *)
theory Child_Spec
  imports Porter_Env Mem_Fs Ei_Etf
begin

text \<open>
  What the child of the porter promises: the environment of the job for every name, and that it
  gives up its privileges before it runs the script, which it has written without touching the
  content of any existing file.
\<close>

section \<open>The environment\<close>

lemma setenv_apply:
  "setenv n v e k = (if k = c_str n \<and> k \<noteq> [] \<and> CHR ''='' \<notin> set k then Some (c_str v) else e k)"
  by (auto simp: setenv_def Let_def)

definition env_name :: "string \<Rightarrow> bool" where
  "env_name k \<longleftrightarrow> k \<noteq> [] \<and> CHR ''='' \<notin> set k"

text \<open>The last setting of a name counts.\<close>

definition last_setting :: "(string \<times> string) list \<Rightarrow> string \<Rightarrow> string option" where
  "last_setting kvs k = (if env_name k then map_of (rev (map (\<lambda>(n, v). (c_str n, c_str v)) kvs)) k else None)"

lemma setenvs_apply:
  "setenvs kvs e k = (case last_setting kvs k of Some v \<Rightarrow> Some v | None \<Rightarrow> e k)"
proof (induction kvs rule: rev_induct)
  case Nil
  then show ?case by (simp add: setenvs_def last_setting_def)
next
  case (snoc kv kvs)
  obtain n v where kv: "kv = (n, v)" by fastforce
  have "setenvs (kvs @ [kv]) e = setenv n v (setenvs kvs e)" by (simp add: setenvs_def kv)
  then show ?case using snoc by (auto simp: setenv_apply last_setting_def env_name_def kv)
qed

lemma c_str_literal: "CHR 0x00 \<notin> set n \<Longrightarrow> c_str n = n"
  by (rule c_str_id)

lemma swm_exports_names:
  "map fst (swm_exports E job) = [''SWM_JOB_ID'', ''SWM_JOB_NAME'', ''SWM_JOB_ACCOUNT'', ''SWM_JOB_NODES'',
     ''SWM_JOB_NODES_NUMBER'', ''SWM_JOB_COMMENT'', ''SWM_JOB_INPUT_FILES'', ''SWM_JOB_OUTPUT_FILES'',
     ''SWM_JOB_PORTS'', ''SWM_RELOCATABLE'', ''SWM_KEEP_RESOURCES'']"
  by (simp add: swm_exports_def)

lemma swm_exports_last:
  "last_setting (swm_exports E job) k = map_option c_str (map_of (swm_exports E job) k)"
  by (simp add: last_setting_def env_name_def swm_exports_def c_str_literal)

definition user_setting :: "passwd \<Rightarrow> SwmJob \<Rightarrow> env \<Rightarrow> env" where
  "user_setting pw job e k = (case last_setting (job_env job) k of
     Some v \<Rightarrow> Some v
   | None \<Rightarrow> if k = ''USER'' then Some (c_str (pw_name pw))
       else if k = ''HOME'' then Some (c_str (pw_dir pw)) else e k)"

lemma last_setting_nonempty: "last_setting (filter (\<lambda>kv. fst kv \<noteq> []) kvs) k = last_setting kvs k"
proof (induction kvs rule: rev_induct)
  case (snoc kv kvs)
  then show ?case by (cases kv) (auto simp: last_setting_def env_name_def c_str_def)
qed (simp add: last_setting_def)

lemma set_env_lookup:
  "set_env E exe pw job ctrl e k =
     (case map_of (swm_exports E job) k of
        Some v \<Rightarrow> Some (c_str v)
      | None \<Rightarrow>
          if k = ''SWM_PORTER_CTRL'' \<and> ctrl \<noteq> [] then Some (c_str ctrl)
          else if k = ''PATH'' then Some (c_str (job_path (job_workdir job) exe (user_setting pw job e ''PATH'')))
          else if k = ''PWD'' \<and> job_workdir job \<noteq> [] then Some (c_str (job_workdir job))
          else user_setting pw job e k)"
proof -
  have u: "setenvs (filter (\<lambda>kv. fst kv \<noteq> []) (job_env job)) (setenv ''USER'' (pw_name pw) (setenv ''HOME'' (pw_dir pw) e)) k
      = user_setting pw job e k" for k
    by (simp add: setenvs_apply last_setting_nonempty user_setting_def setenv_apply c_str_literal split: option.split)
  have n: "map_of (swm_exports E job) k = None" if "k \<in> {''SWM_PORTER_CTRL'', ''PATH'', ''PWD''}" for k
  proof -
    have "k \<notin> set (map fst (swm_exports E job))" using that unfolding swm_exports_names by fastforce
    then show ?thesis by (simp add: map_of_eq_None_iff)
  qed
  define e3 where "e3 = setenvs (swm_exports E job) (setenvs (filter (\<lambda>kv. fst kv \<noteq> []) (job_env job))
      (setenv ''USER'' (pw_name pw) (setenv ''HOME'' (pw_dir pw) e)))"
  have e3: "e3 k = (case map_of (swm_exports E job) k of Some v \<Rightarrow> Some (c_str v) | None \<Rightarrow> user_setting pw job e k)" for k
    by (simp add: e3_def setenvs_apply [of "swm_exports E job"] u swm_exports_last split: option.split)
  have lit: "setenv ''SWM_PORTER_CTRL'' v f = f(''SWM_PORTER_CTRL'' \<mapsto> c_str v)"
    "setenv ''PATH'' v f = f(''PATH'' \<mapsto> c_str v)" "setenv ''PWD'' v f = f(''PWD'' \<mapsto> c_str v)" for v f
    by (simp_all add: setenv_def c_str_literal)
  have path: "(if ctrl \<noteq> [] then e3(''SWM_PORTER_CTRL'' \<mapsto> c_str ctrl) else e3) ''PATH'' = user_setting pw job e ''PATH''"
    by (simp add: e3 n)
  have "set_env E exe pw job ctrl e = (let
      e4 = (if ctrl \<noteq> [] then e3(''SWM_PORTER_CTRL'' \<mapsto> c_str ctrl) else e3);
      e5 = e4(''PATH'' \<mapsto> c_str (job_path (job_workdir job) exe (user_setting pw job e ''PATH'')))
      in if job_workdir job \<noteq> [] then e5(''PWD'' \<mapsto> c_str (job_workdir job)) else e5)"
    unfolding set_env_def Let_def lit by (simp only: e3_def [symmetric] path)
  then show ?thesis by (simp add: Let_def e3 n)
qed

text \<open>
  The environment of the job, spelled out name by name: the value of what the porter exports, the
  parts of \<open>PATH\<close> in their order, and everything else.
\<close>

definition joined :: "string \<Rightarrow> string list \<Rightarrow> string" where
  "joined sep xs = (case xs of [] \<Rightarrow> [] | x # ys \<Rightarrow> x @ concat (map (\<lambda>y. sep @ y) ys))"

definition readable_ports :: "ei \<Rightarrow> SwmResource \<Rightarrow> string list" where
  "readable_ports E r = (if resource_name r = ''ports''
     then concat (map (\<lambda>(n, buf). if n = ''value'' \<and> fst (ei_buffer_to_str E buf 0 [])
       then [snd (snd (ei_buffer_to_str E buf 0 []))] else []) (resource_properties r))
     else [])"

definition exported_value :: "ei \<Rightarrow> SwmJob \<Rightarrow> string \<Rightarrow> string \<Rightarrow> string option" where
  "exported_value E job ctrl k =
     (if k = ''SWM_JOB_ID'' then Some (job_id job)
      else if k = ''SWM_JOB_NAME'' then Some (job_name job)
      else if k = ''SWM_JOB_ACCOUNT'' then Some (job_account_id job)
      else if k = ''SWM_JOB_NODES'' then Some (joined '','' (job_nodes job))
      else if k = ''SWM_JOB_NODES_NUMBER'' then Some (dec_nat (length (job_nodes job)))
      else if k = ''SWM_JOB_COMMENT'' then Some (job_comment job)
      else if k = ''SWM_JOB_INPUT_FILES'' then Some (joined '','' (job_input_files job))
      else if k = ''SWM_JOB_OUTPUT_FILES'' then Some (joined '','' (job_output_files job))
      else if k = ''SWM_JOB_PORTS'' then Some (case concat (map (readable_ports E) (job_request job)) of
        [] \<Rightarrow> [] | v # _ \<Rightarrow> v)
      else if k = ''SWM_RELOCATABLE'' then Some (if job_relocatable job = ''true'' then ''YES'' else ''NO'')
      else if k = ''SWM_KEEP_RESOURCES'' then Some (if job_keep_resources job = ''true'' then ''YES'' else ''NO'')
      else if k = ''SWM_PORTER_CTRL'' \<and> ctrl \<noteq> [] then Some ctrl
      else None)"

definition path_parts :: "string \<Rightarrow> string option \<Rightarrow> string option \<Rightarrow> string list" where
  "path_parts workdir exe inherited =
     (if workdir = [] then [] else [workdir]) @
     ''/opt/swm/current/bin'' #
     (case exe of None \<Rightarrow> [] | Some e \<Rightarrow> (case str_rfind CHR ''/'' e of None \<Rightarrow> [] | Some n \<Rightarrow>
        if n = 0 \<or> take n e = ''/opt/swm/current/bin'' then [] else [take n e])) @
     (case inherited of None \<Rightarrow> [] | Some p \<Rightarrow> if p = [] then [] else [p])"

definition job_environment :: "ei \<Rightarrow> string option \<Rightarrow> passwd \<Rightarrow> SwmJob \<Rightarrow> string \<Rightarrow> env \<Rightarrow> env" where
  "job_environment E exe pw job ctrl e k = (case exported_value E job ctrl k of
     Some v \<Rightarrow> Some (c_str v)
   | None \<Rightarrow>
       if k = ''PATH'' then Some (c_str (joined '':'' (path_parts (job_workdir job) exe (user_setting pw job e ''PATH''))))
       else if k = ''PWD'' \<and> job_workdir job \<noteq> [] then Some (c_str (job_workdir job))
       else user_setting pw job e k)"

lemma join_csv_joined: "join_csv xs = joined '','' xs"
  by (induction xs rule: join_csv.induct) (auto simp: joined_def)

lemma ports_of_properties_readable:
  "resource_name r = ''ports'' \<Longrightarrow> ports_of_properties E (resource_properties r) =
     (case readable_ports E r of [] \<Rightarrow> None | v # _ \<Rightarrow> Some v)"
proof -
  assume "resource_name r = ''ports''"
  moreover have "ports_of_properties E ps = (case concat (map (\<lambda>(n, buf).
      if n = ''value'' \<and> fst (ei_buffer_to_str E buf 0 [])
      then [snd (snd (ei_buffer_to_str E buf 0 []))] else []) ps) of [] \<Rightarrow> None | v # _ \<Rightarrow> Some v)" for ps
    by (induction E ps rule: ports_of_properties.induct) (simp_all split: prod.split)
  ultimately show ?thesis by (simp add: readable_ports_def)
qed

lemma ports_of_resources_readable:
  "ports_of_resources E rs = (case concat (map (readable_ports E) rs) of [] \<Rightarrow> [] | v # _ \<Rightarrow> v)"
proof (induction rs)
  case (Cons r rs)
  show ?case
  proof (cases "resource_name r = ''ports''")
    case True
    with Cons ports_of_properties_readable [OF True, of E] show ?thesis by (cases "readable_ports E r") simp_all
  next
    case False
    with Cons show ?thesis by (simp add: readable_ports_def [of E r])
  qed
qed simp

lemma foldl_add_dir: "p \<noteq> [] \<Longrightarrow> foldl add_dir p ds = p @ concat (map (\<lambda>d. '':'' @ d) ds)"
  by (induction ds arbitrary: p) (simp_all add: add_dir_def)

lemma foldl_add_dir_joined:
  "d \<noteq> [] \<Longrightarrow> foldl add_dir p (d # ds) = joined '':'' ((if p = [] then [] else [p]) @ d # ds)"
proof -
  have "(@) '':'' = (#) CHR '':''" by (simp add: fun_eq_iff)
  then show "d \<noteq> [] \<Longrightarrow> ?thesis" by (cases "p = []") (simp_all add: foldl_add_dir joined_def add_dir_def)
qed

lemma joined_snoc: "xs \<noteq> [] \<Longrightarrow> joined sep (xs @ [x]) = joined sep xs @ sep @ x"
  by (cases xs) (simp_all add: joined_def)

lemma job_path_joined: "job_path workdir exe old = joined '':'' (path_parts workdir exe old)"
proof -
  define rest where "rest = (case exe of None \<Rightarrow> [] | Some e \<Rightarrow> (case str_rfind CHR ''/'' e of None \<Rightarrow> [] | Some n \<Rightarrow>
        if n = 0 \<or> take n e = ''/opt/swm/current/bin'' then [] else [take n e]))"
  have dirs: "swm_path_dirs exe = ''/opt/swm/current/bin'' # rest"
    by (simp add: swm_path_dirs_def rest_def str_substr_def split: option.split)
  define parts where "parts = (if workdir = [] then [] else [workdir]) @ ''/opt/swm/current/bin'' # rest"
  have parts: "parts \<noteq> []" "foldl add_dir workdir (swm_path_dirs exe) = joined '':'' parts"
    by (simp_all add: dirs foldl_add_dir_joined parts_def del: foldl.simps)
  have "path_parts workdir exe old = parts @ (case old of None \<Rightarrow> [] | Some p \<Rightarrow> if p = [] then [] else [p])"
    by (simp add: path_parts_def rest_def parts_def)
  moreover have "joined '':'' parts \<noteq> []" by (simp add: joined_def parts_def)
  ultimately show ?thesis
    by (simp add: job_path_def parts(2) Let_def add_dir_def joined_snoc [OF parts(1)] split: option.split)
qed

lemma exported_value_exports:
  "map_of (swm_exports E job) k = (if k = ''SWM_PORTER_CTRL'' then None else exported_value E job ctrl k)"
  by (simp add: swm_exports_def exported_value_def join_csv_joined ports_from_request_def ports_of_resources_readable
      yes_no_def)

lemma set_env_spelled: "set_env E exe pw job ctrl e k = job_environment E exe pw job ctrl e k"
  unfolding set_env_lookup exported_value_exports [of E job k ctrl] job_environment_def job_path_joined
  by (simp add: exported_value_def)

section \<open>Log files\<close>

text \<open>Two tasks of a job never share a log file; the suffix may end up in a directory's name.\<close>

lemma add_task_inj:
  "a \<noteq> [] \<Longrightarrow> b \<noteq> [] \<Longrightarrow> add_task (Some a) p = add_task (Some b) p \<Longrightarrow> a = b"
  by (auto simp: add_task_def split: option.splits)

lemma log_path_leaves_directory:
  "job_log_path ''/s/v1.2/out'' ''j'' (Some ''3'') = ''/s/v1-task3.2/out''"
  by (simp add: job_log_path_def add_task_def replace_job_id_def starts_with_def str_substr_def)

section \<open>What the child leaves on disk\<close>

context posix_fs begin

lemma same_refl: "same w w"
  by (rule untouched_refl)

lemma same_trans: "same w w1 \<Longrightarrow> same w1 w2 \<Longrightarrow> same w w2"
  by (rule untouched_trans)

lemma chown_unless_same: "chown_unless_rootless P p u g w = (r, w') \<Longrightarrow> same w w'"
  by (auto simp: chown_unless_rootless_def same_refl split: if_splits prod.splits dest!: chown_law)

lemma open_append_same: "px_open_append P p m w = (ofd, w') \<Longrightarrow> same w w'"
  by (rule open_append_law)

lemma close_same: "px_close P fd w = (e, w') \<Longrightarrow> same w w'"
  using close_law [of fd w e w'] by (simp add: same_refl)

lemma ensure_owned_dir_same: "ensure_owned_dir P dir u g w = (r, w') \<Longrightarrow> same w w'"
  by (auto simp: ensure_owned_dir_def same_refl split: if_splits prod.splits
      dest!: mkdir_same chown_unless_same intro: same_trans)

lemma ensure_parent_dir_same: "ensure_parent_dir P p u g w = (r, w') \<Longrightarrow> same w w'"
  by (auto simp: ensure_parent_dir_def same_refl split: option.splits if_splits dest!: ensure_owned_dir_same)

lemma ensure_log_file_same:
  assumes "ensure_log_file P p u g w = (r, w')"
  shows "same w w'"
proof (cases "p = []")
  case True
  with assms show ?thesis by (simp add: ensure_log_file_def same_refl)
next
  case False
  obtain r1 w1 where 1: "ensure_parent_dir P p u g w = (r1, w1)" by (metis surj_pair)
  obtain ofd w2 where 2: "px_open_append P p 420 w1 = (ofd, w2)" by (metis surj_pair)
  obtain e w3 where 3: "px_close P (the ofd) w2 = (e, w3)" by (metis surj_pair)
  obtain r4 w4 where 4: "chown_unless_rootless P p u g w3 = (r4, w4)" by (metis surj_pair)
  have "w' \<in> {w1, w2, w4}"
    using assms False 3 4 by (auto simp: ensure_log_file_def 1 2 split: sum.splits option.splits)
  moreover have s1: "same w w1" by (rule ensure_parent_dir_same [OF 1])
  moreover have s2: "same w w2" by (rule same_trans [OF s1 open_append_same [OF 2]])
  moreover have "same w w4"
    by (rule same_trans [OF s2 same_trans [OF close_same [OF 3] chown_unless_same [OF 4]]])
  ultimately show ?thesis by auto
qed

lemma set_job_dir_ownership_same: "set_job_dir_ownership P job u g w = (r, w') \<Longrightarrow> same w w'"
  unfolding set_job_dir_ownership_def
  by (auto simp: same_refl split: if_splits prod.splits sum.splits
      dest!: ensure_owned_dir_same ensure_log_file_same intro: same_trans)

lemma open_job_log_fd_same: "open_job_log_fd P p j w = (r, w') \<Longrightarrow> same w w'"
  by (auto simp: open_job_log_fd_def same_refl split: if_splits prod.splits option.splits dest!: open_append_same)

lemma open_job_logs_same: "open_job_logs P job w = (r, w') \<Longrightarrow> same w w'"
  by (auto simp: open_job_logs_def split: prod.splits sum.splits dest!: open_job_log_fd_same intro: same_trans)

lemma save_script_file:
  assumes "save_script P job u g content w = Some (Inr path, w')"
  shows "same w w' \<and> lkp w path = None \<and>
    (\<exists>i. ino w i = None \<and> lkp w' path = Some i \<and> file_content (ino w' i) = Some content)"
proof -
  obtain dir w1 where s1: "same w w1" and sw: "safe_write_exclusive P dir ''job.sh'' content u g 448 w1 = Some (path, w')"
    and p: "path \<noteq> []"
  proof (cases "job_runtime_dir P w (job_id job) = []")
    case True
    obtain d wa where d: "px_mkdtemp P ''/tmp/swm-job-XXXXXX'' w = (d, wa)" by (metis surj_pair)
    obtain e wb where e: "px_chmod P (the d) 448 wa = (e, wb)" by (metis surj_pair)
    have "same w wb" using mkdtemp_law [OF d] chmod_law [OF e] same_trans by blast
    with that [of wb "the d"] assms True d e show ?thesis
      by (auto simp: save_script_def split: option.splits prod.splits if_splits)
  next
    case False
    with that [of w "job_runtime_dir P w (job_id job)"] assms show ?thesis
      by (auto simp: save_script_def same_refl split: option.splits prod.splits if_splits)
  qed
  from safe_write_exclusive_same [OF sw] p obtain i m u' g' where
    f: "fresh_file w1 w' path i (FFile m u' g' content)" and s: "same w1 w'" by auto
  have "lkp w path = None" "ino w i = None"
    using f s1 unfolding fresh_file_def untouched_def by (metis not_None_eq)+
  with f same_trans [OF s1 s] show ?thesis by (auto simp: fresh_file_def)
qed

lemma child_files_disk:
  assumes "child_files P pw job w = Some (Inr (path, fds), w')"
  shows "same w w' \<and> lkp w path = None \<and> (\<exists>i. ino w i = None \<and> lkp w' path = Some i \<and>
    file_content (ino w' i) = Some (job_script_content job))"
proof -
  obtain w1 w2 r2 r3 where 1: "save_script P job (pw_uid pw) (pw_gid pw) (job_script_content job) w = Some (Inr path, w1)"
    and 2: "set_job_dir_ownership P job (pw_uid pw) (pw_gid pw) w1 = (r2, w2)"
    and 3: "open_job_logs P job w2 = (r3, w')"
    using assms unfolding child_files_def by (auto split: option.splits prod.splits sum.splits)
  have s: "same w1 w'" by (rule same_trans [OF set_job_dir_ownership_same [OF 2] open_job_logs_same [OF 3]])
  from save_script_file [OF 1] obtain i where
    f: "same w w1" "lkp w path = None" "ino w i = None" "lkp w1 path = Some i"
    "file_content (ino w1 i) = Some (job_script_content job)" by blast
  have "lkp w' path = Some i" "file_content (ino w' i) = Some (job_script_content job)"
    using s f(4,5) unfolding untouched_def by (metis, metis file_content.simps(2) option.distinct(1))
  with f same_trans [OF f(1) s] show ?thesis by blast
qed

end

section \<open>The run of the child\<close>

lemma child_run_user:
  assumes fs: "posix_fs P (euid c) lkp ino fdi" and K: "cred_kernel K member"
    and inh: "\<And>n w. px_getenv P n w = inh n"
    and run: "child_run P T X K E look exe username job ctrl_path c w = Some (Inr x, w')"
  shows "\<exists>pw i. find_user look 0 20 = Some pw \<and> X x \<and>
    ex_creds x = \<lparr>ruid = keep_id (pw_uid pw) (ruid c), euid = keep_id (pw_uid pw) (euid c),
      suid = keep_id (pw_uid pw) (suid c), rgid = keep_id (pw_gid pw) (rgid c),
      egid = keep_id (pw_gid pw) (egid c), sgid = keep_id (pw_gid pw) (sgid c),
      groups = (if euid c = 0 then insert (pw_gid pw) (member username) else groups c)\<rparr> \<and>
    (pw_uid pw \<noteq> 0 \<and> pw_uid pw \<noteq> -1 \<longrightarrow> \<not> fst (cr_setreuid K 0 0 (ex_creds x))) \<and>
    ex_env x = job_environment E exe pw job ctrl_path inh \<and>
    lkp w (ex_path x) = None \<and> ino w i = None \<and> file_content (ino w' i) = Some (job_script_content job) \<and>
    (ex_path x \<noteq> [] \<and> hd (ex_path x) = CHR ''/'' \<longrightarrow> lkp w' (ex_path x) = Some i) \<and>
    (\<forall>j. ino w j \<noteq> None \<longrightarrow> file_content (ino w' j) = file_content (ino w j))"
proof -
  from run obtain pw path fds w1 r c' t where
    pw: "find_user look 0 20 = Some pw" and files: "child_files P pw job w = Some (Inr (path, fds), w1)"
    and wd: "set_workdir P pw job w1 = (r, w')"
    and drop: "drop_privileges K (Some username) (pw_uid pw) (pw_gid pw) c = (0, c')" and X: "X x"
    and x: "x = \<lparr>ex_path = path, ex_env = set_env E exe pw job ctrl_path (\<lambda>v. px_getenv P v w1),
      ex_creds = c', ex_fds = t\<rparr>"
    unfolding child_run_def by (auto simp: Let_def set_uid_gid_def split: option.splits prod.splits sum.splits if_splits)
  from posix_fs.child_files_disk [OF fs files] obtain i where
    i: "untouched (lkp w) (ino w) (lkp w1) (ino w1)" "lkp w path = None" "ino w i = None"
    "lkp w1 path = Some i" "file_content (ino w1 i) = Some (job_script_content job)" by blast
  obtain e where "px_chdir P (if job_workdir job = [] then pw_dir pw else job_workdir job) w1 = (e, w')"
    using wd by (metis set_workdir_def prod.collapse prod.inject)
  note cd = posix_fs.chdir_law [OF fs this]
  have env: "set_env E exe pw job ctrl_path (\<lambda>v. px_getenv P v w1) = job_environment E exe pw job ctrl_path inh"
    by (simp add: inh set_env_spelled fun_eq_iff)
  from cred_kernel.drop_privileges_zero [OF K drop] have c': "c' = \<lparr>ruid = keep_id (pw_uid pw) (ruid c),
      euid = keep_id (pw_uid pw) (euid c), suid = keep_id (pw_uid pw) (suid c), rgid = keep_id (pw_gid pw) (rgid c),
      egid = keep_id (pw_gid pw) (egid c), sgid = keep_id (pw_gid pw) (sgid c),
      groups = (if euid c = 0 then insert (pw_gid pw) (member username) else groups c)\<rparr>" by blast
  have keep: "\<forall>j. ino w j \<noteq> None \<longrightarrow> file_content (ino w' j) = file_content (ino w j)"
    using i(1) cd by (simp add: untouched_def)
  have look: "path \<noteq> [] \<and> hd path = CHR ''/'' \<longrightarrow> lkp w' path = Some i" using cd i(4) by simp
  note for_good = cred_kernel.dropped_for_good [OF K drop]
  show ?thesis
    by (rule exI [of _ pw], rule exI [of _ i], intro conjI)
      (use pw X c' for_good i(2,3,5) cd keep look in \<open>simp_all add: x env\<close>)
qed

section \<open>Properties\<close>

text \<open>
  C29. The environment of the job, for every name. What the porter exports from the job always wins:
  \<open>SWM_JOB_ID\<close>, \<open>NAME\<close>, \<open>ACCOUNT\<close> and \<open>COMMENT\<close> are the fields of the job, \<open>NODES\<close>, \<open>INPUT_FILES\<close> and
  \<open>OUTPUT_FILES\<close> its lists joined by commas, \<open>NODES_NUMBER\<close> the decimal number of nodes, \<open>PORTS\<close> the first
  readable \<open>value\<close> of a requested resource \<open>ports\<close>, \<open>SWM_RELOCATABLE\<close> and \<open>SWM_KEEP_RESOURCES\<close> are \<open>YES\<close>
  for \<open>true\<close> and \<open>NO\<close> otherwise, and \<open>SWM_PORTER_CTRL\<close> is the path of the control socket if there is one.
  Then come \<open>PATH\<close>, which lists the working directory, \<open>/opt/swm/current/bin\<close>, the directory of the
  porter and the value it would otherwise have, in this order, as far as they are not empty, and \<open>PWD\<close>.
  Any other name has the last setting in the job's own environment if there is one, otherwise the
  user's name and home directory or what the porter inherited.
\<close>

theorem set_env_result:
  "set_env E exe pw job ctrl e k = (case exported_value E job ctrl k of
     Some v \<Rightarrow> Some (c_str v)
   | None \<Rightarrow>
       if k = ''PATH'' then Some (c_str (joined '':'' (path_parts (job_workdir job) exe (user_setting pw job e ''PATH''))))
       else if k = ''PWD'' \<and> job_workdir job \<noteq> [] then Some (c_str (job_workdir job))
       else user_setting pw job e k)"
  unfolding set_env_spelled job_environment_def ..

section \<open>How the child ends early\<close>

lemma chown_unless_rootless_code: "fst (chown_unless_rootless P p u g w) = Inl c \<Longrightarrow> c = EXIT_FAILURE"
  by (auto simp: chown_unless_rootless_def split: prod.splits if_splits)

lemma ensure_owned_dir_code: "fst (ensure_owned_dir P dir u g w) = Inl c \<Longrightarrow> c = EXIT_FAILURE"
  using chown_unless_rootless_code by (auto simp: ensure_owned_dir_def split: prod.splits if_splits)

lemma ensure_parent_dir_code: "fst (ensure_parent_dir P p u g w) = Inl c \<Longrightarrow> c = EXIT_FAILURE"
  using ensure_owned_dir_code by (auto simp: ensure_parent_dir_def split: option.splits if_splits)

lemma ensure_log_file_code:
  "fst (ensure_log_file P p u g w) = Inl c \<Longrightarrow> c \<in> {EXIT_FAILURE, EXIT_FILE_ERROR}"
  using ensure_parent_dir_code [of P p u g w] chown_unless_rootless_code
  by (auto simp: ensure_log_file_def split: prod.splits if_splits sum.splits option.splits)

lemma set_job_dir_ownership_code:
  assumes "fst (set_job_dir_ownership P job u g w) = Inl c"
  shows "c \<in> {EXIT_FAILURE, EXIT_FILE_ERROR}"
proof -
  obtain r1 w1 where 1: "(if job_workdir job \<noteq> [] then ensure_owned_dir P (job_workdir job) u g w else (Inr (), w)) = (r1, w1)"
    by (metis surj_pair)
  obtain r2 w2 where 2: "ensure_log_file P (job_stdout job) u g w1 = (r2, w2)" by (metis surj_pair)
  obtain r3 w3 where 3: "ensure_log_file P (job_stderr job) u g w2 = (r3, w3)" by (metis surj_pair)
  have "r1 = Inl c \<or> r2 = Inl c \<or> r3 = Inl c"
    using assms unfolding set_job_dir_ownership_def 1 by (auto simp: 2 3 split: sum.splits)
  moreover have "r1 = Inl c \<Longrightarrow> c = EXIT_FAILURE"
    using 1 ensure_owned_dir_code [of P "job_workdir job" u g w] by (auto split: if_splits)
  ultimately show ?thesis
    using 2 3 ensure_log_file_code [of P "job_stdout job" u g w1] ensure_log_file_code [of P "job_stderr job" u g w2]
    by auto
qed

lemma open_job_logs_code: "fst (open_job_logs P job w) = Inl c \<Longrightarrow> c = EXIT_FILE_ERROR"
  by (auto simp: open_job_logs_def open_job_log_fd_def split: prod.splits sum.splits if_splits option.splits)

lemma save_script_code: "save_script P job u g content w = Some (Inl c, w') \<Longrightarrow> c = EXIT_FAILURE"
  by (auto simp: save_script_def Let_def split: prod.splits sum.splits if_splits option.splits)

lemma child_files_code:
  assumes "child_files P pw job w = Some (Inl c, w')"
  shows "c \<in> {EXIT_FAILURE, EXIT_FILE_ERROR}"
proof -
  obtain r1 w1 where 1: "save_script P job (pw_uid pw) (pw_gid pw) (job_script_content job) w = Some (r1, w1)"
    using assms by (auto simp: child_files_def split: option.splits prod.splits)
  obtain r2 w2 where 2: "set_job_dir_ownership P job (pw_uid pw) (pw_gid pw) w1 = (r2, w2)" by (metis surj_pair)
  obtain r3 w3 where 3: "open_job_logs P job w2 = (r3, w3)" by (metis surj_pair)
  have "r1 = Inl c \<or> r2 = Inl c \<or> r3 = Inl c"
    using assms by (auto simp: child_files_def 1 2 3 split: sum.splits prod.splits)
  then show ?thesis
    using save_script_code [of P job "pw_uid pw" "pw_gid pw" "job_script_content job" w c w1] 1
      set_job_dir_ownership_code [of P job "pw_uid pw" "pw_gid pw" w1 c] 2
      open_job_logs_code [of P job w2 c] 3 by auto
qed

lemma save_script_total:
  assumes "\<And>fd s w. s \<noteq> [] \<Longrightarrow> (case px_write P fd s w of
      (Wrote n, w') \<Rightarrow> 0 < n | (Write_eintr, w') \<Rightarrow> rank w' < (rank w :: nat) | (Write_error, w') \<Rightarrow> True)"
  shows "save_script P job u g content w \<noteq> None"
proof -
  have sw: "safe_write_exclusive P dir name content u g 448 v \<noteq> None" for dir name v
    using safe_write_total [where P = P and rank = rank, OF assms] by (metis not_None_eq)
  show ?thesis by (auto simp: sw save_script_def Let_def split: option.splits prod.splits sum.splits)
qed

lemma install_log_code: "fst (install_log fd std t) = Inl c \<Longrightarrow> c = EXIT_SYSTEM_ERROR"
  by (auto simp: install_log_def split: option.splits if_splits)

lemma install_job_logs_code:
  assumes "install_job_logs fds t = (Inl c, t')" shows "c = EXIT_SYSTEM_ERROR"
proof -
  obtain r1 t1 where 1: "install_log (fst fds) 1 t = (r1, t1)" by (metis surj_pair)
  obtain r2 t2 where 2: "install_log (snd fds) 2 t1 = (r2, t2)" by (metis surj_pair)
  show ?thesis
    using assms install_log_code [of "fst fds" 1 t c] install_log_code [of "snd fds" 2 t1 c] 1 2
    by (auto simp: install_job_logs_def split: sum.splits)
qed

lemma exit_codes_distinct: "distinct [EXIT_SUCCESS, EXIT_FAILURE, EXIT_SYSTEM_ERROR, EXIT_USER_NOT_FOUND, EXIT_FILE_ERROR]"
  by (simp add: EXIT_SUCCESS_def EXIT_FAILURE_def EXIT_SYSTEM_ERROR_def EXIT_USER_NOT_FOUND_def EXIT_FILE_ERROR_def)

text \<open>What the child does when \<open>execve\<close> may fail, from what it does when it cannot.\<close>

lemma child_run_execve:
  "child_run P T X K E look exe username job ctrl_path c w =
     (case child_run P T (\<lambda>_. True) K E look exe username job ctrl_path c w of
        Some (Inr x, w') \<Rightarrow> Some (if X x then Inr x else Inl EXIT_SUCCESS, w')
      | r \<Rightarrow> r)"
  by (simp add: child_run_def Let_def split: option.split prod.split sum.split)

lemma child_run_total:
  assumes "\<And>fd s w. s \<noteq> [] \<Longrightarrow> (case px_write P fd s w of
      (Wrote n, w') \<Rightarrow> 0 < n | (Write_eintr, w') \<Rightarrow> rank w' < (rank w :: nat) | (Write_error, w') \<Rightarrow> True)"
  shows "\<exists>r w'. child_run P T (\<lambda>_. True) K E look exe username job ctrl_path c w = Some (r, w') \<and>
    (case r of
       Inr x \<Rightarrow> find_user look 0 20 \<noteq> None
     | Inl code \<Rightarrow> code \<in> {EXIT_FAILURE, EXIT_SYSTEM_ERROR, EXIT_USER_NOT_FOUND, EXIT_FILE_ERROR} \<and>
         (code = EXIT_USER_NOT_FOUND \<longleftrightarrow> find_user look 0 20 = None) \<and>
         (code = EXIT_USER_NOT_FOUND \<longrightarrow> w' = w))"
proof (cases "find_user look 0 20")
  case None
  then show ?thesis by (simp add: child_run_def)
next
  case (Some pw)
  have "save_script P job u g content v \<noteq> None" for u g content v
    by (rule save_script_total [where rank = rank]) (rule assms)
  then have "child_files P pw job w \<noteq> None"
    by (auto simp: child_files_def split: option.splits prod.splits sum.splits)
  then obtain r1 w1 where 1: "child_files P pw job w = Some (r1, w1)" by (metis not_None_eq surj_pair)
  obtain r2 w2 where 2: "set_workdir P pw job w1 = (r2, w2)" by (metis surj_pair)
  obtain r3 c3 where 3: "set_uid_gid K username (pw_uid pw) (pw_gid pw) c = (r3, c3)" by (metis surj_pair)
  have code2: "r2 = Inl n \<Longrightarrow> n = EXIT_SYSTEM_ERROR" for n
    using 2 by (auto simp: set_workdir_def Let_def split: if_splits)
  have code3: "r3 = Inl n \<Longrightarrow> n = EXIT_SYSTEM_ERROR" for n
    using 3 by (auto simp: set_uid_gid_def split: prod.splits if_splits)
  have codes: "EXIT_USER_NOT_FOUND \<notin> {EXIT_FAILURE, EXIT_SYSTEM_ERROR, EXIT_FILE_ERROR}"
    using exit_codes_distinct by auto
  show ?thesis
  proof (cases r1)
    case (Inl n)
    with child_files_code [of P pw job w n w1] 1 codes show ?thesis
      by (auto simp: child_run_def Some)
  next
    case (Inr y)
    obtain r4 t4 where 4: "install_job_logs (snd y) (T w2) = (r4, t4)" by (metis surj_pair)
    have code4: "r4 = Inl n \<Longrightarrow> n = EXIT_SYSTEM_ERROR" for n
      using 4 install_job_logs_code by blast
    show ?thesis
      using Inr code2 code3 code4 codes 4
      by (cases y; cases r2; cases r3; cases r4) (auto simp: child_run_def Some 1 2 3 Let_def)
  qed
qed

lemma child_run_ends:
  assumes "\<And>fd s w. s \<noteq> [] \<Longrightarrow> (case px_write P fd s w of
      (Wrote n, w') \<Rightarrow> 0 < n | (Write_eintr, w') \<Rightarrow> rank w' < (rank w :: nat) | (Write_error, w') \<Rightarrow> True)"
  shows "\<exists>r w'. child_run P T X K E look exe username job ctrl_path c w = Some (r, w') \<and>
    (case r of
       Inr x \<Rightarrow> X x \<and> find_user look 0 20 \<noteq> None
     | Inl code \<Rightarrow>
         code \<in> {EXIT_SUCCESS, EXIT_FAILURE, EXIT_SYSTEM_ERROR, EXIT_USER_NOT_FOUND, EXIT_FILE_ERROR} \<and>
         (code = EXIT_SUCCESS \<longleftrightarrow> (\<exists>x. \<not> X x \<and>
            child_run P T (\<lambda>_. True) K E look exe username job ctrl_path c w = Some (Inr x, w'))) \<and>
         (code = EXIT_USER_NOT_FOUND \<longleftrightarrow> find_user look 0 20 = None) \<and>
         (code = EXIT_USER_NOT_FOUND \<longrightarrow> w' = w))"
proof -
  obtain r w' where r: "child_run P T (\<lambda>_. True) K E look exe username job ctrl_path c w = Some (r, w')"
    and p: "(case r of
       Inr x \<Rightarrow> find_user look 0 20 \<noteq> None
     | Inl code \<Rightarrow> code \<in> {EXIT_FAILURE, EXIT_SYSTEM_ERROR, EXIT_USER_NOT_FOUND, EXIT_FILE_ERROR} \<and>
         (code = EXIT_USER_NOT_FOUND \<longleftrightarrow> find_user look 0 20 = None) \<and>
         (code = EXIT_USER_NOT_FOUND \<longrightarrow> w' = w))"
    using child_run_total [where P = P and rank = rank, OF assms] by blast
  show ?thesis
  proof (cases r)
    case (Inl code)
    then have "code \<noteq> EXIT_SUCCESS" using p exit_codes_distinct by auto
    with Inl p show ?thesis by (auto simp: child_run_execve [of P T X] r)
  next
    case (Inr x)
    then have run: "child_run P T X K E look exe username job ctrl_path c w =
        Some (if X x then Inr x else Inl EXIT_SUCCESS, w')"
      by (simp add: child_run_execve [of P T X] r)
    have "find_user look 0 20 \<noteq> None" "EXIT_SUCCESS \<noteq> EXIT_USER_NOT_FOUND"
      using p Inr exit_codes_distinct by simp_all
    then show ?thesis unfolding run r Inr by (cases "X x") simp_all
  qed
qed

text \<open>
  C30. The child always comes to a decision, if every \<open>write\<close> takes at least one byte or fails and is not
  interrupted for ever: \<open>execve\<close> replaces it, or it exits with one of five codes. It exits with 0
  exactly when it calls \<open>execve\<close> and that fails, and with the code for an unknown user exactly when the
  name stays unknown for 20 attempts, and then nothing has been touched.
\<close>

theorem child_decides:
  assumes "\<And>fd s w. s \<noteq> [] \<Longrightarrow> (case px_write P fd s w of
      (Wrote n, w') \<Rightarrow> 0 < n | (Write_eintr, w') \<Rightarrow> rank w' < (rank w :: nat) | (Write_error, w') \<Rightarrow> True)"
  shows "\<exists>r w'. child_run P T X K E look exe username job ctrl_path c w = Some (r, w') \<and>
    (case r of
       Inr x \<Rightarrow> X x \<and> find_user look 0 20 \<noteq> None
     | Inl code \<Rightarrow>
         code \<in> {EXIT_SUCCESS, EXIT_FAILURE, EXIT_SYSTEM_ERROR, EXIT_USER_NOT_FOUND, EXIT_FILE_ERROR} \<and>
         (code = EXIT_SUCCESS \<longleftrightarrow> (\<exists>x. \<not> X x \<and>
            child_run P T (\<lambda>_. True) K E look exe username job ctrl_path c w = Some (Inr x, w'))) \<and>
         (code = EXIT_USER_NOT_FOUND \<longleftrightarrow> find_user look 0 20 = None) \<and>
         (code = EXIT_USER_NOT_FOUND \<longrightarrow> w' = w))"
  by (rule child_run_ends [where rank = rank]) (rule assms)

section \<open>On the file system in memory\<close>

definition sample_spool :: "string \<Rightarrow> string option" where
  "sample_spool v = (if v = ''SWM_SPOOL'' then Some ''/s'' else None)"

definition sample_job :: SwmJob where
  "sample_job = SwmJob_init\<lparr>job_id := ''j'', job_script_content := ''ls''\<rparr>"

definition alice :: passwd where
  "alice = \<lparr>pw_name = ''alice'', pw_dir = ''/'', pw_uid = 7, pw_gid = 9\<rparr>"

lemma sample_job_sel [simp]:
  "job_id sample_job = ''j''" "job_script_content sample_job = ''ls''" "job_workdir sample_job = []"
  "job_stdout sample_job = []" "job_stderr sample_job = []"
  by (simp_all add: sample_job_def SwmJob_init_def)

lemma sample_runtime_dir: "job_runtime_dir (mem_posix 0 sample_spool) w ''j'' = ''/s/job/j''"
  by (simp add: job_runtime_dir_def mem_posix_sel sample_spool_def strip_slashes.simps)

lemma sample_mkdir:
  "ensure_private_dir (mem_posix 0 sample_spool) ''/s/job/j'' 7 9 spool_fs =
    (True, put_node ''/s/job/j'' (FDir 448 0 0) (put_node ''/s/job'' (FDir 448 0 0) spool_fs))"
  by (simp add: ensure_private_dir_def mem_eval spool_fs_def)

lemma sample_script:
  "\<exists>w1. save_script (mem_posix 0 sample_spool) sample_job 7 9 ''ls'' spool_fs = Some (Inr ''/s/job/j/job.sh'', w1) \<and>
    is_dir (m_nodes w1 ''/'')"
proof -
  have "str_find ''/'' ''job.sh'' = None" by (simp add: starts_with_def)
  then show ?thesis
    by (simp add: save_script_def sample_runtime_dir safe_write_exclusive_def sample_mkdir)
      (simp add: Let_def mem_eval write_fd.simps finish_file_def spool_fs_def)
qed

lemma sample_child:
  "\<exists>x w'. child_run (mem_posix 0 sample_spool) (\<lambda>w. Map.empty) (\<lambda>x. True) (linux_cred (\<lambda>n. {100})) etf_ei
     (\<lambda>k. if k < 2 then None else Some alice) None ''alice'' sample_job [] root_creds spool_fs = Some (Inr x, w')"
proof -
  have u: "find_user (\<lambda>k. if k < 2 then None else Some alice) 0 20 = Some alice"
    by (simp add: numeral_eq_Suc)
  obtain w1 where w1: "save_script (mem_posix 0 sample_spool) sample_job 7 9 ''ls'' spool_fs =
      Some (Inr ''/s/job/j/job.sh'', w1)" "is_dir (m_nodes w1 ''/'')" using sample_script by blast
  show ?thesis
    by (simp add: child_run_def u child_files_def alice_def w1 set_job_dir_ownership_def ensure_log_file_def
        open_job_logs_def open_job_log_fd_def set_workdir_def mem_posix_sel mem_chdir_def Let_def
        install_job_logs_def install_log_def
        set_uid_gid_def drop_privileges_def linux_cred_def linux_setregid_def linux_setreuid_def root_creds_def)
qed

lemma child_decides_witness:
  "\<exists>r w'. child_run (mem_posix 0 sample_spool) (\<lambda>w. Map.empty) (\<lambda>x. False) (linux_cred (\<lambda>n. {100})) etf_ei
     (\<lambda>k. if k < 2 then None else Some alice) None ''alice'' sample_job [] root_creds spool_fs = Some (r, w') \<and>
     r = Inl EXIT_SUCCESS"
proof -
  obtain x w1 where x: "child_run (mem_posix 0 sample_spool) (\<lambda>w. Map.empty) (\<lambda>x. True) (linux_cred (\<lambda>n. {100}))
     etf_ei (\<lambda>k. if k < 2 then None else Some alice) None ''alice'' sample_job [] root_creds spool_fs =
     Some (Inr x, w1)" using sample_child by blast
  have "\<exists>r w'. child_run (mem_posix 0 sample_spool) (\<lambda>w. Map.empty) (\<lambda>x. False) (linux_cred (\<lambda>n. {100})) etf_ei
     (\<lambda>k. if k < 2 then None else Some alice) None ''alice'' sample_job [] root_creds spool_fs = Some (r, w') \<and>
    (case r of
       Inr x \<Rightarrow> False \<and> find_user (\<lambda>k. if k < 2 then None else Some alice) 0 20 \<noteq> None
     | Inl code \<Rightarrow>
         code \<in> {EXIT_SUCCESS, EXIT_FAILURE, EXIT_SYSTEM_ERROR, EXIT_USER_NOT_FOUND, EXIT_FILE_ERROR} \<and>
         (code = EXIT_SUCCESS \<longleftrightarrow> (\<exists>x. \<not> False \<and>
            child_run (mem_posix 0 sample_spool) (\<lambda>w. Map.empty) (\<lambda>_. True) (linux_cred (\<lambda>n. {100})) etf_ei
              (\<lambda>k. if k < 2 then None else Some alice) None ''alice'' sample_job [] root_creds spool_fs =
              Some (Inr x, w'))) \<and>
         (code = EXIT_USER_NOT_FOUND \<longleftrightarrow> find_user (\<lambda>k. if k < 2 then None else Some alice) 0 20 = None) \<and>
         (code = EXIT_USER_NOT_FOUND \<longrightarrow> w' = spool_fs))"
  proof (rule child_decides [where rank = "\<lambda>_. 0"])
    show "case px_write (mem_posix 0 sample_spool) fd s w of
        (Wrote n, w') \<Rightarrow> 0 < n | (Write_eintr, w') \<Rightarrow> (0::nat) < 0 | (Write_error, w') \<Rightarrow> True"
      if "s \<noteq> []" for fd s w
      using that by (auto simp: mem_posix_sel mem_write_def split: option.splits fnode.splits)
  qed
  then show ?thesis
    by (simp add: child_run_execve [of _ _ "\<lambda>x. False"] x)
qed

end
