(* ===== verification/Pmix_Server.thy ===== *)
theory Pmix_Server
  imports Pmix_Fence Safe_File
begin

text \<open>
  The rest of the PMIx helper (\<open>c_src/pmix/pmix_server_main.cpp\<close>): waiting for the asynchronous
  calls of the PMIx library, registering the name space and its clients, the environment for a
  forked process, the start of \<open>main\<close> and its loop over the commands of the Erlang side. The
  library is a parameter: its functions are the fields of \<open>pmix_lib\<close> over a type of library
  states. Messages to \<open>stderr\<close> are left out.
\<close>

section \<open>Waiting for a callback\<close>

text \<open>
  What becomes of the member \<open>active\<close> of a \<open>SyncOp\<close>: \<open>Some (k, st)\<close> when the callback stores \<open>st\<close>
  before the load of number \<open>k\<close>, \<open>None\<close> when it never comes. It starts as -1.
\<close>

type_synonym async = "(nat \<times> int) option"

definition active_at :: "async \<Rightarrow> nat \<Rightarrow> int" where
  "active_at a i = (case a of Some (k, st) \<Rightarrow> if k \<le> i then st else -1 | None \<Rightarrow> -1)"

text \<open>The loop of \<open>wait_sync\<close> with the index at which it ended, over the remaining turns.\<close>

fun wait_loop :: "pmix_codes \<Rightarrow> async \<Rightarrow> nat \<Rightarrow> nat \<Rightarrow> bool \<times> nat" where
  "wait_loop K a i 0 = (False, i)"
| "wait_loop K a i (Suc n) =
     (if active_at a i \<noteq> -1
      then (active_at a i = PMIX_SUCCESS K \<or> active_at a i = PMIX_OPERATION_SUCCEEDED K, i)
      else wait_loop K a (i + 1) n)"

definition wait_sync :: "pmix_codes \<Rightarrow> async \<Rightarrow> nat \<Rightarrow> bool \<times> nat" where
  "wait_sync K a timeout_ms = wait_loop K a 0 (timeout_ms div 5)"

definition wait_call :: "pmix_codes \<Rightarrow> int \<times> async \<Rightarrow> int" where
  "wait_call K r = (case r of (imm, a) \<Rightarrow>
     if imm = PMIX_OPERATION_SUCCEEDED K then PMIX_SUCCESS K
     else if imm \<noteq> PMIX_SUCCESS K then imm
     else (case wait_sync K a 10000 of (ok, i) \<Rightarrow>
       if \<not> ok then PMIX_ERR_TIMEOUT K else active_at a i))"

section \<open>The library and the host\<close>

datatype pmix_key = PMIX_UNIV_SIZE | PMIX_JOB_SIZE | PMIX_LOCAL_SIZE | PMIX_SPAWNED | PMIX_LOCAL_PEERS
  | PMIX_NODE_MAP | PMIX_PROC_MAP

datatype pmix_value = Uint32 u32 | Str string

record 'w pmix_lib =
  pl_codes :: pmix_codes
  pl_init :: "string \<Rightarrow> 'w \<Rightarrow> int \<times> 'w"
  pl_register_client :: "string \<Rightarrow> u32 \<Rightarrow> uid \<Rightarrow> uid \<Rightarrow> 'w \<Rightarrow> (int \<times> async) \<times> 'w"
  pl_deregister_nspace :: "string \<Rightarrow> 'w \<Rightarrow> async \<times> 'w"
  pl_register_nspace :: "string \<Rightarrow> int \<Rightarrow> (pmix_key \<times> pmix_value) option list \<Rightarrow> 'w \<Rightarrow> (int \<times> async) \<times> 'w"
  pl_setup_application :: "string \<Rightarrow> 'w \<Rightarrow> (int \<times> async) \<times> 'w"
  pl_setup_local_support :: "string \<Rightarrow> 'w \<Rightarrow> (int \<times> async) \<times> 'w"
  pl_setup_fork :: "string \<Rightarrow> u32 \<Rightarrow> 'w \<Rightarrow> (int \<times> string list option) \<times> 'w"
  pl_regex :: "string \<Rightarrow> string option"
  pl_ppn :: "string \<Rightarrow> string option"

record host =
  h_getenv :: "string \<Rightarrow> string option"
  h_uid :: uid
  h_gid :: uid
  h_user :: "string \<Rightarrow> (uid \<times> uid) option"
  h_hostname :: "string option"

text \<open>
  The library calls \<open>fencenb\<close> on its own threads while \<open>main\<close> goes on. A step of a thread is the start of
  a request, which takes its number, or the next atomic part of a request in progress.
\<close>

datatype 'c thread_step = Request "string option" nat "'c option" | Advance "'c flight"

fun run_thread :: "'c thread_step \<Rightarrow> 'c fence_sys \<Rightarrow> 'c fence_sys" where
  "run_thread (Request data n cb) s = (case fencenb_take s of (i, s') \<Rightarrow>
     s'\<lparr>flights := add_mset (Taken i cb (fence_blob data n) n) (flights s), issued := issued s @ [cb]\<rparr>)"
| "run_thread (Advance (Taken i cb blob n)) s =
     (if Taken i cb blob n \<in># flights s then (fencenb_store i cb blob s)
        \<lparr>flights := add_mset (Stored i blob n) (flights s - {#Taken i cb blob n#})\<rparr> else s)"
| "run_thread (Advance (Stored i blob n)) s =
     (if Stored i blob n \<in># flights s
      then (fencenb_emit i n blob s)\<lparr>flights := flights s - {#Stored i blob n#}\<rparr> else s)"

text \<open>
  The state of the helper: its fences and output, the steps of the threads that are to come, the static
  flags, the library, and \<open>system\<close> calls. The first of the lists of steps runs before the next atomic
  action of \<open>main\<close> on the fences or the output, so that the threads run between any two of them.
\<close>

record ('c, 'w) server =
  sv_fences :: "'c fence_sys"
  sv_threads :: "'c thread_step list list"
  sv_registered :: bool
  sv_lib :: 'w
  sv_commands :: "string list"

definition threads_run :: "('c, 'w) server \<Rightarrow> ('c, 'w) server" where
  "threads_run s = (case sv_threads s of [] \<Rightarrow> s
     | ts # tss \<Rightarrow> s\<lparr>sv_fences := fold run_thread ts (sv_fences s), sv_threads := tss\<rparr>)"

definition atomically :: "('c fence_sys \<Rightarrow> 'c fence_sys) \<Rightarrow> ('c, 'w) server \<Rightarrow> ('c, 'w) server" where
  "atomically f s = (let s1 = threads_run s in s1\<lparr>sv_fences := f (sv_fences s1)\<rparr>)"

definition say :: "string \<Rightarrow> ('c, 'w) server \<Rightarrow> ('c, 'w) server" where
  "say line s = atomically (emit_line line) s"

section \<open>The callbacks that only acknowledge\<close>

text \<open>
  The status that a callback of the library returns, and the call of the completion function that it
  makes first, if it was given one.
\<close>

definition acknowledge :: "int \<Rightarrow> pmix_codes \<Rightarrow> 'o option \<Rightarrow> int \<times> ('o \<times> int) list" where
  "acknowledge st K cb =
     (PMIX_SUCCESS K, case cb of None \<Rightarrow> [] | Some f \<Rightarrow> [(f, st)])"

definition connected :: "pmix_codes \<Rightarrow> 'o option \<Rightarrow> int \<times> ('o \<times> int) list" where
  "connected K cb = acknowledge (PMIX_SUCCESS K) K cb"

definition finalized :: "pmix_codes \<Rightarrow> 'o option \<Rightarrow> int \<times> ('o \<times> int) list" where
  "finalized K cb = acknowledge (PMIX_SUCCESS K) K cb"

definition abort_fn :: "pmix_codes \<Rightarrow> 'o option \<Rightarrow> int \<times> ('o \<times> int) list" where
  "abort_fn K cb = acknowledge (PMIX_SUCCESS K) K cb"

text \<open>\<open>dmodex\<close> fails closed; the status \<open>PMIX_ERR_NOT_FOUND\<close> is an argument.\<close>

definition dmodex :: "int \<Rightarrow> pmix_codes \<Rightarrow> 'o option \<Rightarrow> int \<times> ('o \<times> int) list" where
  "dmodex not_found K cb = acknowledge not_found K cb"

text \<open>
  The completion functions of an asynchronous call store the status in the \<open>SyncOp\<close>, the value of which
  the waiting loop reads; that of \<open>PMIx_server_setup_application\<close> also releases the library's data.
\<close>

definition sync_op_cb :: "int \<Rightarrow> int \<Rightarrow> int" where
  "sync_op_cb status active = status"

definition setup_app_cb :: "pmix_codes \<Rightarrow> int \<Rightarrow> 'o option \<Rightarrow> int \<Rightarrow> int \<times> ('o \<times> int) list" where
  "setup_app_cb K status cb active = (sync_op_cb status active, snd (acknowledge (PMIX_SUCCESS K) K cb))"

section \<open>Registration\<close>

definition job_credentials :: "host \<Rightarrow> uid \<times> uid" where
  "job_credentials H = (case h_getenv H ''SWM_JOB_USER'' of
     None \<Rightarrow> (h_uid H, h_gid H)
   | Some name \<Rightarrow> if name = [] then (h_uid H, h_gid H)
       else (case h_user H name of Some (u, g) \<Rightarrow> (u, g) | None \<Rightarrow> (h_uid H, h_gid H)))"

fun register_ranks ::
  "'w pmix_lib \<Rightarrow> string \<Rightarrow> uid \<times> uid \<Rightarrow> u32 list \<Rightarrow> bool \<Rightarrow> 'w \<Rightarrow> bool \<times> 'w" where
  "register_ranks L ns ug [] ok w = (ok, w)"
| "register_ranks L ns ug (rank # ranks) ok w =
     (case pl_register_client L ns rank (fst ug) (snd ug) w of (r, w') \<Rightarrow>
        register_ranks L ns ug ranks
          (if wait_call (pl_codes L) r \<noteq> PMIX_SUCCESS (pl_codes L) then False else ok) w')"

definition register_clients ::
  "'w pmix_lib \<Rightarrow> host \<Rightarrow> string \<Rightarrow> u32 list \<Rightarrow> ('c, 'w) server \<Rightarrow> bool \<times> ('c, 'w) server" where
  "register_clients L H ns ranks s = (case register_ranks L ns (job_credentials H) ranks True (sv_lib s) of
     (ok, w) \<Rightarrow> (ok, s\<lparr>sv_lib := w\<rparr>))"

text \<open>\<open>0,1,...,n-1\<close>\<close>

definition default_peers :: "u64 \<Rightarrow> string" where
  "default_peers n = join_csv (map dec_nat [0..<unat n])"

definition nspace_info :: "'w pmix_lib \<Rightarrow> host \<Rightarrow> u64 \<Rightarrow> u64 \<Rightarrow> string \<Rightarrow> (pmix_key \<times> pmix_value) option list" where
  "nspace_info L H nprocs local_size local_peers = [
     Some (PMIX_UNIV_SIZE, Uint32 (ucast nprocs)),
     Some (PMIX_JOB_SIZE, Uint32 (ucast nprocs)),
     Some (PMIX_LOCAL_SIZE, Uint32 (ucast local_size)),
     Some (PMIX_SPAWNED, Uint32 0),
     Some (PMIX_LOCAL_PEERS, Str (c_str local_peers)),
     map_option (\<lambda>r. (PMIX_NODE_MAP, Str r))
       (pl_regex L (case h_hostname H of Some h \<Rightarrow> h | None \<Rightarrow> ''localhost'')),
     map_option (\<lambda>r. (PMIX_PROC_MAP, Str r)) (pl_ppn L (c_str local_peers))]"

definition clamp_local :: "u64 \<Rightarrow> u64 \<Rightarrow> u64" where
  "clamp_local nprocs local_size =
     (if local_size = 0 \<or> nprocs < local_size then if nprocs = 0 then 1 else nprocs else local_size)"

definition deregister_old :: "'w pmix_lib \<Rightarrow> string \<Rightarrow> ('c, 'w) server \<Rightarrow> ('c, 'w) server" where
  "deregister_old L ns s =
     (if sv_registered s then s\<lparr>sv_registered := False, sv_lib := snd (pl_deregister_nspace L ns (sv_lib s))\<rparr>
      else s)"

definition register_nspace ::
  "'w pmix_lib \<Rightarrow> host \<Rightarrow> string \<Rightarrow> u64 \<Rightarrow> u64 \<Rightarrow> string \<Rightarrow> ('c, 'w) server \<Rightarrow> bool \<times> ('c, 'w) server" where
  "register_nspace L H ns nprocs local peers s = (let
     local_size = clamp_local nprocs local;
     local_peers = (if peers = [] then default_peers local_size else peers);
     s1 = deregister_old L ns s
     in case pl_register_nspace L ns (sint (ucast local_size :: u32))
          (nspace_info L H nprocs local_size local_peers) (sv_lib s1) of (r, w1) \<Rightarrow>
       if wait_call (pl_codes L) r \<noteq> PMIX_SUCCESS (pl_codes L) then (False, s1\<lparr>sv_lib := w1\<rparr>)
       else case pl_setup_application L ns w1 of (_, w2) \<Rightarrow>
         (case pl_setup_local_support L ns w2 of (_, w3) \<Rightarrow>
           (True, s1\<lparr>sv_registered := True, sv_lib := w3\<rparr>)))"

section \<open>The environment of a forked process\<close>

record ForkEnv =
  fe_uri :: string
  fe_vars :: "(string \<times> string) list"

definition ForkEnv_init :: ForkEnv where
  "ForkEnv_init = \<lparr>fe_uri = [], fe_vars = []\<rparr>"

definition fork_env_entry :: "string \<Rightarrow> ForkEnv \<Rightarrow> ForkEnv" where
  "fork_env_entry e out = (case str_find ''='' e of None \<Rightarrow> out | Some eq \<Rightarrow> (let
     key = take eq e; val = drop (eq + 1) e
     in out\<lparr>fe_uri := if starts_with ''PMIX_SERVER_URI'' key \<and> fe_uri out = [] then val else fe_uri out,
          fe_vars := fe_vars out @ [(key, val)]\<rparr>))"

definition add_server_uri :: "ForkEnv \<Rightarrow> ForkEnv" where
  "add_server_uri out =
     (if fe_uri out \<noteq> [] \<and> \<not> list_ex (\<lambda>kv. fst kv = ''PMIX_SERVER_URI'') (fe_vars out)
      then out\<lparr>fe_vars := fe_vars out @ [(''PMIX_SERVER_URI'', fe_uri out)]\<rparr> else out)"

definition server_fork_env :: "'w pmix_lib \<Rightarrow> string \<Rightarrow> u32 \<Rightarrow> ('c, 'w) server \<Rightarrow> ForkEnv \<times> ('c, 'w) server" where
  "server_fork_env L ns rank s = (case pl_setup_fork L ns rank (sv_lib s) of ((rc, env), w) \<Rightarrow>
     (add_server_uri (case env of
        Some es \<Rightarrow> if rc = PMIX_SUCCESS (pl_codes L) then fold fork_env_entry es ForkEnv_init else ForkEnv_init
      | None \<Rightarrow> ForkEnv_init), s\<lparr>sv_lib := w\<rparr>))"

definition say_env :: "ForkEnv \<Rightarrow> ('c, 'w) server \<Rightarrow> ('c, 'w) server" where
  "say_env fe s = say ''FORK_ENV_DONE'' (fold (\<lambda>(k, v). say (''ENV '' @ k @ ''='' @ v)) (fe_vars fe) s)"

section \<open>The directory of the server\<close>

definition resolve_pmix_tmpdir :: "'v posix \<Rightarrow> host \<Rightarrow> string \<Rightarrow> 'v \<Rightarrow> string \<times> 'v" where
  "resolve_pmix_tmpdir P H jid v = (let
     own = (case h_getenv H ''SWM_PMIX_TMPDIR'' of Some d \<Rightarrow> d | None \<Rightarrow> []);
     base = job_runtime_dir P v jid
     in if own \<noteq> [] then (own, v)
        else if base \<noteq> [] then (base @ ''/pmix'', v)
        else case px_mkdtemp P ''/tmp/swm-pmix-XXXXXX'' v of (d, v') \<Rightarrow>
          (case d of None \<Rightarrow> [] | Some dir \<Rightarrow> dir, v'))"

definition ensure_pmix_tmpdir :: "'v posix \<Rightarrow> uid \<Rightarrow> string \<Rightarrow> 'v \<Rightarrow> bool \<times> 'v" where
  "ensure_pmix_tmpdir P egid tmpdir v =
     (if tmpdir = [] then (False, v) else ensure_private_dir P tmpdir (px_geteuid P v) egid v)"

definition pmix_world_tmp_enabled :: "host \<Rightarrow> bool" where
  "pmix_world_tmp_enabled H \<longleftrightarrow> h_getenv H ''SWM_PMIX_WORLD_TMP'' = Some ''1''"

definition chmod_tree_world_rwx :: "string \<Rightarrow> ('c, 'w) server \<Rightarrow> ('c, 'w) server" where
  "chmod_tree_world_rwx path s =
     s\<lparr>sv_commands := sv_commands s @ [c_str (''chmod -R a+rwX '' @ path @ '' 2>/dev/null'')]\<rparr>"

section \<open>The commands of the Erlang side\<close>

definition trim_end :: "string \<Rightarrow> string" where
  "trim_end s = rev (dropWhile (\<lambda>c. c = CHR '' '' \<or> c = CHR 0x0D) (rev s))"

text \<open>The arguments of \<open>REGISTER\<close>; any exception resets all three.\<close>

definition parse_register :: "string \<Rightarrow> u64 \<times> u64 \<times> string" where
  "parse_register args = (case stoul args of Inl _ \<Rightarrow> (1, 0, []) | Inr (nprocs, pos) \<Rightarrow> (let
     rest = dropWhile (\<lambda>c. c = CHR '' '') (drop pos args)
     in if rest = [] then (nprocs, 0, [])
        else case stoul rest of Inl _ \<Rightarrow> (1, 0, []) | Inr (local, pos2) \<Rightarrow>
          (nprocs, local, trim_end (dropWhile (\<lambda>c. c = CHR '' '') (drop pos2 rest)))))"

definition register_defaults :: "u64 \<times> u64 \<times> string \<Rightarrow> u64 \<times> u64 \<times> string" where
  "register_defaults r = (case r of (nprocs, local, peers) \<Rightarrow> (let
     local' = (if local = 0 then 1 else local)
     in (nprocs, local', if peers = [] then default_peers local' else peers)))"

definition parse_ranks :: "string \<Rightarrow> u32 list" where
  "parse_ranks peers = concat (map (\<lambda>tok. case stoul tok of Inl _ \<Rightarrow> [] | Inr (r, _) \<Rightarrow> [ucast r])
     (filter (\<lambda>tok. tok \<noteq> []) (comma_parts [] peers)))"

definition do_register ::
  "'w pmix_lib \<Rightarrow> host \<Rightarrow> string \<Rightarrow> string \<Rightarrow> ('c, 'w) server \<Rightarrow> ('c, 'w) server" where
  "do_register L H ns args s = (case register_defaults (parse_register args) of (nprocs, local, peers) \<Rightarrow>
     (case register_nspace L H ns nprocs local peers s of (ok1, s1) \<Rightarrow>
       if \<not> ok1 then say ''ERR REGISTER'' s1
       else case register_clients L H ns (parse_ranks peers) s1 of (ok2, s2) \<Rightarrow>
         if ok2 then say (''OK REGISTER '' @ dec_nat (unat nprocs) @ '' local='' @ dec_nat (unat local) @
           '' peers='' @ peers) s2
         else say ''ERR REGISTER'' s2))"

definition set_contrib_id :: "int \<Rightarrow> ('c, 'w) server \<Rightarrow> ('c, 'w) server" where
  "set_contrib_id z s = atomically (\<lambda>f. f\<lparr>g_contrib_id := z\<rparr>) s"

definition do_contrib_id :: "string \<Rightarrow> ('c, 'w) server \<Rightarrow> ('c, 'w) server" where
  "do_contrib_id args s = (case stoi args of
     Inl _ \<Rightarrow> say ''ERR CONTRIB_ID'' s
   | Inr (z, _) \<Rightarrow> say (''OK CONTRIB_ID '' @ dec_int z) (set_contrib_id z s))"

definition do_setup_fork ::
  "'w pmix_lib \<Rightarrow> host \<Rightarrow> string \<Rightarrow> string \<Rightarrow> string \<Rightarrow> ('c, 'w) server \<Rightarrow> ('c, 'w) server" where
  "do_setup_fork L H ns tmpdir args s = (let
     rank = (case stoul args of Inl _ \<Rightarrow> 0 | Inr (r, _) \<Rightarrow> ucast r) :: u32;
     s1 = snd (register_clients L H ns [rank] (set_contrib_id (sint rank) s))
     in case server_fork_env L ns rank s1 of (fe, s2) \<Rightarrow> (let
       s3 = (if pmix_world_tmp_enabled H then chmod_tree_world_rwx tmpdir s2 else s2)
       in say_env fe (say (''OK SETUP_FORK rank='' @ dec_nat (unat rank) @ '' uri='' @ fe_uri fe) s3)))"

text \<open>One line of input; \<open>None\<close> when the loop ends.\<close>

definition server_line ::
  "'w pmix_lib \<Rightarrow> host \<Rightarrow> string \<Rightarrow> string \<Rightarrow> string \<Rightarrow> ('c, 'w) server \<Rightarrow> ('c, 'w) server option" where
  "server_line L H ns tmpdir line s =
     (if starts_with ''REGISTER '' line then Some (do_register L H ns (drop 9 line) s)
      else if starts_with ''CONTRIB_ID '' line then Some (do_contrib_id (drop 11 line) s)
      else if starts_with ''SETUP_FORK '' line then Some (do_setup_fork L H ns tmpdir (drop 11 line) s)
      else if starts_with ''FENCE_OUT '' line
      then Some (atomically (handle_fence_out (pl_codes L) line) s)
      else if line = ''STOP'' then None
      else if line = ''PING'' then Some (say ''PONG'' s)
      else Some s)"

text \<open>
  The loop over the lines of the input, which ends with the list. \<open>handle_fence_out\<close> erases the entry
  under the mutex and calls the callback after it: no step of a thread looks at either, so that the
  two are one action here.
\<close>

fun server_loop ::
  "'w pmix_lib \<Rightarrow> host \<Rightarrow> string \<Rightarrow> string \<Rightarrow> string list \<Rightarrow> ('c, 'w) server \<Rightarrow> ('c, 'w) server" where
  "server_loop L H ns tmpdir [] s = s"
| "server_loop L H ns tmpdir (line # ls) s = (case server_line L H ns tmpdir line s of
     None \<Rightarrow> s | Some s' \<Rightarrow> server_loop L H ns tmpdir ls s')"

section \<open>\<open>main\<close>\<close>

text \<open>The command line: \<open>Inl\<close> an exit code, \<open>Inr\<close> the job and the name space it names.\<close>

fun pmix_args :: "string list \<Rightarrow> string \<times> string \<Rightarrow> int + string \<times> string" where
  "pmix_args [] r = Inr r"
| "pmix_args [a] r = (if a = ''-h'' \<or> a = ''--help'' then Inl 0 else Inr r)"
| "pmix_args (a # b # as) r =
     (if a = ''--job-id'' then pmix_args as (b, snd r)
      else if a = ''--nspace'' then pmix_args as (fst r, b)
      else if a = ''-h'' \<or> a = ''--help'' then Inl 0
      else pmix_args (b # as) r)"

definition job_and_nspace :: "host \<Rightarrow> string list \<Rightarrow> int + string \<times> string" where
  "job_and_nspace H args = (case pmix_args args ([], []) of Inl c \<Rightarrow> Inl c | Inr (j, ns) \<Rightarrow> (let
     jid = (if j = [] then (case h_getenv H ''SWM_JOB_ID'' of Some e \<Rightarrow> e | None \<Rightarrow> []) else j)
     in if jid = [] then Inl 2 else Inr (jid, if ns = [] then ''swm-'' @ jid else ns)))"

definition server_init :: "'c thread_step list list \<Rightarrow> 'w \<Rightarrow> ('c, 'w) server" where
  "server_init tss w = \<lparr>sv_fences = fence_sys_init, sv_threads = tss, sv_registered = False, sv_lib = w, sv_commands = []\<rparr>"

text \<open>From the initialised library to the loop.\<close>

definition server_start ::
  "'w pmix_lib \<Rightarrow> host \<Rightarrow> string \<Rightarrow> string \<Rightarrow> string \<Rightarrow> ('c, 'w) server \<Rightarrow> ('c, 'w) server" where
  "server_start L H jid ns tmpdir s = (let
     s1 = snd (register_nspace L H ns 1 1 ''0'' s);
     s2 = snd (register_clients L H ns [0] s1)
     in case server_fork_env L ns 0 s2 of (fe, s3) \<Rightarrow> (let
       s4 = (if pmix_world_tmp_enabled H then chmod_tree_world_rwx tmpdir s3 else s3)
       in say_env fe (say (''READY nspace='' @ ns @ '' job='' @ jid @ '' uri='' @ fe_uri fe) s4)))"

text \<open>
  After the loop: the drain, \<open>PMIx_server_finalize\<close>, which ends the threads of the library, and the last
  line. The steps of threads before that line are those between the drain and the finalisation.
\<close>

definition server_stop :: "'w pmix_lib \<Rightarrow> ('c, 'w) server \<Rightarrow> ('c, 'w) server" where
  "server_stop L s = say ''STOPPED'' (atomically (drain_fences (pl_codes L)) s)"

definition pmix_main ::
  "'w pmix_lib \<Rightarrow> 'v posix \<Rightarrow> host \<Rightarrow> uid \<Rightarrow> string list \<Rightarrow> 'c thread_step list list \<Rightarrow> string list \<Rightarrow>
   'w \<Rightarrow> 'v \<Rightarrow> int \<times> ('c, 'w) server" where
  "pmix_main L P H egid args tss lines w v = (case job_and_nspace H args of
     Inl c \<Rightarrow> (c, server_init tss w)
   | Inr (jid, ns) \<Rightarrow> (case resolve_pmix_tmpdir P H jid v of (tmpdir, v1) \<Rightarrow>
       if \<not> fst (ensure_pmix_tmpdir P egid tmpdir v1) then (1, server_init tss w)
       else case pl_init L tmpdir w of (rc, w1) \<Rightarrow>
         if rc \<noteq> PMIX_SUCCESS (pl_codes L) then (1, server_init tss w1)
         else (0, server_stop L (server_loop L H ns tmpdir lines
           (server_start L H jid ns tmpdir (server_init tss w1))))))"

end
