(* ===== verification/Pmix_Server_Spec.thy ===== *)
theory Pmix_Server_Spec
  imports Pmix_Server Mem_Fs
begin

text \<open>
  What the PMIx helper promises: how the result of an asynchronous call is waited for, that the
  \<open>REGISTER\<close> command is understood, and, as its loop and the threads of the library are a run of the
  step relation of \<open>Pmix_Fence\<close>, which fences have got their callback by the time the helper ends.
\<close>

section \<open>Waiting\<close>

lemma active_at_simps [simp]:
  "active_at None i = -1" "active_at (Some (k, st)) i = (if k \<le> i then st else -1)"
  by (simp_all add: active_at_def)

lemma wait_loop_never:
  "(\<And>j. i \<le> j \<Longrightarrow> j < i + n \<Longrightarrow> active_at a j = -1) \<Longrightarrow> wait_loop K a i n = (False, i + n)"
proof (induction n arbitrary: i)
  case (Suc n)
  from Suc.prems have "active_at a i = -1" by simp
  moreover have "wait_loop K a (i + 1) n = (False, i + 1 + n)"
    by (rule Suc.IH) (use Suc.prems in simp)
  ultimately show ?case by simp
qed simp

lemma wait_loop_comes:
  "st \<noteq> -1 \<Longrightarrow> i \<le> k \<Longrightarrow> k < i + n \<Longrightarrow>
   wait_loop K (Some (k, st)) i n = (st = PMIX_SUCCESS K \<or> st = PMIX_OPERATION_SUCCEEDED K, k)"
proof (induction n arbitrary: i)
  case (Suc n)
  show ?case
  proof (cases "k = i")
    case False
    with Suc.prems Suc.IH [of "i + 1"] show ?thesis by simp
  qed (use Suc.prems in simp)
qed simp

lemma wait_call_eq:
  "wait_call K (imm, a) =
     (if imm = PMIX_OPERATION_SUCCEEDED K then PMIX_SUCCESS K
      else if imm \<noteq> PMIX_SUCCESS K then imm
      else case a of
        Some (k, st) \<Rightarrow> if k < 2000 \<and> st \<noteq> -1 \<and> st \<in> {PMIX_SUCCESS K, PMIX_OPERATION_SUCCEEDED K} then st
          else PMIX_ERR_TIMEOUT K
      | None \<Rightarrow> PMIX_ERR_TIMEOUT K)"
proof (cases a)
  case None
  then show ?thesis using wait_loop_never [of 0 2000 None K] by (simp add: wait_call_def wait_sync_def)
next
  case (Some r)
  obtain k st where a: "a = Some (k, st)" using Some by (cases r) auto
  show ?thesis
  proof (cases "k < 2000 \<and> st \<noteq> -1")
    case True
    then show ?thesis using wait_loop_comes [of st 0 k 2000 K] by (auto simp: a wait_call_def wait_sync_def)
  next
    case False
    then have "wait_loop K a 0 2000 = (False, 0 + 2000)" by (intro wait_loop_never) (auto simp: a)
    with False show ?thesis by (auto simp: a wait_call_def wait_sync_def)
  qed
qed

text \<open>An error that comes asynchronously is reported as a timeout, a late success of the second kind as an error.\<close>

lemma async_error_is_timeout:
  "pmix_codes_ok K \<Longrightarrow> wait_call K (PMIX_SUCCESS K, Some (3, PMIX_ERR_NOT_FOUND K)) = PMIX_ERR_TIMEOUT K"
  "pmix_codes_ok K \<Longrightarrow> PMIX_OPERATION_SUCCEEDED K \<noteq> -1 \<Longrightarrow>
    wait_call K (PMIX_SUCCESS K, Some (3, PMIX_OPERATION_SUCCEEDED K)) \<noteq> PMIX_SUCCESS K"
  by (auto simp: wait_call_eq pmix_codes_ok_def)

section \<open>The REGISTER command\<close>

text \<open>The arguments as \<open>wm_pmix\<close> formats them, for any list of local ranks.\<close>

definition register_args :: "nat \<Rightarrow> nat \<Rightarrow> nat list \<Rightarrow> string" where
  "register_args n l ranks = dec_nat n @ '' '' @ dec_nat l @ '' '' @ join_csv (map dec_nat ranks)"

lemma join_csv_hd: "xs \<noteq> [] \<Longrightarrow> hd xs \<noteq> [] \<Longrightarrow> join_csv xs \<noteq> [] \<and> hd (join_csv xs) = hd (hd xs)"
  by (induction xs rule: join_csv.induct) auto

lemma join_csv_last: "xs \<noteq> [] \<Longrightarrow> last xs \<noteq> [] \<Longrightarrow> last (join_csv xs) = last (last xs)"
proof (induction xs rule: join_csv.induct)
  case (3 x y xs)
  have "join_csv (y # xs) \<noteq> [] \<or> join_csv (y # xs) = []" by simp
  moreover have "join_csv (y # xs) \<noteq> []"
    using 3(3) by (cases xs) auto
  ultimately show ?case using 3 by simp
qed auto

lemma digit_not_delim: "is_digit c \<Longrightarrow> c \<noteq> CHR '' '' \<and> c \<noteq> CHR 0x0D \<and> c \<noteq> CHR '',''"
  by (auto simp: is_digit_def)

lemma hd_dec: "is_digit (hd (dec_nat n))" "is_digit (last (dec_nat n))"
  using dec_nat_digits dec_nat_nonempty hd_in_set last_in_set by blast+

lemma trim_end_id: "s \<noteq> [] \<Longrightarrow> last s \<noteq> CHR '' '' \<Longrightarrow> last s \<noteq> CHR 0x0D \<Longrightarrow> trim_end s = s"
  by (cases s rule: rev_cases) (auto simp: trim_end_def)

lemma parse_register_args:
  assumes "n < 2 ^ 64" and "l < 2 ^ 64" and "ranks \<noteq> []"
  shows "parse_register (register_args n l ranks) = (of_nat n, of_nat l, join_csv (map dec_nat ranks))"
proof -
  let ?p = "join_csv (map dec_nat ranks)"
  have p: "?p \<noteq> []" "is_digit (hd ?p)" "is_digit (last ?p)"
    using join_csv_hd [of "map dec_nat ranks"] join_csv_last [of "map dec_nat ranks"] assms(3) hd_dec
    by (simp_all add: hd_map last_map dec_nat_nonempty)
  then have trim: "trim_end ?p = ?p" using trim_end_id digit_not_delim by blast
  have drop1: "dropWhile (\<lambda>c. c = CHR '' '') (CHR '' '' # dec_nat l @ s) = dec_nat l @ s" for s
    using hd_dec(1) [of l] digit_not_delim dec_nat_nonempty [of l] by (cases "dec_nat l") auto
  have drop2: "dropWhile (\<lambda>c. c = CHR '' '') (CHR '' '' # ?p) = ?p"
    using p(1,2) digit_not_delim by (cases ?p) auto
  have s1: "stoul (register_args n l ranks) = Inr (of_nat n, length (dec_nat n))"
    unfolding register_args_def by (rule stoul_dec_nat [OF assms(1)]) (simp add: is_digit_def)
  have s2: "stoul (dec_nat l @ '' '' @ ?p) = Inr (of_nat l, length (dec_nat l))"
    by (rule stoul_dec_nat [OF assms(2)]) (simp add: is_digit_def)
  define X where "X = dec_nat l @ '' '' @ ?p"
  have x: "X \<noteq> []" "stoul X = Inr (of_nat l, length (dec_nat l))" "drop (length (dec_nat l)) X = CHR '' '' # ?p"
    using s2 by (simp_all add: X_def)
  have d1: "dropWhile (\<lambda>c. c = CHR '' '') (drop (length (dec_nat n)) (register_args n l ranks)) = X"
    using drop1 [of "'' '' @ ?p"] by (simp add: register_args_def X_def del: dropWhile_eq_Nil_conv)
  show ?thesis
    unfolding parse_register_def s1 by (simp add: Let_def d1 x drop2 trim del: dropWhile_eq_Nil_conv dropWhile.simps)
qed

lemma parse_ranks_csv:
  assumes "ranks \<noteq> []" and "\<forall>r \<in> set ranks. r < 2 ^ 32"
  shows "parse_ranks (join_csv (map dec_nat ranks)) = map of_nat ranks"
proof -
  have parts: "comma_parts [] (join_csv (map dec_nat ranks)) = map dec_nat ranks"
    using assms(1) digit_not_delim dec_nat_digits by (intro comma_parts_join) fastforce+
  have "stoul (dec_nat r) = Inr (of_nat r, length (dec_nat r))" if "r \<in> set ranks" for r
    using stoul_dec_nat [of r "[]"] assms(2) that by force
  moreover have "ucast (of_nat r :: u64) = (of_nat r :: u32)" if "r \<in> set ranks" for r
    using assms(2) that by (force simp: unsigned_of_nat take_bit_nat_eq_self)
  ultimately have "concat (map (\<lambda>tok. case stoul tok of Inl _ \<Rightarrow> [] | Inr (r, _) \<Rightarrow> [ucast r]) (map dec_nat ranks))
      = map (of_nat :: nat \<Rightarrow> u32) ranks"
    by (induction ranks) auto
  then show ?thesis
    unfolding parse_ranks_def parts by (simp add: filter_map comp_def dec_nat_nonempty)
qed

section \<open>The helper as a run of the fence relation\<close>

text \<open>
  \<open>keeps_fences\<close>: an operation of \<open>main\<close>, with the threads that run meanwhile, is a run of the relation,
  and the threads may make more requests.
\<close>

definition fence_run :: "pmix_codes \<Rightarrow> 'c fence_sys \<Rightarrow> 'c fence_sys \<Rightarrow> bool" where
  "fence_run K f f' \<longleftrightarrow> (fence_reachable K f \<longrightarrow> fence_reachable K f') \<and> (\<exists>cbs. issued f' = issued f @ cbs)"

lemma fence_run_refl [simp]: "fence_run K f f"
  by (simp add: fence_run_def)

lemma fence_run_trans: "fence_run K f g \<Longrightarrow> fence_run K g h \<Longrightarrow> fence_run K f h"
  by (auto simp: fence_run_def)

lemma fence_run_step: "fence_step K f g \<Longrightarrow> issued g = issued f @ cbs \<Longrightarrow> fence_run K f g"
  by (auto simp: fence_run_def intro: fence_reachable.step)

lemma fence_run_thread: "fence_run K f (run_thread t f)"
proof (induction t f rule: run_thread.induct)
  case (1 data n cb s)
  show ?case
    by (rule fence_run_step [where cbs = "[cb]"])
      (auto simp: fencenb_take_def intro!: begin_fence [where s' = "s\<lparr>g_fence_seq := g_fence_seq s + 1\<rparr>" for s, simplified])
next
  case (2 i cb blob n s)
  then show ?case
    using fence_run_step [OF store_fence, of i cb blob n s "[]"] by (auto simp: fencenb_store_def)
next
  case (3 i blob n s)
  then show ?case
    using fence_run_step [OF emit_fence, of i blob n s "[]"] by (auto simp: fencenb_emit_def emit_line_def)
qed

lemma fence_run_threads: "fence_run K f (fold run_thread ts f)"
  by (induction ts arbitrary: f) (auto intro: fence_run_trans fence_run_thread)

definition keeps_fences :: "pmix_codes \<Rightarrow> ('c, 'w) server \<Rightarrow> ('c, 'w) server \<Rightarrow> bool" where
  "keeps_fences K s s' \<longleftrightarrow> fence_run K (sv_fences s) (sv_fences s')"

lemma keeps_refl: "sv_fences s' = sv_fences s \<Longrightarrow> keeps_fences K s s'"
  by (simp add: keeps_fences_def)

lemma keeps_trans: "keeps_fences K s t \<Longrightarrow> keeps_fences K t u \<Longrightarrow> keeps_fences K s u"
  unfolding keeps_fences_def by (rule fence_run_trans)

lemma keeps_threads: "keeps_fences K s (threads_run s)"
  by (auto simp: keeps_fences_def threads_run_def fence_run_threads split: list.split)

lemma keeps_atomically:
  assumes "keeps_fences K s t" and "\<And>g. fence_step K g (f g)" and "\<And>g. issued (f g) = issued g"
  shows "keeps_fences K s (atomically f t)"
proof -
  have "fence_run K (sv_fences (threads_run t)) (f (sv_fences (threads_run t)))"
    using fence_run_step [OF assms(2), where cbs = "[]"] assms(3) by simp
  then have "keeps_fences K (threads_run t) (atomically f t)"
    by (simp add: keeps_fences_def atomically_def Let_def)
  with assms(1) show ?thesis using keeps_trans keeps_threads by blast
qed

lemma keeps_say: "keeps_fences K s t \<Longrightarrow> keeps_fences K s (say l t)"
  unfolding say_def
  by (rule keeps_atomically) (assumption, rule fence_step.other_line, simp add: emit_line_def)

lemma keeps_same: "keeps_fences K s s"
  by (simp add: keeps_refl)

lemma keeps_contrib: "keeps_fences K s (set_contrib_id z s)"
  unfolding set_contrib_id_def by (rule keeps_atomically) (simp_all add: fence_step.set_contrib keeps_same)

lemma keeps_fence_out: "keeps_fences K s (atomically (handle_fence_out K line) s)"
proof (rule keeps_atomically)
  show "issued (handle_fence_out K line g) = issued g" for g :: "'a fence_sys"
    using handle_fence_out_cases [of K line g] complete_fence_frame(3) [of K _ _ _ g] by auto
qed (simp_all add: fence_step.fence_line keeps_same)

lemma register_nspace_fences: "sv_fences (snd (register_nspace L H ns n l p s)) = sv_fences s"
  by (simp add: register_nspace_def deregister_old_def Let_def split: prod.split)

lemma register_clients_fences: "sv_fences (snd (register_clients L H ns rs s)) = sv_fences s"
  by (simp add: register_clients_def split: prod.split)

lemma server_fork_env_fences: "sv_fences (snd (server_fork_env L ns r s)) = sv_fences s"
  by (simp add: server_fork_env_def split: prod.split)

lemma chmod_tree_fences: "sv_fences (chmod_tree_world_rwx d s) = sv_fences s"
  by (simp add: chmod_tree_world_rwx_def)

lemma keeps_say_env: "keeps_fences K s t \<Longrightarrow> keeps_fences K s (say_env fe t)"
proof -
  assume k: "keeps_fences K s t"
  have "keeps_fences K s (fold (\<lambda>(k, v). say (''ENV '' @ k @ ''='' @ v)) vs t)" for vs
    using k by (induction vs arbitrary: t) (auto intro: keeps_say)
  then show ?thesis by (simp add: say_env_def keeps_say)
qed

lemma keeps_register: "keeps_fences K s (do_register L H ns args s)"
proof -
  obtain n l p where a: "register_defaults (parse_register args) = (n, l, p)" by (metis surj_pair)
  obtain ok1 s1 where 1: "register_nspace L H ns n l p s = (ok1, s1)" by (metis surj_pair)
  obtain ok2 s2 where 2: "register_clients L H ns (parse_ranks p) s1 = (ok2, s2)" by (metis surj_pair)
  have "sv_fences s1 = sv_fences s" "sv_fences s2 = sv_fences s"
    using register_nspace_fences [of L H ns n l p s] register_clients_fences [of L H ns "parse_ranks p" s1] 1 2
    by simp_all
  then show ?thesis by (simp add: do_register_def a 1 2 keeps_say keeps_refl)
qed

lemma keeps_contrib_cmd: "keeps_fences K s (do_contrib_id args s)"
  by (simp add: do_contrib_id_def keeps_say keeps_same keeps_contrib split: sum.split)

lemma keeps_setup_fork: "keeps_fences K s (do_setup_fork L H ns d args s)"
proof -
  define rank :: u32 where "rank = (case stoul args of Inl _ \<Rightarrow> 0 | Inr (r, _) \<Rightarrow> ucast r)"
  define s1 where "s1 = snd (register_clients L H ns [rank] (set_contrib_id (sint rank) s))"
  obtain fe s2 where f: "server_fork_env L ns rank s1 = (fe, s2)" by fastforce
  have "keeps_fences K s s1"
    using keeps_trans [OF keeps_contrib keeps_refl [OF register_clients_fences]] by (simp add: s1_def)
  moreover have "sv_fences s2 = sv_fences s1" using server_fork_env_fences [of L ns rank s1] f by simp
  ultimately have "keeps_fences K s s2" by (simp add: keeps_fences_def)
  then have "keeps_fences K s (if pmix_world_tmp_enabled H then chmod_tree_world_rwx d s2 else s2)"
    by (simp add: keeps_fences_def chmod_tree_fences)
  then show ?thesis
    by (simp add: do_setup_fork_def Let_def rank_def [symmetric] s1_def [symmetric] f keeps_say_env keeps_say)
qed

lemma server_line_keeps:
  "server_line L H ns d line s = Some s' \<Longrightarrow> keeps_fences (pl_codes L) s s'"
  unfolding server_line_def
  by (auto simp: keeps_register keeps_contrib_cmd keeps_setup_fork keeps_fence_out keeps_same
      intro: keeps_say split: if_splits)

lemma keeps_start: "keeps_fences K s (server_start L H jid ns d s)"
proof -
  define s2 where "s2 = snd (register_clients L H ns [0] (snd (register_nspace L H ns 1 1 ''0'' s)))"
  obtain fe s3 where f: "server_fork_env L ns 0 s2 = (fe, s3)" by fastforce
  have "sv_fences s3 = sv_fences s"
    using server_fork_env_fences [of L ns 0 s2] f
    by (simp add: s2_def register_clients_fences register_nspace_fences)
  then have "keeps_fences K s (if pmix_world_tmp_enabled H then chmod_tree_world_rwx d s3 else s3)"
    by (simp add: keeps_refl chmod_tree_fences)
  then show ?thesis
    by (simp add: server_start_def Let_def s2_def [symmetric] f keeps_say_env keeps_say)
qed

lemma server_loop_keeps: "keeps_fences (pl_codes L) s (server_loop L H ns d ls s)"
proof (induction L H ns d ls s rule: server_loop.induct)
  case (2 L H ns d line ls s)
  then show ?case
    using server_line_keeps keeps_trans by (fastforce simp: keeps_same split: option.split)
qed (simp add: keeps_same)

text \<open>The fences when the drain begins: after the loop and what the threads did until then.\<close>

definition before_drain ::
  "'w pmix_lib \<Rightarrow> 'v posix \<Rightarrow> host \<Rightarrow> string \<Rightarrow> string \<Rightarrow> 'c thread_step list list \<Rightarrow> string list \<Rightarrow>
   'w \<Rightarrow> 'v \<Rightarrow> ('c, 'w) server" where
  "before_drain L P H jid ns tss lines w v = (let
     d = fst (resolve_pmix_tmpdir P H jid v);
     w1 = snd (pl_init L d w)
     in threads_run (server_loop L H ns d lines (server_start L H jid ns d (server_init tss w1))))"

lemma main_end:
  assumes "pmix_main L P H egid args tss lines w v = (0, s)" and "job_and_nspace H args = Inr (jid, ns)"
  shows "let s1 = before_drain L P H jid ns tss lines w v in
    fence_reachable (pl_codes L) (sv_fences s1) \<and>
    s = say ''STOPPED'' (s1\<lparr>sv_fences := drain_fences (pl_codes L) (sv_fences s1)\<rparr>)"
proof -
  define s1 where "s1 = before_drain L P H jid ns tss lines w v"
  obtain d v1 where d: "resolve_pmix_tmpdir P H jid v = (d, v1)" by (metis surj_pair)
  obtain rc w1 where w1: "pl_init L d w = (rc, w1)" by (metis surj_pair)
  let ?s0 = "server_init tss w1" and ?loop = "server_loop L H ns d lines (server_start L H jid ns d (server_init tss w1))"
  have "s = server_stop L ?loop"
    using assms by (auto simp: pmix_main_def d w1 split: if_splits)
  moreover have "s1 = threads_run ?loop" by (simp add: s1_def before_drain_def d w1)
  moreover have "keeps_fences (pl_codes L) ?s0 s1"
    unfolding \<open>s1 = threads_run ?loop\<close> by (rule keeps_trans [OF keeps_trans [OF keeps_start server_loop_keeps] keeps_threads])
  moreover have "fence_reachable (pl_codes L) (sv_fences ?s0)"
    by (simp add: server_init_def fence_reachable.init)
  ultimately show ?thesis
    unfolding s1_def [symmetric] Let_def
    by (simp add: keeps_fences_def fence_run_def server_stop_def atomically_def Let_def)
qed

text \<open>After the drain the threads make no call and main writes only the last line.\<close>

lemma run_threads_calls: "modex_calls (fold run_thread ts f) = modex_calls f"
proof (induction ts arbitrary: f)
  case (Cons t ts)
  have "modex_calls (run_thread t f) = modex_calls f"
    by (cases "(t, f)" rule: run_thread.cases)
      (auto simp: fencenb_take_def fencenb_store_def fencenb_emit_def emit_line_def)
  with Cons show ?case by simp
qed simp

lemma say_calls: "modex_calls (sv_fences (say l s)) = modex_calls (sv_fences s)"
  by (simp add: say_def atomically_def emit_line_def threads_run_def run_threads_calls split: list.split)

lemma say_last: "last (lines_out (sv_fences (say l s))) = l"
  by (simp add: say_def atomically_def emit_line_def Let_def)

lemma drain_failed:
  "\<exists>failed. modex_calls (drain_fences K f) = modex_calls f @ failed \<and>
     (\<forall>c \<in> set failed. mc_status c = PMIX_ERROR K \<and> mc_data c = None)"
  by (auto simp: drain_fences_eq split: option.splits)

lemma balance_drain:
  assumes "fence_reachable K f" and "length (issued f) < 2 ^ 64"
  shows "mset (map mc_cb (modex_calls (drain_fences K f))) + (\<Sum>g\<in>#flights f. owed_flight g) =
    (\<Sum>cb\<in>#mset (issued f). owed cb)"
  using fence_reachable_inv [OF assms(1)] assms(2) drain_fences_balance [of K f]
  by (simp add: fence_inv_def fence_balanced_def called_def ac_simps)

lemma main_fences:
  assumes "pmix_main L P H egid args tss lines w v = (0, s)" and "job_and_nspace H args = Inr (jid, ns)"
    and "length (issued (sv_fences s)) < 2 ^ 64"
  shows "let f = sv_fences (before_drain L P H jid ns tss lines w v) in
    mset (map mc_cb (modex_calls (sv_fences s))) + (\<Sum>g\<in>#flights f. owed_flight g) =
      (\<Sum>cb\<in>#mset (issued f). owed cb) \<and>
    (\<exists>late. issued (sv_fences s) = issued f @ late) \<and>
    (\<exists>failed. modex_calls (sv_fences s) = modex_calls f @ failed \<and>
       (\<forall>c \<in> set failed. mc_status c = PMIX_ERROR (pl_codes L) \<and> mc_data c = None)) \<and>
    last (lines_out (sv_fences s)) = ''STOPPED''"
proof -
  define s1 where "s1 = before_drain L P H jid ns tss lines w v"
  define s2 where "s2 = s1\<lparr>sv_fences := drain_fences (pl_codes L) (sv_fences s1)\<rparr>"
  have r: "fence_reachable (pl_codes L) (sv_fences s1)" and s: "s = say ''STOPPED'' s2"
    using main_end [OF assms(1,2)] by (simp_all add: Let_def s1_def [symmetric] s2_def)
  have "issued (sv_fences s2) = issued (sv_fences s1)" by (simp add: s2_def drain_fences_eq)
  moreover have "keeps_fences (pl_codes L) s2 s" unfolding s by (rule keeps_say [OF keeps_same])
  ultimately obtain late where late: "issued (sv_fences s) = issued (sv_fences s1) @ late"
    by (auto simp: keeps_fences_def fence_run_def)
  with assms(3) have "length (issued (sv_fences s1)) < 2 ^ 64" by simp
  from balance_drain [OF r this] late drain_failed [of "pl_codes L" "sv_fences s1"] show ?thesis
    unfolding Let_def s1_def [symmetric] by (simp add: s s2_def say_calls say_last)
qed

text \<open>
  C4. For every way in which the helper runs to its end, whatever lines it gets and however the threads
  of the library run in between: of the fences requested before the shutdown, every completion callback
  that was stored by the time of the drain has been called exactly once when the helper ends, and
  exactly those of the requests that were then between their number and their store have not. The calls
  that the drain adds report \<open>PMIX_ERROR\<close> without data, a request that begins after it is never
  completed, and the last line is \<open>STOPPED\<close>.
\<close>

theorem helper_completes_every_fence:
  assumes "pmix_main L P H egid args tss lines w v = (0, s)" and "job_and_nspace H args = Inr (jid, ns)"
    and "length (issued (sv_fences s)) < 2 ^ 64"
  shows "let f = sv_fences (before_drain L P H jid ns tss lines w v) in
    mset (map mc_cb (modex_calls (sv_fences s))) + (\<Sum>g\<in>#flights f. owed_flight g) =
      (\<Sum>cb\<in>#mset (issued f). owed cb) \<and>
    (\<exists>late. issued (sv_fences s) = issued f @ late) \<and>
    (\<exists>failed. modex_calls (sv_fences s) = modex_calls f @ failed \<and>
       (\<forall>c \<in> set failed. mc_status c = PMIX_ERROR (pl_codes L) \<and> mc_data c = None)) \<and>
    last (lines_out (sv_fences s)) = ''STOPPED''"
  by (rule main_fences [OF assms])

text \<open>
  C27. The result of waiting for an asynchronous call of the library: an immediate success of the
  second kind is success, an immediate error is that error; otherwise it is the status of the
  callback if it comes within 2000 turns (ten seconds) and is one of the two successes, and a
  timeout in every other case, errors included.
\<close>

theorem wait_call_result:
  "wait_call K (imm, a) =
     (if imm = PMIX_OPERATION_SUCCEEDED K then PMIX_SUCCESS K
      else if imm \<noteq> PMIX_SUCCESS K then imm
      else case a of
        Some (k, st) \<Rightarrow> if k < 2000 \<and> st \<noteq> -1 \<and> st \<in> {PMIX_SUCCESS K, PMIX_OPERATION_SUCCEEDED K} then st
          else PMIX_ERR_TIMEOUT K
      | None \<Rightarrow> PMIX_ERR_TIMEOUT K)"
  by (rule wait_call_eq)

text \<open>
  C28. The arguments of a \<open>REGISTER\<close> command, the size of the job, the number of local processes and
  their ranks as decimal numbers, are read back exactly.
\<close>

theorem register_roundtrip:
  assumes "n < 2 ^ 64" and "l < 2 ^ 64" and "ranks \<noteq> []" and "\<forall>r \<in> set ranks. r < 2 ^ 32"
  shows "parse_register (register_args n l ranks) = (of_nat n, of_nat l, join_csv (map dec_nat ranks)) \<and>
    parse_ranks (join_csv (map dec_nat ranks)) = map of_nat ranks"
  using parse_register_args [OF assms(1-3)] parse_ranks_csv [OF assms(3,4)] by blast

lemma register_roundtrip_witness:
  "parse_register (register_args 8 2 [4, 5]) = (of_nat 8, of_nat 2, join_csv (map dec_nat [4, 5])) \<and>
    parse_ranks (join_csv (map dec_nat [4, 5])) = map of_nat [4, 5]"
  by (rule register_roundtrip) simp_all

section \<open>A library to run the helper on\<close>

definition sample_lib :: "unit pmix_lib" where
  "sample_lib = \<lparr>pl_codes = openpmix_codes, pl_init = (\<lambda>d w. (0, w)),
     pl_register_client = (\<lambda>ns r u g w. ((0, Some (1, 0)), w)),
     pl_deregister_nspace = (\<lambda>ns w. (Some (1, 0), w)),
     pl_register_nspace = (\<lambda>ns n i w. ((0, Some (1, 0)), w)),
     pl_setup_application = (\<lambda>ns w. ((0, Some (1, 0)), w)),
     pl_setup_local_support = (\<lambda>ns w. ((0, Some (1, 0)), w)),
     pl_setup_fork = (\<lambda>ns r w. ((0, Some [''PMIX_RANK=0'', ''PMIX_SERVER_URI2=u'']), w)),
     pl_regex = Some, pl_ppn = Some\<rparr>"

definition sample_host :: host where
  "sample_host = \<lparr>h_getenv = (\<lambda>v. if v = ''SWM_PMIX_TMPDIR'' then Some ''/s/p'' else None), h_uid = 0, h_gid = 0,
     h_user = (\<lambda>n. None), h_hostname = Some ''n1''\<rparr>"

definition sample_posix :: "memfs posix" where
  "sample_posix = mem_posix 0 (\<lambda>_. None)"

lemma sample_args: "job_and_nspace sample_host [''--job-id'', ''j''] = Inr (''j'', ''swm-j'')"
  by (simp add: job_and_nspace_def Let_def)

lemma sample_tmpdir: "resolve_pmix_tmpdir P sample_host j v = (''/s/p'', v)"
  by (simp add: resolve_pmix_tmpdir_def Let_def) (simp add: sample_host_def)

lemma sample_codes: "PMIX_SUCCESS openpmix_codes = 0" "PMIX_ERROR openpmix_codes = -1"
  by (simp_all add: openpmix_codes_def)

lemma sample_wait: "wait_call openpmix_codes (0, Some (Suc 0, 0)) = 0"
  by (simp add: wait_call_eq openpmix_codes_def)

lemma sample_register:
  "register_nspace sample_lib sample_host ns n l p s = (True, (deregister_old sample_lib ns s)\<lparr>sv_registered := True\<rparr>)"
  "register_clients sample_lib sample_host ns [r] s = (True, s)"
  by (simp_all add: register_nspace_def register_clients_def Let_def sample_lib_def sample_wait sample_codes)

lemma sample_fork_env:
  "server_fork_env sample_lib ns r s =
     (\<lparr>fe_uri = ''u'', fe_vars = [(''PMIX_RANK'', ''0''), (''PMIX_SERVER_URI2'', ''u''), (''PMIX_SERVER_URI'', ''u'')]\<rparr>, s)"
proof -
  have "add_server_uri (fold fork_env_entry [''PMIX_RANK=0'', ''PMIX_SERVER_URI2=u''] ForkEnv_init) =
    \<lparr>fe_uri = ''u'', fe_vars = [(''PMIX_RANK'', ''0''), (''PMIX_SERVER_URI2'', ''u''), (''PMIX_SERVER_URI'', ''u'')]\<rparr>"
    by code_simp
  then show ?thesis by (simp add: server_fork_env_def sample_lib_def sample_codes)
qed

text \<open>No request was made and the threads pause for \<open>n\<close> actions.\<close>

definition paused :: "nat \<Rightarrow> 'c thread_step list list \<Rightarrow> ('c, 'w) server \<Rightarrow> bool" where
  "paused n tss s \<longleftrightarrow> sv_threads s = replicate n [] @ tss \<and>
     (\<exists>ls. sv_fences s = fence_sys_init\<lparr>lines_out := ls\<rparr>)"

lemma paused_say: "paused (Suc n) tss s \<Longrightarrow> paused n tss (say l s)"
  by (auto simp: paused_def say_def atomically_def threads_run_def emit_line_def)

text \<open>
  A request that is stored before the line \<open>PING\<close> is answered, one that has its number but is stored only
  after the drain, and one that begins after it.
\<close>

definition sample_schedule :: "nat thread_step list list" where
  "sample_schedule =
     [[Request (Some ''ab'') 2 (Some 5), Advance (Taken 1 (Some 5) ''ab'' 2), Advance (Stored 1 ''ab'' 2)],
      [Request None 0 (Some 7)],
      [Advance (Taken 2 (Some 7) [] 0), Request None 0 (Some 8)]]"

definition sample_start :: "(nat, unit) server" where
  "sample_start = server_start sample_lib sample_host ''j'' ''swm-j'' ''/s/p''
     (server_init (replicate 5 [] @ sample_schedule) ())"

lemma sample_start_paused: "paused 0 sample_schedule sample_start"
proof -
  define s0 where "s0 = (deregister_old sample_lib ''swm-j''
      (server_init (replicate 5 [] @ sample_schedule) () :: (nat, unit) server))\<lparr>sv_registered := True\<rparr>"
  have "paused (Suc (Suc (Suc (Suc (Suc 0))))) sample_schedule s0"
    by (simp add: paused_def s0_def deregister_old_def server_init_def eval_nat_numeral) (simp add: fence_sys_init_def)
  then have "paused 0 sample_schedule (say l1 (say l2 (say l3 (say l4 (say l5 s0)))))" for l1 l2 l3 l4 l5
    by (intro paused_say)
  then show ?thesis
    by (simp add: sample_start_def server_start_def sample_register sample_fork_env s0_def [symmetric] Let_def say_env_def
        pmix_world_tmp_enabled_def) (simp add: sample_host_def)
qed

lemma sample_loop:
  "server_loop sample_lib sample_host ns d [''PING'', ''STOP''] s = say ''PONG'' s"
  by (simp add: server_line_def starts_with_def)

lemma sample_end:
  assumes "paused 0 sample_schedule s"
  shows "issued (sv_fences (threads_run (say l s))) = [Some 5, Some 7]"
    "flights (sv_fences (threads_run (say l s))) = {#Taken 2 (Some 7) [] 0#}"
    "issued (sv_fences (server_stop sample_lib (say l s))) = [Some 5, Some 7, Some 8]"
    "modex_calls (sv_fences (server_stop sample_lib (say l s))) =
       [\<lparr>mc_cb = 5, mc_status = -1, mc_data = None\<rparr>]"
    "map fst (g_pending_fences (sv_fences (server_stop sample_lib (say l s)))) = [2]"
proof -
  obtain ls where t: "sv_threads s = sample_schedule" and f: "sv_fences s = fence_sys_init\<lparr>lines_out := ls\<rparr>"
    using assms by (auto simp: paused_def)
  note d = t f fence_sys_init_def say_def atomically_def threads_run_def sample_schedule_def server_stop_def
      fencenb_take_def fencenb_store_def fencenb_emit_def emit_line_def fence_blob_def drain_fences_eq
      sample_lib_def sample_codes
  show "issued (sv_fences (threads_run (say l s))) = [Some 5, Some 7]" by (simp add: d)
  show "flights (sv_fences (threads_run (say l s))) = {#Taken 2 (Some 7) [] 0#}" by (simp add: d)
  show "issued (sv_fences (server_stop sample_lib (say l s))) = [Some 5, Some 7, Some 8]" by (simp add: d)
  show "modex_calls (sv_fences (server_stop sample_lib (say l s))) =
       [\<lparr>mc_cb = 5, mc_status = -1, mc_data = None\<rparr>]" by (simp add: d)
  show "map fst (g_pending_fences (sv_fences (server_stop sample_lib (say l s)))) = [2]" by (simp add: d)
qed

definition sample_final :: "(nat, unit) server" where
  "sample_final = server_stop sample_lib (say ''PONG'' sample_start)"

lemma sample_main:
  "pmix_main sample_lib sample_posix sample_host 0 [''--job-id'', ''j''] (replicate 5 [] @ sample_schedule)
     [''PING'', ''STOP''] () spool_fs = (0, sample_final)"
proof -
  have "fst (ensure_pmix_tmpdir sample_posix 0 ''/s/p'' spool_fs)"
    by (simp add: sample_posix_def ensure_pmix_tmpdir_def ensure_private_dir_def mem_eval spool_fs_def)
  moreover have "pl_init sample_lib d () = (0, ())" "PMIX_SUCCESS (pl_codes sample_lib) = 0" for d
    by (simp_all add: sample_lib_def sample_codes)
  ultimately show ?thesis
    by (simp add: pmix_main_def sample_args sample_tmpdir sample_loop sample_final_def sample_start_def
        del: server_loop.simps)
qed

lemma sample_before_drain:
  "before_drain sample_lib sample_posix sample_host ''j'' ''swm-j'' (replicate 5 [] @ sample_schedule)
     [''PING'', ''STOP''] () spool_fs = threads_run (say ''PONG'' sample_start)"
  by (simp add: before_drain_def sample_tmpdir sample_loop sample_start_def Let_def del: server_loop.simps)

text \<open>
  The request that had only its number and the one that came after the drain wait for ever: the helper
  has ended with one call made.
\<close>

lemma late_fence_lost:
  "\<exists>s. pmix_main sample_lib sample_posix sample_host 0 [''--job-id'', ''j''] (replicate 5 [] @ sample_schedule)
     [''PING'', ''STOP''] () spool_fs = (0, s) \<and>
   issued (sv_fences s) = [Some 5, Some 7, Some 8] \<and>
   modex_calls (sv_fences s) = [\<lparr>mc_cb = 5, mc_status = -1, mc_data = None\<rparr>] \<and>
   map fst (g_pending_fences (sv_fences s)) = [2]"
  by (simp add: sample_main sample_end [OF sample_start_paused] sample_final_def)

lemma helper_completes_every_fence_witness:
  "mset (map mc_cb (modex_calls (sv_fences sample_final))) + {#7#} = {#5, 7#} \<and>
   last (lines_out (sv_fences sample_final)) = ''STOPPED''"
  using helper_completes_every_fence [OF sample_main sample_args]
  by (simp add: sample_before_drain Let_def sample_end [OF sample_start_paused] sample_final_def)

end
