(* ===== verification/Porter_Listen.thy ===== *)
theory Porter_Listen
  imports Safe_File Porter_Env Porter_Data
begin

text \<open>
  The control socket of the porter, lines 24 to 121 of \<open>porter/wm_porter_ctrl.cpp\<close>, and the part of
  \<open>main\<close> of \<open>porter/porter.cpp\<close> that leads up to it. The calls on sockets are the fields of
  \<open>sockets\<close>, over the same worlds as those of \<open>posix\<close>; what they promise is the locale
  \<open>ctrl_sockets\<close>. A path is given to a call as the string it is built from.
\<close>

section \<open>System calls\<close>

record 'w sockets =
  sk_socket :: "'w \<Rightarrow> int option \<times> 'w"
  sk_bind :: "int \<Rightarrow> string \<Rightarrow> 'w \<Rightarrow> errno option \<times> 'w"
  sk_listen :: "int \<Rightarrow> nat \<Rightarrow> 'w \<Rightarrow> errno option \<times> 'w"
  sk_getfl :: "int \<Rightarrow> 'w \<Rightarrow> int"
  sk_setfl :: "int \<Rightarrow> int \<Rightarrow> 'w \<Rightarrow> errno option \<times> 'w"
  sk_accept :: "int \<Rightarrow> 'w \<Rightarrow> int option \<times> 'w"

text \<open>\<open>O_NONBLOCK\<close> and the size of \<open>sun_path\<close> on Linux.\<close>

definition O_NONBLOCK :: int where "O_NONBLOCK = 0x800"
definition SUN_PATH_SIZE :: nat where "SUN_PATH_SIZE = 108"

section \<open>The functions of the source\<close>

definition make_ctrl_path :: "'w posix \<Rightarrow> string \<Rightarrow> 'w \<Rightarrow> string \<times> 'w" where
  "make_ctrl_path P jid w = (let dir = job_runtime_dir P w jid in
     if dir = [] then
       (case px_mkdtemp P ''/tmp/swm-porter-XXXXXX'' w of
          (None, w') \<Rightarrow> ([], w') | (Some created, w') \<Rightarrow> (created @ ''/ctrl.sock'', w'))
     else (dir @ ''/ctrl.sock'', w))"

definition set_nonblock :: "'w sockets \<Rightarrow> int \<Rightarrow> 'w \<Rightarrow> 'w" where
  "set_nonblock S fd w = (let flags = sk_getfl S fd w in
     if 0 \<le> flags then snd (sk_setfl S fd (flags OR O_NONBLOCK) w) else w)"

definition chown_ctrl :: "'w posix \<Rightarrow> string \<Rightarrow> uid \<Rightarrow> uid \<Rightarrow> 'w \<Rightarrow> errno option \<times> 'w" where
  "chown_ctrl P path uid gid w =
     (if uid \<noteq> 0 \<or> gid \<noteq> 0 then px_chown P path uid gid w else (None, w))"

text \<open>
  From the socket on. The result is the path, empty after a failure, and the value of
  \<open>*listen_fd_out\<close>.
\<close>

definition ctrl_bind ::
  "'w posix \<Rightarrow> 'w sockets \<Rightarrow> int \<Rightarrow> string \<Rightarrow> uid \<Rightarrow> uid \<Rightarrow> 'w \<Rightarrow> (string \<times> int) \<times> 'w" where
  "ctrl_bind P S fd path uid gid w =
     (if SUN_PATH_SIZE \<le> length path then (([], -1), snd (px_close P fd w))
      else case sk_bind S fd path w of (e1, w1) \<Rightarrow>
        if e1 \<noteq> None then (([], -1), snd (px_close P fd w1))
        else case px_chmod P path 384 w1 of (e2, w2) \<Rightarrow>
          if e2 \<noteq> None then (([], -1), close_unlink P fd path w2)
          else case chown_ctrl P path uid gid w2 of (e3, w3) \<Rightarrow>
            if e3 \<noteq> None then (([], -1), close_unlink P fd path w3)
            else case sk_listen S fd 4 w3 of (e4, w4) \<Rightarrow>
              if e4 \<noteq> None then (([], -1), close_unlink P fd path w4)
              else ((path, fd), set_nonblock S fd w4))"

definition ctrl_dir :: "'w posix \<Rightarrow> string \<Rightarrow> uid \<Rightarrow> uid \<Rightarrow> 'w \<Rightarrow> bool \<times> 'w" where
  "ctrl_dir P dir uid gid w = (case ensure_private_dir P dir uid gid w of (ok, w1) \<Rightarrow>
     if \<not> ok then (False, w1)
     else if px_geteuid P w1 = 0 \<and> uid \<noteq> 0 then
       (case px_chown P dir uid gid w1 of (e, w2) \<Rightarrow> (e = None, w2))
     else (True, w1))"

definition porter_ctrl_listen ::
  "'w posix \<Rightarrow> 'w sockets \<Rightarrow> string \<Rightarrow> uid \<Rightarrow> uid \<Rightarrow> 'w \<Rightarrow> (string \<times> int) \<times> 'w" where
  "porter_ctrl_listen P S jid uid gid w = (case make_ctrl_path P jid w of (path, w1) \<Rightarrow>
     (case str_rfind CHR ''/'' path of
        None \<Rightarrow> (([], -1), w1)
      | Some slash \<Rightarrow>
          if slash = 0 then (([], -1), w1)
          else case ctrl_dir P (take slash path) uid gid w1 of (ok, w2) \<Rightarrow>
            if \<not> ok then (([], -1), w2)
            else (case sk_socket S (snd (px_unlink P path w2)) of
              (None, w3) \<Rightarrow> (([], -1), w3)
            | (Some fd, w3) \<Rightarrow> ctrl_bind P S fd path uid gid w3)))"

definition porter_ctrl_accept :: "'w sockets \<Rightarrow> int \<Rightarrow> 'w \<Rightarrow> int \<times> 'w" where
  "porter_ctrl_accept S listen_fd w =
     (if listen_fd < 0 then (-1, w)
      else case sk_accept S listen_fd w of (None, w') \<Rightarrow> (-1, w') | (Some cfd, w') \<Rightarrow> (cfd, w'))"

text \<open>
  \<open>main\<close> between the command line and the fork: the request, the ids of the user (both 0 when the
  name stays unknown for 20 attempts), the control socket. \<open>Inl\<close> is the exit code.
\<close>

definition ctrl_ids :: "(nat \<Rightarrow> passwd option) \<Rightarrow> uid \<times> uid" where
  "ctrl_ids look = (case find_user look 0 20 of None \<Rightarrow> (0, 0) | Some pw \<Rightarrow> (pw_uid pw, pw_gid pw))"

definition porter_start ::
  "'w posix \<Rightarrow> 'w sockets \<Rightarrow> ei \<Rightarrow> nat \<Rightarrow> (string \<Rightarrow> nat \<Rightarrow> passwd option) \<Rightarrow> string \<Rightarrow> 'w \<Rightarrow>
   ((int + SwmProcInfo \<times> string \<times> int) \<times> 'w) option" where
  "porter_start P S E d look input w = (case read_request E d input of
     None \<Rightarrow> None
   | Some (None, _) \<Rightarrow> Some (Inl 1, w)
   | Some (Some info, _) \<Rightarrow> (case ctrl_ids (look (user_name (info_user info))) of (uid, gid) \<Rightarrow>
       (case porter_ctrl_listen P S (job_id (info_job info)) uid gid w of
          (r, w') \<Rightarrow> Some (Inr (info, r), w'))))"

text \<open>
  The child from the start of \<open>main\<close> to \<open>execve\<close>, or to its end. The user is looked up once for the socket and again
  by the child; the child closes the listening socket.
\<close>

definition porter_child ::
  "'w posix \<Rightarrow> 'w sockets \<Rightarrow> ('w \<Rightarrow> fd_table) \<Rightarrow> (exec_call \<Rightarrow> bool) \<Rightarrow> cred \<Rightarrow> ei \<Rightarrow> nat \<Rightarrow> (string \<Rightarrow> nat \<Rightarrow> passwd option) \<Rightarrow>
   (string \<Rightarrow> nat \<Rightarrow> passwd option) \<Rightarrow> string option \<Rightarrow> string \<Rightarrow> creds \<Rightarrow> 'w \<Rightarrow>
   ((int + exec_call) \<times> 'w) option" where
  "porter_child P S T X K E d look look' exe input c w = (case porter_start P S E d look input w of
     None \<Rightarrow> None
   | Some (Inl code, w1) \<Rightarrow> Some (Inl code, w1)
   | Some (Inr (info, path, fd), w1) \<Rightarrow>
       child_run P T X K E (look' (user_name (info_user info))) exe (user_name (info_user info)) (info_job info)
         path c (if 0 \<le> fd then snd (px_close P fd w1) else w1))"

section \<open>What the system promises\<close>

text \<open>
  \<open>opened w\<close>: the descriptors that are open. \<open>sock w p\<close>: mode and owner of the socket file at a
  path. \<open>bound w fd\<close>: where a socket is bound, \<open>listens w fd\<close>: whether it takes connections. A
  call that fails opens nothing, and \<open>close\<close> closes its descriptor in any case. No law is needed
  for what happens to other files.
\<close>

locale ctrl_sockets =
  fixes P :: "'w posix"
    and S :: "'w sockets"
    and opened :: "'w \<Rightarrow> int set"
    and sock :: "'w \<Rightarrow> string \<Rightarrow> (mode \<times> uid \<times> uid) option"
    and bound :: "'w \<Rightarrow> int \<Rightarrow> string option"
    and listens :: "'w \<Rightarrow> int \<Rightarrow> bool"
  assumes mkdir_opened: "px_mkdir P p m w = (e, w') \<Longrightarrow> opened w' = opened w"
    and mkdtemp_opened: "px_mkdtemp P p w = (d, w') \<Longrightarrow> opened w' = opened w"
    and unlink_opened: "px_unlink P p w = (e, w') \<Longrightarrow> opened w' = opened w"
    and close_opened: "px_close P fd w = (e, w') \<Longrightarrow> opened w' = opened w - {fd}"
    and chmod_sock: "px_chmod P p m w = (e, w') \<Longrightarrow> opened w' = opened w \<and> bound w' = bound w \<and>
        (e = None \<longrightarrow> (\<forall>m0 u g. sock w p = Some (m0, u, g) \<longrightarrow>
           (\<exists>m'. same_perms m m' \<and> sock w' p = Some (m', u, g))))"
    and chown_sock: "px_chown P p u g w = (e, w') \<Longrightarrow> opened w' = opened w \<and> bound w' = bound w \<and>
        (e = None \<longrightarrow> (\<forall>m u0 g0. sock w p = Some (m, u0, g0) \<longrightarrow>
           (\<exists>m'. same_perms m m' \<and> sock w' p = Some (m', keep_id u u0, keep_id g g0))))"
    and socket_law: "sk_socket S w = (ofd, w') \<Longrightarrow>
        (case ofd of
           None \<Rightarrow> opened w' = opened w
         | Some fd \<Rightarrow> 0 \<le> fd \<and> fd \<notin> opened w \<and> opened w' = insert fd (opened w))"
    and bind_law: "sk_bind S fd p w = (e, w') \<Longrightarrow> opened w' = opened w \<and>
        (e = None \<longrightarrow> bound w' fd = Some p \<and> sock w' p \<noteq> None)"
    and listen_law: "sk_listen S fd n w = (e, w') \<Longrightarrow>
        opened w' = opened w \<and> bound w' = bound w \<and> sock w' = sock w \<and> (e = None \<longrightarrow> listens w' fd)"
    and setfl_law: "sk_setfl S fd f w = (e, w') \<Longrightarrow>
        opened w' = opened w \<and> bound w' = bound w \<and> sock w' = sock w \<and> listens w' = listens w"
    and accept_law: "sk_accept S fd w = (ofd, w') \<Longrightarrow>
        (case ofd of
           None \<Rightarrow> opened w' = opened w
         | Some c \<Rightarrow> 0 \<le> c \<and> c \<notin> opened w \<and> opened w' = insert c (opened w))"
begin

lemma close_unlink_opened: "opened (close_unlink P fd p w) = opened w - {fd}"
proof -
  obtain e w1 where c: "px_close P fd w = (e, w1)" by (metis surj_pair)
  obtain e' w2 where u: "px_unlink P p w1 = (e', w2)" by (metis surj_pair)
  show ?thesis by (simp add: close_unlink_def c u unlink_opened [OF u] close_opened [OF c])
qed

lemma ensure_private_dir_opened:
  assumes "ensure_private_dir P dir u g w = (ok, w')"
  shows "opened w' = opened w"
  using assms
  by (rule ensure_private_dir_rel [where R = "\<lambda>v v'. opened v' = opened v"])
    (auto dest: mkdir_opened chmod_sock chown_sock)

lemma ctrl_dir_opened:
  assumes "ctrl_dir P dir u g w = (ok, w')"
  shows "opened w' = opened w"
proof -
  obtain ok1 w1 where 1: "ensure_private_dir P dir u g w = (ok1, w1)" by (metis surj_pair)
  obtain e w2 where 2: "px_chown P dir u g w1 = (e, w2)" by (metis surj_pair)
  show ?thesis
    using assms ensure_private_dir_opened [OF 1] chown_sock [OF 2]
    by (auto simp: ctrl_dir_def 1 2 split: if_splits)
qed

lemma make_ctrl_path_opened:
  assumes "make_ctrl_path P jid w = (path, w')"
  shows "opened w' = opened w"
  using assms mkdtemp_opened by (auto simp: make_ctrl_path_def Let_def split: if_splits prod.splits option.splits)

lemma set_nonblock_keeps:
  "opened (set_nonblock S fd w) = opened w \<and> bound (set_nonblock S fd w) = bound w \<and>
   sock (set_nonblock S fd w) = sock w \<and> listens (set_nonblock S fd w) = listens w"
  using setfl_law by (cases "sk_setfl S fd (sk_getfl S fd w OR O_NONBLOCK) w")
    (auto simp: set_nonblock_def Let_def)

text \<open>A socket that is ready: private, owned by the user, bound to its path and listening.\<close>

definition ready :: "string \<Rightarrow> int \<Rightarrow> uid \<Rightarrow> uid \<Rightarrow> 'w \<Rightarrow> bool" where
  "ready path fd uid gid w \<longleftrightarrow> bound w fd = Some path \<and> listens w fd \<and>
     (\<exists>u g. sock w path = Some (384, u, g) \<and>
        (uid \<noteq> 0 \<or> gid \<noteq> 0 \<longrightarrow> (uid = -1 \<or> u = uid) \<and> (gid = -1 \<or> g = gid)))"

lemma ctrl_bind_result:
  assumes "ctrl_bind P S fd path uid gid w = ((r, out), w')" and fd: "fd \<in> opened w"
  shows "r = [] \<and> out = -1 \<and> opened w' = opened w - {fd} \<or>
    r = path \<and> out = fd \<and> opened w' = opened w \<and> length path < SUN_PATH_SIZE \<and> ready path fd uid gid w'"
proof -
  obtain e0 w0 where 0: "px_close P fd w = (e0, w0)" by (metis surj_pair)
  obtain e1 w1 where 1: "sk_bind S fd path w = (e1, w1)" by (metis surj_pair)
  obtain e1' w1' where c1: "px_close P fd w1 = (e1', w1')" by (metis surj_pair)
  obtain e2 w2 where 2: "px_chmod P path 384 w1 = (e2, w2)" by (metis surj_pair)
  obtain e3 w3 where 3: "chown_ctrl P path uid gid w2 = (e3, w3)" by (metis surj_pair)
  obtain e4 w4 where 4: "sk_listen S fd 4 w3 = (e4, w4)" by (metis surj_pair)
  note l1 = bind_law [OF 1] and l2 = chmod_sock [OF 2] and l4 = listen_law [OF 4]
  have l3: "opened w3 = opened w2 \<and> bound w3 = bound w2 \<and>
      (e3 = None \<longrightarrow> (\<forall>u g. sock w2 path = Some (384, u, g) \<longrightarrow>
         (\<exists>u' g'. sock w3 path = Some (384, u', g') \<and>
            (uid \<noteq> 0 \<or> gid \<noteq> 0 \<longrightarrow> (uid = -1 \<or> u' = uid) \<and> (gid = -1 \<or> g' = gid)))))"
    using 3 chown_sock [of path uid gid w2 e3 w3] same_perms_small [of 384]
    by (fastforce simp: chown_ctrl_def keep_id_def split: if_splits)
  have eq: "opened w1 = opened w" "opened w2 = opened w" "opened w3 = opened w" "opened w4 = opened w"
    using l1 l2 l3 l4 by auto
  show ?thesis
  proof (cases "length path < SUN_PATH_SIZE \<and> e1 = None \<and> e2 = None \<and> e3 = None \<and> e4 = None")
    case True
    with l1 l2 same_perms_small [of 384] have "\<exists>u g. sock w2 path = Some (384, u, g)"
      by (cases "sock w1 path") fastforce+
    with l3 True have "\<exists>u g. sock w3 path = Some (384, u, g) \<and>
        (uid \<noteq> 0 \<or> gid \<noteq> 0 \<longrightarrow> (uid = -1 \<or> u = uid) \<and> (gid = -1 \<or> g = gid))" by blast
    then have "ready path fd uid gid (set_nonblock S fd w4)"
      using True l1 l2 l3 l4 by (simp add: ready_def set_nonblock_keeps)
    then show ?thesis
      using assms(1) True eq by (auto simp: ctrl_bind_def 1 2 3 4 set_nonblock_keeps)
  next
    case False
    then have "r = [] \<and> out = -1 \<and> w' \<in> {w0, w1', close_unlink P fd path w2, close_unlink P fd path w3,
        close_unlink P fd path w4}"
      using assms(1) by (auto simp: ctrl_bind_def 0 1 c1 2 3 4 split: if_splits)
    then show ?thesis
      using eq close_opened [OF 0] close_opened [OF c1] by (auto simp: close_unlink_opened)
  qed
qed

lemma listen_result:
  assumes "porter_ctrl_listen P S jid uid gid w = ((r, out), w')"
  shows "r = [] \<and> out = -1 \<and> opened w' = opened w \<or>
    0 \<le> out \<and> out \<notin> opened w \<and> opened w' = insert out (opened w) \<and> length r < SUN_PATH_SIZE \<and>
    ready r out uid gid w'"
proof -
  obtain path w1 where 1: "make_ctrl_path P jid w = (path, w1)" by (metis surj_pair)
  note o1 = make_ctrl_path_opened [OF 1]
  show ?thesis
  proof (cases "str_rfind CHR ''/'' path = None \<or> str_rfind CHR ''/'' path = Some 0")
    case True
    then have "r = [] \<and> out = -1 \<and> w' = w1"
      using assms by (elim disjE) (simp_all add: porter_ctrl_listen_def 1)
    with o1 show ?thesis by simp
  next
    case False
    then obtain k where k: "str_rfind CHR ''/'' path = Some k" "k \<noteq> 0" by auto
    obtain ok w2 where 2: "ctrl_dir P (take k path) uid gid w1 = (ok, w2)" by (metis surj_pair)
    obtain e w2' where u2: "px_unlink P path w2 = (e, w2')" by (metis surj_pair)
    obtain ofd w3 where 3: "sk_socket S w2' = (ofd, w3)" by (metis surj_pair)
    have o2: "opened w2 = opened w" "opened w2' = opened w"
      using o1 ctrl_dir_opened [OF 2] unlink_opened [OF u2] by auto
    show ?thesis
    proof (cases "ok \<and> ofd \<noteq> None")
      case False
      then have "r = [] \<and> out = -1 \<and> (w' = w2 \<or> ofd = None \<and> w' = w3)"
        using assms k by (cases ok; cases ofd) (simp_all add: porter_ctrl_listen_def 1 2 u2 3)
      then show ?thesis using o2 socket_law [OF 3] by auto
    next
      case True
      then obtain fd where fd: "ofd = Some fd" by blast
      with True assms k have "ctrl_bind P S fd path uid gid w3 = ((r, out), w')"
        by (simp add: porter_ctrl_listen_def 1 2 u2 3)
      moreover have new: "0 \<le> fd" "fd \<notin> opened w" "opened w3 = insert fd (opened w)"
        using socket_law [OF 3] fd o2 by auto
      ultimately consider "r = []" "out = -1" "opened w' = opened w3 - {fd}"
        | "r = path" "out = fd" "opened w' = opened w3" "length path < SUN_PATH_SIZE" "ready path fd uid gid w'"
        using ctrl_bind_result by blast
      then show ?thesis using new by cases auto
    qed
  qed
qed

lemma accept_opened:
  assumes "porter_ctrl_accept S fd w = (c, w')"
  shows "c = -1 \<and> opened w' = opened w \<or> 0 \<le> c \<and> c \<notin> opened w \<and> opened w' = insert c (opened w)"
proof (cases "fd < 0")
  case True
  with assms show ?thesis by (simp add: porter_ctrl_accept_def)
next
  case False
  obtain oc w1 where a: "sk_accept S fd w = (oc, w1)" by (metis surj_pair)
  with False assms accept_law [OF a] show ?thesis
    by (auto simp: porter_ctrl_accept_def split: option.splits)
qed

end

end
