(* ===== verification/Listen_Spec.thy ===== *)
theory Listen_Spec
  imports Porter_Listen Mem_Fs
begin

text \<open>
  What the control socket of the porter promises, and sockets in memory on top of the file system of
  \<open>Mem_Fs\<close> that satisfy \<open>ctrl_sockets\<close>.
\<close>

text \<open>
  C18. When \<open>porter_ctrl_listen\<close> returns a path, a new descriptor listens on a socket bound to that
  path, which has the mode 0600, belongs to the user of the job unless that is root (or an id is the
  reserved -1, which \<open>chown\<close> takes for no change), and fits into \<open>sun_path\<close>, and no other descriptor has been opened or closed. When it returns no path,
  \<open>*listen_fd_out\<close> is -1 and the open descriptors are those from before.
\<close>

theorem ctrl_socket_private:
  assumes "ctrl_sockets P S opened sock bound listens"
    and "porter_ctrl_listen P S jid uid gid w = ((path, fd), w')"
  shows "path = [] \<and> fd = -1 \<and> opened w' = opened w \<or>
    0 \<le> fd \<and> fd \<notin> opened w \<and> opened w' = insert fd (opened w) \<and> length path < 108 \<and>
    bound w' fd = Some path \<and> listens w' fd \<and>
    (\<exists>u g. sock w' path = Some (384, u, g) \<and>
       (uid \<noteq> 0 \<or> gid \<noteq> 0 \<longrightarrow> (uid = -1 \<or> u = uid) \<and> (gid = -1 \<or> g = gid)))"
  using ctrl_sockets.listen_result [OF assms]
  unfolding ctrl_sockets.ready_def [OF assms(1)] SUN_PATH_SIZE_def by blast

text \<open>A request that cannot be read ends the porter before it has touched anything.\<close>

lemma porter_start_refuses:
  "read_request E d input = Some (None, rest) \<Longrightarrow> porter_start P S E d look input w = Some (Inl 1, w)"
  by (simp add: porter_start_def)

section \<open>Sockets in memory\<close>

record sockfs =
  sw_fs :: memfs
  sw_socks :: "string \<Rightarrow> (mode \<times> uid \<times> uid) option"
  sw_fds :: "int set"
  sw_bound :: "int \<Rightarrow> string option"
  sw_listens :: "int set"

definition on_fs :: "(memfs \<Rightarrow> 'a \<times> memfs) \<Rightarrow> sockfs \<Rightarrow> 'a \<times> sockfs" where
  "on_fs f w = (case f (sw_fs w) of (r, fs) \<Rightarrow> (r, w\<lparr>sw_fs := fs\<rparr>))"

definition on_meta ::
  "(mode \<times> uid \<times> uid \<Rightarrow> mode \<times> uid \<times> uid) \<Rightarrow> string \<Rightarrow> sockfs \<Rightarrow> errno option \<times> sockfs" where
  "on_meta h p w = (case sw_socks w p of
     Some x \<Rightarrow> (None, w\<lparr>sw_socks := (sw_socks w)(p \<mapsto> h x)\<rparr>)
   | None \<Rightarrow> on_fs (\<lambda>fs. meta_at h (follow fs p) fs) w)"

definition sock_close :: "int \<Rightarrow> sockfs \<Rightarrow> errno option \<times> sockfs" where
  "sock_close fd w = (None, w\<lparr>sw_fs := snd (mem_close fd (sw_fs w)), sw_fds := sw_fds w - {fd}\<rparr>)"

definition sock_unlink :: "string \<Rightarrow> sockfs \<Rightarrow> errno option \<times> sockfs" where
  "sock_unlink p w = (if sw_socks w p \<noteq> None then (None, w\<lparr>sw_socks := (sw_socks w)(p := None)\<rparr>)
     else on_fs (mem_unlink p) w)"

definition sock_posix :: "uid \<Rightarrow> (string \<Rightarrow> string option) \<Rightarrow> sockfs posix" where
  "sock_posix e env = \<lparr>
     px_getenv = \<lambda>v w. env v, px_geteuid = \<lambda>w. e,
     px_mkdir = \<lambda>p m. on_fs (mem_mkdir e p m), px_mkdtemp = \<lambda>p. on_fs (mem_mkdtemp e p),
     px_chmod = \<lambda>p m. on_meta (\<lambda>(_, u, g). (m, u, g)) p,
     px_chown = \<lambda>p u g. on_meta (owned_by u g) p,
     px_open_excl = \<lambda>p m. on_fs (mem_open e p m), px_open_append = \<lambda>p m. on_fs (mem_open_append e p m),
     px_write = \<lambda>fd s. on_fs (mem_write fd s),
     px_fchmod = \<lambda>fd m. on_fs (meta_fd (\<lambda>(_, u, g). (m, u, g)) fd),
     px_fchown = \<lambda>fd u g. on_fs (meta_fd (owned_by u g) fd),
     px_close = sock_close, px_unlink = sock_unlink,
     px_chdir = \<lambda>p. on_fs (mem_chdir p), px_getcwd = \<lambda>w. Some (m_cwd (sw_fs w))\<rparr>"

definition sw_opened :: "sockfs \<Rightarrow> int set" where
  "sw_opened w = dom (m_fds (sw_fs w)) \<union> sw_fds w"

definition new_fd :: "sockfs \<Rightarrow> int option \<times> sockfs" where
  "new_fd w = (let n = m_next (sw_fs w) in
     if n < 0 \<or> m_fds (sw_fs w) n \<noteq> None \<or> n \<in> sw_fds w then (None, w)
     else (Some n, w\<lparr>sw_fs := (sw_fs w)\<lparr>m_next := n + 1\<rparr>, sw_fds := insert n (sw_fds w)\<rparr>))"

definition mem_sockets :: "uid \<Rightarrow> sockfs sockets" where
  "mem_sockets e = \<lparr>
     sk_socket = new_fd,
     sk_bind = \<lambda>fd p w.
       if fd \<in> sw_fds w \<and> sw_socks w p = None \<and> can_create (sw_fs w) p
       then (None, w\<lparr>sw_socks := (sw_socks w)(p \<mapsto> (493, e, e)), sw_bound := (sw_bound w)(fd \<mapsto> p)\<rparr>)
       else (Some Other_error, w),
     sk_listen = \<lambda>fd n w. if sw_bound w fd \<noteq> None then (None, w\<lparr>sw_listens := insert fd (sw_listens w)\<rparr>)
       else (Some Other_error, w),
     sk_getfl = \<lambda>fd w. 2,
     sk_setfl = \<lambda>fd f w. (None, w),
     sk_accept = \<lambda>fd w. if fd \<in> sw_listens w then new_fd w else (None, w)\<rparr>"

lemma on_fs_opened:
  "on_fs f w = (r, w') \<Longrightarrow> (\<And>r fs. f (sw_fs w) = (r, fs) \<Longrightarrow> m_fds fs = m_fds (sw_fs w)) \<Longrightarrow>
   sw_opened w' = sw_opened w \<and> sw_bound w' = sw_bound w \<and> sw_socks w' = sw_socks w"
  by (auto simp: on_fs_def sw_opened_def split: prod.splits)

lemma on_meta_opened:
  assumes "on_meta h p w = (r, w')"
  shows "sw_opened w' = sw_opened w \<and> sw_bound w' = sw_bound w \<and>
    (\<forall>x. sw_socks w p = Some x \<longrightarrow> sw_socks w' p = Some (h x))"
proof (cases "sw_socks w p")
  case None
  with assms have "on_fs (\<lambda>fs. meta_at h (follow fs p) fs) w = (r, w')" by (simp add: on_meta_def)
  then have "sw_opened w' = sw_opened w \<and> sw_bound w' = sw_bound w \<and> sw_socks w' = sw_socks w"
    by (rule on_fs_opened) (use meta_at_law in blast)
  with None show ?thesis by simp
next
  case (Some x)
  with assms show ?thesis by (auto simp: on_meta_def sw_opened_def)
qed

lemma new_fd_opened:
  "new_fd w = (ofd, w') \<Longrightarrow>
   (case ofd of
      None \<Rightarrow> sw_opened w' = sw_opened w
    | Some fd \<Rightarrow> 0 \<le> fd \<and> fd \<notin> sw_opened w \<and> sw_opened w' = insert fd (sw_opened w))"
  by (auto simp: new_fd_def Let_def sw_opened_def split: if_splits)

interpretation sockmem: ctrl_sockets "sock_posix e env" "mem_sockets e" sw_opened sw_socks sw_bound
  "\<lambda>w fd. fd \<in> sw_listens w"
proof (unfold_locales, goal_cases)
  case (1 p m w err w')
  then have "on_fs (mem_mkdir e p m) w = (err, w')" by (simp add: sock_posix_def)
  then show ?case
    by (rule on_fs_opened [THEN conjunct1]) (auto simp: mem_mkdir_def put_node_def split: if_splits)
next
  case (2 p w d w')
  then have "on_fs (mem_mkdtemp e p) w = (d, w')" by (simp add: sock_posix_def)
  then show ?case
    by (rule on_fs_opened [THEN conjunct1])
      (auto simp: mem_mkdtemp_def put_node_def Let_def split: if_splits)
next
  case (3 p w err w')
  show ?case
  proof (cases "sw_socks w p")
    case None
    with 3 have "on_fs (mem_unlink p) w = (err, w')" by (simp add: sock_posix_def sock_unlink_def)
    then show ?thesis
      by (rule on_fs_opened [THEN conjunct1]) (auto simp: mem_unlink_def split: if_splits)
  next
    case (Some x)
    with 3 show ?thesis by (auto simp: sock_posix_def sock_unlink_def sw_opened_def)
  qed
next
  case (4 fd w err w')
  then show ?case
    by (auto simp: sock_posix_def sock_close_def mem_close_def sw_opened_def split: if_splits)
next
  case (5 p m w err w')
  then show ?case using on_meta_opened [of _ p w err w'] by (fastforce simp: sock_posix_def)
next
  case (6 p u g w err w')
  then show ?case using on_meta_opened [of "owned_by u g" p w err w'] by (auto simp: sock_posix_def owned_by_def)
next
  case (7 w ofd w')
  then show ?case by (intro new_fd_opened) (simp add: mem_sockets_def)
next
  case (8 fd p w err w')
  then show ?case by (auto simp: mem_sockets_def sw_opened_def split: if_splits)
next
  case (9 fd n w err w')
  then show ?case by (auto simp: mem_sockets_def sw_opened_def split: if_splits)
next
  case (10 fd f w err w')
  then show ?case by (auto simp: mem_sockets_def)
next
  case (11 fd w ofd w')
  then show ?case
    using new_fd_opened [of w ofd w'] by (auto simp: mem_sockets_def split: if_splits)
qed

section \<open>On a concrete spool\<close>

definition sample_socks :: sockfs where
  "sample_socks = \<lparr>sw_fs = spool_fs, sw_socks = Map.empty, sw_fds = {}, sw_bound = Map.empty, sw_listens = {}\<rparr>"

definition spool_env :: "string \<Rightarrow> string option" where
  "spool_env v = (if v = ''SWM_SPOOL'' then Some ''/s/'' else None)"

lemmas sock_eval = sock_posix_def mem_sockets_def on_fs_def on_meta_def sock_close_def sock_unlink_def
  new_fd_def mkdir_loop.simps mkdir_part_def push_part_def str_find_from_def str_substr_def
  starts_with_def mem_mkdir_def meta_at_def can_create_def dirname_def put_node_def mem_unlink_def owned_by_def

lemma sock_path: "make_ctrl_path (sock_posix 0 spool_env) ''7'' w = (''/s/job/7/ctrl.sock'', w)"
  by (simp add: make_ctrl_path_def job_runtime_dir_def sock_posix_def spool_env_def strip_slashes.simps)

definition sample_dirs :: sockfs where
  "sample_dirs = sample_socks\<lparr>sw_fs := put_node ''/s/job/7'' (FDir 448 7 9)
     (put_node ''/s/job'' (FDir 448 0 0) spool_fs)\<rparr>"

lemma sock_mkdir:
  "ensure_private_dir (sock_posix 0 spool_env) ''/s/job/7'' 7 9 sample_socks =
    (True, sample_socks\<lparr>sw_fs := put_node ''/s/job/7'' (FDir 448 0 0)
       (put_node ''/s/job'' (FDir 448 0 0) spool_fs)\<rparr>)"
  by (simp add: ensure_private_dir_def sock_eval sample_socks_def spool_fs_def)

lemma sample_ctrl_dir: "ctrl_dir (sock_posix 0 spool_env) ''/s/job/7'' 7 9 sample_socks = (True, sample_dirs)"
  by (simp add: ctrl_dir_def sock_mkdir)
    (simp add: sock_eval sample_socks_def sample_dirs_def spool_fs_def)

definition sample_ready :: sockfs where
  "sample_ready = sample_dirs\<lparr>
     sw_fs := (sw_fs sample_dirs)\<lparr>m_next := 4\<rparr>,
     sw_socks := [''/s/job/7/ctrl.sock'' \<mapsto> (384, 7, 9)], sw_fds := {3},
     sw_bound := [3 \<mapsto> ''/s/job/7/ctrl.sock''], sw_listens := {3}\<rparr>"

lemma sample_listen:
  "porter_ctrl_listen (sock_posix 0 spool_env) (mem_sockets 0) ''7'' 7 9 sample_socks =
    ((''/s/job/7/ctrl.sock'', 3), sample_ready)"
  by (simp add: porter_ctrl_listen_def sock_path sample_ctrl_dir)
    (simp add: ctrl_bind_def chown_ctrl_def set_nonblock_def Let_def sock_eval sample_dirs_def sample_ready_def
      sample_socks_def spool_fs_def SUN_PATH_SIZE_def)

lemma ctrl_socket_private_witness:
  "sw_opened sample_ready = insert 3 (sw_opened sample_socks) \<and>
   sw_socks sample_ready ''/s/job/7/ctrl.sock'' = Some (384, 7, 9)"
  using ctrl_socket_private [OF sockmem.ctrl_sockets_axioms sample_listen] by auto

end
