(* ===== verification/Start_Spec.thy ===== *)
theory Start_Spec
  imports Porter_Listen Child_Spec
begin

text \<open>
  The start of a job from end to end: from the bytes that the Erlang side writes to the porter's
  standard input to the program that the child runs.
\<close>

lemma porter_child_request:
  assumes "read_request E d input = Some (Some \<lparr>info_job = job, info_user = user\<rparr>, rest)"
    and "ctrl_ids (look (user_name user)) = (uid, gid)"
    and "porter_ctrl_listen P S (job_id job) uid gid w = ((path, fd), w1)"
  shows "porter_child P S T X K E d look look' exe input c w =
    child_run P T X K E (look' (user_name user)) exe (user_name user) job path c
      (if 0 \<le> fd then snd (px_close P fd w1) else w1)"
  using assms by (simp add: porter_child_def porter_start_def)

text \<open>
  C1. The request that \<open>prepare_run_input\<close> builds from a user and a job, whatever follows it on the
  stream, brings the child of the porter to an end, if every \<open>write\<close> takes at least one byte or fails and
  is not interrupted for ever: an exit with one of five codes, or a successful \<open>execve\<close>, and that only
  with the environment of that job, the path of the control socket included (\<open>inh\<close> is what the porter
  inherited, which does not change meanwhile), to run a script that was
  not there when the porter forked and holds exactly the script of the job, and as that user: the ids
  of user and group are the user's (an id is left as it was if the user's is the reserved -1), a porter
  that was root has exactly the user's groups, and it cannot become root again unless the user is root
  or has the id -1. No file that existed at the fork has another content.
\<close>

theorem request_runs_as_user:
  assumes "ei_laws E enc bytes"
    and "enc (external bytes ut) 1 ut iu" and "length (external bytes ut) \<le> 2 ^ 32 - 32"
    and "enc (external bytes jt) 1 jt ij" and "length (external bytes jt) \<le> 2 ^ 32 - 32"
    and "val_user user ut" and "val_job bytes job jt"
    and "resource_list_depth (job_request job) \<le> d" and "resource_list_depth (job_resources job) \<le> d"
    and fs: "posix_fs P (euid c) lkp ino fdi" and K: "cred_kernel K member"
    and inh: "\<And>n w. px_getenv P n w = inh n"
    and progress: "\<And>fd s w. s \<noteq> [] \<Longrightarrow> (case px_write P fd s w of
      (Wrote n, w') \<Rightarrow> 0 < n | (Write_eintr, w') \<Rightarrow> rank w' < (rank w :: nat) | (Write_error, w') \<Rightarrow> True)"
    and ids: "ctrl_ids (look (user_name user)) = (uid, gid)"
    and sock: "porter_ctrl_listen P S (job_id job) uid gid w = ((path, fd), w1)"
  shows "\<exists>r w'. porter_child P S T X K E d look look' exe
      (prepare_run_input (external bytes ut) (external bytes jt) @ s) c w = Some (r, w') \<and>
    (case r of
       Inl code \<Rightarrow>
         code \<in> {EXIT_SUCCESS, EXIT_FAILURE, EXIT_SYSTEM_ERROR, EXIT_USER_NOT_FOUND, EXIT_FILE_ERROR}
     | Inr x \<Rightarrow> \<exists>pw i. find_user (look' (user_name user)) 0 20 = Some pw \<and> X x \<and>
         ex_creds x = \<lparr>ruid = keep_id (pw_uid pw) (ruid c), euid = keep_id (pw_uid pw) (euid c),
           suid = keep_id (pw_uid pw) (suid c), rgid = keep_id (pw_gid pw) (rgid c),
           egid = keep_id (pw_gid pw) (egid c), sgid = keep_id (pw_gid pw) (sgid c),
           groups = (if euid c = 0 then insert (pw_gid pw) (member (user_name user)) else groups c)\<rparr> \<and>
         (pw_uid pw \<noteq> 0 \<and> pw_uid pw \<noteq> -1 \<longrightarrow> \<not> fst (cr_setreuid K 0 0 (ex_creds x))) \<and>
         ex_env x = job_environment E exe pw job path inh \<and>
         lkp w1 (ex_path x) = None \<and> ino w1 i = None \<and>
         file_content (ino w' i) = Some (job_script_content job) \<and>
         (ex_path x \<noteq> [] \<and> hd (ex_path x) = CHR ''/'' \<longrightarrow> lkp w' (ex_path x) = Some i) \<and>
         (\<forall>j. ino w1 j \<noteq> None \<longrightarrow> file_content (ino w' j) = file_content (ino w1 j)))"
proof -
  define w2 where "w2 = (if 0 \<le> fd then snd (px_close P fd w1) else w1)"
  have keep: "lkp w2 = lkp w1" "ino w2 = ino w1"
    using posix_fs.close_law [OF fs, of fd w1] by (cases "px_close P fd w1", simp add: w2_def)+
  have child: "porter_child P S T X K E d look look' exe
      (prepare_run_input (external bytes ut) (external bytes jt) @ s) c w =
    child_run P T X K E (look' (user_name user)) exe (user_name user) job path c w2"
    using porter_child_request [where look = look, OF request_read [OF assms(1-9)] ids sock] by (simp add: w2_def)
  let ?run = "\<lambda>X. child_run P T X K E (look' (user_name user)) exe (user_name user) job path c w2"
  have "\<exists>r w'. ?run X = Some (r, w') \<and> (case r of
       Inr x \<Rightarrow> X x \<and> find_user (look' (user_name user)) 0 20 \<noteq> None
     | Inl code \<Rightarrow>
         code \<in> {EXIT_SUCCESS, EXIT_FAILURE, EXIT_SYSTEM_ERROR, EXIT_USER_NOT_FOUND, EXIT_FILE_ERROR} \<and>
         (code = EXIT_SUCCESS \<longleftrightarrow> (\<exists>x. \<not> X x \<and> ?run (\<lambda>_. True) = Some (Inr x, w'))) \<and>
         (code = EXIT_USER_NOT_FOUND \<longleftrightarrow> find_user (look' (user_name user)) 0 20 = None) \<and>
         (code = EXIT_USER_NOT_FOUND \<longrightarrow> w' = w2))"
    by (rule child_run_ends [where rank = rank]) (rule progress)
  then obtain r w' where r: "?run X = Some (r, w')" and codes: "\<forall>code. r = Inl code \<longrightarrow>
      code \<in> {EXIT_SUCCESS, EXIT_FAILURE, EXIT_SYSTEM_ERROR, EXIT_USER_NOT_FOUND, EXIT_FILE_ERROR}"
    by force
  show ?thesis
  proof (cases r)
    case (Inl code)
    then show ?thesis using r codes unfolding child by simp
  next
    case (Inr x)
    from child_run_user [OF fs K inh r [unfolded Inr], unfolded keep] show ?thesis
      unfolding child r by (intro exI [of _ r] exI [of _ w'] conjI refl) (simp only: Inr sum.case)
  qed
qed

section \<open>A request without a control socket\<close>

definition no_sockets :: "memfs sockets" where
  "no_sockets = \<lparr>sk_socket = \<lambda>w. (None, w), sk_bind = \<lambda>fd p w. (Some Other_error, w),
     sk_listen = \<lambda>fd n w. (Some Other_error, w), sk_getfl = \<lambda>fd w. -1,
     sk_setfl = \<lambda>fd f w. (Some Other_error, w), sk_accept = \<lambda>fd w. (None, w)\<rparr>"

definition job_fs :: memfs where
  "job_fs = put_node ''/s/job/j1'' (FDir 448 7 9) (put_node ''/s/job'' (FDir 448 0 0) spool_fs)"

lemma sample_job_fields:
  "job_id Entity_Spec.sample_job = ''j1''" "job_script_content Entity_Spec.sample_job = ''#!/bin/sh''"
  "job_workdir Entity_Spec.sample_job = []" "job_stdout Entity_Spec.sample_job = []"
  "job_stderr Entity_Spec.sample_job = []"
  by (simp_all add: Entity_Spec.sample_job_def SwmJob_init_def)

lemma job_runtime_path: "job_runtime_dir (mem_posix 0 sample_spool) w ''j1'' = ''/s/job/j1''"
  by (simp add: job_runtime_dir_def mem_posix_sel sample_spool_def strip_slashes.simps)

lemma job_dir:
  "w \<in> {spool_fs, job_fs} \<Longrightarrow> ensure_private_dir (mem_posix 0 sample_spool) ''/s/job/j1'' 7 9 w =
    (True, put_node ''/s/job/j1'' (if w = spool_fs then FDir 448 0 0 else FDir 448 7 9)
      (put_node ''/s/job'' (FDir 448 0 0) spool_fs))"
  by (auto simp: ensure_private_dir_def mem_eval spool_fs_def job_fs_def)

lemma no_socket:
  "porter_ctrl_listen (mem_posix 0 sample_spool) no_sockets ''j1'' 7 9 spool_fs = (([], -1), job_fs)"
  by (simp add: porter_ctrl_listen_def make_ctrl_path_def job_runtime_path ctrl_dir_def job_dir)
    (simp add: mem_eval no_sockets_def job_fs_def spool_fs_def fun_eq_iff)

lemma job_script:
  "\<exists>w1. save_script (mem_posix 0 sample_spool) Entity_Spec.sample_job 7 9 ''#!/bin/sh'' job_fs =
      Some (Inr ''/s/job/j1/job.sh'', w1) \<and> is_dir (m_nodes w1 ''/'')"
proof -
  have "str_find ''/'' ''job.sh'' = None" by (simp add: starts_with_def)
  moreover have "job_fs \<noteq> spool_fs" by (auto simp: job_fs_def spool_fs_def put_node_def fun_eq_iff)
  ultimately show ?thesis
    by (simp add: save_script_def sample_job_fields job_runtime_path safe_write_exclusive_def job_dir)
      (simp add: Let_def mem_eval write_fd.simps finish_file_def spool_fs_def)
qed

definition late_alice :: "nat \<Rightarrow> passwd option" where
  "late_alice k = (if k < 2 then None else Some alice)"

lemma find_late_alice: "find_user late_alice 0 20 = Some alice"
  by (simp add: numeral_eq_Suc late_alice_def)

lemma job_child:
  "\<exists>x w'. child_run (mem_posix 0 sample_spool) (\<lambda>w. Map.empty) (\<lambda>x. True) (linux_cred (\<lambda>n. {100})) etf_ei late_alice
     None ''alice'' Entity_Spec.sample_job [] root_creds job_fs = Some (Inr x, w')"
proof -
  obtain w1 where w1: "save_script (mem_posix 0 sample_spool) Entity_Spec.sample_job 7 9 ''#!/bin/sh'' job_fs =
      Some (Inr ''/s/job/j1/job.sh'', w1)" "is_dir (m_nodes w1 ''/'')" using job_script by blast
  show ?thesis
    by (simp add: child_run_def find_late_alice child_files_def alice_def w1 set_job_dir_ownership_def
        sample_job_fields ensure_log_file_def open_job_logs_def open_job_log_fd_def set_workdir_def mem_posix_sel
        mem_chdir_def Let_def install_job_logs_def install_log_def set_uid_gid_def drop_privileges_def
        linux_cred_def linux_setregid_def linux_setreuid_def root_creds_def)
qed

abbreviation sample_request :: string where
  "sample_request \<equiv> prepare_run_input (external etf Porter_Data.sample_user_term)
     (external etf Entity_Spec.sample_job_term)"

lemma request_runs_as_user_witness:
  "\<exists>x w'. porter_child (mem_posix 0 sample_spool) no_sockets (\<lambda>w. Map.empty) (\<lambda>x. True) (linux_cred (\<lambda>n. {100}))
     etf_ei 2 (\<lambda>n. late_alice) (\<lambda>n. late_alice) None (sample_request @ []) root_creds spool_fs = Some (Inr x, w') \<and>
   euid (ex_creds x) = 7 \<and> ex_env x ''SWM_JOB_ID'' = Some ''j1'' \<and>
   (\<exists>i. file_content (m_nodes w' i) = Some ''#!/bin/sh'')"
proof -
  note wire = ei_laws_etf external_etf [OF sample_user_wf] sample_lengths(1) external_etf [OF sample_job_wf]
    sample_lengths(3) sample_user_val sample_job_val sample_job_depth
  have ids: "ctrl_ids late_alice = (7, 9)" by (simp add: ctrl_ids_def find_late_alice alice_def)
  have name: "user_name sample_user = ''alice''" by (simp add: sample_user_def)
  have sock: "porter_ctrl_listen (mem_posix 0 sample_spool) no_sockets (job_id Entity_Spec.sample_job) 7 9 spool_fs =
      (([], -1), job_fs)" by (simp add: sample_job_fields no_socket)
  have fs: "posix_fs (mem_posix 0 sample_spool) (euid root_creds) m_at m_nodes m_fds"
    using mem.posix_fs_axioms [of 0] by (simp add: root_creds_def)
  have inh: "px_getenv (mem_posix 0 sample_spool) n w = sample_spool n" for n w
    by (simp add: mem_posix_sel)
  have progress: "case px_write (mem_posix 0 sample_spool) fd s w of
      (Wrote n, w') \<Rightarrow> 0 < n | (Write_eintr, w') \<Rightarrow> (0::nat) < 0 | (Write_error, w') \<Rightarrow> True"
    if "s \<noteq> []" for fd s w
    using that by (auto simp: mem_posix_sel mem_write_def split: option.splits fnode.splits)
  obtain x w' where x: "child_run (mem_posix 0 sample_spool) (\<lambda>w. Map.empty) (\<lambda>x. True) (linux_cred (\<lambda>n. {100}))
     etf_ei late_alice None ''alice'' Entity_Spec.sample_job [] root_creds job_fs = Some (Inr x, w')"
    using job_child by blast
  have run: "porter_child (mem_posix 0 sample_spool) no_sockets (\<lambda>w. Map.empty) (\<lambda>x. True) (linux_cred (\<lambda>n. {100}))
     etf_ei 2 (\<lambda>n. late_alice) (\<lambda>n. late_alice) None (sample_request @ []) root_creds spool_fs = Some (Inr x, w')"
    using x porter_child_request [where look = "\<lambda>n. late_alice", OF request_read [where s = "[]", OF wire] ids sock]
    by (simp add: name)
  have id: "job_environment etf_ei None alice Entity_Spec.sample_job [] sample_spool ''SWM_JOB_ID'' = Some ''j1''"
    by (simp add: job_environment_def exported_value_def sample_job_fields c_str_def)
  show ?thesis
    using request_runs_as_user [where look = "\<lambda>n. late_alice" and look' = "\<lambda>n. late_alice" and s = "[]" and exe = None
        and T = "\<lambda>w. Map.empty" and X = "\<lambda>x. True" and rank = "\<lambda>_. 0",
        OF wire fs linux.cred_kernel_axioms [of "\<lambda>n. {100}"] inh progress ids sock] run id
    by (auto simp: find_late_alice sample_job_fields root_creds_def) (simp_all add: alice_def)
qed

end
