(* ===== verification/Porter_Main.thy ===== *)
theory Porter_Main
  imports Start_Spec Status_Spec
begin

text \<open>
  The parent's side of \<open>main\<close> in \<open>porter/porter.cpp\<close> as a whole: the request, the control socket, the
  fork, the loop and the last \<open>wait\<close>.
\<close>

section \<open>The parent\<close>

text \<open>
  Where the porter is: refused before the fork with an exit code; still in its loop when the ticks are
  over; at its end; in its last \<open>wait\<close>; or in the reading of a reply whose rest never comes.
\<close>

datatype porter_run = Refused int | Runs pstate | Ends int pstate | Waits pstate | Stuck

text \<open>
  What the parent holds after the fork. Its standard input is non-blocking from here on, which is
  how \<open>pipe_read\<close> models it.
\<close>

definition parent_env ::
  "eix \<Rightarrow> ei \<Rightarrow> int \<Rightarrow> (nat \<Rightarrow> int \<times> int) \<Rightarrow> int \<Rightarrow> SwmJob \<Rightarrow> string \<Rightarrow> int \<Rightarrow> penv" where
  "parent_env X E pid time_rand child_pid job path fd =
     \<lparr>pe_eix = X, pe_ei = E, pe_pid = pid, pe_child = child_pid, pe_time_rand = time_rand, pe_job = job,
      pe_cfg = porter_metrics_config_from_job job, ctrl_listen = fd, ctrl_path = path\<rparr>"

text \<open>
  The last \<open>wait\<close>. A child that has exited or was killed has been reaped by \<open>waitpid\<close>, and \<open>wait\<close> fails at
  once; a child that was only stopped, which \<open>WUNTRACED\<close> lets \<open>waitpid\<close> report, is still there.
\<close>

definition child_remains :: "tick list \<Rightarrow> bool" where
  "child_remains ts = (case dropWhile (\<lambda>t. t_wait t = Still_running) ts of
     [] \<Rightarrow> True
   | t # _ \<Rightarrow> (case t_wait t of Child_status s \<Rightarrow> WIFSTOPPED s | _ \<Rightarrow> True))"

definition last_wait :: "tick list \<Rightarrow> turn \<Rightarrow> porter_run" where
  "last_wait ts r = (case r of
     Goes_on st \<Rightarrow> Runs st
   | Blocked \<Rightarrow> Stuck
   | Exits code st \<Rightarrow> if code = 0 \<and> child_remains ts then Waits st else Ends code st)"

definition porter_parent ::
  "'w posix \<Rightarrow> 'w sockets \<Rightarrow> eix \<Rightarrow> ei \<Rightarrow> nat \<Rightarrow> (string \<Rightarrow> nat \<Rightarrow> passwd option) \<Rightarrow> int \<Rightarrow> int option \<Rightarrow>
   (nat \<Rightarrow> int \<times> int) \<Rightarrow> string \<Rightarrow> pipe_event list \<Rightarrow> tick list \<Rightarrow> 'w \<Rightarrow> porter_run option" where
  "porter_parent P S X E d look pid forked time_rand input p ts w =
     (case porter_start P S E d look input w of
        None \<Rightarrow> None
      | Some (Inl code, _) \<Rightarrow> Some (Refused code)
      | Some (Inr (info, path, fd), _) \<Rightarrow> (case forked of
          None \<Rightarrow> Some (Refused EXIT_FAILURE)
        | Some child_pid \<Rightarrow>
            Some (last_wait ts (parent_loop (parent_env X E pid time_rand child_pid (info_job info) path fd) ts
              (parent_init p)))))"

section \<open>How it ends\<close>

lemma child_remains_at:
  "\<forall>u \<in> set us. t_wait u = Still_running \<Longrightarrow> t_wait t = Child_status s \<Longrightarrow>
     child_remains (us @ t # vs) = WIFSTOPPED s"
  by (simp add: child_remains_def)

lemma same_first_status:
  assumes "us @ t # vs = us' @ t' # vs'" and "\<forall>u \<in> set us. t_wait u = Still_running"
    and "\<forall>u \<in> set us'. t_wait u = Still_running" and "t_wait t = Child_status s" and "t_wait t' = Child_status s'"
  shows "us = us' \<and> s = s'"
proof -
  have "takeWhile (\<lambda>t. t_wait t = Still_running) (us @ t # vs) = us"
    "takeWhile (\<lambda>t. t_wait t = Still_running) (us' @ t' # vs') = us'"
    using assms(2-5) by simp_all
  with assms(1,4,5) show ?thesis by auto
qed

lemma finish_unlinks: "0 \<le> ctrl_listen V \<Longrightarrow> Unlink (ctrl_path V) \<in> set (trace (finish V st))"
  by (simp add: finish_def Let_def act_def)

lemma final_turn_finishes: "final_turn V t s st = Exits 0 st' \<Longrightarrow> \<exists>st1. st' = finish V st1"
  by (auto simp: final_turn_def split: prod.splits if_splits)

lemma turn_finishes: "turn V t st = Exits 0 st' \<Longrightarrow> \<exists>st1. st' = finish V st1"
  using running_turn_code final_turn_finishes
  by (fastforce simp: turn_def error_turn_def split: option.splits wait_result.splits prod.splits)

lemma parent_loop_finishes: "parent_loop V ts st = Exits 0 st' \<Longrightarrow> \<exists>st1. st' = finish V st1"
  by (induction ts arbitrary: st) (auto split: turn.splits dest: turn_finishes)

lemma porter_parent_request:
  assumes "read_request E d input = Some (Some \<lparr>info_job = job, info_user = user\<rparr>, rest)"
    and "ctrl_ids (look (user_name user)) = (uid, gid)"
    and "porter_ctrl_listen P S (job_id job) uid gid w = ((path, fd), w1)"
  shows "porter_parent P S X E d look pid (Some child_pid) time_rand input p ts w =
    Some (last_wait ts (parent_loop (parent_env X E pid time_rand child_pid job path fd) ts (parent_init p)))"
  using assms by (simp add: porter_parent_def porter_start_def)

lemma truncated_refused:
  assumes "read_request E d input = Some (None, rest)"
  shows "porter_parent P S X E d look pid forked time_rand input p ts w = Some (Refused 1)"
  using assms by (simp add: porter_parent_def porter_start_def)

text \<open>
  C3. From the bytes of a request to the end, if the frames of the metrics can be encoded
  (\<open>metrics_ok\<close>), whatever comes on standard input after the request and on the control socket: either
  the porter begins, in some turn until the process has ended, to read the body of a control reply of
  which not all comes, and then it never leaves that turn; or it reports the job process as running
  once per turn as long as it runs, then once as finished with the status of \<open>waitpid\<close>, removes its
  control socket, and exits with 0. If that status says that the process was only stopped, the porter
  has reported it as finished all the same, and hangs in its last \<open>wait\<close> until the process ends.
\<close>

theorem porter_runs_job:
  assumes "ei_laws E enc bytes"
    and "enc (external bytes ut) 1 ut iu" and "length (external bytes ut) \<le> 2 ^ 32 - 32"
    and "enc (external bytes jt) 1 jt ij" and "length (external bytes jt) \<le> 2 ^ 32 - 32"
    and "val_user user ut" and "val_job bytes job jt"
    and "resource_list_depth (job_request job) \<le> d" and "resource_list_depth (job_resources job) \<le> d"
    and ids: "ctrl_ids (look (user_name user)) = (uid, gid)"
    and sock: "porter_ctrl_listen P S (job_id job) uid gid w = ((path, fd), w1)"
    and X: "ei_enc_laws X bytes'"
    and V: "V = parent_env X E pid time_rand child_pid job path fd" "metrics_ok V" "0 \<le> child_pid" "child_pid < 2 ^ 31"
    and ticks: "\<forall>u \<in> set us. t_wait u = Still_running" "t_wait t = Child_status s"
  shows "if stdin_turns (Suc (length us)) p = None
    then porter_parent P S X E d look pid (Some child_pid) time_rand
      (prepare_run_input (external bytes ut) (external bytes jt) @ rest) p (us @ t # vs) w = Some Stuck
    else \<exists>st. porter_parent P S X E d look pid (Some child_pid) time_rand
      (prepare_run_input (external bytes ut) (external bytes jt) @ rest) p (us @ t # vs) w =
        Some (if WIFSTOPPED s then Waits st else Ends 0 st) \<and>
    states (trace st) = replicate (length us) (process_of V ''R'' (-1) (-1) []) @
      [process_of V ''F'' (fst (exit_and_signal s)) (snd (exit_and_signal s)) []] \<and>
    (0 \<le> fd \<longrightarrow> Unlink path \<in> set (trace st))"
proof -
  have sel: "pe_eix V = X" "pe_child V = child_pid" "ctrl_listen V = fd" "ctrl_path V = path"
    by (simp_all add: V(1) parent_env_def)
  then have "pid_ok V" using V(3,4) by (simp add: pid_ok_def)
  note loop = porter_loop_result [of V bytes' us t s "parent_init p" vs] and parent = porter_parent_request
    [where look = look and p = p and rest = rest and time_rand = time_rand and pid = pid and X = X and
      child_pid = child_pid and ts = "us @ t # vs", OF request_read [OF assms(1-9)] ids sock, folded V(1)]
  have init: "pipe (parent_init p) = p" "trace (parent_init p) = []" by (simp_all add: parent_init_def)
  show ?thesis
  proof (cases "stdin_turns (Suc (length us)) p = None")
    case True
    then have "parent_loop V (us @ t # vs) (parent_init p) = Blocked"
      using loop X V(2) \<open>pid_ok V\<close> ticks sel(1) by (simp add: init(1))
    with True parent show ?thesis by (simp add: last_wait_def)
  next
    case False
    then obtain st where st: "parent_loop V (us @ t # vs) (parent_init p) = Exits 0 st"
      using loop X V(2) \<open>pid_ok V\<close> ticks sel(1) by (auto simp: init(1) simp del: stdin_turns.simps)
    obtain us' t' s' vs' where r: "us @ t # vs = us' @ t' # vs'" "\<forall>u \<in> set us'. t_wait u = Still_running"
      "t_wait t' = Child_status s'"
      "states (trace st) = states (trace (parent_init p)) @ replicate (length us') (running_process V) @ [final_process V s']"
      using parent_loop_states [OF st] by blast
    have "us' = us \<and> s' = s" using same_first_status [OF r(1) ticks(1) r(2) ticks(2) r(3)] by simp
    with r(4) have states: "states (trace st) = replicate (length us) (running_process V) @ [final_process V s]"
      by (simp add: init(2))
    have "Unlink path \<in> set (trace st)" if "0 \<le> fd"
      using parent_loop_finishes [OF st] finish_unlinks [of V] that sel by auto
    then show ?thesis
      using False parent st child_remains_at [OF ticks, of vs] states
      by (auto simp: last_wait_def running_process_def final_process_def simp del: stdin_turns.simps)
  qed
qed

text \<open>A reply that arrives in time, in pieces, keeps no turn; one whose last bytes are missing keeps the turn.\<close>

lemma reply_taken:
  "stdin_turns (Suc (Suc 0)) [Chunk (reply_frame ''ab'')] = Some []"
  "stdin_turns (Suc (Suc 0)) [Chunk (butlast (reply_frame ''ab''))] = None"
  by code_simp+

text \<open>With the encoders of \<open>Ei_Enc\<close>, which never fail, the metrics of every job can be sent.\<close>

lemma enc_seq_total: "list_all (\<lambda>f. \<forall>x. f x \<noteq> None) fs \<Longrightarrow> enc_seq fs x \<noteq> None"
  by (induction fs arbitrary: x) (auto split: option.split)

lemma report_steps_total: "list_all (\<lambda>f. \<forall>x. f x \<noteq> None) (report_steps etf_eix S jid node ts w)"
  by (simp add: report_steps_def encode_kv_binary_def encode_kv_i64_def encode_kv_u64_def encode_kv_double_def
      etf_eix_def)

lemma send_total: "fst (send_aggregated_metrics etf_eix S jid node ts w out)"
proof -
  obtain b where "eix_run etf_eix (report_steps etf_eix S jid node ts w) = Some b"
    using enc_seq_total [OF report_steps_total, of S jid node ts w "[]"]
    unfolding eix_run_def etf_x.new by auto
  then show ?thesis by (simp add: send_aggregated_metrics_def)
qed

lemma metrics_ok_etf: "pe_eix V = etf_eix \<Longrightarrow> metrics_ok V"
  using send_total
  by (auto simp: metrics_ok_def porter_metrics_maybe_send_def flush_window_def split_def)

lemma porter_runs_job_witness:
  "\<exists>st. porter_parent (mem_posix 0 sample_spool) no_sockets etf_eix etf_ei 2 (\<lambda>n. late_alice) 10 (Some 11)
      (\<lambda>n. (5, int n)) (sample_request @ []) [Chunk (reply_frame ''ab'')] [sample_tick None Ctrl_again Still_running,
        sample_tick None Ctrl_again (Child_status 0x137F)] spool_fs = Some (Waits st) \<and>
    map process_exitcode (states (trace st)) = [Some (-1), Some (-1)]"
proof -
  note wire = ei_laws_etf external_etf [OF sample_user_wf] sample_lengths(1) external_etf [OF sample_job_wf]
    sample_lengths(3) sample_user_val sample_job_val sample_job_depth
  have ids: "ctrl_ids late_alice = (7, 9)" by (simp add: ctrl_ids_def find_late_alice alice_def)
  have sock: "porter_ctrl_listen (mem_posix 0 sample_spool) no_sockets (job_id Entity_Spec.sample_job) 7 9 spool_fs =
      (([], -1), job_fs)" by (simp add: sample_job_fields no_socket)
  let ?V = "parent_env etf_eix etf_ei 10 (\<lambda>n. (5, int n)) 11 Entity_Spec.sample_job [] (-1)"
  have m: "metrics_ok ?V" by (rule metrics_ok_etf) (simp add: parent_env_def)
  show ?thesis
    using porter_runs_job [where look = "\<lambda>n. late_alice" and us = "[sample_tick None Ctrl_again Still_running]"
        and t = "sample_tick None Ctrl_again (Child_status 0x137F)" and rest = "[]" and vs = "[]" and p = "[Chunk (reply_frame ''ab'')]",
        OF wire ids sock ei_enc_laws_etf refl m]
    by (auto simp del: stdin_turns.simps simp: reply_taken(1) WIFSTOPPED_def WIFEXITED_def WTERMSIG_def exit_and_signal_def process_of_fields)
qed

end
