(* ===== verification/Entity_Print.thy ===== *)
theory Entity_Print
  imports Job Entities_Cluster Entities_Sched Entities_Site
begin

text \<open>
  The \<open>print\<close> functions of the entity classes, and the print functions at the end of
  \<open>lib/wm_entity_utils.cpp\<close>, as the characters they write. To print a scalar member that no
  constructor has set is to read an indeterminate value: the result is then \<open>None\<close>. The text of a
  term (\<open>ei_s_print_term\<close> of the library \<open>ei\<close>) is the parameter \<open>tt\<close>. The two classes with members
  of type \<open>double\<close> are left out, as \<open>Doubles\<close> does not tell the zeros apart and printing does.
\<close>

section \<open>Values\<close>

definition show_pair :: "string \<times> string \<Rightarrow> string" where
  "show_pair x = ''('' @ fst x @ '', '' @ snd x @ '')''"

definition show_term_pair :: "(string \<Rightarrow> string) \<Rightarrow> string \<times> string \<Rightarrow> string" where
  "show_term_pair tt x = ''('' @ fst x @ '', '' @ tt (snd x) @ '')''"

definition show_u64_pair :: "string \<times> u64 \<Rightarrow> string" where
  "show_u64_pair x = ''('' @ fst x @ '', '' @ dec_nat (unat (snd x)) @ '')''"

definition show_map :: "(string, string) omap \<Rightarrow> string" where
  "show_map m = ''{'' @ concat (map (\<lambda>(k, v). k @ '': '' @ v @ '', '') m) @ ''}'' @ [CHR 0x0A]"

definition show_u64 :: "u64 \<Rightarrow> string" where
  "show_u64 x = dec_nat (unat x)"

definition print_uint64_t :: "u64 \<Rightarrow> string \<Rightarrow> char \<Rightarrow> string" where
  "print_uint64_t x prefix separator = prefix @ show_u64 x @ [separator]"

definition print_int64_t :: "int \<Rightarrow> string \<Rightarrow> char \<Rightarrow> string" where
  "print_int64_t x prefix separator = prefix @ dec_int x @ [separator]"

definition print_atom :: "string \<Rightarrow> string \<Rightarrow> char \<Rightarrow> string" where
  "print_atom x prefix separator = prefix @ x @ [separator]"

definition print_str :: "string \<Rightarrow> string \<Rightarrow> char \<Rightarrow> string" where
  "print_str x prefix separator = prefix @ x @ [separator]"

definition print_tuple_atom_buff :: "(string \<Rightarrow> string) \<Rightarrow> string \<times> string \<Rightarrow> string \<Rightarrow> char \<Rightarrow> string" where
  "print_tuple_atom_buff tt x prefix separator = prefix @ show_term_pair tt x @ [separator]"

definition print_tuple_str_str :: "string \<times> string \<Rightarrow> string \<Rightarrow> char \<Rightarrow> string" where
  "print_tuple_str_str x prefix separator = prefix @ ''{'' @ fst x @ '', '' @ snd x @ ''}'' @ [separator]"

definition print_tuple_atom_str :: "string \<times> string \<Rightarrow> string \<Rightarrow> char \<Rightarrow> string" where
  "print_tuple_atom_str x prefix separator = prefix @ ''{'' @ fst x @ '', '' @ snd x @ ''}'' @ [separator]"

section \<open>Members\<close>

definition put_str :: "string \<Rightarrow> char \<Rightarrow> string \<Rightarrow> string option" where
  "put_str pre sep x = Some (pre @ x @ [sep])"

definition put_map :: "string \<Rightarrow> char \<Rightarrow> (string, string) omap \<Rightarrow> string option" where
  "put_map pre sep m = Some (pre @ show_map m @ [sep])"

definition put_scl :: "('a \<Rightarrow> string) \<Rightarrow> string \<Rightarrow> char \<Rightarrow> 'a option \<Rightarrow> string option" where
  "put_scl sh pre sep x = map_option (\<lambda>v. pre @ sh v @ [sep]) x"

definition put_empty :: "string \<Rightarrow> char \<Rightarrow> string \<Rightarrow> string" where
  "put_empty pre sep name = pre @ name @ '': []'' @ [sep]"

definition put_list :: "('a \<Rightarrow> string) \<Rightarrow> string \<Rightarrow> char \<Rightarrow> string \<Rightarrow> 'a list \<Rightarrow> string option" where
  "put_list sh pre sep name xs = Some (if xs = [] then put_empty pre sep name
     else pre @ name @ '': ['' @ concat (map (\<lambda>q. sh q @ '','') xs) @ '']'' @ [sep])"

definition put_objs :: "string \<Rightarrow> char \<Rightarrow> string \<Rightarrow> string option list \<Rightarrow> string option" where
  "put_objs pre sep name xs = (if xs = [] then Some (put_empty pre sep name)
     else map_option (\<lambda>ys. pre @ name @ '': ['' @ concat ys @ '']'' @ [sep]) (those xs))"

definition print_lines :: "string option list \<Rightarrow> string option" where
  "print_lines xs = map_option (\<lambda>ys. concat ys @ [CHR 0x0A]) (those xs)"

lemma those_None: "those xs = None \<longleftrightarrow> list_ex (\<lambda>x. x = None) xs"
  by (induction xs) (auto split: option.splits)

lemma those_map_None: "those (map f xs) = None \<longleftrightarrow> (\<exists>x \<in> set xs. f x = None)"
  by (induction xs) (auto split: option.splits)

lemma print_lines_None: "print_lines xs = None \<longleftrightarrow> list_ex (\<lambda>x. x = None) xs"
  by (simp add: print_lines_def those_None)

lemma put_None [simp]:
  "put_str pre sep x \<noteq> None" "put_map pre sep m \<noteq> None" "put_list sh pre sep name ys \<noteq> None"
  "put_scl g pre sep v = None \<longleftrightarrow> v = None"
  by (simp_all add: put_str_def put_map_def put_list_def put_scl_def)

lemma put_objs_None [simp]: "put_objs pre sep name (map f xs) = None \<longleftrightarrow> (\<exists>x \<in> set xs. f x = None)"
  by (cases "xs = []") (simp_all add: put_objs_def those_map_None)

section \<open>Classes\<close>

primrec SwmResource_print :: "(string \<Rightarrow> string) \<Rightarrow> string \<Rightarrow> char \<Rightarrow> SwmResource \<Rightarrow> string option" where
  "SwmResource_print tt pre sep (SwmResource n c h p pr u rs) = print_lines [
     put_str pre sep n,
     put_scl show_u64 pre sep c,
     put_list (\<lambda>q. q) pre sep ''hooks'' h,
     put_list (show_term_pair tt) pre sep ''properties'' p,
     put_map pre sep pr,
     put_scl show_u64 pre sep u,
     put_objs pre sep ''resources'' (map (SwmResource_print tt pre sep) rs)]"

definition SwmJob_print :: "(string \<Rightarrow> string) \<Rightarrow> string \<Rightarrow> char \<Rightarrow> SwmJob \<Rightarrow> string option" where
  "SwmJob_print tt pre sep s = print_lines [
     put_str pre sep (job_id s),
     put_str pre sep (job_name s),
     put_str pre sep (job_cluster_id s),
     put_list (\<lambda>q. q) pre sep ''nodes'' (job_nodes s),
     put_str pre sep (job_state s),
     put_str pre sep (job_state_details s),
     put_str pre sep (job_start_time s),
     put_str pre sep (job_submit_time s),
     put_str pre sep (job_end_time s),
     put_scl show_u64 pre sep (job_duration s),
     put_str pre sep (job_stdin s),
     put_str pre sep (job_stdout s),
     put_str pre sep (job_stderr s),
     put_list (\<lambda>q. q) pre sep ''input_files'' (job_input_files s),
     put_list (\<lambda>q. q) pre sep ''output_files'' (job_output_files s),
     put_str pre sep (job_workdir s),
     put_str pre sep (job_user_id s),
     put_list (\<lambda>q. q) pre sep ''hooks'' (job_hooks s),
     put_list show_pair pre sep ''env'' (job_env s),
     put_list show_pair pre sep ''deps'' (job_deps s),
     put_str pre sep (job_account_id s),
     put_str pre sep (job_gang_id s),
     put_str pre sep (job_execution_path s),
     put_str pre sep (job_script_content s),
     put_objs pre sep ''request'' (map (SwmResource_print tt pre sep) (job_request s)),
     put_objs pre sep ''resources'' (map (SwmResource_print tt pre sep) (job_resources s)),
     put_str pre sep (job_container s),
     put_str pre sep (job_relocatable s),
     put_str pre sep (job_keep_resources s),
     put_str pre sep (job_checkpoint s),
     put_str pre sep (job_checkpoint_dir s),
     put_scl show_u64 pre sep (job_checkpoint_interval s),
     put_str pre sep (job_last_checkpoint_time s),
     put_scl show_u64 pre sep (job_exitcode s),
     put_scl show_u64 pre sep (job_signal s),
     put_scl show_u64 pre sep (job_priority s),
     put_str pre sep (job_comment s),
     put_scl show_u64 pre sep (job_revision s)]"

definition SwmUser_print :: "string \<Rightarrow> char \<Rightarrow> SwmUser \<Rightarrow> string option" where
  "SwmUser_print pre sep s = print_lines [
     put_str pre sep (user_id s),
     put_str pre sep (user_name s),
     put_str pre sep (user_acl s),
     put_scl dec_int pre sep (user_priority s),
     put_str pre sep (user_comment s),
     put_scl show_u64 pre sep (user_revision s)]"

definition SwmRole_print :: "string \<Rightarrow> char \<Rightarrow> SwmRole \<Rightarrow> string option" where
  "SwmRole_print pre sep s = print_lines [
     put_scl show_u64 pre sep (role_id s),
     put_str pre sep (role_name s),
     put_list show_u64 pre sep ''services'' (role_services s),
     put_str pre sep (role_comment s),
     put_scl show_u64 pre sep (role_revision s)]"

definition SwmAccount_print :: "string \<Rightarrow> char \<Rightarrow> SwmAccount \<Rightarrow> string option" where
  "SwmAccount_print pre sep s = print_lines [
     put_str pre sep (account_id s),
     put_str pre sep (account_name s),
     put_str pre sep (account_price_list s),
     put_list (\<lambda>q. q) pre sep ''users'' (account_users s),
     put_list (\<lambda>q. q) pre sep ''admins'' (account_admins s),
     put_str pre sep (account_comment s),
     put_scl show_u64 pre sep (account_revision s)]"

definition SwmExecutable_print :: "string \<Rightarrow> char \<Rightarrow> SwmExecutable \<Rightarrow> string option" where
  "SwmExecutable_print pre sep s = print_lines [
     put_str pre sep (executable_name s),
     put_str pre sep (executable_path s),
     put_str pre sep (executable_user s),
     put_str pre sep (executable_comment s),
     put_scl show_u64 pre sep (executable_revision s)]"

definition SwmHook_print :: "string \<Rightarrow> char \<Rightarrow> SwmHook \<Rightarrow> string option" where
  "SwmHook_print pre sep s = print_lines [
     put_str pre sep (hook_id s),
     put_str pre sep (hook_name s),
     put_str pre sep (hook_event s),
     put_str pre sep (hook_state s),
     SwmExecutable_print pre sep (hook_executable s),
     put_str pre sep (hook_comment s),
     put_scl show_u64 pre sep (hook_revision s)]"

definition SwmGlobal_print :: "string \<Rightarrow> char \<Rightarrow> SwmGlobal \<Rightarrow> string option" where
  "SwmGlobal_print pre sep s = print_lines [
     put_str pre sep (global_name s),
     put_str pre sep (global_value s),
     put_str pre sep (global_comment s),
     put_scl show_u64 pre sep (global_revision s)]"

definition SwmImage_print :: "string \<Rightarrow> char \<Rightarrow> SwmImage \<Rightarrow> string option" where
  "SwmImage_print pre sep s = print_lines [
     put_str pre sep (image_name s),
     put_str pre sep (image_id s),
     put_list (\<lambda>q. q) pre sep ''tags'' (image_tags s),
     put_scl show_u64 pre sep (image_size s),
     put_str pre sep (image_kind s),
     put_str pre sep (image_status s),
     put_str pre sep (image_remote_id s),
     put_str pre sep (image_created s),
     put_str pre sep (image_updated s),
     put_str pre sep (image_comment s),
     put_scl show_u64 pre sep (image_revision s)]"

definition SwmRemote_print :: "string \<Rightarrow> char \<Rightarrow> SwmRemote \<Rightarrow> string option" where
  "SwmRemote_print pre sep s = print_lines [
     put_str pre sep (remote_id s),
     put_str pre sep (remote_account_id s),
     put_str pre sep (remote_default_image_id s),
     put_str pre sep (remote_default_flavor_id s),
     put_str pre sep (remote_name s),
     put_str pre sep (remote_kind s),
     put_str pre sep (remote_location s),
     put_str pre sep (remote_server s),
     put_scl show_u64 pre sep (remote_port s),
     put_map pre sep (remote_runtime s),
     put_scl show_u64 pre sep (remote_revision s)]"

definition SwmQueue_print :: "string \<Rightarrow> char \<Rightarrow> SwmQueue \<Rightarrow> string option" where
  "SwmQueue_print pre sep s = print_lines [
     put_scl show_u64 pre sep (queue_id s),
     put_str pre sep (queue_name s),
     put_str pre sep (queue_state s),
     put_list (\<lambda>q. q) pre sep ''jobs'' (queue_jobs s),
     put_list (\<lambda>q. q) pre sep ''nodes'' (queue_nodes s),
     put_list (\<lambda>q. q) pre sep ''users'' (queue_users s),
     put_list (\<lambda>q. q) pre sep ''admins'' (queue_admins s),
     put_list (\<lambda>q. q) pre sep ''hooks'' (queue_hooks s),
     put_scl dec_int pre sep (queue_priority s),
     put_str pre sep (queue_comment s),
     put_scl show_u64 pre sep (queue_revision s)]"

definition SwmNode_print :: "(string \<Rightarrow> string) \<Rightarrow> string \<Rightarrow> char \<Rightarrow> SwmNode \<Rightarrow> string option" where
  "SwmNode_print tt pre sep s = print_lines [
     put_str pre sep (node_id s),
     put_str pre sep (node_name s),
     put_str pre sep (node_host s),
     put_scl show_u64 pre sep (node_api_port s),
     put_str pre sep (node_parent s),
     put_str pre sep (node_state_power s),
     put_str pre sep (node_state_alloc s),
     put_list show_u64 pre sep ''roles'' (node_roles s),
     put_objs pre sep ''resources'' (map (SwmResource_print tt pre sep) (node_resources s)),
     put_list (show_term_pair tt) pre sep ''properties'' (node_properties s),
     put_str pre sep (node_subdivision s),
     put_str pre sep (node_subdivision_id s),
     put_str pre sep (node_comment s),
     put_str pre sep (node_remote_id s),
     put_str pre sep (node_is_template s),
     put_str pre sep (node_gateway s),
     put_map pre sep (node_prices s),
     put_scl show_u64 pre sep (node_revision s)]"

definition SwmPartition_print :: "(string \<Rightarrow> string) \<Rightarrow> string \<Rightarrow> char \<Rightarrow> SwmPartition \<Rightarrow> string option" where
  "SwmPartition_print tt pre sep s = print_lines [
     put_str pre sep (partition_id s),
     put_str pre sep (partition_name s),
     put_str pre sep (partition_state s),
     put_str pre sep (partition_manager s),
     put_list (\<lambda>q. q) pre sep ''nodes'' (partition_nodes s),
     put_list (\<lambda>q. q) pre sep ''partitions'' (partition_partitions s),
     put_list (\<lambda>q. q) pre sep ''hooks'' (partition_hooks s),
     put_scl show_u64 pre sep (partition_scheduler s),
     put_scl show_u64 pre sep (partition_jobs_per_node s),
     put_objs pre sep ''resources'' (map (SwmResource_print tt pre sep) (partition_resources s)),
     put_list (show_term_pair tt) pre sep ''properties'' (partition_properties s),
     put_str pre sep (partition_subdivision s),
     put_str pre sep (partition_subdivision_id s),
     put_str pre sep (partition_created s),
     put_str pre sep (partition_updated s),
     put_str pre sep (partition_external_id s),
     put_map pre sep (partition_addresses s),
     put_str pre sep (partition_comment s),
     put_scl show_u64 pre sep (partition_revision s)]"

definition SwmCluster_print :: "(string \<Rightarrow> string) \<Rightarrow> string \<Rightarrow> char \<Rightarrow> SwmCluster \<Rightarrow> string option" where
  "SwmCluster_print tt pre sep s = print_lines [
     put_str pre sep (cluster_id s),
     put_str pre sep (cluster_name s),
     put_str pre sep (cluster_state s),
     put_str pre sep (cluster_manager s),
     put_list (\<lambda>q. q) pre sep ''partitions'' (cluster_partitions s),
     put_list (\<lambda>q. q) pre sep ''hooks'' (cluster_hooks s),
     put_scl show_u64 pre sep (cluster_scheduler s),
     put_objs pre sep ''resources'' (map (SwmResource_print tt pre sep) (cluster_resources s)),
     put_list (show_term_pair tt) pre sep ''properties'' (cluster_properties s),
     put_str pre sep (cluster_comment s),
     put_scl show_u64 pre sep (cluster_revision s)]"

definition SwmGrid_print :: "(string \<Rightarrow> string) \<Rightarrow> string \<Rightarrow> char \<Rightarrow> SwmGrid \<Rightarrow> string option" where
  "SwmGrid_print tt pre sep s = print_lines [
     put_str pre sep (grid_id s),
     put_str pre sep (grid_name s),
     put_str pre sep (grid_state s),
     put_str pre sep (grid_manager s),
     put_list (\<lambda>q. q) pre sep ''clusters'' (grid_clusters s),
     put_list (\<lambda>q. q) pre sep ''hooks'' (grid_hooks s),
     put_scl show_u64 pre sep (grid_scheduler s),
     put_objs pre sep ''resources'' (map (SwmResource_print tt pre sep) (grid_resources s)),
     put_list (show_term_pair tt) pre sep ''properties'' (grid_properties s),
     put_str pre sep (grid_comment s),
     put_scl show_u64 pre sep (grid_revision s)]"

definition SwmBootInfo_print :: "string \<Rightarrow> char \<Rightarrow> SwmBootInfo \<Rightarrow> string option" where
  "SwmBootInfo_print pre sep s = print_lines [
     put_str pre sep (boot_info_node_host s),
     put_scl show_u64 pre sep (boot_info_node_port s),
     put_str pre sep (boot_info_parent_host s),
     put_scl show_u64 pre sep (boot_info_parent_port s)]"

definition SwmRelocation_print :: "string \<Rightarrow> char \<Rightarrow> SwmRelocation \<Rightarrow> string option" where
  "SwmRelocation_print pre sep s = print_lines [
     put_scl show_u64 pre sep (relocation_id s),
     put_str pre sep (relocation_job_id s),
     put_str pre sep (relocation_template_node_id s),
     put_str pre sep (relocation_canceled s)]"

definition SwmTimetable_print :: "string \<Rightarrow> char \<Rightarrow> SwmTimetable \<Rightarrow> string option" where
  "SwmTimetable_print pre sep s = print_lines [
     put_scl show_u64 pre sep (timetable_start_time s),
     put_str pre sep (timetable_job_id s),
     put_list (\<lambda>q. q) pre sep ''job_nodes'' (timetable_job_nodes s)]"

definition SwmScheduler_print :: "string \<Rightarrow> char \<Rightarrow> SwmScheduler \<Rightarrow> string option" where
  "SwmScheduler_print pre sep s = print_lines [
     put_scl show_u64 pre sep (scheduler_id s),
     put_str pre sep (scheduler_name s),
     put_str pre sep (scheduler_state s),
     put_str pre sep (scheduler_start_time s),
     put_str pre sep (scheduler_stop_time s),
     put_scl show_u64 pre sep (scheduler_run_interval s),
     SwmExecutable_print pre sep (scheduler_path s),
     put_str pre sep (scheduler_family s),
     put_str pre sep (scheduler_version s),
     put_scl show_u64 pre sep (scheduler_cu s),
     put_str pre sep (scheduler_comment s),
     put_scl show_u64 pre sep (scheduler_revision s)]"

definition SwmProcess_print :: "string \<Rightarrow> char \<Rightarrow> SwmProcess \<Rightarrow> string option" where
  "SwmProcess_print pre sep s = print_lines [
     put_scl dec_int pre sep (process_pid s),
     put_str pre sep (process_state s),
     put_scl dec_int pre sep (process_exitcode s),
     put_scl dec_int pre sep (process_signal s),
     put_str pre sep (process_comment s)]"

section \<open>What is initialised\<close>

lemma val_resource_print: "val_resource bytes r t \<Longrightarrow> SwmResource_print tt pre sep r \<noteq> None"
proof (induction rule: val_resource.induct)
  case (val_resource_nested n t1 c t2 h t3 p t4 pr t5 u t6 rs us t7 tag)
  have "c \<noteq> None" "u \<noteq> None" using val_resource_nested.hyps(2,6) by (auto simp: val_scl_def)
  moreover have "SwmResource_print tt pre sep r \<noteq> None" if "r \<in> set rs" for r
    using val_resource_nested.IH that by (auto simp: list_all2_conv_all_nth in_set_conv_nth)
  ultimately show ?case by (simp add: print_lines_None)
qed

text \<open>A job can be printed exactly when its scalar members, and those of its resources, are set.\<close>

lemma job_print_None:
  "SwmJob_print tt pre sep s = None \<longleftrightarrow>
     None \<in> {job_duration s, job_checkpoint_interval s, job_exitcode s, job_signal s, job_priority s,
       job_revision s} \<or>
     (\<exists>r \<in> set (job_request s @ job_resources s). SwmResource_print tt pre sep r = None)"
  unfolding SwmJob_print_def print_lines_None
  by (simp add: eq_commute [of None] bex_Un disj_ac)

end
