(* ===== verification/Print_Spec.thy ===== *)
theory Print_Spec
  imports Entity_Print Entity_Spec
begin

text \<open>
  Definite initialisation: an object that has been read from a well-formed record has all its members
  set, so that printing it reads no indeterminate value.
\<close>

lemma val_list_resource_print:
  "val_list (val_resource bytes) rs t \<Longrightarrow> \<forall>r \<in> set rs. SwmResource_print tt pre sep r \<noteq> None"
  unfolding val_list_def list_all2_conv_all_nth by (metis empty_iff in_set_conv_nth list.set(1) val_resource_print)

lemma val_scl_set: "val_scl R v t \<Longrightarrow> v \<noteq> None"
  by (auto simp: val_scl_def)

lemma val_job_print:
  assumes "val_job bytes job t"
  shows "SwmJob_print tt pre sep job \<noteq> None"
proof -
  from assms have "\<exists>t. val_scl val_u64 (job_duration job) t" "\<exists>t. val_scl val_u64 (job_checkpoint_interval job) t"
    "\<exists>t. val_scl val_u64 (job_exitcode job) t" "\<exists>t. val_scl val_u64 (job_signal job) t"
    "\<exists>t. val_scl val_u64 (job_priority job) t" "\<exists>t. val_scl val_u64 (job_revision job) t"
    and lists: "\<exists>t. val_list (val_resource bytes) (job_request job) t"
    "\<exists>t. val_list (val_resource bytes) (job_resources job) t"
    unfolding val_job_def val_record_def list_all2_Cons1 by blast+
  then have "job_duration job \<noteq> None" "job_checkpoint_interval job \<noteq> None" "job_exitcode job \<noteq> None"
    "job_signal job \<noteq> None" "job_priority job \<noteq> None" "job_revision job \<noteq> None"
    using val_scl_set by blast+
  moreover have "\<forall>r \<in> set (job_request job). SwmResource_print tt pre sep r \<noteq> None"
    "\<forall>r \<in> set (job_resources job). SwmResource_print tt pre sep r \<noteq> None"
    using lists val_list_resource_print by blast+
  ultimately show ?thesis unfolding job_print_None by auto
qed

text \<open>
  C35. A job that the constructor reads from a well-formed record can be printed: no member that
  \<open>print\<close> looks at, in the job or in its nested resources, is left without a value. A job that has
  only been default-constructed cannot.
\<close>

theorem job_read_printable:
  assumes "ei_laws E enc bytes" and "enc b i t j" and "val_job bytes job t"
    and "resource_list_depth (job_request job) \<le> d" and "resource_list_depth (job_resources job) \<le> d"
  shows "(\<exists>x out. SwmJob_ctor E d b i = Some (j, x) \<and> SwmJob_print tt pre sep x = Some out) \<and>
    SwmJob_print tt pre sep SwmJob_init = None"
proof -
  have "SwmJob_ctor E d b i = Some (j, job)"
    using ei_laws.job_ctor_reads [OF assms(1,3-5)] assms(2) by (simp add: constructs_def)
  then show ?thesis
    using val_job_print [OF assms(3), of tt pre sep] job_print_None [of tt pre sep SwmJob_init]
    by (auto simp: SwmJob_init_def)
qed

theorem job_read_printable_witness:
  "(\<exists>x out. SwmJob_ctor etf_ei 2 (etf sample_job_term) 0 = Some (int (length (etf sample_job_term)), x) \<and>
      SwmJob_print (\<lambda>s. s) ''- '' CHR 0x0A x = Some out) \<and>
    SwmJob_print (\<lambda>s. s) ''- '' CHR 0x0A SwmJob_init = None"
  by (rule job_read_printable [OF ei_laws_etf etf_enc_whole [OF sample_job_wf] sample_job_val])
    (simp_all add: sample_job_def SwmJob_init_def resource_list_depth_def sample_resource_depth)

end
