(* ===== verification/Swm_Log.thy ===== *)
theory Swm_Log
  imports Cxx_Std
begin

text \<open>
  The logging functions of \<open>lib/wm_io.cpp\<close>, as the characters they write to \<open>stderr\<close>, and the command
  line of the porter, which chooses the level. The text of the current time, the message with its
  arguments filled in and the text of an error number are arguments; a null message is \<open>None\<close>.
\<close>

section \<open>Logging\<close>

definition SWM_LOG_LEVEL_INFO :: int where "SWM_LOG_LEVEL_INFO = 0"
definition SWM_LOG_LEVEL_DEBUG1 :: int where "SWM_LOG_LEVEL_DEBUG1 = 1"
definition SWM_LOG_LEVEL_DEBUG2 :: int where "SWM_LOG_LEVEL_DEBUG2 = 2"

abbreviation newline :: string where "newline \<equiv> [CHR 0x0A]"

text \<open>
  The two globals. The stream is kept and never used: the functions write to \<open>stderr\<close>. A file handle
  is a value of any type.
\<close>

record 'f log_globals =
  g_log_level :: int
  g_log_stream :: "'f option"

definition log_globals_init :: "'f log_globals" where
  "log_globals_init = \<lparr>g_log_level = SWM_LOG_LEVEL_INFO, g_log_stream = None\<rparr>"

definition swm_log_init :: "int \<Rightarrow> 'f option \<Rightarrow> 'f log_globals \<Rightarrow> 'f log_globals" where
  "swm_log_init level stream g = g\<lparr>g_log_level := level, g_log_stream := stream\<rparr>"

definition swm_get_log_level :: "'f log_globals \<Rightarrow> int" where
  "swm_get_log_level g = g_log_level g"

text \<open>\<open>ei_print_term\<close> of the library, the text of the term at an index, is the parameter \<open>tp\<close>.\<close>

definition print_ei_buf :: "(string \<Rightarrow> int \<Rightarrow> string) \<Rightarrow> string \<Rightarrow> int \<Rightarrow> string" where
  "print_ei_buf tp buf index = tp buf index @ newline"

text \<open>\<open>ctime\<close> gives \<open>now\<close> with a newline at its end, which is cut off.\<close>

definition print_log_format :: "string \<Rightarrow> string \<Rightarrow> string \<Rightarrow> bool \<Rightarrow> string" where
  "print_log_format now tag message end_line =
     butlast now @ '' ['' @ tag @ ''] '' @ message @ (if end_line then newline else [])"

definition swm_logi :: "string \<Rightarrow> string option \<Rightarrow> string" where
  "swm_logi now message = (case message of
     None \<Rightarrow> newline | Some m \<Rightarrow> print_log_format now ''INFO'' m True)"

text \<open>The number and the text of \<open>errno\<close> on entry.\<close>

definition swm_loge :: "string \<Rightarrow> int \<times> string \<Rightarrow> string option \<Rightarrow> string" where
  "swm_loge now err message = (case message of
     None \<Rightarrow> newline
   | Some m \<Rightarrow> print_log_format now ''ERROR'' m True @
       (if fst err \<noteq> 0 then butlast now @ '' [ERRNO] '' @ snd err @ newline else []))"

definition swm_logd :: "int \<Rightarrow> string \<Rightarrow> string option \<Rightarrow> string" where
  "swm_logd level now message =
     (if level < SWM_LOG_LEVEL_DEBUG1 then []
      else case message of None \<Rightarrow> newline | Some m \<Rightarrow> print_log_format now ''DEBUG'' m True)"

definition swm_logdd :: "int \<Rightarrow> string \<Rightarrow> string \<Rightarrow> string" where
  "swm_logdd level now message =
     (if level < SWM_LOG_LEVEL_DEBUG2 then [] else print_log_format now ''DEBUG2'' message True)"

section \<open>The command line of the porter\<close>

text \<open>
  The results of the successive calls of \<open>getopt_long\<close>, up to the first -1. \<open>Inl\<close> is what is
  written to standard output before the porter exits with 0, \<open>Inr\<close> the level that \<open>swm_log_init\<close> gets.
\<close>

definition porter_usage :: "string \<Rightarrow> string" where
  "porter_usage prog = ''Usage: '' @ prog @ '' [-d|-h]'' @ newline"

fun opts_loop :: "string \<Rightarrow> char list \<Rightarrow> int \<Rightarrow> string + int" where
  "opts_loop prog [] log_level = Inr log_level"
| "opts_loop prog (res # rs) log_level =
     (if res = CHR ''h'' then Inl (porter_usage prog)
      else if res = CHR ''d'' then opts_loop prog rs SWM_LOG_LEVEL_DEBUG1
      else opts_loop prog rs log_level)"

definition parse_opts :: "string \<Rightarrow> char list \<Rightarrow> string + int" where
  "parse_opts prog rs = opts_loop prog rs SWM_LOG_LEVEL_INFO"

lemma opts_loop_level:
  "opts_loop prog rs l = Inr l' \<longleftrightarrow>
     CHR ''h'' \<notin> set rs \<and> l' = (if CHR ''d'' \<in> set rs then SWM_LOG_LEVEL_DEBUG1 else l)"
  by (induction rs arbitrary: l) auto

text \<open>
  \<open>main\<close> logs its start before it looks at the options, when the level is still that of the globals:
  this message is never written. From then on the level is that of the command line.
\<close>

lemma start_message_lost: "swm_logd (swm_get_log_level log_globals_init) now message = []"
  by (simp add: swm_get_log_level_def log_globals_init_def swm_logd_def SWM_LOG_LEVEL_INFO_def
      SWM_LOG_LEVEL_DEBUG1_def)

lemma level_after_init: "swm_get_log_level (swm_log_init level stream g) = level"
  by (simp add: swm_get_log_level_def swm_log_init_def)

text \<open>The porter writes debug messages exactly when it was given \<open>-d\<close>, and never those of level 2.\<close>

lemma debug_needs_option:
  assumes "parse_opts prog rs = Inr level"
  shows "swm_logd level now message \<noteq> [] \<longleftrightarrow> CHR ''d'' \<in> set rs" and "swm_logdd level now m = []"
  using assms by (auto simp: parse_opts_def opts_loop_level swm_logd_def swm_logdd_def print_log_format_def
      SWM_LOG_LEVEL_INFO_def SWM_LOG_LEVEL_DEBUG1_def SWM_LOG_LEVEL_DEBUG2_def split: option.splits)

end
