(* ===== verification/Spec2Isabelle.thy ===== *)
theory Spec2Isabelle
  imports Prelude Cxx_Std Base64 Porter_Ctrl Posix_Io Task Ordered_Map Pmix_Fence
    Entity_Spec Porter_Data Porter_Metrics Mem_Fs Porter_Priv Status_Spec Relay_Inv Child_Spec Pmix_Server_Spec Listen_Spec
    Porter_Main Print_Spec Swm_Log
begin

text \<open>
  Verification library for the native part of swm-core, the workload manager of the Sky Port
  project: the C++ programs under \<open>src/c_src\<close>, which the Erlang services start on a compute node.

  The programs. The \<^emph>\<open>porter\<close> (\<open>porter/\<close>) is started for every job. It reads from its standard input
  a request with a user and a job, encoded as Erlang terms; opens a control socket; forks; and the
  child writes the job's script to a private file, prepares log files and environment, gives up its
  privileges and executes the script. The parent reports the state of the child and metrics as
  frames on its standard output, and relays between the control socket and the Erlang side.
  \<open>swm-task\<close> (\<open>task/\<close>) runs inside a job: it writes a \<open>SPAWN\<close> line to the control socket and exits with
  the code of the \<open>DONE\<close> line that comes back. \<open>swm-pmix\<close> (\<open>pmix/\<close>) is a PMIx server for the ranks on a
  node: commands from the Erlang side on standard input, fences with the other nodes through it.
  The classes under \<open>lib/\<close> are the records of the Erlang side.

  Theories and sources.

  \<^item> \<open>Prelude\<close>, \<open>Cxx_Std\<close>, \<open>Ordered_Map\<close>, \<open>Doubles\<close>: machine words, \<open>std::string\<close> and number conversions,
    \<open>std::map\<close> (locale \<open>kv_store\<close>, interpreted on sorted association lists), binary64 values.
  \<^item> \<open>Ei_Lib\<close>, \<open>Ei_Etf\<close>, \<open>Ei_Enc\<close>: the library \<open>ei\<close> is not part of the repository and a parameter; the
    laws the code relies on are the locales \<open>ei_laws\<close> and \<open>ei_enc_laws\<close>, and an implementation on the
    bytes of the external term format satisfies them.
  \<^item> \<open>Entity_Utils\<close>, \<open>Entity\<close>, \<open>Resource\<close>, \<open>Job\<close>, \<open>Entities_Site\<close>, \<open>Entities_Cluster\<close>, \<open>Entities_Sched\<close>:
    \<open>lib/wm_entity_utils.cpp\<close> and the entity classes. A class is a record of its members, a
    constructor the list of its readers; a selector of the record is the getter of the member.
    \<open>Entity_Access\<close>: the setters. \<open>Entity_Print\<close>: the \<open>print\<close> functions. \<open>Entity_Spec\<close> and \<open>Print_Spec\<close> hold
    what is proved: well-formed records are read completely, members end up initialised, and where
    the readers silently go wrong.
  \<^item> \<open>Posix_Io\<close>: the loops around \<open>read\<close> and \<open>write\<close>, \<open>lib/wm_io.cpp\<close>; \<open>Swm_Log\<close>: its logging, and the
    command line of the porter.
  \<^item> \<open>Porter_Data\<close>: \<open>porter/wm_porter_data.cpp\<close>, with the sender \<open>prepare_run_input\<close> of
    \<open>src/lib/wm_porter_protocol.erl\<close>: round trip, and refusal of every truncated request.
  \<^item> \<open>Safe_File\<close>, \<open>Mem_Fs\<close>: \<open>lib/wm_safe_file.cpp\<close> over a record of system calls, its laws (locale
    \<open>posix_fs\<close>) and a file system in memory that has them: an exclusive write clobbers no name and no
    content, creates exactly the file, and returns. The id -1 means no change, as in the manual pages,
    and a change of owner may clear set-id bits.
  \<^item> \<open>Porter_Priv\<close>: \<open>porter/wm_porter_priv.cpp\<close> (locale \<open>cred_kernel\<close>, interpreted on the rules of Linux).
  \<^item> \<open>Porter_Listen\<close>, \<open>Listen_Spec\<close>: the control socket of \<open>porter/wm_porter_ctrl.cpp\<close> (locale
    \<open>ctrl_sockets\<close>, interpreted on sockets in memory), and the start of \<open>main\<close>.
  \<^item> \<open>Porter_Env\<close>, \<open>Child_Spec\<close>, \<open>Start_Spec\<close>: the child of \<open>porter/porter.cpp\<close> up to \<open>execve\<close>, or to its
    exit when that fails; its environment against a table of values (\<open>exported_value\<close>, \<open>path_parts\<close>),
    its credentials, its log files, its script; and the way from the request's bytes to that script.
  \<^item> \<open>Porter_Ctrl\<close>, \<open>Task\<close>: the \<open>SPAWN\<close> protocol on both sides; \<open>task/task.cpp\<close>.
  \<^item> \<open>Porter_Out\<close>, \<open>Metrics_Probe\<close>, \<open>Porter_Metrics\<close>: the frames, and \<open>porter/wm_porter_metrics.cpp\<close>: the
    window equals the aggregate of its samples, reports keep their distance.
  \<^item> \<open>Porter_Loop\<close>, \<open>Relay_Spec\<close>, \<open>Status_Spec\<close>, \<open>Relay_Inv\<close>: the parent of \<open>porter/porter.cpp\<close>, one turn of
    its loop for what its system calls return; requests and replies are relayed, the job is reported
    once, and an invariant of the loop: no request is answered twice, and nobody else is.
    \<open>Porter_Main\<close>: the parent's side of \<open>main\<close> from the request's bytes to the last \<open>wait\<close>, for anything
    that standard input delivers.
  \<^item> \<open>Base64\<close>, \<open>Pmix_Fence\<close>, \<open>Pmix_Server\<close>, \<open>Pmix_Server_Spec\<close>: \<open>pmix/pmix_server_main.cpp\<close>: the codec
    of the blobs, the table of pending fences as a step relation with its invariant, the commands.
    Fence requests run on the library's threads: a schedule says which of their atomic parts run
    before each action of \<open>main\<close>. Every run of the helper under every schedule is a run of the relation;
    each fence stored by the time of the drain is completed once, one that comes later never is.

  Conventions. A function that may not return gives \<open>None\<close>: \<open>partial_function\<close> where the code loops on
  interrupted calls, with a theorem that it returns when the calls make progress; a list of
  results or events that ends means that the next call has not returned yet. The nesting of
  resources is bounded by an argument of the readers, and the depth of the record that is sent is
  enough (\<open>resource_ctor_correct\<close>). Errors are \<open>Inl\<close> of an exit code or an exception, or a flag. Unsigned
  integers are words of their width; an \<open>int64_t\<close> that is only read, compared and printed is an
  \<open>int\<close>, and so are the times of the metrics, whose differences fit.

  Not modelled. The formatting of log messages (and the messages themselves outside of \<open>Swm_Log\<close>);
  the sleeps; \<open>fork\<close> and \<open>execve\<close> as such (whether \<open>execve\<close> succeeds is a parameter); the printing of doubles,
  hence \<open>print\<close> of \<open>SwmMetric\<close> and \<open>SwmSchedulerResult\<close>; the lifetime of objects (dangling pointers
  are named where the model has the value that was meant) and leaks of memory; allocations that
  fail; threads of the PMIx library other than for fences, and interleavings finer than the
  atomic steps that the mutexes of the helper give; the environment variable \<open>PMIX_MCA_psec\<close>; the tests; and the Erlang services, of which only the two
  senders of messages that the C++ side reads are here.
\<close>

end
